(* ===== verification/Rounding.thy ===== *)
theory Rounding
  imports Complex_Main
begin

text \<open>
  Floating arithmetic with a fixed number of significant digits: rounding half to even in base
  \<open>b\<close> with \<open>p\<close> digits. It is shared by the model of Python's \<^verbatim>\<open>decimal\<close> module (base 10,
  28 digits) and of its binary floats (base 2, 53 digits).
\<close>

section \<open>Rounding to the nearest integer, ties to even\<close>

definition round_half_even :: "rat \<Rightarrow> int" where
  "round_half_even x =
     (let f = \<lfloor>x\<rfloor>; r = x - of_int f
      in if r < 1/2 then f else if 1/2 < r then f + 1 else if even f then f else f + 1)"

lemma rhe_cases: "round_half_even x = \<lfloor>x\<rfloor> \<or> round_half_even x = \<lfloor>x\<rfloor> + 1"
  by (simp add: round_half_even_def Let_def)

lemma rhe_of_int [simp]: "round_half_even (of_int n) = n"
  by (simp add: round_half_even_def)

lemma rhe_ge_floor: "\<lfloor>x\<rfloor> \<le> round_half_even x"
  using rhe_cases [of x] by auto

lemma rhe_le_floor: "round_half_even x \<le> \<lfloor>x\<rfloor> + 1"
  using rhe_cases [of x] by auto

lemma rhe_error: "\<bar>of_int (round_half_even x) - x\<bar> \<le> 1/2"
proof -
  have "of_int \<lfloor>x\<rfloor> \<le> x" "x < of_int \<lfloor>x\<rfloor> + 1" by linarith+
  then show ?thesis by (simp add: round_half_even_def Let_def abs_le_iff)
qed

lemma rhe_mono:
  assumes "x \<le> y"
  shows "round_half_even x \<le> round_half_even y"
proof (cases "\<lfloor>x\<rfloor> = \<lfloor>y\<rfloor>")
  case True
  with assms show ?thesis by (auto simp: round_half_even_def Let_def)
next
  case False
  with assms have "\<lfloor>x\<rfloor> + 1 \<le> \<lfloor>y\<rfloor>" using floor_mono [OF assms] by linarith
  then show ?thesis using rhe_le_floor [of x] rhe_ge_floor [of y] by linarith
qed

lemma rhe_minus: "round_half_even (- x) = - round_half_even x"
proof (cases "of_int \<lfloor>x\<rfloor> = x")
  case True
  then obtain n where x: "x = of_int n" by metis
  then have "- x = of_int (- n)" by simp
  then show ?thesis using x by (metis rhe_of_int)
next
  case False
  then have fl: "\<lfloor>- x\<rfloor> = - \<lfloor>x\<rfloor> - 1"
    by (simp add: floor_minus ceiling_altdef)
  have "x - of_int \<lfloor>x\<rfloor> + (- x - of_int \<lfloor>- x\<rfloor>) = 1"
    by (simp add: fl)
  then show ?thesis
    by (auto simp: round_half_even_def Let_def fl)
qed

section \<open>Exponents: the position of the leading digit\<close>

function idigits :: "int \<Rightarrow> int \<Rightarrow> nat" where
  "idigits b n = (if n < b \<or> b < 2 then 1 else Suc (idigits b (n div b)))"
  by pat_completeness auto
termination
  by (relation "measure (\<lambda>(b, n). nat n)") (auto intro!: int_div_less_self)

declare idigits.simps [simp del]

lemma idigits_bounds:
  assumes "2 \<le> b" and "0 < n"
  shows "b ^ (idigits b n - 1) \<le> n \<and> n < b ^ idigits b n \<and> 0 < idigits b n"
  using assms
proof (induction b n rule: idigits.induct)
  case (1 b n)
  show ?case
  proof (cases "n < b")
    case True
    with "1.prems" show ?thesis by (simp add: idigits.simps [of b n])
  next
    case False
    with "1.prems" have dv: "0 < n div b" by (simp add: pos_imp_zdiv_pos_iff)
    define k where "k = idigits b (n div b)"
    have ih: "b ^ (k - 1) \<le> n div b" "n div b < b ^ k" "0 < k"
      using "1.IH" False "1.prems" dv by (auto simp: k_def)
    have eq: "n = b * (n div b) + n mod b" "0 \<le> n mod b" "n mod b < b"
      using "1.prems" by simp_all
    have lo: "b * b ^ (k - 1) \<le> b * (n div b)"
      using ih(1) "1.prems" by simp
    have pw: "b * b ^ (k - 1) = b ^ k" using ih(3) by (metis power_eq_if not_gr_zero)
    have "b * (n div b + 1) \<le> b * b ^ k"
      using ih(2) "1.prems" by simp
    then have hi: "b * (n div b) + b \<le> b * b ^ k" by (simp add: distrib_left)
    have "b ^ k \<le> n" using eq lo pw by linarith
    moreover have "n < b * b ^ k" using eq hi by linarith
    moreover have "idigits b n = Suc k"
      using False "1.prems" by (simp add: idigits.simps [of b n] k_def)
    ultimately show ?thesis by simp
  qed
qed

lemma powi_less_exp: "1 < (B :: rat) \<Longrightarrow> B powi m < B powi n \<Longrightarrow> m < n"
  by (metis linorder_not_le less_le_not_le power_int_increasing less_imp_le)

definition ilog :: "int \<Rightarrow> rat \<Rightarrow> int" where
  "ilog b x =
     (let nd = quotient_of x;
          a = int (idigits b (fst nd)) - int (idigits b (snd nd))
      in if of_int b powi a \<le> x then a else a - 1)"

lemma ilog_bounds:
  assumes b: "2 \<le> b" and x: "0 < x"
  shows "of_int b powi ilog b x \<le> x \<and> x < of_int b powi (ilog b x + 1)"
proof -
  obtain n d where nd: "quotient_of x = (n, d)" by fastforce
  have d: "0 < d" and xq: "x = of_int n / of_int d"
    using nd quotient_of_denom_pos quotient_of_div by blast+
  have n: "0 < n" using x d xq by (simp add: zero_less_divide_iff)
  define i j where "i = idigits b n" and "j = idigits b d"
  let ?B = "of_int b :: rat"
  have B: "1 < ?B" "0 < ?B" using b by simp_all
  have ib: "b ^ (i - 1) \<le> n" "n < b ^ i" "0 < i"
    and jb: "b ^ (j - 1) \<le> d" "d < b ^ j" "0 < j"
    using idigits_bounds [OF b n] idigits_bounds [OF b d] by (auto simp: i_def j_def)
  have ri: "?B ^ (i - 1) \<le> of_int n" "of_int n < ?B ^ i"
    and rj: "?B ^ (j - 1) \<le> of_int d" "of_int d < ?B ^ j"
    using ib jb by (metis of_int_le_iff of_int_less_iff of_int_power)+
  have lo: "?B powi (int i - int j - 1) \<le> x"
  proof -
    have "?B powi (int i - int j - 1) = ?B ^ (i - 1) / ?B ^ j"
      using B ib(3) by (simp add: power_int_diff of_nat_diff flip: power_int_of_nat)
    also have "\<dots> \<le> of_int n / of_int d"
      using ri rj B d n by (intro frac_le) auto
    finally show ?thesis using xq by simp
  qed
  have hi: "x < ?B powi (int i - int j + 1)"
  proof -
    have "of_int n / of_int d < ?B ^ i / ?B ^ (j - 1)"
      using ri rj B d n by (intro frac_less) auto
    also have "\<dots> = ?B powi (int i - int j + 1)"
      using B jb(3) by (simp add: power_int_diff power_int_add of_nat_diff flip: power_int_of_nat)
    finally show ?thesis using xq by simp
  qed
  show ?thesis
    using lo hi by (auto simp: ilog_def nd Let_def i_def [symmetric] j_def [symmetric])
qed

lemma ilog_unique:
  assumes b: "2 \<le> b" and "of_int b powi e \<le> x" and "x < of_int b powi (e + 1)"
  shows "ilog b x = e"
proof -
  let ?B = "of_int b :: rat"
  have B: "1 < ?B" using b by simp
  have "0 < ?B powi e" using B by simp
  with assms(2) have "0 < x" by linarith
  note bd = ilog_bounds [OF b this]
  have "?B powi e < ?B powi (ilog b x + 1)" using assms(2) bd by linarith
  moreover have "?B powi ilog b x < ?B powi (e + 1)" using assms(3) bd by linarith
  ultimately have "e < ilog b x + 1" "ilog b x < e + 1"
    using powi_less_exp [OF B] by blast+
  then show ?thesis by linarith
qed

lemma ilog_mono:
  assumes b: "2 \<le> b" and "0 < x" "x \<le> y"
  shows "ilog b x \<le> ilog b y"
proof -
  have "of_int b powi ilog b x \<le> x" "y < (of_int b :: rat) powi (ilog b y + 1)"
    using ilog_bounds [OF b, of x] ilog_bounds [OF b, of y] assms by auto
  then have "(of_int b :: rat) powi ilog b x < of_int b powi (ilog b y + 1)"
    using assms(3) by linarith
  moreover have "1 < (of_int b :: rat)" using b by simp
  ultimately have "ilog b x < ilog b y + 1" using powi_less_exp by blast
  then show ?thesis by linarith
qed

section \<open>Rounding to \<open>p\<close> significant digits\<close>

text \<open>
  A number is representable when it is an integer of at most \<open>p\<close> digits times a power of the
  base. \<open>round_sig\<close> returns the representable number nearest to its argument, ties to an even
  last digit.
\<close>

definition round_sig :: "int \<Rightarrow> nat \<Rightarrow> rat \<Rightarrow> rat" where
  "round_sig b p x =
     (if x = 0 then 0
      else let q = of_int b powi (ilog b \<bar>x\<bar> - (int p - 1))
           in of_int (round_half_even (x / q)) * q)"

definition representable :: "int \<Rightarrow> nat \<Rightarrow> rat \<Rightarrow> bool" where
  "representable b p x \<longleftrightarrow> (\<exists>n k. x = of_int n * of_int b powi k \<and> \<bar>n\<bar> < b ^ p)"

lemma round_sig_0 [simp]: "round_sig b p 0 = 0"
  by (simp add: round_sig_def)

lemma round_sig_minus: "round_sig b p (- x) = - round_sig b p x"
  by (simp add: round_sig_def Let_def rhe_minus)

lemma round_sig_exact:
  assumes b: "2 \<le> b" and "representable b p x"
  shows "round_sig b p x = x"
proof (cases "x = 0")
  case False
  let ?B = "of_int b :: rat"
  have B: "1 < ?B" "0 < ?B" using b by simp_all
  obtain n k where x: "x = of_int n * ?B powi k" and n: "\<bar>n\<bar> < b ^ p"
    using assms(2) by (auto simp: representable_def)
  define e where "e = ilog b \<bar>x\<bar> - (int p - 1)"
  have "?B powi ilog b \<bar>x\<bar> \<le> \<bar>x\<bar>" using ilog_bounds [OF b, of "\<bar>x\<bar>"] False by simp
  also have "\<bar>x\<bar> = of_int \<bar>n\<bar> * ?B powi k" using B x by (simp add: abs_mult)
  also have "\<dots> < ?B ^ p * ?B powi k"
    using n B by (metis mult_less_cancel_right_pos of_int_less_iff of_int_power zero_less_power_int)
  also have "\<dots> = ?B powi (int p + k)" using B by (simp add: power_int_add)
  finally have "ilog b \<bar>x\<bar> < int p + k" by (rule powi_less_exp [OF B(1)])
  then have "0 \<le> k - e" by (simp add: e_def)
  then have "?B powi (k - e) = of_int (b ^ nat (k - e))" by (simp add: power_int_def)
  moreover have "x / ?B powi e = of_int n * ?B powi (k - e)"
    using B by (simp add: x power_int_diff)
  ultimately have q: "x / ?B powi e = of_int (n * b ^ nat (k - e))" by simp
  then have "of_int (round_half_even (x / ?B powi e)) = x / ?B powi e"
    by (metis rhe_of_int)
  then show ?thesis using False B by (simp add: round_sig_def Let_def e_def [symmetric])
qed simp

lemma round_sig_pos_eq:
  assumes "0 < x"
  obtains e where "e = ilog b x - (int p - 1)"
    and "round_sig b p x = of_int (round_half_even (x / of_int b powi e)) * of_int b powi e"
  using assms by (simp add: round_sig_def Let_def)

lemma round_sig_bracket:
  assumes b: "2 \<le> b" and p: "0 < p" and x: "0 < x"
  shows "of_int b powi ilog b x \<le> round_sig b p x \<and> round_sig b p x \<le> of_int b powi (ilog b x + 1)"
proof -
  let ?B = "of_int b :: rat"
  have B: "1 < ?B" "0 < ?B" using b by simp_all
  obtain e where e: "e = ilog b x - (int p - 1)"
    and r: "round_sig b p x = of_int (round_half_even (x / ?B powi e)) * ?B powi e"
    using round_sig_pos_eq [OF x] by blast
  have q: "0 < ?B powi e" using B by simp
  have 1: "?B powi ilog b x = of_int (b ^ (p - 1)) * ?B powi e"
    using B p by (simp add: e power_int_diff of_nat_diff flip: power_int_of_nat)
  have 2: "?B powi (ilog b x + 1) = of_int (b ^ p) * ?B powi e"
    using B by (simp add: e power_int_diff power_int_add flip: power_int_of_nat)
  note bd = ilog_bounds [OF b x]
  have "of_int (b ^ (p - 1)) \<le> x / ?B powi e"
    using bd q by (simp add: 1 pos_le_divide_eq del: of_int_power)
  then have "b ^ (p - 1) \<le> round_half_even (x / ?B powi e)" by (metis rhe_mono rhe_of_int)
  then have lo: "of_int (b ^ (p - 1)) * ?B powi e \<le> round_sig b p x"
    using q by (simp add: r del: of_int_power)
  have "x / ?B powi e \<le> of_int (b ^ p)"
    using bd q by (simp add: 2 pos_divide_le_eq del: of_int_power)
  then have "round_half_even (x / ?B powi e) \<le> b ^ p" by (metis rhe_mono rhe_of_int)
  then have "round_sig b p x \<le> of_int (b ^ p) * ?B powi e"
    using q by (simp add: r del: of_int_power)
  with lo show ?thesis by (simp add: 1 2)
qed

lemma round_sig_pos:
  assumes "2 \<le> b" "0 < p" "0 < x"
  shows "0 < round_sig b p x"
proof -
  have "0 < (of_int b :: rat) powi ilog b x" using assms(1) by simp
  then show ?thesis using round_sig_bracket [OF assms] by linarith
qed

lemma round_sig_mono_pos:
  assumes b: "2 \<le> b" and p: "0 < p" and x: "0 < x" and xy: "x \<le> y"
  shows "round_sig b p x \<le> round_sig b p y"
proof (cases "ilog b x = ilog b y")
  case True
  let ?B = "of_int b :: rat"
  have y: "0 < y" using x xy by simp
  obtain e where e: "e = ilog b x - (int p - 1)"
    and rx: "round_sig b p x = of_int (round_half_even (x / ?B powi e)) * ?B powi e"
    using round_sig_pos_eq [OF x] by blast
  moreover have "round_sig b p y = of_int (round_half_even (y / ?B powi e)) * ?B powi e"
    using round_sig_pos_eq [OF y, of b p] e True by metis
  moreover have q: "0 < ?B powi e" using b by simp
  moreover have "x / ?B powi e \<le> y / ?B powi e" using q xy by (simp add: divide_right_mono)
  ultimately show ?thesis by (simp add: rhe_mono)
next
  case False
  then have "ilog b x + 1 \<le> ilog b y" using ilog_mono [OF b x xy] by linarith
  then have "(of_int b :: rat) powi (ilog b x + 1) \<le> of_int b powi ilog b y"
    using b by (intro power_int_increasing) auto
  then show ?thesis
    using round_sig_bracket [OF b p x] round_sig_bracket [OF b p, of y] x xy by force
qed

lemma round_sig_mono:
  assumes b: "2 \<le> b" and p: "0 < p" and xy: "x \<le> y"
  shows "round_sig b p x \<le> round_sig b p y"
proof -
  note pos = round_sig_pos [OF b p]
  have neg: "round_sig b p z < 0" if "z < 0" for z
    using pos [of "- z"] that by (simp add: round_sig_minus)
  consider "0 < x" | "x \<le> 0" "0 \<le> y" | "y < 0" by linarith
  then show ?thesis
  proof cases
    case 1
    then show ?thesis by (rule round_sig_mono_pos [OF b p _ xy])
  next
    case 2
    have "round_sig b p x \<le> 0" using 2 neg [of x] by (cases "x = 0") auto
    moreover have "0 \<le> round_sig b p y" using 2 pos [of y] by (cases "y = 0") auto
    ultimately show ?thesis by linarith
  next
    case 3
    have "round_sig b p (- y) \<le> round_sig b p (- x)"
      using 3 xy by (intro round_sig_mono_pos [OF b p]) auto
    then show ?thesis by (simp add: round_sig_minus)
  qed
qed

lemma round_sig_error:
  assumes b: "2 \<le> b" and p: "0 < p"
  shows "\<bar>round_sig b p x - x\<bar> \<le> \<bar>x\<bar> * of_int b powi (1 - int p) / 2"
proof (cases "x = 0")
  case False
  let ?B = "of_int b :: rat"
  have B: "0 < ?B" using b by simp
  define e where "e = ilog b \<bar>x\<bar> - (int p - 1)"
  have q: "0 < ?B powi e" using B by simp
  have "round_sig b p x - x = (of_int (round_half_even (x / ?B powi e)) - x / ?B powi e) * ?B powi e"
    using False q B by (simp add: round_sig_def e_def [symmetric] Let_def left_diff_distrib)
  then have "\<bar>round_sig b p x - x\<bar> \<le> 1/2 * ?B powi e"
    using q rhe_error [of "x / ?B powi e"] by (simp only: abs_mult) (simp add: mult_right_mono)
  also have "?B powi e = ?B powi ilog b \<bar>x\<bar> * ?B powi (1 - int p)"
    using B power_int_add [of ?B "ilog b \<bar>x\<bar>" "1 - int p"] by (simp add: e_def algebra_simps)
  also have "\<dots> \<le> \<bar>x\<bar> * ?B powi (1 - int p)"
    using ilog_bounds [OF b, of "\<bar>x\<bar>"] False B by (intro mult_right_mono) auto
  finally show ?thesis by simp
qed simp

lemma round_sig_representable:
  assumes b: "2 \<le> b" and p: "0 < p"
  shows "representable b p (round_sig b p x)"
proof (cases "x = 0")
  case False
  let ?B = "of_int b :: rat"
  define e where "e = ilog b \<bar>x\<bar> - (int p - 1)"
  define n where "n = round_half_even (x / ?B powi e)"
  have q: "0 < ?B powi e" using b by simp
  have r: "round_sig b p x = of_int n * ?B powi e"
    using False by (simp add: round_sig_def Let_def e_def n_def)
  have "\<bar>round_sig b p x\<bar> \<le> ?B powi (ilog b \<bar>x\<bar> + 1)"
    using round_sig_bracket [OF b p, of "\<bar>x\<bar>"] round_sig_pos [OF b p, of "\<bar>x\<bar>"] False
    by (cases "0 < x") (auto simp: round_sig_minus abs_if)
  also have "\<dots> = of_int (b ^ p) * ?B powi e"
    using b by (simp add: e_def power_int_diff power_int_add flip: power_int_of_nat)
  finally have "of_int \<bar>n\<bar> * ?B powi e \<le> of_int (b ^ p) * ?B powi e"
    using q by (simp add: r abs_mult)
  then have "\<bar>n\<bar> \<le> b ^ p" using q by (metis mult_le_cancel_right_pos of_int_le_iff)
  then consider "\<bar>n\<bar> < b ^ p" | "n = b ^ p" | "n = - (b ^ p)" by linarith
  then show ?thesis
  proof cases
    case 1
    then show ?thesis using r by (auto simp: representable_def)
  next
    case 2
    then have "round_sig b p x = of_int 1 * ?B powi (e + int p)"
      using r b by (simp add: power_int_add)
    moreover have "\<bar>1\<bar> < b ^ p" using b p by simp
    ultimately show ?thesis unfolding representable_def by blast
  next
    case 3
    then have "round_sig b p x = of_int (- 1) * ?B powi (e + int p)"
      using r b by (simp add: power_int_add)
    moreover have "\<bar>- 1\<bar> < b ^ p" using b p by simp
    ultimately show ?thesis unfolding representable_def by blast
  qed
qed (auto simp: representable_def b intro!: exI [of _ 0] zero_less_power order_less_le_trans [OF _ b])

lemma round_sig_idem:
  "2 \<le> b \<Longrightarrow> 0 < p \<Longrightarrow> round_sig b p (round_sig b p x) = round_sig b p x"
  by (simp add: round_sig_exact round_sig_representable)

end
