(* ===== verification/Pydecimal.thy ===== *)
theory Pydecimal
  imports Rounding "HOL-Library.List_Lexorder" "HOL-Library.Product_Lexorder" "HOL-Library.Char_ord"
begin

text \<open>
  The numbers of the program. A finite \<^verbatim>\<open>decimal.Decimal\<close> is modelled by its value, a
  rational; the arithmetic operators round their exact result to the 28 significant digits of
  Python's default context, half to even, and comparisons are exact, as in the standard library.
  A value read from text (a \<^verbatim>\<open>Decimal(str)\<close>) is not rounded. Exponents are unbounded here
  (Python bounds them by 999999), and the sign of zero and trailing zeros, which no comparison
  sees, are not kept. A \<^verbatim>\<open>float\<close> is the rational value of a binary floating number, and float
  addition rounds to 53 significant bits.
\<close>

type_synonym decimal = rat
type_synonym pyfloat = rat

section \<open>The decimal context\<close>

definition dround :: "decimal \<Rightarrow> decimal" where
  "dround x = round_sig 10 28 x"

definition dec_ok :: "decimal \<Rightarrow> bool" where
  "dec_ok x \<longleftrightarrow> dround x = x"

definition dadd :: "decimal \<Rightarrow> decimal \<Rightarrow> decimal" where
  "dadd x y = dround (x + y)"

definition dsub :: "decimal \<Rightarrow> decimal \<Rightarrow> decimal" where
  "dsub x y = dround (x - y)"

definition dmul :: "decimal \<Rightarrow> decimal \<Rightarrow> decimal" where
  "dmul x y = dround (x * y)"

text \<open>Division by a nonzero divisor; the callers that can divide by zero test for it.\<close>

definition ddiv :: "decimal \<Rightarrow> decimal \<Rightarrow> decimal" where
  "ddiv x y = dround (x / y)"

definition dabs :: "decimal \<Rightarrow> decimal" where
  "dabs x = dround \<bar>x\<bar>"

text \<open>\<open>int(d)\<close> truncates towards zero; \<open>d % s\<close> has the sign of \<open>d\<close>.\<close>

definition dtrunc :: "decimal \<Rightarrow> int" where
  "dtrunc x = (if 0 \<le> x then \<lfloor>x\<rfloor> else \<lceil>x\<rceil>)"

definition dmod :: "decimal \<Rightarrow> decimal \<Rightarrow> decimal" where
  "dmod x s = dround (x - s * of_int (dtrunc (x / s)))"

text \<open>A quick test, used when a closed term is evaluated: few enough digits.\<close>

lemma dround_code [code]:
  "dround x =
     (let nd = quotient_of x
      in if 1000000000000 mod snd nd = 0
            \<and> \<bar>fst nd\<bar> * (1000000000000 div snd nd) < 10000000000000000000000000000
         then x else round_sig 10 28 x)"
proof -
  obtain n d where nd: "quotient_of x = (n, d)" by fastforce
  have d: "0 < d" and x: "x = of_int n / of_int d"
    using nd quotient_of_denom_pos quotient_of_div by blast+
  have "round_sig 10 28 x = x"
    if dv: "1000000000000 mod d = 0" and
       lt: "\<bar>n\<bar> * (1000000000000 div d) < 10000000000000000000000000000"
  proof (rule round_sig_exact)
    from dv obtain m where m: "1000000000000 = d * m" by (metis mod_eq_0_iff_dvd dvd_def)
    have "0 < d * m" unfolding m [symmetric] by simp
    with d have m0: "0 < m" by (simp add: zero_less_mult_iff)
    have "1000000000000 div d = m" using m d by (metis nonzero_mult_div_cancel_left less_irrefl)
    with lt m0 have "\<bar>n * m\<bar> < 10 ^ 28" by (simp add: abs_mult)
    moreover have "x = of_int (n * m) * of_int 10 powi (- 12)"
    proof -
      have "(1000000000000 :: rat) = of_int (d * m)" unfolding m [symmetric] by simp
      then show ?thesis using d by (simp add: x power_int_minus field_simps)
    qed
    ultimately show "representable 10 28 x" unfolding representable_def by blast
  qed simp
  then show ?thesis by (simp add: dround_def nd Let_def)
qed

lemma dround_exactI: "x * 10 ^ k = of_int n \<Longrightarrow> \<bar>n\<bar> < 10 ^ 28 \<Longrightarrow> dround x = x"
  unfolding dround_def
proof (rule round_sig_exact)
  assume "x * 10 ^ k = of_int n" "\<bar>n\<bar> < 10 ^ 28"
  then have "x = of_int n * of_int 10 powi (- int k)"
    by (simp add: power_int_minus field_simps)
  with \<open>\<bar>n\<bar> < 10 ^ 28\<close> show "representable 10 28 x" unfolding representable_def by blast
qed simp

lemma dround_0 [simp]: "dround 0 = 0"
  by (simp add: dround_def)

lemma dround_1 [simp]: "dround 1 = 1"
  by (rule dround_exactI [of _ 0 1]) auto

lemma dround_minus [simp]: "dround (- x) = - dround x"
  by (simp add: dround_def round_sig_minus)

lemma dround_mono: "x \<le> y \<Longrightarrow> dround x \<le> dround y"
  by (simp add: dround_def round_sig_mono)

lemma dround_pos [simp]: "0 < dround x \<longleftrightarrow> 0 < x"
proof
  show "0 < x" if "0 < dround x"
    using that dround_mono [of x 0] by (cases "x \<le> 0") auto
qed (simp add: dround_def round_sig_pos)

lemma dround_neg [simp]: "dround x < 0 \<longleftrightarrow> x < 0"
  using dround_pos [of "- x"] by simp

lemma dround_nonneg [simp]: "0 \<le> dround x \<longleftrightarrow> 0 \<le> x"
  using dround_neg [of x] by (simp add: linorder_not_less [symmetric] del: dround_neg)

lemma dround_nonpos [simp]: "dround x \<le> 0 \<longleftrightarrow> x \<le> 0"
  using dround_pos [of x] by (simp add: linorder_not_less [symmetric] del: dround_pos)

lemma dround_eq_0 [simp]: "dround x = 0 \<longleftrightarrow> x = 0"
  using dround_nonneg [of x] dround_nonpos [of x] by (auto simp del: dround_nonneg dround_nonpos)

lemma dround_idem [simp]: "dround (dround x) = dround x"
  by (simp add: dround_def round_sig_idem)

lemma dec_ok_dround [simp, intro]: "dec_ok (dround x)"
  by (simp add: dec_ok_def)

lemma dec_ok_0 [simp, intro]: "dec_ok 0" and dec_ok_1 [simp, intro]: "dec_ok 1"
  by (simp_all add: dec_ok_def)

lemma dec_ok_ops [simp, intro]:
  "dec_ok (dadd x y)" "dec_ok (dsub x y)" "dec_ok (dmul x y)" "dec_ok (ddiv x y)" "dec_ok (dabs x)"
  by (simp_all add: dadd_def dsub_def dmul_def ddiv_def dabs_def)

section \<open>Comparing sums and differences\<close>

text \<open>
  Rounding keeps the sign, so a comparison of a computed difference with zero is exact; and it is
  monotone, so bounds between representable numbers carry over.
\<close>

lemma dsub_pos [simp]: "0 < dsub x y \<longleftrightarrow> y < x"
  by (simp add: dsub_def)

lemma dsub_nonneg [simp]: "0 \<le> dsub x y \<longleftrightarrow> y \<le> x"
  by (simp add: dsub_def)

lemma dsub_neg [simp]: "dsub x y < 0 \<longleftrightarrow> x < y"
  by (simp add: dsub_def)

lemma dsub_nonpos [simp]: "dsub x y \<le> 0 \<longleftrightarrow> x \<le> y"
  by (simp add: dsub_def)

lemma dsub_eq_0 [simp]: "dsub x y = 0 \<longleftrightarrow> x = y"
  by (simp add: dsub_def)

lemma dadd_nonneg [intro]: "0 \<le> x \<Longrightarrow> 0 \<le> y \<Longrightarrow> 0 \<le> dadd x y"
  by (simp add: dadd_def)

lemma dadd_mono: "x \<le> x' \<Longrightarrow> y \<le> y' \<Longrightarrow> dadd x y \<le> dadd x' y'"
  by (simp add: dadd_def dround_mono)

lemma dadd_0_right: "dec_ok x \<Longrightarrow> dadd x 0 = x" and dadd_0_left: "dec_ok x \<Longrightarrow> dadd 0 x = x"
  by (simp_all add: dadd_def dec_ok_def)

lemma dadd_ge_left: "dec_ok x \<Longrightarrow> 0 \<le> y \<Longrightarrow> x \<le> dadd x y"
  using dadd_mono [of x x 0 y] by (simp add: dadd_0_right)

lemma dadd_ge_right: "dec_ok y \<Longrightarrow> 0 \<le> x \<Longrightarrow> y \<le> dadd x y"
  using dadd_mono [of 0 x y y] by (simp add: dadd_0_left)

lemma dadd_commute: "dadd x y = dadd y x"
  by (simp add: dadd_def add.commute)

lemma dmul_nonneg [intro]: "0 \<le> x \<Longrightarrow> 0 \<le> y \<Longrightarrow> 0 \<le> dmul x y"
  by (simp add: dmul_def)

lemma ddiv_nonneg [intro]: "0 \<le> x \<Longrightarrow> 0 \<le> y \<Longrightarrow> 0 \<le> ddiv x y"
  by (simp add: ddiv_def)

lemma dabs_nonneg [simp, intro]: "0 \<le> dabs x"
  by (simp add: dabs_def)

lemma dsub_swap: "dsub x y = - dsub y x"
  by (metis dsub_def dround_minus minus_diff_eq)

lemma dabs_dsub: "x < y \<Longrightarrow> dabs (dsub x y) = dsub y x"
  using dsub_swap [of x y] dsub_pos [of y x] by (simp add: dabs_def) (simp add: dsub_def)

section \<open>Where the arithmetic is exact\<close>

text \<open>
  On a grid of \<open>k\<close> decimal places, with fewer than 28 digits in all, no operation rounds: this is
  the regime of real orders, whose quantities and prices have a handful of digits.
\<close>

definition on_grid :: "nat \<Rightarrow> decimal \<Rightarrow> bool" where
  "on_grid k x \<longleftrightarrow> x * 10 ^ k = of_int \<lfloor>x * 10 ^ k\<rfloor>"

lemma on_gridI: "x * 10 ^ k = of_int n \<Longrightarrow> on_grid k x"
  by (simp add: on_grid_def)

lemma on_gridE:
  assumes "on_grid k x"
  obtains n where "x * 10 ^ k = of_int n"
  using assms by (auto simp: on_grid_def)

lemma on_grid_0 [simp, intro]: "on_grid k 0"
  by (simp add: on_grid_def)

lemma on_grid_add [intro]: "on_grid k x \<Longrightarrow> on_grid k y \<Longrightarrow> on_grid k (x + y)"
  by (elim on_gridE) (metis distrib_right of_int_add on_gridI)

lemma on_grid_diff [intro]: "on_grid k x \<Longrightarrow> on_grid k y \<Longrightarrow> on_grid k (x - y)"
  by (elim on_gridE) (metis left_diff_distrib of_int_diff on_gridI)

lemma on_grid_mult_int [intro]: "on_grid k x \<Longrightarrow> on_grid k (of_int n * x)"
  by (elim on_gridE) (metis mult.assoc of_int_mult on_gridI)

lemma on_grid_mult:
  assumes "on_grid j x" "on_grid k y"
  shows "on_grid (j + k) (x * y)"
proof -
  obtain m n where "x * 10 ^ j = of_int m" "y * 10 ^ k = of_int n"
    using assms by (elim on_gridE) blast
  then have "x * y * 10 ^ (j + k) = of_int (m * n)"
    by (metis (no_types, opaque_lifting) mult.assoc mult.commute of_int_mult power_add)
  then show ?thesis by (rule on_gridI)
qed

lemma on_grid_exact:
  assumes "on_grid k x" and "\<bar>x\<bar> * 10 ^ k < 10 ^ 28"
  shows "dround x = x"
proof -
  obtain n where n: "x * 10 ^ k = of_int n" using assms(1) by (rule on_gridE)
  then have "of_int \<bar>n\<bar> = \<bar>x * 10 ^ k\<bar>" by simp
  also have "\<dots> = \<bar>x\<bar> * 10 ^ k" by (simp add: abs_mult)
  finally have "of_int \<bar>n\<bar> = \<bar>x\<bar> * 10 ^ k" .
  then have "of_int \<bar>n\<bar> < (of_int (10 ^ 28) :: rat)" using assms(2) by simp
  then have "\<bar>n\<bar> < 10 ^ 28" by (simp only: of_int_less_iff)
  with n show ?thesis by (rule dround_exactI)
qed

lemma dadd_exact: "on_grid k x \<Longrightarrow> on_grid k y \<Longrightarrow> \<bar>x + y\<bar> * 10 ^ k < 10 ^ 28 \<Longrightarrow> dadd x y = x + y"
  unfolding dadd_def by (rule on_grid_exact [OF on_grid_add])

lemma dsub_exact: "on_grid k x \<Longrightarrow> on_grid k y \<Longrightarrow> \<bar>x - y\<bar> * 10 ^ k < 10 ^ 28 \<Longrightarrow> dsub x y = x - y"
  unfolding dsub_def by (rule on_grid_exact [OF on_grid_diff])

section \<open>Floats\<close>

text \<open>
  A clock reading is a float. The engine turns it into a decimal through its text
  (\<^verbatim>\<open>Decimal(str(f))\<close>): the shortest decimal that reads back as the same float, the nearest
  one when there are several.
\<close>

definition fl :: "rat \<Rightarrow> pyfloat" where
  "fl x = round_sig 2 53 x"

lemma fl_code [code]:
  "fl x =
     (let nd = quotient_of x
      in if 1099511627776 mod snd nd = 0
            \<and> \<bar>fst nd\<bar> * (1099511627776 div snd nd) < 9007199254740992
         then x else round_sig 2 53 x)"
proof -
  obtain n d where nd: "quotient_of x = (n, d)" by fastforce
  have d: "0 < d" and x: "x = of_int n / of_int d"
    using nd quotient_of_denom_pos quotient_of_div by blast+
  have "round_sig 2 53 x = x"
    if dv: "1099511627776 mod d = 0" and lt: "\<bar>n\<bar> * (1099511627776 div d) < 9007199254740992"
  proof (rule round_sig_exact)
    from dv obtain m where m: "1099511627776 = d * m" by (metis mod_eq_0_iff_dvd dvd_def)
    have "0 < d * m" unfolding m [symmetric] by simp
    with d have m0: "0 < m" by (simp add: zero_less_mult_iff)
    have "1099511627776 div d = m" using m d by (metis nonzero_mult_div_cancel_left less_irrefl)
    with lt m0 have "\<bar>n * m\<bar> < 2 ^ 53" by (simp add: abs_mult)
    moreover have "x = of_int (n * m) * of_int 2 powi (- 40)"
    proof -
      have "(1099511627776 :: rat) = of_int (d * m)" unfolding m [symmetric] by simp
      then show ?thesis using d by (simp add: x power_int_minus field_simps)
    qed
    ultimately show "representable 2 53 x" unfolding representable_def by blast
  qed simp
  then show ?thesis by (simp add: fl_def nd Let_def)
qed

definition fadd :: "pyfloat \<Rightarrow> pyfloat \<Rightarrow> pyfloat" where
  "fadd x y = fl (x + y)"

definition fsub :: "pyfloat \<Rightarrow> pyfloat \<Rightarrow> pyfloat" where
  "fsub x y = fl (x - y)"

definition fmul :: "pyfloat \<Rightarrow> pyfloat \<Rightarrow> pyfloat" where
  "fmul x y = fl (x * y)"

definition float_repr_at :: "int \<Rightarrow> rat \<Rightarrow> rat option" where
  "float_repr_at k x =
     (let q = 10 powi (ilog 10 x - (k - 1));
          lo = of_int \<lfloor>x / q\<rfloor> * q;
          hi = lo + q;
          near = (if x - lo \<le> hi - x then lo else hi);
          far = (if x - lo \<le> hi - x then hi else lo)
      in if fl near = x then Some near else if fl far = x then Some far else None)"

fun first_repr :: "int list \<Rightarrow> rat \<Rightarrow> decimal" where
  "first_repr [] x = x"
| "first_repr (k # ks) x =
     (case float_repr_at k x of Some d \<Rightarrow> d | None \<Rightarrow> first_repr ks x)"

definition float_repr :: "rat \<Rightarrow> decimal" where
  "float_repr x = first_repr [1, 2, 3, 4, 5, 6, 7, 8, 9, 10, 11, 12, 13, 14, 15, 16, 17] x"

definition float_decimal :: "pyfloat \<Rightarrow> decimal" where
  "float_decimal x = (if x = 0 then 0 else if 0 < x then float_repr x else - float_repr (- x))"

text \<open>The text reads back as the float whenever one of the seventeen lengths does.\<close>

lemma float_repr_at_fl: "float_repr_at k x = Some d \<Longrightarrow> fl d = x"
  unfolding float_repr_at_def Let_def by (metis option.distinct(1) option.inject)

lemma fadd_mono: "x \<le> x' \<Longrightarrow> y \<le> y' \<Longrightarrow> fadd x y \<le> fadd x' y'"
  by (simp add: fadd_def fl_def round_sig_mono)

end
