(* ===== verification/Models.thy ===== *)
theory Models
  imports Pydecimal
begin

text \<open>
  The domain data of \<^verbatim>\<open>src/execution/models.py\<close>: the enumerations, the request, rules, market,
  order, fill and exposure records, and the derived quantities computed from them.
\<close>

section \<open>Enumerations\<close>

datatype environment = SIMULATION | TESTNET | MAINNET

datatype algorithm = CHASE | TWAP

datatype deadline_policy = CANCEL_REMAINDER | AGGRESSIVE_WITHIN_RANGE

datatype repricing_mode = ADVERSE_ONLY | TWO_SIDED

datatype side = BUY | SELL | NO_ACTION

datatype time_in_force = GTC | GTX | IOC

datatype execution_status =
    CREATED | VALIDATING | RUNNING | CANCELLING | COMPLETED | PARTIALLY_COMPLETED
  | EXPIRED | CANCELLED | FAILED

datatype child_order_status =
    PENDING_SUBMIT | OPEN | PARTIALLY_FILLED | PENDING_CANCEL | CHILD_CANCELLED
  | FILLED | REJECTED | UNKNOWN

text \<open>Both status types are finite and enumerable, so statements about all statuses compute.\<close>

instantiation execution_status :: enum
begin

definition enum_execution_status :: "execution_status list" where
  "enum_execution_status =
     [CREATED, VALIDATING, RUNNING, CANCELLING, COMPLETED, PARTIALLY_COMPLETED, EXPIRED,
      CANCELLED, FAILED]"

definition enum_all_execution_status :: "(execution_status \<Rightarrow> bool) \<Rightarrow> bool" where
  "enum_all_execution_status P \<longleftrightarrow> list_all P Enum.enum"

definition enum_ex_execution_status :: "(execution_status \<Rightarrow> bool) \<Rightarrow> bool" where
  "enum_ex_execution_status P \<longleftrightarrow> list_ex P Enum.enum"

instance
proof
  show univ: "(UNIV :: execution_status set) = set Enum.enum"
    unfolding enum_execution_status_def by (auto intro: execution_status.exhaust)
  show "distinct (Enum.enum :: execution_status list)"
    by (simp add: enum_execution_status_def)
  show "Enum.enum_all P \<longleftrightarrow> Ball UNIV P" for P :: "execution_status \<Rightarrow> bool"
    unfolding enum_all_execution_status_def using univ by (auto simp: list_all_iff)
  show "Enum.enum_ex P \<longleftrightarrow> Bex UNIV P" for P :: "execution_status \<Rightarrow> bool"
    unfolding enum_ex_execution_status_def using univ by (auto simp: list_ex_iff)
qed

end

instantiation child_order_status :: enum
begin

definition enum_child_order_status :: "child_order_status list" where
  "enum_child_order_status =
     [PENDING_SUBMIT, OPEN, PARTIALLY_FILLED, PENDING_CANCEL, CHILD_CANCELLED, FILLED, REJECTED,
      UNKNOWN]"

definition enum_all_child_order_status :: "(child_order_status \<Rightarrow> bool) \<Rightarrow> bool" where
  "enum_all_child_order_status P \<longleftrightarrow> list_all P Enum.enum"

definition enum_ex_child_order_status :: "(child_order_status \<Rightarrow> bool) \<Rightarrow> bool" where
  "enum_ex_child_order_status P \<longleftrightarrow> list_ex P Enum.enum"

instance
proof
  show univ: "(UNIV :: child_order_status set) = set Enum.enum"
    unfolding enum_child_order_status_def by (auto intro: child_order_status.exhaust)
  show "distinct (Enum.enum :: child_order_status list)"
    by (simp add: enum_child_order_status_def)
  show "Enum.enum_all P \<longleftrightarrow> Ball UNIV P" for P :: "child_order_status \<Rightarrow> bool"
    unfolding enum_all_child_order_status_def using univ by (auto simp: list_all_iff)
  show "Enum.enum_ex P \<longleftrightarrow> Bex UNIV P" for P :: "child_order_status \<Rightarrow> bool"
    unfolding enum_ex_child_order_status_def using univ by (auto simp: list_ex_iff)
qed

end

fun execution_status_is_terminal :: "execution_status \<Rightarrow> bool" where
  "execution_status_is_terminal s \<longleftrightarrow>
     s \<in> {COMPLETED, PARTIALLY_COMPLETED, EXPIRED, CANCELLED, FAILED}"

fun child_status_is_terminal :: "child_order_status \<Rightarrow> bool" where
  "child_status_is_terminal s \<longleftrightarrow> s \<in> {CHILD_CANCELLED, FILLED, REJECTED}"

text \<open>The members' text, as a \<^verbatim>\<open>StrEnum\<close> prints it.\<close>

fun execution_status_value :: "execution_status \<Rightarrow> string" where
  "execution_status_value CREATED = ''CREATED''"
| "execution_status_value VALIDATING = ''VALIDATING''"
| "execution_status_value RUNNING = ''RUNNING''"
| "execution_status_value CANCELLING = ''CANCELLING''"
| "execution_status_value COMPLETED = ''COMPLETED''"
| "execution_status_value PARTIALLY_COMPLETED = ''PARTIALLY_COMPLETED''"
| "execution_status_value EXPIRED = ''EXPIRED''"
| "execution_status_value CANCELLED = ''CANCELLED''"
| "execution_status_value FAILED = ''FAILED''"

fun child_status_value :: "child_order_status \<Rightarrow> string" where
  "child_status_value PENDING_SUBMIT = ''PENDING_SUBMIT''"
| "child_status_value OPEN = ''OPEN''"
| "child_status_value PARTIALLY_FILLED = ''PARTIALLY_FILLED''"
| "child_status_value PENDING_CANCEL = ''PENDING_CANCEL''"
| "child_status_value CHILD_CANCELLED = ''CANCELLED''"
| "child_status_value FILLED = ''FILLED''"
| "child_status_value REJECTED = ''REJECTED''"
| "child_status_value UNKNOWN = ''UNKNOWN''"

fun side_value :: "side \<Rightarrow> string" where
  "side_value BUY = ''BUY''"
| "side_value SELL = ''SELL''"
| "side_value NO_ACTION = ''NO_ACTION''"

fun time_in_force_value :: "time_in_force \<Rightarrow> string" where
  "time_in_force_value GTC = ''GTC''"
| "time_in_force_value GTX = ''GTX''"
| "time_in_force_value IOC = ''IOC''"

section \<open>Requests, rules and snapshots\<close>

record execution_parameters =
  reprice_threshold_bps :: decimal
  minimum_reprice_interval_ms :: int
  number_of_slices :: int
  child_order_timeout_seconds :: int
  max_post_only_reject_retries :: int
  repricing_mode :: repricing_mode

definition default_parameters :: execution_parameters where
  "default_parameters =
     \<lparr>reprice_threshold_bps = 2, minimum_reprice_interval_ms = 500, number_of_slices = 10,
      child_order_timeout_seconds = 20, max_post_only_reject_retries = 3,
      repricing_mode = ADVERSE_ONLY\<rparr>"

record execution_request =
  req_environment :: environment
  req_symbol :: string
  req_algorithm :: algorithm
  target_position :: decimal
  target_price_lower :: decimal
  target_price_upper :: decimal
  target_duration_seconds :: int
  req_deadline_policy :: deadline_policy
  parameters :: execution_parameters

record symbol_rules =
  rules_symbol :: string
  tick_size :: decimal
  quantity_step :: decimal
  min_quantity :: decimal
  min_notional :: decimal
  rules_status :: string
  supported_time_in_force :: "string set"

record market_snapshot =
  mkt_symbol :: string
  mkt_bid :: decimal
  mkt_ask :: decimal
  last_market_event_time_exchange :: "int option"
  last_market_event_time_local :: pyfloat

definition mid :: "market_snapshot \<Rightarrow> decimal" where
  "mid m = ddiv (dadd (mkt_bid m) (mkt_ask m)) 2"

definition is_crossed :: "market_snapshot \<Rightarrow> bool" where
  "is_crossed m \<longleftrightarrow> mkt_bid m \<ge> mkt_ask m"

record position_snapshot =
  pos_symbol :: string
  pos_position :: decimal
  pos_update_time_ms :: "int option"

record order_request =
  or_execution_id :: string
  or_child_order_id :: string
  or_client_order_id :: string
  or_symbol :: string
  or_side :: side
  or_quantity :: decimal
  or_price :: decimal
  or_post_only :: bool
  or_reduce_only :: bool
  or_time_in_force :: "time_in_force option"

section \<open>Child orders, fills and exposure\<close>

record child_order =
  child_order_id :: string
  client_order_id :: string
  child_symbol :: string
  child_side :: side
  submitted_quantity :: decimal
  child_price :: decimal
  child_status :: child_order_status
  child_filled :: decimal
  exchange_order_id :: "string option"
  raw_status :: "string option"
  terminal_reason :: "string option"

definition new_child_order :: "string \<Rightarrow> string \<Rightarrow> string \<Rightarrow> side \<Rightarrow> decimal \<Rightarrow> decimal \<Rightarrow> child_order" where
  "new_child_order cid coid symb sd qty price =
     \<lparr>child_order_id = cid, client_order_id = coid, child_symbol = symb, child_side = sd,
      submitted_quantity = qty, child_price = price, child_status = PENDING_SUBMIT,
      child_filled = 0, exchange_order_id = None, raw_status = None, terminal_reason = None\<rparr>"

definition remaining_quantity :: "child_order \<Rightarrow> decimal" where
  "remaining_quantity c =
     (let remaining = dsub (submitted_quantity c) (child_filled c)
      in if remaining > 0 then remaining else 0)"

record fill =
  fill_client_order_id :: string
  fill_trade_id :: "string option"
  cumulative_filled_quantity :: decimal
  last_filled_quantity :: decimal
  last_fill_price :: decimal
  fill_event_time_ms :: "int option"
  fill_transaction_time_ms :: "int option"
  is_maker :: "bool option"

record reconciliation_result =
  rr_orders :: "child_order list"
  rr_fills :: "fill list"
  rr_warnings :: "string list"

record exposure =
  confirmed_filled_quantity :: decimal
  live_open_quantity :: decimal
  pending_submit_quantity :: decimal
  pending_cancel_quantity :: decimal
  unknown_order_quantity :: decimal

definition empty_exposure :: exposure where
  "empty_exposure =
     \<lparr>confirmed_filled_quantity = 0, live_open_quantity = 0, pending_submit_quantity = 0,
      pending_cancel_quantity = 0, unknown_order_quantity = 0\<rparr>"

definition reserved_exposure :: "exposure \<Rightarrow> decimal" where
  "reserved_exposure e =
     dadd (dadd (dadd (live_open_quantity e) (pending_submit_quantity e))
            (pending_cancel_quantity e))
       (unknown_order_quantity e)"

definition required_trade :: "decimal \<Rightarrow> decimal \<Rightarrow> side \<times> decimal" where
  "required_trade target current =
     (let quantity = dsub target current
      in if quantity > 0 then (BUY, quantity)
         else if quantity < 0 then (SELL, dabs quantity)
         else (NO_ACTION, 0))"

section \<open>Facts about the derived quantities\<close>

lemma remaining_nonneg [simp, intro]: "0 \<le> remaining_quantity c"
  by (simp add: remaining_quantity_def Let_def)

lemma remaining_pos_iff: "0 < remaining_quantity c \<longleftrightarrow> child_filled c < submitted_quantity c"
  by (simp add: remaining_quantity_def Let_def)

lemma remaining_ok [simp, intro]: "dec_ok (remaining_quantity c)"
  by (simp add: remaining_quantity_def Let_def)

lemma reserved_ok [simp, intro]: "dec_ok (reserved_exposure e)"
  by (simp add: reserved_exposure_def)

lemma reserved_empty [simp]: "reserved_exposure empty_exposure = 0"
  by (simp add: reserved_exposure_def empty_exposure_def dadd_def)

definition exposure_nonneg :: "exposure \<Rightarrow> bool" where
  "exposure_nonneg e \<longleftrightarrow>
     0 \<le> confirmed_filled_quantity e \<and> 0 \<le> live_open_quantity e \<and> 0 \<le> pending_submit_quantity e
     \<and> 0 \<le> pending_cancel_quantity e \<and> 0 \<le> unknown_order_quantity e"

lemma exposure_nonneg_empty [simp, intro]: "exposure_nonneg empty_exposure"
  by (simp add: exposure_nonneg_def empty_exposure_def)

lemma reserved_nonneg: "exposure_nonneg e \<Longrightarrow> 0 \<le> reserved_exposure e"
  by (auto simp: exposure_nonneg_def reserved_exposure_def intro!: dadd_nonneg)

lemma dadd_eq_0_iff: "0 \<le> x \<Longrightarrow> 0 \<le> y \<Longrightarrow> dadd x y = 0 \<longleftrightarrow> x = 0 \<and> y = 0"
  by (auto simp: dadd_def)

text \<open>The reserved exposure is zero exactly when nothing is live, pending or unknown.\<close>

lemma reserved_zero_iff:
  assumes "exposure_nonneg e"
  shows "reserved_exposure e = 0 \<longleftrightarrow>
    live_open_quantity e = 0 \<and> pending_submit_quantity e = 0 \<and> pending_cancel_quantity e = 0
    \<and> unknown_order_quantity e = 0"
  using assms by (simp add: exposure_nonneg_def reserved_exposure_def dadd_eq_0_iff dadd_nonneg)

lemma required_trade_cases:
  "required_trade t c =
     (if c < t then (BUY, dsub t c) else if t < c then (SELL, dsub c t) else (NO_ACTION, 0))"
  by (auto simp: required_trade_def Let_def dabs_dsub)

end
