(* ===== verification/Effects.thy ===== *)
theory Effects
  imports Main
begin

text \<open>
  Python statements with side effects: a computation takes the state and returns either the
  exception it raised or its value, together with the state it leaves. The state survives a raised
  exception, as the mutations of a Python object do. \<open>evolves\<close> and \<open>wp\<close> are the two ways the other
  theories reason about such computations: a transition relation that every run obeys, and the
  weakest precondition of a pair of postconditions (normal and exceptional).
\<close>

named_theorems evolve_intro
named_theorems wp_simp

section \<open>Computations\<close>

type_synonym ('e, 's, 'a) eff = "'s \<Rightarrow> ('e + 'a) \<times> 's"

definition ret :: "'a \<Rightarrow> ('e, 's, 'a) eff" where
  "ret x = (\<lambda>s. (Inr x, s))"

definition throw :: "'e \<Rightarrow> ('e, 's, 'a) eff" where
  "throw e = (\<lambda>s. (Inl e, s))"

definition bind :: "('e, 's, 'a) eff \<Rightarrow> ('a \<Rightarrow> ('e, 's, 'b) eff) \<Rightarrow> ('e, 's, 'b) eff" where
  "bind m k = (\<lambda>s. case m s of (Inl e, t) \<Rightarrow> (Inl e, t) | (Inr x, t) \<Rightarrow> k x t)"

abbreviation andthen :: "('e, 's, unit) eff \<Rightarrow> ('e, 's, 'b) eff \<Rightarrow> ('e, 's, 'b) eff" where
  "andthen m n \<equiv> bind m (\<lambda>_. n)"

text \<open>\<^verbatim>\<open>try: x = m; except e: h(e); else: k(x)\<close>: the handler covers only \<open>m\<close>.\<close>

definition try_else ::
  "('e, 's, 'a) eff \<Rightarrow> ('e \<Rightarrow> ('e, 's, 'b) eff) \<Rightarrow> ('a \<Rightarrow> ('e, 's, 'b) eff) \<Rightarrow> ('e, 's, 'b) eff" where
  "try_else m h k = (\<lambda>s. case m s of (Inl e, t) \<Rightarrow> h e t | (Inr x, t) \<Rightarrow> k x t)"

abbreviation catch :: "('e, 's, 'a) eff \<Rightarrow> ('e \<Rightarrow> ('e, 's, 'a) eff) \<Rightarrow> ('e, 's, 'a) eff" where
  "catch m h \<equiv> try_else m h ret"

definition gets :: "('s \<Rightarrow> 'a) \<Rightarrow> ('e, 's, 'a) eff" where
  "gets f = (\<lambda>s. (Inr (f s), s))"

definition modify :: "('s \<Rightarrow> 's) \<Rightarrow> ('e, 's, unit) eff" where
  "modify f = (\<lambda>s. (Inr (), f s))"

definition lift_res :: "'e + 'a \<Rightarrow> ('e, 's, 'a) eff" where
  "lift_res r = (\<lambda>s. (r, s))"

definition guarded :: "bool \<Rightarrow> ('e, 's, unit) eff \<Rightarrow> ('e, 's, unit) eff" where
  "guarded b m = (if b then m else ret ())"

primrec for_each :: "'a list \<Rightarrow> ('a \<Rightarrow> ('e, 's, unit) eff) \<Rightarrow> ('e, 's, unit) eff" where
  "for_each [] f = ret ()"
| "for_each (x # xs) f = andthen (f x) (for_each xs f)"

text \<open>A pure step that may fail, on a state held by value.\<close>

definition sbind :: "'e + 'a \<Rightarrow> ('a \<Rightarrow> 'e + 'b) \<Rightarrow> 'e + 'b" where
  "sbind r k = (case r of Inl e \<Rightarrow> Inl e | Inr x \<Rightarrow> k x)"

lemma sbind_simps [simp]: "sbind (Inl e) k = Inl e" "sbind (Inr x) k = k x"
  by (simp_all add: sbind_def)

lemma sbind_Inr_iff: "sbind r k = Inr y \<longleftrightarrow> (\<exists>x. r = Inr x \<and> k x = Inr y)"
  by (cases r) auto

section \<open>Weakest preconditions\<close>

definition wp ::
  "('e, 's, 'a) eff \<Rightarrow> ('a \<Rightarrow> 's \<Rightarrow> bool) \<Rightarrow> ('e \<Rightarrow> 's \<Rightarrow> bool) \<Rightarrow> 's \<Rightarrow> bool" where
  "wp m Q E s = (case m s of (Inl e, t) \<Rightarrow> E e t | (Inr x, t) \<Rightarrow> Q x t)"

lemma wp_ret [wp_simp]: "wp (ret x) Q E s = Q x s"
  and wp_throw [wp_simp]: "wp (throw e) Q E s = E e s"
  and wp_gets [wp_simp]: "wp (gets f) Q E s = Q (f s) s"
  by (simp_all add: wp_def ret_def throw_def gets_def)

lemma wp_modify [wp_simp]: "wp (modify f) Q E s = Q () (f s)"
  by (simp add: wp_def modify_def)

lemma wp_bind [wp_simp]: "wp (bind m k) Q E s = wp m (\<lambda>x. wp (k x) Q E) E s"
  by (auto simp: wp_def bind_def split: sum.splits prod.splits)

lemma wp_try_else [wp_simp]: "wp (try_else m h k) Q E s = wp m (\<lambda>x. wp (k x) Q E) (\<lambda>e. wp (h e) Q E) s"
  by (auto simp: wp_def try_else_def split: sum.splits prod.splits)

lemma wp_lift_res [wp_simp]: "wp (lift_res r) Q E s = (case r of Inl e \<Rightarrow> E e s | Inr x \<Rightarrow> Q x s)"
  by (auto simp: wp_def lift_res_def split: sum.splits)

lemma wp_guarded [wp_simp]: "wp (guarded b m) Q E s = (if b then wp m Q E s else Q () s)"
  by (simp add: guarded_def wp_ret)

text \<open>The same rules before a state is supplied, for preconditions inside a continuation.\<close>

lemma wp_ret_fun: "wp (ret x) Q E = Q x"
  by (rule ext) (rule wp_ret)

lemma wp_bind_fun: "wp (bind m k) Q E = wp m (\<lambda>x. wp (k x) Q E) E"
  by (rule ext) (rule wp_bind)

lemma wp_gets_fun: "wp (gets f) Q E = (\<lambda>s. Q (f s) s)"
  by (rule ext) (rule wp_gets)

lemma wp_modify_fun: "wp (modify f) Q E = (\<lambda>s. Q () (f s))"
  by (rule ext) (rule wp_modify)

lemma wp_if [wp_simp]: "wp (if b then m else n) Q E s = (if b then wp m Q E s else wp n Q E s)"
  by simp

lemma wp_mono:
  "wp m Q E s \<Longrightarrow> (\<And>x t. Q x t \<Longrightarrow> Q' x t) \<Longrightarrow> (\<And>e t. E e t \<Longrightarrow> E' e t) \<Longrightarrow> wp m Q' E' s"
  by (auto simp: wp_def split: sum.splits prod.splits)

lemma wp_conj: "wp m Q E s \<Longrightarrow> wp m Q' E' s \<Longrightarrow> wp m (\<lambda>x t. Q x t \<and> Q' x t) (\<lambda>e t. E e t \<and> E' e t) s"
  by (auto simp: wp_def split: sum.splits prod.splits)

lemma wp_result: "wp m Q E s \<Longrightarrow> m s = (Inr x, t) \<Longrightarrow> Q x t"
  by (simp add: wp_def)

lemma wp_error: "wp m Q E s \<Longrightarrow> m s = (Inl e, t) \<Longrightarrow> E e t"
  by (simp add: wp_def)

section \<open>Computations that obey a transition relation\<close>

definition evolves :: "('s \<Rightarrow> 's \<Rightarrow> bool) \<Rightarrow> ('e, 's, 'a) eff \<Rightarrow> bool" where
  "evolves R m \<longleftrightarrow> (\<forall>s. R s (snd (m s)))"

lemma evolvesD: "evolves R m \<Longrightarrow> R s (snd (m s))"
  by (simp add: evolves_def)

lemma evolves_run: "evolves R m \<Longrightarrow> m s = (x, t) \<Longrightarrow> R s t"
  using evolvesD [of R m s] by simp

lemma evolves_wp:
  "evolves R m \<longleftrightarrow> (\<forall>s. wp m (\<lambda>_. R s) (\<lambda>_. R s) s)"
  unfolding evolves_def wp_def
  by (rule iff_allI) (simp split: prod.splits sum.splits)

lemma wp_evolves:
  "evolves R m \<Longrightarrow> (\<And>x t. R s t \<Longrightarrow> Q x t) \<Longrightarrow> (\<And>e t. R s t \<Longrightarrow> E e t) \<Longrightarrow> wp m Q E s"
  using evolvesD [of R m s] by (auto simp: wp_def split: sum.splits prod.splits)

lemma evolves_mono: "evolves R m \<Longrightarrow> (\<And>s t. R s t \<Longrightarrow> R' s t) \<Longrightarrow> evolves R' m"
  by (simp add: evolves_def)

text \<open>
  A reflexive and transitive relation is obeyed by a compound statement as soon as its parts obey
  it. Invariants are the special case \<open>\<lambda>s t. I s \<longrightarrow> I t\<close>.
\<close>

locale evolution =
  fixes R :: "'s \<Rightarrow> 's \<Rightarrow> bool"
  assumes refl: "R s s"
    and trans: "R s t \<Longrightarrow> R t u \<Longrightarrow> R s u"
begin

lemma ev_ret [evolve_intro]: "evolves R (ret x)"
  and ev_throw [evolve_intro]: "evolves R (throw e)"
  and ev_gets [evolve_intro]: "evolves R (gets f)"
  and ev_lift_res [evolve_intro]: "evolves R (lift_res r)"
  by (simp_all add: evolves_def ret_def throw_def gets_def lift_res_def refl)

lemma ev_modify: "(\<And>s. R s (f s)) \<Longrightarrow> evolves R (modify f)"
  by (simp add: evolves_def modify_def)

lemma ev_bind [evolve_intro]:
  assumes "evolves R m" and "\<And>x. evolves R (k x)"
  shows "evolves R (bind m k)"
  unfolding evolves_def bind_def
proof
  fix s
  show "R s (snd (case m s of (Inl e, t) \<Rightarrow> (Inl e, t) | (Inr x, t) \<Rightarrow> k x t))"
    using evolvesD [OF assms(1), of s] evolvesD [OF assms(2)]
    by (auto split: prod.splits sum.splits intro: trans)
qed

lemma ev_try_else [evolve_intro]:
  assumes "evolves R m" and "\<And>e. evolves R (h e)" and "\<And>x. evolves R (k x)"
  shows "evolves R (try_else m h k)"
  unfolding evolves_def try_else_def
proof
  fix s
  show "R s (snd (case m s of (Inl e, t) \<Rightarrow> h e t | (Inr x, t) \<Rightarrow> k x t))"
    using evolvesD [OF assms(1), of s] evolvesD [OF assms(2)] evolvesD [OF assms(3)]
    by (auto split: prod.splits sum.splits intro: trans)
qed

lemma ev_guarded [evolve_intro]: "(b \<Longrightarrow> evolves R m) \<Longrightarrow> evolves R (guarded b m)"
  by (simp add: guarded_def ev_ret)

lemma ev_for_each [evolve_intro]: "(\<And>x. evolves R (f x)) \<Longrightarrow> evolves R (for_each xs f)"
  by (induction xs) (auto intro: ev_ret ev_bind)

end

lemma evolves_if [evolve_intro]:
  "(b \<Longrightarrow> evolves R m) \<Longrightarrow> (\<not> b \<Longrightarrow> evolves R n) \<Longrightarrow> evolves R (if b then m else n)"
  by simp

lemma evolves_case_option [evolve_intro]:
  "(x = None \<Longrightarrow> evolves R m) \<Longrightarrow> (\<And>y. x = Some y \<Longrightarrow> evolves R (f y)) \<Longrightarrow>
   evolves R (case x of None \<Rightarrow> m | Some y \<Rightarrow> f y)"
  by (cases x) auto

lemma evolves_case_prod [evolve_intro]:
  "(\<And>a b. x = (a, b) \<Longrightarrow> evolves R (f a b)) \<Longrightarrow> evolves R (case x of (a, b) \<Rightarrow> f a b)"
  by (cases x) auto

lemma evolves_case_sum [evolve_intro]:
  "(\<And>a. x = Inl a \<Longrightarrow> evolves R (f a)) \<Longrightarrow> (\<And>b. x = Inr b \<Longrightarrow> evolves R (g b)) \<Longrightarrow>
   evolves R (case x of Inl a \<Rightarrow> f a | Inr b \<Rightarrow> g b)"
  by (cases x) auto

lemma evolves_Let [evolve_intro]: "evolves R (f x) \<Longrightarrow> evolves R (Let x f)"
  by simp

end
