(* ===== verification/Errors.thy ===== *)
theory Errors
  imports Pydecimal Effects "HOL-Library.Sublist"
begin

text \<open>
  The exceptions the program raises and catches: those of \<^verbatim>\<open>src/exchanges/base.py\<close>,
  \<^verbatim>\<open>src/risk/validation.py\<close>, \<^verbatim>\<open>src/execution/state_machine.py\<close>,
  \<^verbatim>\<open>src/execution/engine.py\<close>, \<^verbatim>\<open>src/exchanges/binance_usdm.py\<close> and
  \<^verbatim>\<open>src/api/runtime.py\<close>, and the built-in ones. The subclasses the Binance adapter adds are
  raised and caught as the class of \<^verbatim>\<open>base.py\<close> they extend. An exception carries its text; a validation
  message keeps its decimals as numbers, so that the engine's tests for a phrase in the message do
  not depend on how a number is printed.
\<close>

datatype fragment = Txt string | Num decimal

type_synonym message = "fragment list"

text \<open>\<^verbatim>\<open>phrase in str(exc)\<close>, for phrases of letters and blanks, which no printed number contains.\<close>

definition mentions :: "string \<Rightarrow> message \<Rightarrow> bool" where
  "mentions phrase m \<longleftrightarrow>
     list_ex (\<lambda>f. case f of Txt t \<Rightarrow> sublist phrase t | Num _ \<Rightarrow> False) m"

datatype exn =
    ValidationError message
  | InvalidStateTransition string
  | UnknownExecution string
  | ValueError string
  | TypeError string
  | KeyError string
  | ArithmeticError string
  | AssertionError
  | NoFreshMarketData string
  | OrderCreateTimeout string
  | OrderCancelTimeout string
  | OrderRejected string
  | TerminalOrderRejected string
  | ExchangeRateLimited string
  | VenueBanHardStop string
  | StreamHealthFailure string
  | ServerTimeSynchronizationFailure string
  | ActiveExecutionConflict string
  | RuntimeConfigurationError string
  | RuntimeUnavailableError string
  | OtherError string

text \<open>\<^verbatim>\<open>is_exchange_rate_limited\<close>\<close>

fun is_exchange_rate_limited :: "exn \<Rightarrow> bool" where
  "is_exchange_rate_limited (ExchangeRateLimited _) = True"
| "is_exchange_rate_limited _ = False"

section \<open>Printing numbers\<close>

text \<open>The decimal digits of a non-negative number.\<close>

function digits_of :: "int \<Rightarrow> string" where
  "digits_of n =
     (if n < 10 then [char_of (48 + n)] else digits_of (n div 10) @ [char_of (48 + n mod 10)])"
  by pat_completeness auto
termination
  by (relation "measure nat") auto

declare digits_of.simps [simp del]

text \<open>\<^verbatim>\<open>str(n)\<close> of an integer.\<close>

definition int_digits :: "int \<Rightarrow> string" where
  "int_digits n = (if n < 0 then ''-'' @ digits_of (- n) else digits_of n)"

text \<open>Digits padded with zeros on the left to a given width.\<close>

definition padded :: "nat \<Rightarrow> int \<Rightarrow> string" where
  "padded w n = (let ds = digits_of n in replicate (w - length ds) (CHR ''0'') @ ds)"

text \<open>
  The number of decimal places of a fraction with denominator \<open>d\<close>, and its plain notation. The
  fuel \<open>idigits 2 d\<close> is enough: a denominator \<open>2\<^sup>a 5\<^sup>b\<close> needs \<open>max a b\<close> places.
\<close>

fun places :: "nat \<Rightarrow> int \<Rightarrow> nat" where
  "places 0 d = 0"
| "places (Suc fuel) d = (if d = 1 then 0 else Suc (places fuel (d div gcd d 10)))"

definition plain_string :: "decimal \<Rightarrow> string" where
  "plain_string x =
     (let nd = quotient_of \<bar>x\<bar>;
          k = places (idigits 2 (snd nd)) (snd nd);
          m = fst nd * 10 ^ k div snd nd
      in (if x < 0 then ''-'' else '''') @ digits_of (m div 10 ^ k)
         @ (if k = 0 then '''' else ''.'' @ padded k (m mod 10 ^ k)))"

section \<open>The text of an exception\<close>

fun fragment_str :: "fragment \<Rightarrow> string" where
  "fragment_str (Txt t) = t"
| "fragment_str (Num d) = plain_string d"

definition quoted :: "string \<Rightarrow> string" where
  "quoted t = CHR 0x27 # t @ [CHR 0x27]"

fun exn_str :: "exn \<Rightarrow> string" where
  "exn_str (ValidationError m) = concat (map fragment_str m)"
| "exn_str (InvalidStateTransition t) = t"
| "exn_str (UnknownExecution i) = ''unknown execution: '' @ i"
| "exn_str (ValueError t) = t"
| "exn_str (TypeError t) = t"
| "exn_str (KeyError t) = quoted t"
| "exn_str (ArithmeticError t) = t"
| "exn_str AssertionError = ''''"
| "exn_str (NoFreshMarketData t) = t"
| "exn_str (OrderCreateTimeout t) = t"
| "exn_str (OrderCancelTimeout t) = t"
| "exn_str (OrderRejected t) = t"
| "exn_str (TerminalOrderRejected t) = t"
| "exn_str (ExchangeRateLimited t) = t"
| "exn_str (VenueBanHardStop t) = t"
| "exn_str (StreamHealthFailure t) = t"
| "exn_str (ServerTimeSynchronizationFailure t) = t"
| "exn_str (ActiveExecutionConflict t) = t"
| "exn_str (RuntimeConfigurationError t) = t"
| "exn_str (RuntimeUnavailableError t) = t"
| "exn_str (OtherError t) = t"

lemma mentions_simps [simp]:
  "\<not> mentions p []"
  "mentions p (Txt t # m) \<longleftrightarrow> sublist p t \<or> mentions p m"
  "mentions p (Num d # m) \<longleftrightarrow> mentions p m"
  by (simp_all add: mentions_def)

end
