(* ===== verification/Adapter.thy ===== *)
theory Adapter
  imports Models Errors
begin

text \<open>
  The engine's view of an exchange (\<^verbatim>\<open>src/exchanges/base.py\<close>) and of a clock
  (\<^verbatim>\<open>src/execution/clock.py\<close>): a record of operations on a world state \<open>'w\<close>. Between two calls of
  one execution the exchange, the other executions and the time may do anything; since \<open>'w\<close> and the
  operations are arbitrary, what is proved for every adapter holds under any such interference.
\<close>

record 'w adapter =
  get_symbol_rules :: "string \<Rightarrow> 'w \<Rightarrow> (exn + symbol_rules) \<times> 'w"
  get_position :: "string \<Rightarrow> 'w \<Rightarrow> (exn + position_snapshot) \<times> 'w"
  get_best_bid_ask :: "string \<Rightarrow> 'w \<Rightarrow> (exn + market_snapshot) \<times> 'w"
  submit_limit_order :: "order_request \<Rightarrow> 'w \<Rightarrow> (exn + child_order) \<times> 'w"
  cancel_order :: "string \<Rightarrow> string \<Rightarrow> 'w \<Rightarrow> (exn + child_order) \<times> 'w"
  get_order_by_client_order_id :: "string \<Rightarrow> string \<Rightarrow> 'w \<Rightarrow> (exn + child_order option) \<times> 'w"
  reconcile_orders_and_fills ::
    "string \<Rightarrow> string option \<Rightarrow> int option \<Rightarrow> int option \<Rightarrow> 'w
     \<Rightarrow> (exn + reconciliation_result) \<times> 'w"
  health_check_streams :: "'w \<Rightarrow> (exn + bool) \<times> 'w"
  clock_monotonic :: "'w \<Rightarrow> pyfloat \<times> 'w"

section \<open>The manual clock\<close>

definition manual_clock_advance :: "pyfloat \<Rightarrow> pyfloat \<Rightarrow> exn + pyfloat" where
  "manual_clock_advance current seconds =
     (if seconds < 0 then Inl (ValueError ''manual clock cannot advance by negative seconds'')
      else Inr (fadd current seconds))"

text \<open>Time never goes back, for a reading that is a float.\<close>

lemma manual_clock_forward:
  "manual_clock_advance c s = Inr c' \<Longrightarrow> fl c = c \<Longrightarrow> c \<le> c'"
  using fadd_mono [of c c 0 s] by (auto simp: manual_clock_advance_def fadd_def split: if_splits)

end
