(* ===== verification/State_Machine.thy ===== *)
theory State_Machine
  imports Models Errors
begin

text \<open>
  \<^verbatim>\<open>src/execution/state_machine.py\<close>: the transition tables of parent executions and child orders
  and the two guarded transition functions. The tables are step relations whose paths the engine's
  and the simulator's operations follow; \<open>lifecycle\<close> states what makes a table a lifecycle.
\<close>

section \<open>The tables\<close>

fun execution_transitions :: "execution_status \<Rightarrow> execution_status set" where
  "execution_transitions CREATED = {VALIDATING, FAILED}"
| "execution_transitions VALIDATING = {RUNNING, COMPLETED, FAILED}"
| "execution_transitions RUNNING =
     {CANCELLING, COMPLETED, PARTIALLY_COMPLETED, EXPIRED, FAILED}"
| "execution_transitions CANCELLING = {COMPLETED, CANCELLED, PARTIALLY_COMPLETED, FAILED}"
| "execution_transitions COMPLETED = {}"
| "execution_transitions PARTIALLY_COMPLETED = {}"
| "execution_transitions EXPIRED = {}"
| "execution_transitions CANCELLED = {}"
| "execution_transitions FAILED = {}"

fun child_transitions :: "child_order_status \<Rightarrow> child_order_status set" where
  "child_transitions PENDING_SUBMIT = {OPEN, REJECTED, UNKNOWN}"
| "child_transitions OPEN = {PARTIALLY_FILLED, FILLED, PENDING_CANCEL}"
| "child_transitions PARTIALLY_FILLED = {FILLED, PENDING_CANCEL}"
| "child_transitions PENDING_CANCEL = {OPEN, PARTIALLY_FILLED, CHILD_CANCELLED, FILLED}"
| "child_transitions CHILD_CANCELLED = {}"
| "child_transitions FILLED = {}"
| "child_transitions REJECTED = {}"
| "child_transitions UNKNOWN = {OPEN, PARTIALLY_FILLED, FILLED, CHILD_CANCELLED, REJECTED}"

definition transition_execution :: "execution_status \<Rightarrow> execution_status \<Rightarrow> exn + execution_status"
  where
  "transition_execution current target =
     (if target \<notin> execution_transitions current
      then Inl (InvalidStateTransition
        (''execution transition '' @ execution_status_value current @ '' -> ''
         @ execution_status_value target @ '' is not allowed''))
      else Inr target)"

definition transition_child :: "child_order_status \<Rightarrow> child_order_status \<Rightarrow> exn + child_order_status"
  where
  "transition_child current target =
     (if target \<notin> child_transitions current
      then Inl (InvalidStateTransition
        (''child order transition '' @ child_status_value current @ '' -> ''
         @ child_status_value target @ '' is not allowed''))
      else Inr target)"

section \<open>Step relations\<close>

inductive execution_step :: "execution_status \<Rightarrow> execution_status \<Rightarrow> bool" where
  allowed: "t \<in> execution_transitions s \<Longrightarrow> execution_step s t"

inductive child_step :: "child_order_status \<Rightarrow> child_order_status \<Rightarrow> bool" where
  allowed: "t \<in> child_transitions s \<Longrightarrow> child_step s t"

inductive_simps execution_step_simps: "execution_step s t"
inductive_simps child_step_simps: "child_step s t"

inductive_cases execution_step_runningE: "execution_step RUNNING t"
inductive_cases child_step_unknownE: "child_step UNKNOWN t"

abbreviation execution_path :: "execution_status \<Rightarrow> execution_status \<Rightarrow> bool" where
  "execution_path \<equiv> execution_step\<^sup>*\<^sup>*"

abbreviation child_path :: "child_order_status \<Rightarrow> child_order_status \<Rightarrow> bool" where
  "child_path \<equiv> child_step\<^sup>*\<^sup>*"

lemma transition_execution_Inr [simp]:
  "transition_execution s t = Inr u \<longleftrightarrow> u = t \<and> execution_step s t"
  by (auto simp: transition_execution_def execution_step_simps)

lemma transition_child_Inr [simp]:
  "transition_child s t = Inr u \<longleftrightarrow> u = t \<and> child_step s t"
  by (auto simp: transition_child_def child_step_simps)

lemma transition_execution_Inl:
  "transition_execution s t = Inl e \<Longrightarrow> \<not> execution_step s t \<and> (\<exists>m. e = InvalidStateTransition m)"
  by (auto simp: transition_execution_def execution_step_simps split: if_splits)

lemma transition_child_Inl:
  "transition_child s t = Inl e \<Longrightarrow> \<not> child_step s t \<and> (\<exists>m. e = InvalidStateTransition m)"
  by (auto simp: transition_child_def child_step_simps split: if_splits)

section \<open>Lifecycles\<close>

text \<open>
  A lifecycle has terminal states, which are exactly those with no way on. A bounded lifecycle also
  has a rank that every step lowers, so it cannot run forever.
\<close>

locale lifecycle =
  fixes step :: "'s \<Rightarrow> 's \<Rightarrow> bool" and terminal :: "'s \<Rightarrow> bool"
  assumes terminal_iff: "terminal s \<longleftrightarrow> (\<forall>t. \<not> step s t)"
begin

lemma terminal_stays: "terminal s \<Longrightarrow> step\<^sup>*\<^sup>* s t \<Longrightarrow> t = s"
  by (metis converse_rtranclpE terminal_iff)

lemma progress: "\<not> terminal s \<Longrightarrow> \<exists>t. step s t"
  by (simp add: terminal_iff)

end

locale bounded_lifecycle = lifecycle +
  fixes rank :: "'s \<Rightarrow> nat"
  assumes rank_step: "step s t \<Longrightarrow> rank t < rank s"
begin

lemma rank_path: "step\<^sup>*\<^sup>* s t \<Longrightarrow> s = t \<or> rank t < rank s"
  by (induction rule: rtranclp_induct) (auto dest: rank_step)

lemma no_return: "step\<^sup>*\<^sup>* s t \<Longrightarrow> step\<^sup>*\<^sup>* t s \<Longrightarrow> s = t"
  using rank_path [of s t] rank_path [of t s] by auto

lemma path_length: "(step ^^ n) s t \<Longrightarrow> n \<le> rank s"
proof (induction n arbitrary: t)
  case (Suc n)
  then obtain u where "(step ^^ n) s u" "step u t" by auto
  moreover have "n + rank u \<le> rank s" if "(step ^^ n) s u" for n u
    using that
  proof (induction n arbitrary: u)
    case (Suc n)
    then obtain v where "(step ^^ n) s v" "step v u" by auto
    then show ?case using Suc.IH [of v] rank_step [of v u] by simp
  qed simp
  ultimately show ?case using rank_step [of u t] by fastforce
qed simp

end

fun execution_rank :: "execution_status \<Rightarrow> nat" where
  "execution_rank CREATED = 4"
| "execution_rank VALIDATING = 3"
| "execution_rank RUNNING = 2"
| "execution_rank CANCELLING = 1"
| "execution_rank _ = 0"

interpretation execution_life:
  bounded_lifecycle execution_step execution_status_is_terminal execution_rank
proof unfold_locales
  show "execution_status_is_terminal s \<longleftrightarrow> (\<forall>t. \<not> execution_step s t)" for s
    by (cases s) (auto simp: execution_step_simps)
  show "execution_step s t \<Longrightarrow> execution_rank t < execution_rank s" for s t
    by (cases s) (auto simp: execution_step_simps)
qed

interpretation child_life: lifecycle child_step child_status_is_terminal
proof unfold_locales
  show "child_status_is_terminal s \<longleftrightarrow> (\<forall>t. \<not> child_step s t)" for s
    by (cases s) (auto simp: child_step_simps)
qed

lemmas lifecycle_facts = execution_life.terminal_stays child_life.terminal_stays

text \<open>Once unknown, an order is resolved by leaving that state for good.\<close>

lemma pending_submit_initial: "child_path s PENDING_SUBMIT \<Longrightarrow> s = PENDING_SUBMIT"
proof (erule rtranclp.cases)
  fix a b c
  assume "PENDING_SUBMIT = c" "child_step b c"
  then show ?thesis by (cases b) (auto simp: child_step_simps)
qed simp

lemma unknown_not_reentered: "child_path s UNKNOWN \<Longrightarrow> s = UNKNOWN \<or> s = PENDING_SUBMIT"
proof (erule rtranclp.cases)
  fix a b c
  assume "s = a" "UNKNOWN = c" "child_path a b" "child_step b c"
  then have "b = PENDING_SUBMIT" by (cases b) (auto simp: child_step_simps)
  with \<open>child_path a b\<close> \<open>s = a\<close> show ?thesis using pending_submit_initial by blast
qed simp

section \<open>Properties\<close>

text \<open>C31. An execution takes at most four status changes, none from a terminal status, and after a
  change it never returns to an earlier status.\<close>

theorem execution_lifecycle_bounded:
  assumes "(execution_step ^^ n) s t"
  shows "n \<le> 4 \<and> (execution_status_is_terminal s \<longrightarrow> n = 0) \<and> (0 < n \<longrightarrow> \<not> execution_path t s)"
proof -
  have n: "n \<le> execution_rank s" using assms by (rule execution_life.path_length)
  have path: "execution_path s t" using assms by (rule relpowp_imp_rtranclp)
  have "\<not> execution_path t s" if "0 < n"
  proof
    assume "execution_path t s"
    then have "t = s" using execution_life.no_return [OF path] by simp
    moreover have "0 < n \<Longrightarrow> s = t \<Longrightarrow> False"
    proof -
      assume "0 < n" "s = t"
      then obtain k where "(execution_step ^^ Suc k) s s" using assms by (cases n) auto
      then obtain u where u: "execution_step s u" "(execution_step ^^ k) u s" by (blast elim: relpowp_Suc_E2)
      then show False
        using execution_life.rank_path [of u s] execution_life.rank_step [of s u]
        by (auto dest: relpowp_imp_rtranclp)
    qed
    ultimately show False using that by simp
  qed
  moreover have "execution_rank s \<le> 4" by (cases s) simp_all
  moreover have "execution_status_is_terminal s \<longrightarrow> execution_rank s = 0" by (cases s) simp_all
  ultimately show ?thesis using n by auto
qed

theorem execution_lifecycle_bounded_witness:
  "(execution_step ^^ 3) CREATED COMPLETED \<and> \<not> execution_path COMPLETED CREATED"
proof -
  have "(execution_step ^^ 3) CREATED COMPLETED"
    unfolding numeral_3_eq_3 relpowp.simps(2)
    by (rule relcomppI [of _ _ RUNNING], rule relcomppI [of _ _ VALIDATING])
      (auto simp: execution_step_simps intro: relcomppI)
  then show ?thesis using execution_lifecycle_bounded [of 3 CREATED COMPLETED] by simp
qed

text \<open>Along any sequence of allowed steps an order that is closed stays as it is, no order returns
  to the submission, and an order is unknown only from its submission on.\<close>

theorem child_lifecycle:
  assumes "child_path s t"
  shows "(child_status_is_terminal s \<longrightarrow> t = s) \<and> (t = PENDING_SUBMIT \<longrightarrow> s = PENDING_SUBMIT)
    \<and> (t = UNKNOWN \<longrightarrow> s \<in> {UNKNOWN, PENDING_SUBMIT})"
  using assms child_life.terminal_stays [of s t] pending_submit_initial [of s]
    unknown_not_reentered [of s]
  by (auto simp del: child_status_is_terminal.simps)

theorem child_lifecycle_witness: "\<not> child_path CHILD_CANCELLED OPEN \<and> \<not> child_path OPEN UNKNOWN"
  using child_lifecycle [of CHILD_CANCELLED OPEN] child_lifecycle [of OPEN UNKNOWN] by auto

end
