(* ===== verification/Decimal_Math.thy ===== *)
theory Decimal_Math
  imports Models Errors
begin

text \<open>
  \<^verbatim>\<open>src/risk/decimal_math.py\<close>: rounding to the exchange's steps and ticks, and the two ratios of
  the execution summary.
\<close>

section \<open>The functions\<close>

definition ddiv_checked :: "decimal \<Rightarrow> decimal \<Rightarrow> exn + decimal" where
  "ddiv_checked x y = (if y = 0 then Inl (ArithmeticError ''division by zero'') else Inr (ddiv x y))"

definition floor_to_step :: "decimal \<Rightarrow> decimal \<Rightarrow> exn + decimal" where
  "floor_to_step v step =
     (if v < 0 then Inl (ValueError ''value must be non-negative'')
      else sbind (ddiv_checked v step) (\<lambda>q. Inr (dmul (of_int \<lfloor>q\<rfloor>) step)))"

definition ceil_to_step :: "decimal \<Rightarrow> decimal \<Rightarrow> exn + decimal" where
  "ceil_to_step v step =
     (if v < 0 then Inl (ValueError ''value must be non-negative'')
      else sbind (ddiv_checked v step) (\<lambda>q. Inr (dmul (of_int \<lceil>q\<rceil>) step)))"

definition round_price :: "decimal \<Rightarrow> decimal \<Rightarrow> side \<Rightarrow> bool \<Rightarrow> exn + decimal" where
  "round_price price tick sd passive =
     sbind (ddiv_checked price tick) (\<lambda>units.
       let rounded = (if passive then (if sd = BUY then \<lfloor>units\<rfloor> else \<lceil>units\<rceil>)
                      else (if sd = BUY then \<lceil>units\<rceil> else \<lfloor>units\<rfloor>))
       in Inr (dmul (of_int rounded) tick))"

definition completion_rate :: "decimal \<Rightarrow> decimal \<Rightarrow> decimal" where
  "completion_rate filled required =
     (if required = 0 then 1 else ddiv (dabs filled) (dabs required))"

definition slippage_bps :: "side \<Rightarrow> decimal \<Rightarrow> decimal \<Rightarrow> decimal" where
  "slippage_bps sd arrival_mid vwap =
     (if arrival_mid = 0 then 0
      else if sd = BUY then dmul (ddiv (dsub vwap arrival_mid) arrival_mid) 10000
      else if sd = SELL then dmul (ddiv (dsub arrival_mid vwap) arrival_mid) 10000
      else 0)"

section \<open>Steps that are powers of ten\<close>

text \<open>
  Exchange steps and ticks are powers of ten. Dividing by one shifts the decimal point, so neither
  the quotient nor the multiple is rounded by the 28-digit context.
\<close>

definition power_of_ten :: "decimal \<Rightarrow> bool" where
  "power_of_ten s \<longleftrightarrow> (\<exists>j. s = 10 powi j)"

lemma power_of_tenI: "s = 10 powi j \<Longrightarrow> power_of_ten s"
  by (auto simp: power_of_ten_def)

lemma power_of_ten_pos: "power_of_ten s \<Longrightarrow> 0 < s"
  by (auto simp: power_of_ten_def)

lemma dec_ok_iff: "dec_ok x \<longleftrightarrow> representable 10 28 x"
  using round_sig_representable [of 10 28 x] round_sig_exact [of 10 28 x]
  by (auto simp: dec_ok_def dround_def)

lemma shift_ok:
  assumes "dec_ok v" "power_of_ten s"
  shows "dec_ok (v / s)"
proof -
  obtain n k where v: "v = of_int n * of_int 10 powi k" "\<bar>n\<bar> < 10 ^ 28"
    using assms(1) by (auto simp: dec_ok_iff representable_def)
  obtain j where s: "s = 10 powi j" using assms(2) by (auto simp: power_of_ten_def)
  have "v / s = of_int n * of_int 10 powi (k - j)" by (simp add: v s power_int_diff)
  with v(2) show ?thesis unfolding dec_ok_iff representable_def by blast
qed

lemma multiple_ok:
  assumes "dec_ok v" "power_of_ten s" and m: "m = \<lfloor>v / s\<rfloor> \<or> m = \<lceil>v / s\<rceil>"
  shows "dec_ok (of_int m * s)"
proof -
  obtain n k where q: "v / s = of_int n * of_int 10 powi k" "\<bar>n\<bar> < 10 ^ 28"
    using shift_ok [OF assms(1,2)] by (auto simp: dec_ok_iff representable_def)
  show ?thesis
  proof (cases "0 \<le> k")
    case True
    then have "v / s = of_int (n * 10 ^ nat k)" using q by (simp add: power_int_def)
    then have "of_int m = v / s" using m by (metis ceiling_of_int floor_of_int)
    then show ?thesis using assms(1,2) power_of_ten_pos by fastforce
  next
    case False
    then have p: "0 \<le> (10 :: rat) powi k" "(10 :: rat) powi k \<le> 1"
      using power_int_increasing [of k 0 "10 :: rat"] by simp_all
    have "\<bar>v / s\<bar> = of_int \<bar>n\<bar> * 10 powi k" unfolding q(1) abs_mult using p(1) by simp
    also have "\<dots> \<le> of_int \<bar>n\<bar>" by (rule mult_left_le [OF p(2)]) simp
    finally have "\<bar>v / s\<bar> \<le> of_int \<bar>n\<bar>" .
    then have "of_int (- \<bar>n\<bar>) \<le> v / s" "v / s \<le> of_int \<bar>n\<bar>"
      unfolding of_int_minus by linarith+
    then have "- \<bar>n\<bar> \<le> \<lfloor>v / s\<rfloor>" "\<lceil>v / s\<rceil> \<le> \<bar>n\<bar>" by (simp_all only: le_floor_iff ceiling_le_iff)
    moreover have "\<lfloor>v / s\<rfloor> \<le> \<lceil>v / s\<rceil>" by (rule floor_le_ceiling)
    ultimately have "\<bar>m\<bar> \<le> \<bar>n\<bar>" using m by linarith
    with q have m: "\<bar>m\<bar> < 10 ^ 28" by linarith
    obtain j where s: "s = 10 powi j" using assms(2) by (auto simp: power_of_ten_def)
    with m show ?thesis unfolding dec_ok_iff representable_def by (metis of_int_numeral)
  qed
qed

lemma floor_step_exact:
  assumes "dec_ok v" "power_of_ten s" "0 \<le> v"
  shows "floor_to_step v s = Inr (of_int \<lfloor>v / s\<rfloor> * s)"
  using assms shift_ok [of v s] multiple_ok [of v s "\<lfloor>v / s\<rfloor>"] power_of_ten_pos [of s]
  by (auto simp: floor_to_step_def ddiv_checked_def ddiv_def dmul_def dec_ok_def)

lemma round_price_exact:
  assumes "dec_ok p" "power_of_ten s"
  shows "round_price p s sd passive =
    Inr ((if passive \<longleftrightarrow> sd = BUY then of_int \<lfloor>p / s\<rfloor> else of_int \<lceil>p / s\<rceil>) * s)"
  using assms shift_ok [of p s] multiple_ok [of p s "\<lfloor>p / s\<rfloor>"] multiple_ok [of p s "\<lceil>p / s\<rceil>"]
    power_of_ten_pos [of s]
  by (auto simp: round_price_def ddiv_checked_def ddiv_def dmul_def dec_ok_def Let_def)

lemma floor_multiple_bounds:
  assumes "0 < (s :: rat)"
  shows "of_int \<lfloor>v / s\<rfloor> * s \<le> v" "v < of_int \<lfloor>v / s\<rfloor> * s + s"
  using assms floor_divide_lower [of s v] floor_divide_upper [of s v]
  by (simp_all add: distrib_right)

lemma ceiling_multiple_bounds:
  assumes "0 < (s :: rat)"
  shows "v \<le> of_int \<lceil>v / s\<rceil> * s" "of_int \<lceil>v / s\<rceil> * s < v + s"
  using assms ceiling_divide_lower [of s v] ceiling_divide_upper [of s v]
  by (simp_all add: left_diff_distrib)

section \<open>Facts used by the engine\<close>

lemma floor_to_step_ok: "floor_to_step v s = Inr r \<Longrightarrow> dec_ok r"
  by (auto simp: floor_to_step_def sbind_Inr_iff split: if_splits)

lemma floor_to_step_nonneg: "floor_to_step v s = Inr r \<Longrightarrow> 0 < s \<Longrightarrow> 0 \<le> r"
  by (auto simp: floor_to_step_def ddiv_checked_def ddiv_def split: if_splits intro!: dmul_nonneg)

section \<open>Properties\<close>

text \<open>Flooring a quantity of at most 28 digits to a power-of-ten step gives the largest multiple
  of the step that does not exceed it; no digit is lost on the way.\<close>

theorem floor_to_step_exact:
  assumes "dec_ok v" "power_of_ten s" "0 \<le> v"
  shows "\<exists>k. floor_to_step v s = Inr (of_int k * s) \<and> of_int k * s \<le> v \<and> v < of_int k * s + s"
  using floor_step_exact [OF assms] floor_multiple_bounds [of s v] power_of_ten_pos [OF assms(2)] by blast

lemma exact_two_places: "dec_ok (of_int n / 100)" if "\<bar>n\<bar> < 10 ^ 28"
  unfolding dec_ok_def using that by (intro dround_exactI [of _ 2 n]) simp_all

theorem floor_to_step_exact_witness:
  "\<exists>k. floor_to_step (12345 / 100) (1/10) = Inr (of_int k * (1/10)) \<and> of_int k * (1/10) \<le> (12345 / 100 :: rat)"
  using floor_to_step_exact [of "12345 / 100" "1/10"] exact_two_places [of 12345]
    power_of_tenI [of "1/10" "- 1"]
  by auto

text \<open>A passive price rounds towards the own side and an aggressive one across, to the nearest tick
  that way: buys round down and sells up when passive, the reverse when aggressive.\<close>

theorem round_price_direction:
  assumes "dec_ok p" "power_of_ten s"
  shows "\<exists>k. round_price p s sd passive = Inr (of_int k * s)
    \<and> (if passive \<longleftrightarrow> sd = BUY then of_int k * s \<le> p \<and> p < of_int k * s + s
       else p \<le> of_int k * s \<and> of_int k * s < p + s)"
  using round_price_exact [OF assms] floor_multiple_bounds [of s p] ceiling_multiple_bounds [of s p]
    power_of_ten_pos [OF assms(2)]
  by (cases "passive \<longleftrightarrow> sd = BUY") auto

theorem round_price_direction_witness:
  "\<exists>k. round_price (12345 / 100) (1/10) SELL True = Inr (of_int k * (1/10))
    \<and> (12345 / 100 :: rat) \<le> of_int k * (1/10)"
  using round_price_direction [of "12345 / 100" "1/10" SELL True] exact_two_places [of 12345]
    power_of_tenI [of "1/10" "- 1"]
  by auto

end
