(* ===== verification/Validation.thy ===== *)
theory Validation
  imports Decimal_Math
begin

text \<open>
  \<^verbatim>\<open>src/risk/validation.py\<close>: the checks an order passes before it is submitted, and the exposure
  invariant. Each check returns \<open>Inr ()\<close> or the \<^verbatim>\<open>ValidationError\<close> it raises, in the order of
  the code.
\<close>

section \<open>The checks\<close>

definition validate_quantity :: "decimal \<Rightarrow> decimal \<Rightarrow> symbol_rules \<Rightarrow> exn + unit" where
  "validate_quantity quantity price rules =
     (if quantity < min_quantity rules
      then Inl (ValidationError
        [Txt ''quantity '', Num quantity, Txt '' below min quantity '', Num (min_quantity rules)])
      else
        let notional = dmul quantity price
        in if notional < min_notional rules
           then Inl (ValidationError
             [Txt ''notional '', Num notional, Txt '' below min notional '', Num (min_notional rules)])
           else Inr ())"

definition validate_price_bounds :: "side \<Rightarrow> decimal \<Rightarrow> decimal \<Rightarrow> decimal \<Rightarrow> exn + unit" where
  "validate_price_bounds sd price lower upper =
     (if lower > upper
      then Inl (ValidationError [Txt ''lower price bound cannot exceed upper price bound''])
      else if sd = BUY \<and> price > upper
      then Inl (ValidationError
        [Txt ''buy price '', Num price, Txt '' exceeds upper bound '', Num upper])
      else if sd = SELL \<and> price < lower
      then Inl (ValidationError
        [Txt ''sell price '', Num price, Txt '' below lower bound '', Num lower])
      else Inr ())"

text \<open>The remainder raises when its integer quotient has more than 28 digits.\<close>

definition dmod_checked :: "decimal \<Rightarrow> decimal \<Rightarrow> exn + decimal" where
  "dmod_checked v step =
     (if step = 0 then Inl (ArithmeticError ''division by zero'')
      else if \<bar>dtrunc (v / step)\<bar> \<ge> 10 ^ 28 then Inl (ArithmeticError ''division impossible'')
      else Inr (dmod v step))"

definition is_multiple :: "decimal \<Rightarrow> decimal \<Rightarrow> exn + bool" where
  "is_multiple v step =
     (if step \<le> 0 then Inl (ValidationError [Txt ''step must be positive: '', Num step])
      else sbind (dmod_checked v step) (\<lambda>r. Inr (r = 0)))"

definition validate_order_shape ::
  "decimal \<Rightarrow> decimal \<Rightarrow> side \<Rightarrow> symbol_rules \<Rightarrow> decimal \<Rightarrow> decimal \<Rightarrow> bool \<Rightarrow> exn + unit" where
  "validate_order_shape quantity price sd rules best_bid best_ask post_only =
     (if rules_status rules \<noteq> ''TRADING''
      then Inl (ValidationError
        [Txt (''symbol '' @ rules_symbol rules @ '' is not trading: status='' @ rules_status rules)])
      else if quantity_step rules \<le> 0
      then Inl (ValidationError
        [Txt ''quantity step must be positive: '', Num (quantity_step rules)])
      else if tick_size rules \<le> 0
      then Inl (ValidationError [Txt ''tick size must be positive: '', Num (tick_size rules)])
      else if post_only \<and> ''GTX'' \<notin> supported_time_in_force rules
      then Inl (ValidationError
        [Txt (''post-only time in force unsupported for '' @ rules_symbol rules)])
      else sbind (is_multiple quantity (quantity_step rules)) (\<lambda>quantity_ok.
        if \<not> quantity_ok
        then Inl (ValidationError
          [Txt ''quantity step violation: '', Num quantity, Txt '' not multiple of '',
           Num (quantity_step rules)])
        else sbind (is_multiple price (tick_size rules)) (\<lambda>price_ok.
          if \<not> price_ok
          then Inl (ValidationError
            [Txt ''tick size violation: '', Num price, Txt '' not multiple of '',
             Num (tick_size rules)])
          else if post_only \<and> sd = BUY \<and> price \<ge> best_ask
          then Inl (ValidationError
            [Txt ''post-only buy would cross ask: price='', Num price, Txt '' ask='', Num best_ask])
          else if post_only \<and> sd = SELL \<and> price \<le> best_bid
          then Inl (ValidationError
            [Txt ''post-only sell would cross bid: price='', Num price, Txt '' bid='', Num best_bid])
          else validate_quantity quantity price rules)))"

definition validate_child_order_safety ::
  "decimal \<Rightarrow> decimal \<Rightarrow> side \<Rightarrow> symbol_rules \<Rightarrow> decimal \<Rightarrow> decimal \<Rightarrow> bool \<Rightarrow> decimal \<Rightarrow> decimal
   \<Rightarrow> exn + unit" where
  "validate_child_order_safety quantity price sd rules best_bid best_ask post_only lower upper =
     sbind (validate_price_bounds sd price lower upper) (\<lambda>_.
       validate_order_shape quantity price sd rules best_bid best_ask post_only)"

definition check_exposure_invariant ::
  "exposure \<Rightarrow> decimal \<Rightarrow> decimal \<Rightarrow> decimal \<Rightarrow> exn + unit" where
  "check_exposure_invariant e new_child_quantity target tolerance =
     (if tolerance < 0
      then Inl (ValidationError [Txt ''permitted tolerance cannot be negative: '', Num tolerance])
      else
        let total = dadd (dadd (confirmed_filled_quantity e) (reserved_exposure e)) new_child_quantity;
            permitted_limit = dadd target tolerance
        in if total > permitted_limit
           then Inl (ValidationError
             [Txt ''confirmed fills plus reserved exposure plus new child quantity '', Num total,
              Txt '' exceeds target '', Num target, Txt '' plus permitted tolerance '',
              Num tolerance])
           else Inr ())"

section \<open>What a passed check means\<close>

lemma dmod_eq_0_iff:
  assumes "s \<noteq> 0"
  shows "dmod v s = 0 \<longleftrightarrow> (\<exists>k :: int. v = of_int k * s)"
proof
  assume "dmod v s = 0"
  then have "v = of_int (dtrunc (v / s)) * s" by (simp add: dmod_def mult.commute)
  then show "\<exists>k :: int. v = of_int k * s" by blast
next
  assume "\<exists>k :: int. v = of_int k * s"
  then obtain k where k: "v = of_int k * s" by blast
  then have "v / s = of_int k" using assms by simp
  then have "dtrunc (v / s) = k" by (simp add: dtrunc_def)
  then show "dmod v s = 0" by (simp add: dmod_def k mult.commute)
qed

lemma is_multiple_True:
  "is_multiple v s = Inr True \<Longrightarrow> 0 < s \<and> (\<exists>k :: int. v = of_int k * s)"
  by (auto simp: is_multiple_def dmod_checked_def sbind_Inr_iff dmod_eq_0_iff split: if_splits)

lemma validate_price_bounds_ok [simp]:
  "validate_price_bounds sd price lower upper = Inr () \<longleftrightarrow>
     lower \<le> upper \<and> (sd = BUY \<longrightarrow> price \<le> upper) \<and> (sd = SELL \<longrightarrow> lower \<le> price)"
  by (auto simp: validate_price_bounds_def)

lemma validate_quantity_ok [simp]:
  "validate_quantity q p rules = Inr () \<longleftrightarrow> min_quantity rules \<le> q \<and> min_notional rules \<le> dmul q p"
  by (auto simp: validate_quantity_def Let_def)

lemma validate_order_shape_ok:
  "validate_order_shape q p sd rules bb ba po = Inr () \<longleftrightarrow>
     rules_status rules = ''TRADING''
     \<and> is_multiple q (quantity_step rules) = Inr True \<and> is_multiple p (tick_size rules) = Inr True
     \<and> (po \<longrightarrow> ''GTX'' \<in> supported_time_in_force rules)
     \<and> (po \<and> sd = BUY \<longrightarrow> p < ba) \<and> (po \<and> sd = SELL \<longrightarrow> bb < p)
     \<and> min_quantity rules \<le> q \<and> min_notional rules \<le> dmul q p"
proof -
  have pos: "\<not> s \<le> 0" if "is_multiple v s = Inr True" for v s using is_multiple_True [OF that] by simp
  show ?thesis
  proof (cases "is_multiple q (quantity_step rules) = Inr True \<and> is_multiple p (tick_size rules) = Inr True")
    case True
    then show ?thesis
      using pos [of q "quantity_step rules"] pos [of p "tick_size rules"]
      by (simp add: validate_order_shape_def linorder_not_le)
  next
    case False
    have "validate_order_shape q p sd rules bb ba po \<noteq> Inr ()"
    proof
      assume "validate_order_shape q p sd rules bb ba po = Inr ()"
      then have "is_multiple q (quantity_step rules) = Inr True"
        "is_multiple p (tick_size rules) = Inr True"
        unfolding validate_order_shape_def
        by (simp_all add: sbind_Inr_iff split: if_split_asm)
      with False show False by simp
    qed
    with False show ?thesis by blast
  qed
qed

lemma check_exposure_ok [simp]:
  "check_exposure_invariant e q target tol = Inr () \<longleftrightarrow>
     0 \<le> tol
     \<and> dadd (dadd (confirmed_filled_quantity e) (reserved_exposure e)) q \<le> dadd target tol"
  by (auto simp: check_exposure_invariant_def Let_def)

lemma check_exposure_Inl:
  "check_exposure_invariant e q target tol = Inl x \<Longrightarrow> \<exists>m. x = ValidationError m"
  by (auto simp: check_exposure_invariant_def Let_def split: if_splits)

section \<open>Properties\<close>

lemma is_multiple_iff:
  "is_multiple v s = Inr True \<longleftrightarrow> 0 < s \<and> (\<exists>k :: int. v = of_int k * s \<and> \<bar>k\<bar> < 10 ^ 28)"
proof (cases "0 < s")
  case True
  have "\<bar>dtrunc (v / s)\<bar> < 10 ^ 28 \<and> dmod v s = 0 \<longleftrightarrow> (\<exists>k :: int. v = of_int k * s \<and> \<bar>k\<bar> < 10 ^ 28)"
  proof -
    have "dtrunc (of_int k * s / s) = k" for k using True by (simp add: dtrunc_def)
    then show ?thesis using True by (auto simp: dmod_eq_0_iff)
  qed
  then show ?thesis using True
    by (auto simp: is_multiple_def dmod_checked_def sbind_Inr_iff)
qed (simp add: is_multiple_def)

text \<open>C16. An order passes the check before submission exactly when the band is not empty, its price lies
  on the right side of the band, the symbol trades, price and quantity are multiples of tick and step,
  quantity and notional reach their minimum, and a post-only order is supported and does not cross.\<close>

theorem order_safety_exact:
  "validate_child_order_safety q p sd rules bid ask po lower upper = Inr () \<longleftrightarrow>
     lower \<le> upper \<and> (sd = BUY \<longrightarrow> p \<le> upper) \<and> (sd = SELL \<longrightarrow> lower \<le> p)
     \<and> rules_status rules = ''TRADING''
     \<and> 0 < quantity_step rules \<and> (\<exists>k. q = of_int k * quantity_step rules \<and> \<bar>k\<bar> < 10 ^ 28)
     \<and> 0 < tick_size rules \<and> (\<exists>k. p = of_int k * tick_size rules \<and> \<bar>k\<bar> < 10 ^ 28)
     \<and> (po \<longrightarrow> ''GTX'' \<in> supported_time_in_force rules
          \<and> (sd = BUY \<longrightarrow> p < ask) \<and> (sd = SELL \<longrightarrow> bid < p))
     \<and> min_quantity rules \<le> q \<and> min_notional rules \<le> dmul q p"
  by (auto simp: validate_child_order_safety_def sbind_Inr_iff validate_order_shape_ok is_multiple_iff)

theorem order_safety_exact_witness:
  "validate_child_order_safety 3 100 BUY
     \<lparr>rules_symbol = ''X'', tick_size = 1, quantity_step = 1, min_quantity = 1, min_notional = 5,
      rules_status = ''TRADING'', supported_time_in_force = {''GTX''}\<rparr> 100 101 True 90 110 = Inr ()
   \<and> validate_child_order_safety 3 101 BUY
     \<lparr>rules_symbol = ''X'', tick_size = 1, quantity_step = 1, min_quantity = 1, min_notional = 5,
      rules_status = ''TRADING'', supported_time_in_force = {''GTX''}\<rparr> 100 101 True 90 110 \<noteq> Inr ()"
proof -
  have "dmul 3 100 = 300" unfolding dmul_def by (simp, rule dround_exactI [of _ 0 300]) simp_all
  then show ?thesis
    by (auto simp: order_safety_exact intro: exI [of _ 3] exI [of _ 100])
qed

end
