(* ===== verification/Exposure.thy ===== *)
theory Exposure
  imports Validation
begin

text \<open>
  The \<^verbatim>\<open>ExposureTracker\<close> of \<^verbatim>\<open>src/execution/engine.py\<close>: the filled and reserved buckets of one
  parent execution and the guarded moves between them. Every method first checks its argument, so a
  raised exception leaves the tracker as it was.
\<close>

section \<open>The tracker and its operations\<close>

record exposure_tracker =
  target_quantity :: decimal
  permitted_tolerance :: decimal
  tracked :: exposure
  seen_trade_ids :: "string set"

definition require_non_negative :: "decimal \<Rightarrow> exn + unit" where
  "require_non_negative quantity =
     (if quantity < 0
      then Inl (ValidationError [Txt ''quantity '', Num quantity, Txt '' cannot be negative''])
      else Inr ())"

definition subtract_floor_zero :: "decimal \<Rightarrow> decimal \<Rightarrow> decimal" where
  "subtract_floor_zero current quantity =
     (let remaining = dsub current quantity in if remaining > 0 then remaining else 0)"

definition new_exposure_tracker :: "decimal \<Rightarrow> exn + exposure_tracker" where
  "new_exposure_tracker target =
     sbind (require_non_negative target) (\<lambda>_.
       Inr \<lparr>target_quantity = target, permitted_tolerance = 0, tracked = empty_exposure,
            seen_trade_ids = {}\<rparr>)"

definition available_to_submit :: "exposure_tracker \<Rightarrow> decimal" where
  "available_to_submit t =
     (let available = dsub (dsub (target_quantity t) (confirmed_filled_quantity (tracked t)))
                        (reserved_exposure (tracked t))
      in if available > 0 then available else 0)"

definition check_can_submit :: "exposure_tracker \<Rightarrow> decimal \<Rightarrow> exn + unit" where
  "check_can_submit t quantity =
     sbind (require_non_negative quantity) (\<lambda>_.
       check_exposure_invariant (tracked t) quantity (target_quantity t) (permitted_tolerance t))"

definition on_tracked :: "(exposure \<Rightarrow> exposure) \<Rightarrow> exposure_tracker \<Rightarrow> exposure_tracker" where
  "on_tracked f t = t\<lparr>tracked := f (tracked t)\<rparr>"

definition reserve_live_open :: "decimal \<Rightarrow> exposure_tracker \<Rightarrow> exn + exposure_tracker" where
  "reserve_live_open quantity t =
     sbind (check_can_submit t quantity) (\<lambda>_.
       Inr (on_tracked (\<lambda>e. e\<lparr>live_open_quantity := dadd (live_open_quantity e) quantity\<rparr>) t))"

definition reserve_pending_submit :: "decimal \<Rightarrow> exposure_tracker \<Rightarrow> exn + exposure_tracker" where
  "reserve_pending_submit quantity t =
     sbind (check_can_submit t quantity) (\<lambda>_.
       Inr (on_tracked
         (\<lambda>e. e\<lparr>pending_submit_quantity := dadd (pending_submit_quantity e) quantity\<rparr>) t))"

definition release_pending_submit :: "decimal \<Rightarrow> exposure_tracker \<Rightarrow> exn + exposure_tracker" where
  "release_pending_submit quantity t =
     sbind (require_non_negative quantity) (\<lambda>_.
       Inr (on_tracked
         (\<lambda>e. e\<lparr>pending_submit_quantity := subtract_floor_zero (pending_submit_quantity e) quantity\<rparr>)
         t))"

definition reserve_unknown_create :: "decimal \<Rightarrow> exposure_tracker \<Rightarrow> exn + exposure_tracker" where
  "reserve_unknown_create quantity t =
     sbind (check_can_submit t quantity) (\<lambda>_.
       Inr (on_tracked
         (\<lambda>e. e\<lparr>unknown_order_quantity := dadd (unknown_order_quantity e) quantity\<rparr>) t))"

definition clear_unknown_create :: "decimal option \<Rightarrow> exposure_tracker \<Rightarrow> exn + exposure_tracker" where
  "clear_unknown_create quantity t =
     (case quantity of
        None \<Rightarrow> Inr (on_tracked (\<lambda>e. e\<lparr>unknown_order_quantity := 0\<rparr>) t)
      | Some q \<Rightarrow> sbind (require_non_negative q) (\<lambda>_.
          Inr (on_tracked
            (\<lambda>e. e\<lparr>unknown_order_quantity := subtract_floor_zero (unknown_order_quantity e) q\<rparr>) t)))"

definition mark_pending_cancel :: "decimal \<Rightarrow> exposure_tracker \<Rightarrow> exn + exposure_tracker" where
  "mark_pending_cancel quantity t =
     sbind (require_non_negative quantity) (\<lambda>_.
       Inr (on_tracked
         (\<lambda>e. let moved = min quantity (live_open_quantity e)
              in e\<lparr>live_open_quantity := dsub (live_open_quantity e) moved,
                   pending_cancel_quantity := dadd (pending_cancel_quantity e) moved\<rparr>) t))"

definition release_pending_cancel :: "decimal \<Rightarrow> exposure_tracker \<Rightarrow> exn + exposure_tracker" where
  "release_pending_cancel quantity t =
     sbind (require_non_negative quantity) (\<lambda>_.
       Inr (on_tracked
         (\<lambda>e. e\<lparr>pending_cancel_quantity := subtract_floor_zero (pending_cancel_quantity e) quantity\<rparr>)
         t))"

definition set_live_open :: "decimal \<Rightarrow> exposure_tracker \<Rightarrow> exn + exposure_tracker" where
  "set_live_open quantity t =
     sbind (require_non_negative quantity) (\<lambda>_.
       Inr (on_tracked (\<lambda>e. e\<lparr>live_open_quantity := quantity\<rparr>) t))"

text \<open>\<open>apply_fill\<close> returns the increase of the confirmed quantity and the tracker.\<close>

definition apply_fill ::
  "string option \<Rightarrow> decimal \<Rightarrow> exposure_tracker \<Rightarrow> exn + (decimal \<times> exposure_tracker)" where
  "apply_fill trade_id cumulative t =
     sbind (require_non_negative cumulative) (\<lambda>_.
       let advance = (\<lambda>t.
             let confirmed = confirmed_filled_quantity (tracked t)
             in if cumulative \<le> confirmed then (0, t)
                else (dsub cumulative confirmed,
                      on_tracked (\<lambda>e. e\<lparr>confirmed_filled_quantity := cumulative\<rparr>) t))
       in case trade_id of
            None \<Rightarrow> Inr (advance t)
          | Some i \<Rightarrow>
              if i \<in> seen_trade_ids t then Inr (0, t)
              else Inr (advance (t\<lparr>seen_trade_ids := insert i (seen_trade_ids t)\<rparr>)))"

section \<open>Well-formed trackers\<close>

definition tracker_ok :: "exposure_tracker \<Rightarrow> bool" where
  "tracker_ok t \<longleftrightarrow>
     0 \<le> target_quantity t \<and> 0 \<le> permitted_tolerance t \<and> exposure_nonneg (tracked t)
     \<and> dec_ok (confirmed_filled_quantity (tracked t))"

lemma require_non_negative_Inr [simp]: "require_non_negative q = Inr u \<longleftrightarrow> 0 \<le> q"
  by (simp add: require_non_negative_def)

lemma subtract_floor_zero_nonneg [simp, intro]: "0 \<le> subtract_floor_zero x y"
  by (simp add: subtract_floor_zero_def Let_def)

lemma check_can_submit_Inr [simp]:
  "check_can_submit t q = Inr u \<longleftrightarrow>
     0 \<le> q \<and> 0 \<le> permitted_tolerance t
     \<and> dadd (dadd (confirmed_filled_quantity (tracked t)) (reserved_exposure (tracked t))) q
         \<le> dadd (target_quantity t) (permitted_tolerance t)"
  by (auto simp: check_can_submit_def sbind_Inr_iff)

lemmas tracker_op_defs =
  reserve_live_open_def reserve_pending_submit_def release_pending_submit_def
  reserve_unknown_create_def clear_unknown_create_def mark_pending_cancel_def
  release_pending_cancel_def set_live_open_def

text \<open>
  What every tracker operation obeys: the target, the tolerance and the seen trades stay, the
  confirmed quantity stays, and a well-formed tracker stays well formed.
\<close>

definition tracker_frame :: "exposure_tracker \<Rightarrow> exposure_tracker \<Rightarrow> bool" where
  "tracker_frame t t' \<longleftrightarrow>
     target_quantity t' = target_quantity t \<and> permitted_tolerance t' = permitted_tolerance t
     \<and> seen_trade_ids t' = seen_trade_ids t
     \<and> confirmed_filled_quantity (tracked t') = confirmed_filled_quantity (tracked t)
     \<and> (tracker_ok t \<longrightarrow> tracker_ok t')"

lemma tracker_frames:
  "reserve_live_open q t = Inr t' \<Longrightarrow> tracker_frame t t'"
  "reserve_pending_submit q t = Inr t' \<Longrightarrow> tracker_frame t t'"
  "release_pending_submit q t = Inr t' \<Longrightarrow> tracker_frame t t'"
  "reserve_unknown_create q t = Inr t' \<Longrightarrow> tracker_frame t t'"
  "clear_unknown_create oq t = Inr t' \<Longrightarrow> tracker_frame t t'"
  "mark_pending_cancel q t = Inr t' \<Longrightarrow> tracker_frame t t'"
  "release_pending_cancel q t = Inr t' \<Longrightarrow> tracker_frame t t'"
  "set_live_open q t = Inr t' \<Longrightarrow> tracker_frame t t'"
  by (auto simp: tracker_op_defs sbind_Inr_iff on_tracked_def tracker_frame_def tracker_ok_def
      exposure_nonneg_def Let_def min_def dadd_nonneg split: option.splits)

lemma new_exposure_tracker_ok:
  "new_exposure_tracker q = Inr t \<Longrightarrow>
     tracker_ok t \<and> target_quantity t = q \<and> permitted_tolerance t = 0 \<and> tracked t = empty_exposure
     \<and> seen_trade_ids t = {}"
  by (auto simp: new_exposure_tracker_def sbind_Inr_iff tracker_ok_def empty_exposure_def
      exposure_nonneg_def)

lemma apply_fill_Inr:
  assumes "apply_fill i c t = Inr (delta, t')"
  shows "0 \<le> delta"
    and "confirmed_filled_quantity (tracked t) \<le> confirmed_filled_quantity (tracked t')"
    and "confirmed_filled_quantity (tracked t') \<in> {confirmed_filled_quantity (tracked t), c}"
    and "seen_trade_ids t \<subseteq> seen_trade_ids t'"
    and "target_quantity t' = target_quantity t" "permitted_tolerance t' = permitted_tolerance t"
    and "tracker_ok t \<Longrightarrow> dec_ok c \<Longrightarrow> tracker_ok t'"
  using assms
  by (auto simp: apply_fill_def sbind_Inr_iff on_tracked_def Let_def tracker_ok_def
      exposure_nonneg_def split: option.splits if_splits)

lemma apply_fill_seen:
  "i \<in> seen_trade_ids t \<Longrightarrow> 0 \<le> c \<Longrightarrow> apply_fill (Some i) c t = Inr (0, t)"
  by (simp add: apply_fill_def require_non_negative_def)

lemma available_nonneg [simp, intro]: "0 \<le> available_to_submit t"
  by (simp add: available_to_submit_def Let_def)

section \<open>Exact accounting on a grid\<close>

text \<open>
  When all buckets lie on one decimal grid and their total has fewer than 28 digits, no sum of
  buckets is rounded, so the tracker's decimal arithmetic is arithmetic of quantities.
\<close>

definition exposure_total :: "exposure \<Rightarrow> rat" where
  "exposure_total e =
     confirmed_filled_quantity e + live_open_quantity e + pending_submit_quantity e
     + pending_cancel_quantity e + unknown_order_quantity e"

definition exposure_on_grid :: "nat \<Rightarrow> exposure \<Rightarrow> bool" where
  "exposure_on_grid k e \<longleftrightarrow>
     exposure_nonneg e \<and> on_grid k (confirmed_filled_quantity e) \<and> on_grid k (live_open_quantity e)
     \<and> on_grid k (pending_submit_quantity e) \<and> on_grid k (pending_cancel_quantity e)
     \<and> on_grid k (unknown_order_quantity e)"

lemma scaled_less: "0 \<le> (x :: rat) \<Longrightarrow> x \<le> y \<Longrightarrow> y * 10 ^ k < 10 ^ 28 \<Longrightarrow> \<bar>x\<bar> * 10 ^ k < 10 ^ 28"
  by (rule le_less_trans [of _ "y * 10 ^ k"]) (auto intro: mult_right_mono)

lemma reserved_exact:
  assumes g: "exposure_on_grid k e" and small: "exposure_total e * 10 ^ k < 10 ^ 28"
  shows "reserved_exposure e = exposure_total e - confirmed_filled_quantity e"
    and "on_grid k (exposure_total e - confirmed_filled_quantity e)"
    and "dadd (confirmed_filled_quantity e) (reserved_exposure e) = exposure_total e"
proof -
  obtain c l s p u where f: "confirmed_filled_quantity e = c" "live_open_quantity e = l"
      "pending_submit_quantity e = s" "pending_cancel_quantity e = p" "unknown_order_quantity e = u"
    by blast
  have nn: "0 \<le> c" "0 \<le> l" "0 \<le> s" "0 \<le> p" "0 \<le> u"
    and gr: "on_grid k c" "on_grid k l" "on_grid k s" "on_grid k p" "on_grid k u"
    using g by (simp_all add: exposure_on_grid_def exposure_nonneg_def f)
  have t: "exposure_total e = c + l + s + p + u" by (simp add: exposure_total_def f)
  note sm = scaled_less [OF _ _ small, unfolded t]
  have 1: "dadd l s = l + s" using gr nn by (intro dadd_exact [of k] sm) auto
  have 2: "dadd (l + s) p = l + s + p" using gr nn by (intro dadd_exact [of k] sm on_grid_add) auto
  have 3: "dadd (l + s + p) u = l + s + p + u"
    using gr nn by (intro dadd_exact [of k] sm on_grid_add) auto
  have "dadd c (l + s + p + u) = c + (l + s + p + u)"
    using gr nn by (intro dadd_exact [of k] sm on_grid_add) auto
  then have 4: "dadd c (l + s + p + u) = c + l + s + p + u" by (metis add.assoc)
  show r: "reserved_exposure e = exposure_total e - confirmed_filled_quantity e"
    by (simp add: reserved_exposure_def t f 1 2 3)
  show "on_grid k (exposure_total e - confirmed_filled_quantity e)"
    using gr by (simp add: t f on_grid_add)
  have r0: "reserved_exposure e = l + s + p + u" by (simp add: reserved_exposure_def f 1 2 3)
  show "dadd (confirmed_filled_quantity e) (reserved_exposure e) = exposure_total e"
    by (simp only: r0 f 4 t)
qed

lemma check_exact:
  assumes g: "exposure_on_grid k e" and q: "on_grid k q" "0 \<le> q" and t: "on_grid k t" "0 \<le> t"
    and small: "(exposure_total e + q) * 10 ^ k < 10 ^ 28" "t * 10 ^ k < 10 ^ 28"
  shows "check_exposure_invariant e q t 0 = Inr () \<longleftrightarrow> exposure_total e + q \<le> t"
proof -
  have nn: "0 \<le> exposure_total e" and og: "on_grid k (exposure_total e)"
    using g by (auto simp: exposure_on_grid_def exposure_nonneg_def exposure_total_def)
  have "exposure_total e * 10 ^ k \<le> (exposure_total e + q) * 10 ^ k"
    using q by (intro mult_right_mono) auto
  then have s: "exposure_total e * 10 ^ k < 10 ^ 28" using small by linarith
  have "dadd (exposure_total e) q = exposure_total e + q"
    using og q nn small by (intro dadd_exact [of k]) auto
  moreover have "dadd t 0 = t" using t small by (subst dadd_exact [of k]) auto
  ultimately show ?thesis by (simp add: reserved_exact(3) [OF g s])
qed

section \<open>Properties\<close>

text \<open>C13. On a grid of \<open>k\<close> decimal places with totals below 28 digits, an order may be submitted exactly
  when its quantity, the confirmed fills and everything reserved stay within the target: the check has
  no rounding slack.\<close>

theorem can_submit_exact:
  assumes "permitted_tolerance t = 0" "exposure_on_grid k (tracked t)"
    and "on_grid k q" "0 \<le> q" "on_grid k (target_quantity t)" "0 \<le> target_quantity t"
    and "(exposure_total (tracked t) + q) * 10 ^ k < 10 ^ 28" "target_quantity t * 10 ^ k < 10 ^ 28"
  shows "check_can_submit t q = Inr () \<longleftrightarrow> exposure_total (tracked t) + q \<le> target_quantity t"
  using check_exact [OF assms(2-8)] assms(1,4) by (simp add: check_can_submit_def require_non_negative_def)

theorem can_submit_exact_witness:
  "check_can_submit \<lparr>target_quantity = 3, permitted_tolerance = 0,
     tracked = empty_exposure\<lparr>live_open_quantity := 1\<rparr>, seen_trade_ids = {}\<rparr> 2 = Inr ()
   \<and> check_can_submit \<lparr>target_quantity = 3, permitted_tolerance = 0,
     tracked = empty_exposure\<lparr>live_open_quantity := 1\<rparr>, seen_trade_ids = {}\<rparr> 3 \<noteq> Inr ()"
proof -
  have g: "on_grid 0 1" "on_grid 0 2" "on_grid 0 3"
    by (intro on_gridI [of _ 0 1] on_gridI [of _ 0 2] on_gridI [of _ 0 3]; simp)+
  let ?t = "\<lparr>target_quantity = 3, permitted_tolerance = 0,
     tracked = empty_exposure\<lparr>live_open_quantity := 1\<rparr>, seen_trade_ids = {}\<rparr>"
  have e: "exposure_on_grid 0 (tracked ?t)" "exposure_total (tracked ?t) = 1"
    using g by (simp_all add: exposure_on_grid_def exposure_nonneg_def exposure_total_def empty_exposure_def)
  show ?thesis
    using can_submit_exact [of ?t 0 2] can_submit_exact [of ?t 0 3] g e by simp
qed

text \<open>A fill raises the confirmed quantity to the reported cumulative one, never lowers it, and
  touches nothing else; a trade that was seen changes nothing, so applying it again is harmless.\<close>

theorem apply_fill_correct:
  assumes "0 \<le> c"
  shows "\<exists>delta t'. apply_fill i c t = Inr (delta, t')
    \<and> confirmed_filled_quantity (tracked t')
        = (if i \<in> Some ` seen_trade_ids t then confirmed_filled_quantity (tracked t)
           else max (confirmed_filled_quantity (tracked t)) c)
    \<and> delta = dsub (confirmed_filled_quantity (tracked t')) (confirmed_filled_quantity (tracked t))
    \<and> reserved_exposure (tracked t') = reserved_exposure (tracked t)
    \<and> target_quantity t' = target_quantity t
    \<and> seen_trade_ids t' = seen_trade_ids t \<union> set_option i
    \<and> (i \<noteq> None \<longrightarrow> apply_fill i c t' = Inr (0, t'))"
  using assms
  by (cases i)
    (auto simp: apply_fill_def require_non_negative_def Let_def on_tracked_def reserved_exposure_def
      max_def dsub_def)

theorem apply_fill_correct_witness:
  "\<exists>delta t'. apply_fill (Some ''t1'') 2 \<lparr>target_quantity = 3, permitted_tolerance = 0,
       tracked = empty_exposure, seen_trade_ids = {}\<rparr> = Inr (delta, t')
     \<and> confirmed_filled_quantity (tracked t') = 2 \<and> apply_fill (Some ''t1'') 2 t' = Inr (0, t')"
  using apply_fill_correct [of 2 "Some ''t1''" "\<lparr>target_quantity = 3, permitted_tolerance = 0,
       tracked = empty_exposure, seen_trade_ids = {}\<rparr>"]
  by (auto simp: empty_exposure_def)

end
