(* ===== verification/Metrics.thy ===== *)
theory Metrics
  imports Decimal_Math
begin

text \<open>
  \<^verbatim>\<open>src/observability/summary.py\<close>: the numbers of a terminal execution summary. A metrics
  dictionary is an association list in insertion order, with the kinds of value it holds; a row of
  the TWAP slice ledger (\<^verbatim>\<open>_empty_twap_slice_ledger_row\<close> of the engine) is a record.
\<close>

record slice_row =
  row_execution_id :: string
  slice_index :: int
  slice_start_seconds :: decimal
  slice_end_seconds :: decimal
  planned_cumulative_quantity :: decimal
  planned_slice_quantity :: decimal
  row_submitted_quantity :: decimal
  row_open_quantity :: decimal
  row_filled_quantity :: decimal
  row_cancelled_quantity :: decimal
  row_unfilled_quantity :: decimal
  row_schedule_deficit :: decimal
  row_child_order_ids :: "string list"
  row_client_order_ids :: "string list"

datatype metric_value =
    MStr string
  | MInt int
  | MDec decimal
  | MSide side
  | MRows "slice_row list"

type_synonym metrics = "(string \<times> metric_value) list"

definition decimal_string :: "decimal \<Rightarrow> string" where
  "decimal_string v = plain_string (dround v)"

definition execution_vwap :: "(decimal \<times> decimal) list \<Rightarrow> decimal" where
  "execution_vwap fills =
     (let filled_quantity = foldl (\<lambda>a f. dadd a (snd f)) 0 fills
      in if filled_quantity = 0 then 0
         else
           let notional = foldl (\<lambda>a f. dadd a (dmul (fst f) (snd f))) 0 fills
           in ddiv notional filled_quantity)"

definition overfill_quantity :: "decimal \<Rightarrow> decimal \<Rightarrow> decimal" where
  "overfill_quantity filled required =
     (let excess = dsub filled required in if excess > 0 then excess else 0)"

definition summary_metrics_of ::
  "execution_status \<Rightarrow> side \<Rightarrow> decimal \<Rightarrow> decimal \<Rightarrow> decimal \<Rightarrow> decimal \<Rightarrow> decimal \<Rightarrow> decimal \<Rightarrow> decimal
   \<Rightarrow> int \<Rightarrow> decimal \<Rightarrow> int \<Rightarrow> int \<Rightarrow> int \<Rightarrow> decimal \<Rightarrow> metrics" where
  "summary_metrics_of final_status sd raw_required required target_dust filled arrival_bid
     arrival_ask vwap requested_duration actual_duration price_bound_violations
     duplicate_events_ignored unknown_orders_reconciled max_reserved =
     (let unfilled = (let u = dsub required filled in if u < 0 then 0 else u);
          arrival_mid = ddiv (dadd arrival_bid arrival_ask) 2;
          slippage = (if filled = 0 \<or> vwap = 0 then 0 else slippage_bps sd arrival_mid vwap)
      in [(''final_status'', MStr (execution_status_value final_status)),
          (''raw_required_quantity'', MStr (decimal_string raw_required)),
          (''required_quantity'', MStr (decimal_string required)),
          (''target_dust_quantity'', MStr (decimal_string target_dust)),
          (''filled_quantity'', MStr (decimal_string filled)),
          (''unfilled_quantity'', MStr (decimal_string unfilled)),
          (''completion_rate'', MStr (decimal_string (completion_rate filled required))),
          (''arrival_bid'', MStr (decimal_string arrival_bid)),
          (''arrival_ask'', MStr (decimal_string arrival_ask)),
          (''arrival_mid'', MStr (decimal_string arrival_mid)),
          (''execution_vwap'', MStr (decimal_string vwap)),
          (''slippage_bps'', MStr (decimal_string slippage)),
          (''requested_duration_seconds'', MInt requested_duration),
          (''actual_duration_seconds'', MStr (decimal_string actual_duration)),
          (''price_bound_violations'', MInt price_bound_violations),
          (''duplicate_events_ignored'', MInt duplicate_events_ignored),
          (''unknown_orders_reconciled'', MInt unknown_orders_reconciled),
          (''max_reserved_exposure'', MStr (decimal_string max_reserved)),
          (''overfill_quantity'', MStr (decimal_string (overfill_quantity filled required)))])"

section \<open>Bounds\<close>

lemma fold_dadd_nonneg:
  "0 \<le> a \<Longrightarrow> (\<And>x. x \<in> set xs \<Longrightarrow> 0 \<le> f x) \<Longrightarrow> 0 \<le> foldl (\<lambda>a x. dadd a (f x)) a xs"
  by (induction xs arbitrary: a) (auto intro: dadd_nonneg)

lemma execution_vwap_nonneg:
  "(\<And>p q. (p, q) \<in> set fills \<Longrightarrow> 0 \<le> p \<and> 0 \<le> q) \<Longrightarrow> 0 \<le> execution_vwap fills"
  by (force simp: execution_vwap_def Let_def intro!: ddiv_nonneg fold_dadd_nonneg dmul_nonneg)

lemma overfill_zero_iff: "overfill_quantity f r = 0 \<longleftrightarrow> f \<le> r"
  by (simp add: overfill_quantity_def Let_def)

section \<open>Sums on a grid\<close>

lemma foldl_dadd_exact:
  assumes "on_grid k a" "0 \<le> a" "\<And>x. x \<in> set xs \<Longrightarrow> on_grid k (f x) \<and> 0 \<le> f x"
    and "(a + sum_list (map f xs)) * 10 ^ k < 10 ^ 28"
  shows "foldl (\<lambda>a x. dadd a (f x)) a xs = a + sum_list (map f xs)"
  using assms
proof (induction xs arbitrary: a)
  case (Cons x xs)
  have rest: "0 \<le> sum_list (map f xs)" using Cons.prems(3) by (intro sum_list_nonneg) auto
  then have "(a + f x) * 10 ^ k \<le> (a + sum_list (map f (x # xs))) * 10 ^ k"
    by (intro mult_right_mono) simp_all
  then have "(a + f x) * 10 ^ k < 10 ^ 28" using Cons.prems(4) by (rule le_less_trans)
  then have "\<bar>a + f x\<bar> * 10 ^ k < 10 ^ 28" using Cons.prems(2,3) by simp
  then have "dadd a (f x) = a + f x" using Cons.prems(1,3) by (intro dadd_exact [of k]) auto
  moreover have "on_grid k (a + f x)" "0 \<le> a + f x" using Cons.prems(1-3) by auto
  ultimately show ?case using Cons.IH [of "a + f x"] Cons.prems(3,4) by (simp add: add.assoc)
qed simp

section \<open>Properties\<close>

text \<open>C33. For fills with prices on a grid of \<open>j\<close> and quantities on a grid of \<open>k\<close> decimal places, and
  totals below 28 digits, the reported execution price is the volume-weighted mean of the fills rounded
  once, so it lies between the lowest and the highest fill price.\<close>

theorem execution_vwap_exact:
  fixes fills :: "(decimal \<times> decimal) list"
  assumes fills: "\<forall>(p, q) \<in> set fills. on_grid j p \<and> on_grid k q \<and> 0 \<le> q \<and> lo \<le> p \<and> p \<le> hi"
    and ends: "0 \<le> lo" "dec_ok lo" "dec_ok hi" and some: "0 < sum_list (map snd fills)"
    and small: "sum_list (map snd fills) * 10 ^ k < 10 ^ 28"
      "sum_list (map (\<lambda>f. fst f * snd f) fills) * 10 ^ (j + k) < 10 ^ 28"
  shows "execution_vwap fills
      = dround (sum_list (map (\<lambda>f. fst f * snd f) fills) / sum_list (map snd fills))
    \<and> lo \<le> execution_vwap fills \<and> execution_vwap fills \<le> hi"
proof -
  let ?F = "sum_list (map snd fills)" and ?N = "sum_list (map (\<lambda>f. fst f * snd f) fills)"
  have f: "on_grid j (fst x)" "on_grid k (snd x)" "0 \<le> snd x" "lo \<le> fst x" "fst x \<le> hi" "0 \<le> fst x"
    if "x \<in> set fills" for x using fills ends(1) that by force+
  have F: "foldl (\<lambda>a x. dadd a (snd x)) 0 fills = ?F"
    using foldl_dadd_exact [of k 0 fills snd] f small by simp
  have product: "dmul (fst x) (snd x) = fst x * snd x" "on_grid (j + k) (fst x * snd x)" if x: "x \<in> set fills" for x
  proof -
    show g: "on_grid (j + k) (fst x * snd x)" using f(1,2) [OF x] by (rule on_grid_mult)
    have "fst x * snd x \<le> ?N"
      using x f by (intro member_le_sum_list) (auto intro: mult_nonneg_nonneg)
    then have "fst x * snd x * 10 ^ (j + k) \<le> ?N * 10 ^ (j + k)" by (intro mult_right_mono) simp_all
    then have "fst x * snd x * 10 ^ (j + k) < 10 ^ 28" using small(2) by (rule le_less_trans)
    then have "\<bar>fst x * snd x\<bar> * 10 ^ (j + k) < 10 ^ 28" using f [OF x] by simp
    with g show "dmul (fst x) (snd x) = fst x * snd x"
      unfolding dmul_def using on_grid_exact by blast
  qed
  have "foldl (\<lambda>a x. dadd a (dmul (fst x) (snd x))) 0 fills = foldl (\<lambda>a x. dadd a (fst x * snd x)) 0 fills"
    by (rule foldl_cong) (simp_all add: product)
  also have "\<dots> = ?N"
    using foldl_dadd_exact [of "j + k" 0 fills "\<lambda>x. fst x * snd x"] product(2) f small(2)
    by (simp add: mult_nonneg_nonneg)
  finally have v: "execution_vwap fills = dround (?N / ?F)"
    using some by (simp add: execution_vwap_def F ddiv_def)
  have "sum_list (map (\<lambda>x. lo * snd x) fills) \<le> ?N" "?N \<le> sum_list (map (\<lambda>x. hi * snd x) fills)"
    using f by (auto intro!: sum_list_mono mult_right_mono)
  then have "lo * ?F \<le> ?N" "?N \<le> hi * ?F" by (simp_all add: sum_list_const_mult)
  then have "lo \<le> ?N / ?F" "?N / ?F \<le> hi" using some by (simp_all add: pos_le_divide_eq pos_divide_le_eq)
  then have "dround lo \<le> dround (?N / ?F)" "dround (?N / ?F) \<le> dround hi" by (simp_all add: dround_mono)
  then show ?thesis using v ends by (simp add: dec_ok_def)
qed

theorem execution_vwap_exact_witness: "execution_vwap [(100, 2), (103, 1)] = dround (303 / 3)"
proof -
  have g: "on_grid 0 100" "on_grid 0 103" "on_grid 0 1" "on_grid 0 2"
    by (intro on_gridI [of _ 0 100] on_gridI [of _ 0 103] on_gridI [of _ 0 1] on_gridI [of _ 0 2]; simp)+
  have ok: "dec_ok 100" "dec_ok 103"
    unfolding dec_ok_def by (rule dround_exactI [of _ 0 100], simp_all) (rule dround_exactI [of _ 0 103], simp_all)
  show ?thesis using execution_vwap_exact [of "[(100, 2), (103, 1)]" 0 0 100 103] g ok by simp
qed

end
