(* ===== verification/Ids.thy ===== *)
theory Ids
  imports Errors
begin

text \<open>
  \<^verbatim>\<open>src/execution/ids.py\<close>: identifiers. The random part of an execution id (\<^verbatim>\<open>uuid4().hex\<close>) is
  an argument; the rest is string handling, with the length and alphabet check of a Binance client
  order id.
\<close>

section \<open>String operations of the standard library\<close>

text \<open>\<^verbatim>\<open>s.replace(old, new)\<close> for nonempty \<^verbatim>\<open>old\<close>: leftmost, non-overlapping occurrences.\<close>

function str_replace :: "string \<Rightarrow> string \<Rightarrow> string \<Rightarrow> string" where
  "str_replace old new s =
     (case s of
        [] \<Rightarrow> []
      | c # cs \<Rightarrow>
          if old \<noteq> [] \<and> prefix old s then new @ str_replace old new (drop (length old) s)
          else c # str_replace old new cs)"
  by pat_completeness auto
termination
  by (relation "measure (\<lambda>(old, new, s). length s)") auto

declare str_replace.simps [simp del]

definition lstrip :: "char \<Rightarrow> string \<Rightarrow> string" where
  "lstrip c s = dropWhile (\<lambda>x. x = c) s"

definition digit :: "char \<Rightarrow> bool" where
  "digit c \<longleftrightarrow> CHR ''0'' \<le> c \<and> c \<le> CHR ''9''"

text \<open>\<^verbatim>\<open>int(s)\<close> for a text of decimal digits; anything else raises.\<close>

definition parse_nat :: "string \<Rightarrow> exn + nat" where
  "parse_nat s =
     (if s \<noteq> [] \<and> list_all digit s
      then Inr (foldl (\<lambda>n c. 10 * n + (of_char c - 48)) 0 s)
      else Inl (ValueError (''invalid literal for int() with base 10: '' @ quoted s)))"

section \<open>Identifiers\<close>

definition client_order_id_char :: "char \<Rightarrow> bool" where
  "client_order_id_char c \<longleftrightarrow>
     c \<in> set ''.:/_-'' \<or> (CHR ''A'' \<le> c \<and> c \<le> CHR ''Z'') \<or> (CHR ''a'' \<le> c \<and> c \<le> CHR ''z'')
     \<or> digit c"

text \<open>\<^verbatim>\<open>CLIENT_ORDER_ID_RE.fullmatch\<close>\<close>

definition client_order_id_re :: "string \<Rightarrow> bool" where
  "client_order_id_re s \<longleftrightarrow>
     1 \<le> length s \<and> length s \<le> 36 \<and> list_all client_order_id_char s"

definition execution_id :: "string \<Rightarrow> string" where
  "execution_id hex = ''exec_'' @ take 16 hex"

definition child_order_id_of :: "nat \<Rightarrow> string" where
  "child_order_id_of sequence = ''child_'' @ padded 4 (int sequence)"

definition make_client_order_prefix :: "string \<Rightarrow> string" where
  "make_client_order_prefix execution_id_value =
     ''ce_'' @ take 12 (str_replace ''exec_'' '''' execution_id_value) @ ''_''"

definition make_client_order_id :: "string \<Rightarrow> nat \<Rightarrow> exn + string" where
  "make_client_order_id execution_id_value child_sequence =
     (let v = make_client_order_prefix execution_id_value @ digits_of (int child_sequence)
      in if length v > 36 \<or> \<not> client_order_id_re v
         then Inl (ValueError (''invalid Binance client order id: '' @ v)) else Inr v)"

definition client_order_id_of :: "string \<Rightarrow> string \<Rightarrow> exn + string" where
  "client_order_id_of execution_id_value child_order_id_value =
     (let stripped = lstrip (CHR ''0'') (str_replace ''child_'' '''' child_order_id_value);
          child_seq = (if stripped = [] then ''0'' else stripped)
      in sbind (parse_nat child_seq) (make_client_order_id execution_id_value))"

section \<open>Digits\<close>

lemma digit_iff: "digit c \<longleftrightarrow> 48 \<le> (of_char c :: nat) \<and> (of_char c :: nat) \<le> 57"
  by (simp add: digit_def less_eq_char_def)

lemma of_char_digit:
  "0 \<le> m \<Longrightarrow> m < 10 \<Longrightarrow> (of_char (char_of (48 + m :: int)) :: nat) = nat (48 + m)"
proof -
  assume m: "0 \<le> m" "m < 10"
  have "(of_char (char_of (48 + m)) :: int) = 48 + m" using m by (simp add: of_char_of)
  then show ?thesis by (metis nat_int of_nat_of_char)
qed

lemma digits_of_all:
  "0 \<le> n \<Longrightarrow> list_all digit (digits_of n) \<and> digits_of n \<noteq> []
    \<and> foldl (\<lambda>a c. 10 * a + (of_char c - 48)) 0 (digits_of n) = nat n
    \<and> (0 < n \<longrightarrow> hd (digits_of n) \<noteq> CHR ''0'')"
proof (induction n rule: digits_of.induct)
  case (1 n)
  show ?case
  proof (cases "n < 10")
    case True
    have "(of_char (char_of (48 + n)) :: nat) = nat (48 + n)" using True 1 by (simp add: of_char_digit)
    moreover from this have "char_of (48 + n) \<noteq> CHR ''0''" if "0 < n" using that by fastforce
    ultimately show ?thesis using True 1
      by (simp add: digits_of.simps [of n] digit_iff nat_add_distrib)
  next
    case False
    have m: "(of_char (char_of (48 + n mod 10)) :: nat) = nat (48 + n mod 10)" by (simp add: of_char_digit)
    have "nat (n mod 10) < 10" by simp
    then have "digit (char_of (48 + n mod 10))" by (simp add: digit_iff m nat_add_distrib)
    moreover have "10 * nat (n div 10) + nat (n mod 10) = nat n"
      using False by (simp add: nat_div_distrib nat_mod_distrib)
    ultimately show ?thesis using False 1
      by (simp add: digits_of.simps [of n] m nat_add_distrib)
  qed
qed

lemmas digits_of_facts = digits_of_all [THEN conjunct1] digits_of_all [THEN conjunct2, THEN conjunct1]
  digits_of_all [THEN conjunct2, THEN conjunct2, THEN conjunct1]

lemma parse_digits [simp]: "parse_nat (digits_of (int n)) = Inr n"
  using digits_of_all [of "int n"] by (simp add: parse_nat_def)

lemma digits_of_inject [simp]: "digits_of (int m) = digits_of (int n) \<longleftrightarrow> m = n"
  using parse_digits [of m] parse_digits [of n] by (metis sum.inject(2))

section \<open>Replacing and stripping\<close>

lemma str_replace_absent:
  assumes "old \<noteq> []" "\<not> set old \<subseteq> set s"
  shows "str_replace old new s = s"
  using assms(2)
proof (induction s)
  case (Cons c s)
  have "\<not> prefix old (c # s)" using Cons.prems set_mono_prefix by blast
  moreover have "\<not> set old \<subseteq> set s" using Cons.prems by auto
  ultimately show ?case using Cons.IH by (simp add: str_replace.simps [of old new "c # s"])
qed (simp add: str_replace.simps)

lemma str_replace_prefix:
  "old \<noteq> [] \<Longrightarrow> str_replace old new (old @ s) = new @ str_replace old new s"
  by (cases old) (simp_all add: str_replace.simps [of old new "old @ s"] str_replace.simps [of _ new "_ # _"])

lemma digits_absent: "c \<in> set ''abcdefghijklmnopqrstuvwxyz_'' \<Longrightarrow> c \<notin> set (digits_of (int n))"
  using digits_of_facts(1) [of "int n"] by (auto simp: list_all_iff digit_iff)

lemma lstrip_zeros:
  assumes "0 < n"
  shows "lstrip (CHR ''0'') (padded w (int n)) = digits_of (int n)"
proof -
  obtain c cs where d: "digits_of (int n) = c # cs" "c \<noteq> CHR ''0''"
    using digits_of_all [of "int n"] assms by (cases "digits_of (int n)") auto
  then show ?thesis
    by (simp add: lstrip_def padded_def Let_def dropWhile_append3 dropWhile_append2)
qed

section \<open>The engine's identifiers\<close>

definition hex_char :: "char \<Rightarrow> bool" where
  "hex_char c \<longleftrightarrow> c \<in> set ''0123456789abcdef''"

lemma hex_char_facts: "\<not> hex_char (CHR ''x'')" "hex_char c \<Longrightarrow> client_order_id_char c"
proof -
  show "\<not> hex_char (CHR ''x'')" by (simp add: hex_char_def)
  have "list_all client_order_id_char ''0123456789abcdef''" by code_simp
  then show "hex_char c \<Longrightarrow> client_order_id_char c" by (auto simp only: list_all_iff hex_char_def)
qed

lemma id_chars:
  "client_order_id_char (CHR ''c'')" "client_order_id_char (CHR ''e'')" "client_order_id_char (CHR ''_'')"
  "char_of (48 :: int) = CHR ''0''" "char_of (55 :: int) = CHR ''7''"
  by code_simp+

lemma prefix_of_execution:
  assumes "list_all hex_char hex"
  shows "make_client_order_prefix (execution_id hex) = ''ce_'' @ take 12 hex @ ''_''"
proof -
  have "CHR ''x'' \<notin> set (take 16 hex)"
    using assms hex_char_facts(1) by (auto simp: list_all_iff dest: in_set_takeD)
  then have "str_replace ''exec_'' [] (take 16 hex) = take 16 hex"
    by (intro str_replace_absent) auto
  then show ?thesis
    using str_replace_prefix [of "''exec_''" "[]" "take 16 hex"]
    by (simp add: make_client_order_prefix_def execution_id_def min_def)
qed

lemma child_id_suffix:
  "str_replace ''child_'' [] (child_order_id_of n) = padded 4 (int n)"
proof -
  have "CHR ''c'' \<notin> set (padded 4 (int n))"
    using digits_absent [of "CHR ''c''" n] by (auto simp: padded_def Let_def)
  then have "str_replace ''child_'' [] (padded 4 (int n)) = padded 4 (int n)"
    by (intro str_replace_absent) auto
  then show ?thesis
    using str_replace_prefix [of "''child_''" "[]" "padded 4 (int n)"] by (simp add: child_order_id_of_def)
qed

section \<open>Properties\<close>

text \<open>Looking up the client order id of a child by its child order id gives the id the child was
  submitted under, for every execution and every sequence number.\<close>

theorem client_order_id_round_trip:
  "client_order_id_of e (child_order_id_of n) = make_client_order_id e n"
proof (cases "n = 0")
  case True
  have "lstrip (CHR ''0'') (padded 4 0) = []"
    by (simp add: lstrip_def padded_def digits_of.simps Let_def numeral_eq_Suc id_chars)
  moreover have "parse_nat ''0'' = Inr 0" using parse_digits [of 0] by (simp add: digits_of.simps id_chars)
  ultimately show ?thesis using True by (simp add: client_order_id_of_def child_id_suffix)
next
  case False
  then have "digits_of (int n) \<noteq> []" using digits_of_facts(2) by simp
  then show ?thesis using False
    by (simp add: client_order_id_of_def child_id_suffix lstrip_zeros Let_def)
qed

text \<open>C35. Every child of an execution with a hexadecimal id gets a client order id the exchange accepts
  (at most 36 characters of its alphabet), it starts with the execution's reconciliation prefix, and
  different children get different ids.\<close>

theorem client_order_ids_valid_and_distinct:
  assumes "list_all hex_char hex" "length (digits_of (int n)) \<le> 20"
  shows "\<exists>v. make_client_order_id (execution_id hex) n = Inr v
    \<and> v = make_client_order_prefix (execution_id hex) @ digits_of (int n)
    \<and> client_order_id_re v \<and> (\<forall>m. make_client_order_id (execution_id hex) m = Inr v \<longrightarrow> m = n)"
proof -
  define v where "v = ''ce_'' @ take 12 hex @ ''_'' @ digits_of (int n)"
  have chars: "client_order_id_char c" if "c \<in> set v" for c
  proof -
    have "c \<in> set hex \<or> digit c \<or> c \<in> {CHR ''c'', CHR ''e'', CHR ''_''}"
      using that digits_of_facts(1) [of "int n"] by (auto simp: v_def list_all_iff dest: in_set_takeD)
    moreover have "digit c \<Longrightarrow> client_order_id_char c" by (simp add: client_order_id_char_def)
    ultimately show ?thesis
      using assms(1) hex_char_facts(2) [of c] id_chars(1-3) by (auto simp: list_all_iff)
  qed
  have "length v \<le> 36" using assms(2) by (simp add: v_def)
  with chars have re: "client_order_id_re v"
    by (simp add: client_order_id_re_def list_all_iff v_def)
  have made: "make_client_order_id (execution_id hex) m
      = (let u = ''ce_'' @ take 12 hex @ ''_'' @ digits_of (int m)
         in if length u > 36 \<or> \<not> client_order_id_re u
            then Inl (ValueError (''invalid Binance client order id: '' @ u)) else Inr u)" for m
    by (simp add: make_client_order_id_def prefix_of_execution [OF assms(1)])
  have "make_client_order_id (execution_id hex) n = Inr v"
    unfolding made Let_def v_def [symmetric] using re \<open>length v \<le> 36\<close> by simp
  moreover have "m = n" if "make_client_order_id (execution_id hex) m = Inr v" for m
    using that by (auto simp: made Let_def v_def split: if_splits)
  moreover have "v = make_client_order_prefix (execution_id hex) @ digits_of (int n)"
    by (simp add: v_def prefix_of_execution [OF assms(1)])
  ultimately show ?thesis using re by blast
qed

theorem client_order_ids_valid_and_distinct_witness:
  "make_client_order_id (execution_id ''0123456789abcdef0123456789abcdef'') 7 = Inr ''ce_0123456789ab_7''"
proof -
  have "list_all hex_char ''0123456789abcdef0123456789abcdef''" by code_simp
  then show ?thesis
    using client_order_ids_valid_and_distinct [of "''0123456789abcdef0123456789abcdef''" 7]
    by (auto simp: prefix_of_execution digits_of.simps id_chars)
qed

end
