(* ===== verification/Engine_Record.thy ===== *)
theory Engine_Record
  imports Adapter State_Machine Exposure Metrics Ids "HOL-Library.AList"
begin

text \<open>
  The \<^verbatim>\<open>ExecutionRecord\<close> of \<^verbatim>\<open>src/execution/engine.py\<close>, the engine's computations on it, and the
  record-level helpers. An engine computation acts on a record and the world of its adapter; a child
  order that the code holds by reference is named by its position in \<open>child_orders\<close>.
\<close>

section \<open>Reasons and constants\<close>

abbreviation (input) "no_action_target_already_reached \<equiv> ''NO_ACTION_TARGET_ALREADY_REACHED''"
abbreviation (input) "cancel_requested \<equiv> ''CANCEL_REQUESTED''"
abbreviation (input) "create_timeout_pending_reconciliation \<equiv> ''CREATE_TIMEOUT_PENDING_RECONCILIATION''"
abbreviation (input) "create_timeout_reconciled \<equiv> ''CREATE_TIMEOUT_RECONCILED''"
abbreviation (input) "create_timeout_order_not_found \<equiv> ''CREATE_TIMEOUT_ORDER_NOT_FOUND''"
abbreviation (input) "price_outside_range \<equiv> ''PRICE_OUTSIDE_RANGE''"
abbreviation (input) "waiting_for_price_range \<equiv> ''WAITING_FOR_PRICE_RANGE''"
abbreviation (input) "deadline_cancel_remainder \<equiv> ''DEADLINE_CANCEL_REMAINDER''"
abbreviation (input) "deadline_aggressive_attempted \<equiv> ''DEADLINE_AGGRESSIVE_ATTEMPTED''"
abbreviation (input) "post_only_crosses \<equiv> ''POST_ONLY_CROSSES''"
abbreviation (input) "post_only_unsupported \<equiv> ''POST_ONLY_UNSUPPORTED''"
abbreviation (input) "order_safety_rejected \<equiv> ''ORDER_SAFETY_REJECTED''"
abbreviation (input) "order_shape_temporarily_untradeable \<equiv> ''ORDER_SHAPE_TEMPORARILY_UNTRADEABLE''"
abbreviation (input) "terminal_order_rejected \<equiv> ''TERMINAL_ORDER_REJECTED''"
abbreviation (input) "stream_health_degraded_reconciled \<equiv> ''STREAM_HEALTH_DEGRADED_RECONCILED''"
abbreviation (input) "market_data_stale_reconciled \<equiv> ''MARKET_DATA_STALE_RECONCILED''"
abbreviation (input) "target_quantity_filled \<equiv> ''TARGET_QUANTITY_FILLED''"
abbreviation (input) "untradeable_target_dust \<equiv> ''UNTRADEABLE_TARGET_DUST''"
abbreviation (input) "retryable_order_reject_backoff \<equiv> ''RETRYABLE_ORDER_REJECT_BACKOFF''"
abbreviation (input) "retryable_order_reject_waiting_for_fresh_quote \<equiv>
  ''RETRYABLE_ORDER_REJECT_WAITING_FOR_FRESH_QUOTE''"
abbreviation (input) "retryable_order_reject_limit_reached \<equiv> ''RETRYABLE_ORDER_REJECT_LIMIT_REACHED''"
abbreviation (input) "rate_limit_backoff \<equiv> ''RATE_LIMIT_BACKOFF''"

abbreviation (input) retryable_order_reject_backoff_seconds :: decimal where
  "retryable_order_reject_backoff_seconds \<equiv> 1"
abbreviation (input) rate_limit_backoff_seconds :: decimal where
  "rate_limit_backoff_seconds \<equiv> 1"

section \<open>The record\<close>

record execution_summary =
  summary_execution_id :: string
  summary_final_status :: execution_status
  summary_final_reason :: string
  summary_metrics :: metrics

record execution_record =
  rec_execution_id :: string
  request :: execution_request
  status :: execution_status
  rec_side :: side
  required_quantity :: decimal
  initial_position :: position_snapshot
  raw_required_quantity :: decimal
  target_dust_quantity :: decimal
  final_reason :: "string option"
  child_orders :: "child_order list"
  summary :: "execution_summary option"
  rec_tracker :: "exposure_tracker option"
  last_child_sequence :: nat
  started_monotonic :: decimal
  completed_monotonic :: "decimal option"
  last_reprice_monotonic :: "decimal option"
  arrival_bid :: "decimal option"
  arrival_ask :: "decimal option"
  max_reserved_exposure :: decimal
  metric_counts :: "(string \<times> int) list"
  seen_fill_trade_ids :: "string set"
  ignored_fill_trade_ids :: "string set"
  fill_vwap_inputs :: "(decimal \<times> decimal) list"
  trade_fill_vwap_inputs :: "(string \<times> decimal \<times> decimal) list"
  trade_fill_sort_keys :: "(string \<times> int \<times> int \<times> string) list"
  child_authoritative_fill_intervals :: "(string \<times> (decimal \<times> decimal) list) list"
  anonymous_fill_vwap_inputs :: "(decimal \<times> decimal) list"
  maker_filled_quantity :: decimal
  taker_filled_quantity :: decimal
  child_submitted_monotonic :: "(string \<times> decimal) list"
  aggressive_child_client_order_ids :: "string set"
  consecutive_retryable_order_rejects :: int
  last_retryable_order_reject_monotonic :: "decimal option"
  last_retryable_order_reject_price :: "decimal option"
  last_retryable_order_reject_bid :: "decimal option"
  last_retryable_order_reject_ask :: "decimal option"
  last_retryable_order_reject_reason :: "string option"
  rate_limited_until_monotonic :: "decimal option"

definition new_execution_record ::
  "string \<Rightarrow> execution_request \<Rightarrow> side \<Rightarrow> decimal \<Rightarrow> position_snapshot \<Rightarrow> decimal \<Rightarrow> decimal
   \<Rightarrow> execution_record" where
  "new_execution_record eid req sd required pos raw dust =
     \<lparr>rec_execution_id = eid, request = req, status = CREATED, rec_side = sd,
      required_quantity = required, initial_position = pos, raw_required_quantity = raw,
      target_dust_quantity = dust, final_reason = None, child_orders = [], summary = None,
      rec_tracker = None, last_child_sequence = 0, started_monotonic = 0,
      completed_monotonic = None, last_reprice_monotonic = None, arrival_bid = None,
      arrival_ask = None, max_reserved_exposure = 0, metric_counts = [],
      seen_fill_trade_ids = {}, ignored_fill_trade_ids = {}, fill_vwap_inputs = [],
      trade_fill_vwap_inputs = [], trade_fill_sort_keys = [],
      child_authoritative_fill_intervals = [], anonymous_fill_vwap_inputs = [],
      maker_filled_quantity = 0, taker_filled_quantity = 0, child_submitted_monotonic = [],
      aggressive_child_client_order_ids = {}, consecutive_retryable_order_rejects = 0,
      last_retryable_order_reject_monotonic = None, last_retryable_order_reject_price = None,
      last_retryable_order_reject_bid = None, last_retryable_order_reject_ask = None,
      last_retryable_order_reject_reason = None, rate_limited_until_monotonic = None\<rparr>"

definition exposure_of :: "execution_record \<Rightarrow> exposure" where
  "exposure_of r = (case rec_tracker r of None \<Rightarrow> empty_exposure | Some t \<Rightarrow> tracked t)"

abbreviation confirmed :: "execution_record \<Rightarrow> decimal" where
  "confirmed r \<equiv> confirmed_filled_quantity (exposure_of r)"

abbreviation reserved :: "execution_record \<Rightarrow> decimal" where
  "reserved r \<equiv> reserved_exposure (exposure_of r)"

definition target_filled :: "execution_record \<Rightarrow> bool" where
  "target_filled r \<longleftrightarrow> confirmed r \<ge> required_quantity r"

section \<open>Engine computations\<close>

type_synonym ('w, 'a) eng = "(exn, execution_record \<times> 'w, 'a) eff"

definition getr :: "(execution_record \<Rightarrow> 'a) \<Rightarrow> ('w, 'a) eng" where
  "getr f = gets (\<lambda>s. f (fst s))"

abbreviation get_record :: "('w, execution_record) eng" where
  "get_record \<equiv> getr (\<lambda>r. r)"

definition modr :: "(execution_record \<Rightarrow> execution_record) \<Rightarrow> ('w, unit) eng" where
  "modr f = modify (\<lambda>s. (f (fst s), snd s))"

definition call :: "('w \<Rightarrow> (exn + 'a) \<times> 'w) \<Rightarrow> ('w, 'a) eng" where
  "call op = (\<lambda>s. let xw = op (snd s) in (fst xw, fst s, snd xw))"

definition now_decimal :: "'w adapter \<Rightarrow> ('w, decimal) eng" where
  "now_decimal A =
     call (\<lambda>w. let fw = clock_monotonic A w in (Inr (float_decimal (fst fw)), snd fw))"

lemma wp_getr [wp_simp]: "wp (getr f) Q E s = Q (f (fst s)) s"
  by (simp add: getr_def wp_gets)

lemma wp_modr [wp_simp]: "wp (modr f) Q E s = Q () (f (fst s), snd s)"
  by (simp add: modr_def wp_modify)

lemma wp_call:
  "wp (call op) Q E s =
     (case op (snd s) of (Inl e, w) \<Rightarrow> E e (fst s, w) | (Inr x, w) \<Rightarrow> Q x (fst s, w))"
  by (auto simp: wp_def call_def Let_def split: prod.splits sum.splits)

section \<open>Record-level helpers\<close>

definition require_exposure_tracker :: "('w, exposure_tracker) eng" where
  "require_exposure_tracker =
     bind (getr rec_tracker) (\<lambda>t. case t of
       Some t \<Rightarrow> ret t
     | None \<Rightarrow>
         bind (getr required_quantity) (\<lambda>q.
         bind (lift_res (new_exposure_tracker q)) (\<lambda>t.
         andthen (modr (\<lambda>r. r\<lparr>rec_tracker := Some t\<rparr>)) (ret t))))"

text \<open>A method call on the record's tracker.\<close>

definition on_tracker :: "(exposure_tracker \<Rightarrow> exn + exposure_tracker) \<Rightarrow> ('w, unit) eng" where
  "on_tracker op =
     bind require_exposure_tracker (\<lambda>t.
     bind (lift_res (op t)) (\<lambda>t'. modr (\<lambda>r. r\<lparr>rec_tracker := Some t'\<rparr>)))"

definition metric_count :: "execution_record \<Rightarrow> string \<Rightarrow> int" where
  "metric_count r name = (case map_of (metric_counts r) name of None \<Rightarrow> 0 | Some n \<Rightarrow> n)"

definition increment_metric :: "string \<Rightarrow> execution_record \<Rightarrow> execution_record" where
  "increment_metric name r =
     r\<lparr>metric_counts := AList.update name (metric_count r name + 1) (metric_counts r)\<rparr>"

definition record_max_reserved_exposure :: "execution_record \<Rightarrow> execution_record" where
  "record_max_reserved_exposure r =
     (if reserved r > max_reserved_exposure r then r\<lparr>max_reserved_exposure := reserved r\<rparr> else r)"

definition assert_exposure_invariant :: "('w, unit) eng" where
  "assert_exposure_invariant =
     bind get_record (\<lambda>r.
       lift_res (check_exposure_invariant (exposure_of r) 0 (required_quantity r)
         (case rec_tracker r of None \<Rightarrow> 0 | Some t \<Rightarrow> permitted_tolerance t)))"

definition set_final_reason :: "string \<Rightarrow> execution_record \<Rightarrow> execution_record" where
  "set_final_reason reason r = r\<lparr>final_reason := Some reason\<rparr>"

definition set_execution_status :: "execution_status \<Rightarrow> ('w, unit) eng" where
  "set_execution_status target =
     bind (getr status) (\<lambda>current.
     bind (lift_res (transition_execution current target)) (\<lambda>s.
       modr (\<lambda>r. r\<lparr>status := s\<rparr>)))"

section \<open>Child orders\<close>

definition modify_child :: "nat \<Rightarrow> (child_order \<Rightarrow> child_order) \<Rightarrow> execution_record \<Rightarrow> execution_record" where
  "modify_child i f r = r\<lparr>child_orders := (child_orders r)[i := f (child_orders r ! i)]\<rparr>"

text \<open>
  \<^verbatim>\<open>_set_child_status\<close>: the target when the table allows the step, else through the intermediate
  states the exchange skipped, else unchanged.
\<close>

definition set_child_status :: "child_order_status \<Rightarrow> child_order_status \<Rightarrow> exn + child_order_status" where
  "set_child_status current target =
     (if current = target then Inr current
      else case transition_child current target of
        Inr s \<Rightarrow> Inr s
      | Inl _ \<Rightarrow>
          if target = CHILD_CANCELLED \<and> current \<in> {OPEN, PARTIALLY_FILLED}
          then sbind (transition_child current PENDING_CANCEL) (\<lambda>s. transition_child s target)
          else if target = CHILD_CANCELLED \<and> current = PENDING_SUBMIT
          then sbind (transition_child current OPEN) (\<lambda>s.
               sbind (transition_child s PENDING_CANCEL) (\<lambda>s. transition_child s target))
          else if current = PENDING_SUBMIT \<and> target \<in> {PARTIALLY_FILLED, FILLED}
          then sbind (transition_child current OPEN) (\<lambda>s. transition_child s target)
          else Inr current)"

definition update_child_status :: "nat \<Rightarrow> child_order_status \<Rightarrow> ('w, unit) eng" where
  "update_child_status i target =
     bind (getr (\<lambda>r. child_status (child_orders r ! i))) (\<lambda>current.
     bind (lift_res (set_child_status current target)) (\<lambda>s.
       modr (modify_child i (\<lambda>c. c\<lparr>child_status := s\<rparr>))))"

definition set_terminal_reason :: "nat \<Rightarrow> string option \<Rightarrow> execution_record \<Rightarrow> execution_record" where
  "set_terminal_reason i reason = modify_child i (\<lambda>c. c\<lparr>terminal_reason := reason\<rparr>)"

definition copy_exchange_child :: "child_order \<Rightarrow> bool \<Rightarrow> child_order \<Rightarrow> child_order" where
  "copy_exchange_child exchange_child include_filled c =
     (let c = c\<lparr>exchange_order_id := exchange_order_id exchange_child,
                raw_status := raw_status exchange_child\<rparr>
      in if include_filled \<and> child_filled exchange_child > child_filled c
         then c\<lparr>child_filled := child_filled exchange_child\<rparr> else c)"

definition is_live :: "child_order_status \<Rightarrow> bool" where
  "is_live s \<longleftrightarrow> s \<in> {OPEN, PARTIALLY_FILLED}"

fun first_live_index :: "child_order list \<Rightarrow> nat \<Rightarrow> nat option" where
  "first_live_index [] i = None"
| "first_live_index (c # cs) i = (if is_live (child_status c) then Some i else first_live_index cs (Suc i))"

definition first_active_child :: "execution_record \<Rightarrow> nat option" where
  "first_active_child r = first_live_index (child_orders r) 0"

lemma set_child_status_total:
  "\<exists>s. set_child_status current target = Inr s \<and> child_path current s"
proof -
  have step: "child_path a b" if "child_step a b" for a b using that by blast
  have two: "child_path a c" if "child_step a b" "child_step b c" for a b c using that by simp
  have three: "child_path a d" if "child_step a b" "child_step b c" "child_step c d" for a b c d
    using that by simp
  show ?thesis
    by (cases current; cases target)
      (auto simp: set_child_status_def transition_child_def child_step_simps intro: step
        two [of PENDING_SUBMIT OPEN PARTIALLY_FILLED] two [of PENDING_SUBMIT OPEN FILLED]
        two [of OPEN PENDING_CANCEL CHILD_CANCELLED]
        two [of PARTIALLY_FILLED PENDING_CANCEL CHILD_CANCELLED]
        three [of PENDING_SUBMIT OPEN PENDING_CANCEL CHILD_CANCELLED])
qed

lemma set_child_status_path: "set_child_status current target = Inr s \<Longrightarrow> child_path current s"
  using set_child_status_total [of current target] by auto

section \<open>Properties\<close>

text \<open>Applying a status reported by the exchange never raises: the order moves along allowed steps
  to the report or stays, a closed order stays closed, a report of a cancelled or filled order closes
  any open one, and a rejection is accepted exactly for an order not yet confirmed to exist.\<close>

theorem set_child_status_correct:
  "\<exists>u. set_child_status s t = Inr u \<and> child_path s u \<and> u \<in> {s, t}
    \<and> (child_status_is_terminal s \<longrightarrow> u = s)
    \<and> (\<not> child_status_is_terminal s \<and> t \<in> {CHILD_CANCELLED, FILLED} \<longrightarrow> u = t)
    \<and> (t = REJECTED \<longrightarrow> (u = t \<longleftrightarrow> s \<in> {PENDING_SUBMIT, UNKNOWN, REJECTED}))"
proof -
  obtain u where u: "set_child_status s t = Inr u" "child_path s u"
    using set_child_status_total [of s t] by blast
  then show ?thesis
    by (cases s; cases t) (auto simp: set_child_status_def transition_child_def)
qed

theorem set_child_status_correct_witness:
  "set_child_status PENDING_SUBMIT CHILD_CANCELLED = Inr CHILD_CANCELLED
    \<and> set_child_status FILLED CHILD_CANCELLED = Inr FILLED \<and> set_child_status OPEN REJECTED = Inr OPEN"
  using set_child_status_correct [of PENDING_SUBMIT CHILD_CANCELLED]
    set_child_status_correct [of FILLED CHILD_CANCELLED] set_child_status_correct [of OPEN REJECTED]
  by auto

end
