(* ===== verification/Engine_Fills.thy ===== *)
theory Engine_Fills
  imports Engine_Record
begin

text \<open>
  Fill accounting of \<^verbatim>\<open>src/execution/engine.py\<close>: which reported trades are accepted, the
  cumulative-quantity intervals they cover, the price-weighted inputs of the summary, and the
  rebuild of the reserved buckets from the child orders. A report is the keyword arguments of
  \<^verbatim>\<open>_update_child_cumulative_fill_locked\<close>.
\<close>

section \<open>Intervals of cumulative quantity\<close>

type_synonym interval = "decimal \<times> decimal"

definition fill_interval_is_valid :: "decimal \<Rightarrow> decimal \<Rightarrow> decimal \<Rightarrow> bool" where
  "fill_interval_is_valid start stop confirmed_limit \<longleftrightarrow>
     start \<ge> 0 \<and> stop > start \<and> stop \<le> confirmed_limit"

definition fill_interval_overlaps :: "decimal \<Rightarrow> decimal \<Rightarrow> interval list \<Rightarrow> bool" where
  "fill_interval_overlaps start stop intervals \<longleftrightarrow>
     list_ex (\<lambda>(existing_start, existing_end). start < existing_end \<and> stop > existing_start) intervals"

fun contiguous_prefix_end :: "interval list \<Rightarrow> decimal \<Rightarrow> decimal" where
  "contiguous_prefix_end [] reach = reach"
| "contiguous_prefix_end ((existing_start, existing_end) # ivs) reach =
     (if existing_start > reach then reach
      else contiguous_prefix_end ivs (if existing_end > reach then existing_end else reach))"

definition window_local_fill_interval ::
  "decimal \<Rightarrow> decimal \<Rightarrow> decimal \<Rightarrow> decimal \<Rightarrow> interval list \<Rightarrow> string option \<Rightarrow> interval option" where
  "window_local_fill_interval absolute_start absolute_end trade_delta confirmed_limit intervals
     trade_id =
     (if trade_id = None \<or> absolute_start \<noteq> 0 \<or> absolute_end \<le> absolute_start
         \<or> confirmed_limit \<le> 0
      then None
      else
        let prefix_end = contiguous_prefix_end (sort intervals) 0
        in if prefix_end \<le> 0 then None
           else
             let fallback_end = dadd prefix_end trade_delta
             in if \<not> fill_interval_is_valid prefix_end fallback_end confirmed_limit
                   \<or> fill_interval_overlaps prefix_end fallback_end intervals
                then None else Some (prefix_end, fallback_end))"

text \<open>The loop of \<^verbatim>\<open>_covered_interval_quantity\<close> over the sorted intervals.\<close>

fun covered_loop :: "interval list \<Rightarrow> decimal \<Rightarrow> decimal \<Rightarrow> decimal \<Rightarrow> decimal" where
  "covered_loop [] confirmed_quantity covered covered_until = covered"
| "covered_loop ((start, stop) # ivs) confirmed_quantity covered covered_until =
     (let clipped_start = max start 0; clipped_end = min stop confirmed_quantity
      in if clipped_end \<le> clipped_start
         then covered_loop ivs confirmed_quantity covered covered_until
         else
           let clipped_start = (if clipped_start < covered_until then covered_until else clipped_start)
           in if clipped_end \<le> clipped_start
              then covered_loop ivs confirmed_quantity covered covered_until
              else
                let covered = dadd covered (dsub clipped_end clipped_start)
                in if clipped_end \<ge> confirmed_quantity then covered
                   else covered_loop ivs confirmed_quantity covered clipped_end)"

definition covered_interval_quantity :: "interval list \<Rightarrow> decimal \<Rightarrow> decimal" where
  "covered_interval_quantity intervals confirmed_quantity =
     covered_loop (sort intervals) confirmed_quantity 0 0"

section \<open>Trade bookkeeping\<close>

record fill_report =
  incoming_cumulative :: decimal
  trade_id :: "string option"
  fill_price :: decimal
  report_is_maker :: "bool option"
  authoritative_trade :: bool
  fill_quantity_delta :: "decimal option"
  event_time_ms :: "int option"
  transaction_time_ms :: "int option"
  authoritative_confirmed_limit :: "decimal option"

definition record_ignored_fill_trade_id :: "string \<Rightarrow> execution_record \<Rightarrow> execution_record" where
  "record_ignored_fill_trade_id i r =
     (if i \<in> ignored_fill_trade_ids r then r
      else increment_metric ''duplicate_events_ignored''
             (r\<lparr>ignored_fill_trade_ids := insert i (ignored_fill_trade_ids r)\<rparr>))"

text \<open>A trade that is not counted is still remembered, and recorded as ignored.\<close>

definition ignore_trade :: "string option \<Rightarrow> execution_record \<Rightarrow> execution_record" where
  "ignore_trade i r =
     (case i of
        None \<Rightarrow> r
      | Some i \<Rightarrow> record_ignored_fill_trade_id i
          (r\<lparr>seen_fill_trade_ids := insert i (seen_fill_trade_ids r)\<rparr>))"

definition or_zero :: "int option \<Rightarrow> int" where
  "or_zero t = (case t of None \<Rightarrow> 0 | Some t \<Rightarrow> t)"

definition trade_sort_key :: "execution_record \<Rightarrow> string \<Rightarrow> int \<times> int \<times> string" where
  "trade_sort_key r i = (case map_of (trade_fill_sort_keys r) i of None \<Rightarrow> (0, 0, i) | Some k \<Rightarrow> k)"

definition rebuilt_vwap_inputs :: "execution_record \<Rightarrow> (decimal \<times> decimal) list" where
  "rebuilt_vwap_inputs r =
     (let ordered_trade_ids = sort_key (trade_sort_key r) (map fst (trade_fill_vwap_inputs r))
      in map (\<lambda>i. the (map_of (trade_fill_vwap_inputs r) i)) ordered_trade_ids
         @ anonymous_fill_vwap_inputs r)"

definition rebuild_trade_fill_vwap_inputs :: "execution_record \<Rightarrow> execution_record" where
  "rebuild_trade_fill_vwap_inputs r = r\<lparr>fill_vwap_inputs := rebuilt_vwap_inputs r\<rparr>"

definition intervals_of :: "execution_record \<Rightarrow> string \<Rightarrow> interval list" where
  "intervals_of r coid =
     (case map_of (child_authoritative_fill_intervals r) coid of None \<Rightarrow> [] | Some ivs \<Rightarrow> ivs)"

definition set_intervals :: "string \<Rightarrow> interval list \<Rightarrow> execution_record \<Rightarrow> execution_record" where
  "set_intervals coid ivs r =
     r\<lparr>child_authoritative_fill_intervals :=
         AList.update coid ivs (child_authoritative_fill_intervals r)\<rparr>"

definition record_vwap_input :: "fill_report \<Rightarrow> decimal \<Rightarrow> execution_record \<Rightarrow> execution_record" where
  "record_vwap_input a trade_delta r =
     (case trade_id a of
        Some i \<Rightarrow>
          rebuild_trade_fill_vwap_inputs
            (r\<lparr>seen_fill_trade_ids := insert i (seen_fill_trade_ids r),
               rec_tracker := map_option (\<lambda>t. t\<lparr>seen_trade_ids := insert i (seen_trade_ids t)\<rparr>)
                 (rec_tracker r),
               trade_fill_vwap_inputs :=
                 AList.update i (fill_price a, trade_delta) (trade_fill_vwap_inputs r),
               trade_fill_sort_keys :=
                 AList.update i (or_zero (event_time_ms a), or_zero (transaction_time_ms a), i)
                   (trade_fill_sort_keys r)\<rparr>)
      | None \<Rightarrow>
          r\<lparr>anonymous_fill_vwap_inputs := anonymous_fill_vwap_inputs r @ [(fill_price a, trade_delta)],
            fill_vwap_inputs := fill_vwap_inputs r @ [(fill_price a, trade_delta)]\<rparr>)"

definition record_liquidity :: "bool option \<Rightarrow> decimal \<Rightarrow> execution_record \<Rightarrow> execution_record" where
  "record_liquidity maker trade_delta r =
     (case maker of
        Some True \<Rightarrow> increment_metric ''maker_fills''
          (r\<lparr>maker_filled_quantity := dadd (maker_filled_quantity r) trade_delta\<rparr>)
      | Some False \<Rightarrow> increment_metric ''taker_fills''
          (r\<lparr>taker_filled_quantity := dadd (taker_filled_quantity r) trade_delta\<rparr>)
      | None \<Rightarrow> r)"

section \<open>One reported fill\<close>

definition child_fill_delta :: "decimal \<Rightarrow> child_order \<Rightarrow> decimal" where
  "child_fill_delta incoming c =
     (if incoming > child_filled c then dsub incoming (child_filled c) else 0)"

text \<open>The interval a trade is booked under: its own, or the next one of the known prefix.\<close>

definition accepted_interval ::
  "fill_report \<Rightarrow> decimal \<Rightarrow> decimal \<Rightarrow> interval list \<Rightarrow> interval option" where
  "accepted_interval a trade_delta interval_limit intervals =
     (let interval_start = dsub (incoming_cumulative a) trade_delta;
          interval_end = incoming_cumulative a
      in if fill_interval_is_valid interval_start interval_end interval_limit
            \<and> \<not> fill_interval_overlaps interval_start interval_end intervals
         then Some (interval_start, interval_end)
         else window_local_fill_interval interval_start interval_end trade_delta interval_limit
                intervals (trade_id a))"

definition advance_child :: "nat \<Rightarrow> fill_report \<Rightarrow> decimal \<Rightarrow> ('w, unit) eng" where
  "advance_child i a child_delta =
     guarded (child_delta > 0)
       (andthen (modr (modify_child i (\<lambda>c. c\<lparr>child_filled := incoming_cumulative a\<rparr>)))
       (bind (getr (\<lambda>r. dadd (confirmed r) child_delta)) (\<lambda>aggregate_cumulative.
          on_tracker (\<lambda>t. sbind (apply_fill (trade_id a) aggregate_cumulative t)
            (\<lambda>(_, t'). Inr t')))))"

text \<open>The last part of the method: an accepted trade is booked under its interval.\<close>

definition book_trade ::
  "string \<Rightarrow> interval list \<Rightarrow> interval \<Rightarrow> fill_report \<Rightarrow> decimal \<Rightarrow> ('w, unit) eng" where
  "book_trade coid intervals iv a trade_delta =
     andthen (modr (set_intervals coid (intervals @ [iv])))
     (andthen (modr (record_vwap_input a trade_delta))
        (modr (record_liquidity (report_is_maker a) trade_delta)))"

definition apply_authoritative_trade ::
  "nat \<Rightarrow> fill_report \<Rightarrow> child_order \<Rightarrow> interval list \<Rightarrow> decimal \<Rightarrow> decimal \<Rightarrow> ('w, unit) eng" where
  "apply_authoritative_trade i a c intervals child_delta trade_delta =
     (let interval_limit = max (max (child_filled c) (incoming_cumulative a))
            (case authoritative_confirmed_limit a of None \<Rightarrow> 0 | Some l \<Rightarrow> l)
      in andthen (modr (set_intervals (client_order_id c) intervals))
         (case accepted_interval a trade_delta interval_limit intervals of
            None \<Rightarrow> modr (ignore_trade (trade_id a))
          | Some iv \<Rightarrow>
              andthen (advance_child i a child_delta)
                (book_trade (client_order_id c) intervals iv a trade_delta)))"

definition update_child_cumulative_fill :: "nat \<Rightarrow> fill_report \<Rightarrow> ('w, unit) eng" where
  "update_child_cumulative_fill i a =
     bind require_exposure_tracker (\<lambda>_.
     bind get_record (\<lambda>r.
       if (case trade_id a of None \<Rightarrow> False | Some t \<Rightarrow> t \<in> seen_fill_trade_ids r)
       then modr (record_ignored_fill_trade_id (the (trade_id a)))
       else
         let c = child_orders r ! i;
             child_delta = child_fill_delta (incoming_cumulative a) c;
             trade_delta = (case fill_quantity_delta a of Some d \<Rightarrow> d | None \<Rightarrow> child_delta)
         in if \<not> authoritative_trade a then advance_child i a child_delta
            else if trade_delta \<le> 0 then modr (ignore_trade (trade_id a))
            else apply_authoritative_trade i a c (intervals_of r (client_order_id c))
                   child_delta trade_delta))"

text \<open>The report of an order snapshot: a cumulative quantity at the child's own price.\<close>

definition snapshot_report :: "decimal \<Rightarrow> decimal \<Rightarrow> fill_report" where
  "snapshot_report cumulative price =
     \<lparr>incoming_cumulative = cumulative, trade_id = None, fill_price = price,
      report_is_maker = None, authoritative_trade = False, fill_quantity_delta = None,
      event_time_ms = None, transaction_time_ms = None, authoritative_confirmed_limit = None\<rparr>"

definition apply_snapshot_fill :: "nat \<Rightarrow> decimal \<Rightarrow> ('w, unit) eng" where
  "apply_snapshot_fill i cumulative =
     bind (getr (\<lambda>r. child_price (child_orders r ! i))) (\<lambda>price.
       update_child_cumulative_fill i (snapshot_report cumulative price))"

section \<open>Rebuilding the reserved buckets\<close>

definition add_child_exposure :: "exposure \<Rightarrow> child_order \<Rightarrow> exposure" where
  "add_child_exposure e c =
     (let remaining = remaining_quantity c
      in if is_live (child_status c)
         then e\<lparr>live_open_quantity := dadd (live_open_quantity e) remaining\<rparr>
         else if child_status c = PENDING_SUBMIT
         then e\<lparr>pending_submit_quantity := dadd (pending_submit_quantity e) remaining\<rparr>
         else if child_status c = PENDING_CANCEL
         then e\<lparr>pending_cancel_quantity := dadd (pending_cancel_quantity e) remaining\<rparr>
         else if child_status c = UNKNOWN
         then e\<lparr>unknown_order_quantity := dadd (unknown_order_quantity e) remaining\<rparr>
         else e)"

definition rebuilt_exposure :: "decimal \<Rightarrow> child_order list \<Rightarrow> exposure" where
  "rebuilt_exposure confirmed_quantity children =
     foldl add_child_exposure (empty_exposure\<lparr>confirmed_filled_quantity := confirmed_quantity\<rparr>)
       children"

definition refresh_reserved_exposure :: "('w, unit) eng" where
  "refresh_reserved_exposure =
     bind (getr child_orders) (\<lambda>children.
       on_tracker (\<lambda>t. Inr (on_tracked
         (\<lambda>e. rebuilt_exposure (confirmed_filled_quantity e) children) t)))"

end
