(* ===== verification/Engine_Summary.thy ===== *)
theory Engine_Summary
  imports Engine_Fills
begin

text \<open>
  The execution summary of \<^verbatim>\<open>src/execution/engine.py\<close>: the inputs of the volume-weighted price, the
  counts of orders submitted after the deadline, the TWAP slice ledger and the metrics dictionary.
\<close>

section \<open>Price inputs\<close>

definition provisional_fill_vwap_inputs :: "execution_record \<Rightarrow> (decimal \<times> decimal) list" where
  "provisional_fill_vwap_inputs r =
     [(child_price c, child_filled c). c \<leftarrow> child_orders r, child_filled c > 0]"

definition uncovered_quantity :: "execution_record \<Rightarrow> child_order \<Rightarrow> decimal" where
  "uncovered_quantity r c =
     dsub (child_filled c) (covered_interval_quantity (intervals_of r (client_order_id c)) (child_filled c))"

definition summary_vwap_inputs :: "execution_record \<Rightarrow> (decimal \<times> decimal) list" where
  "summary_vwap_inputs r =
     (if fill_vwap_inputs r = [] then provisional_fill_vwap_inputs r
      else fill_vwap_inputs r
        @ [(child_price c, uncovered_quantity r c). c \<leftarrow> child_orders r, uncovered_quantity r c > 0])"

section \<open>Orders submitted after the deadline\<close>

definition submitted_at :: "execution_record \<Rightarrow> child_order \<Rightarrow> decimal option" where
  "submitted_at r c = map_of (child_submitted_monotonic r) (client_order_id c)"

definition submitted_after :: "execution_record \<Rightarrow> decimal \<Rightarrow> child_order \<Rightarrow> bool" where
  "submitted_after r deadline_monotonic c \<longleftrightarrow>
     (case submitted_at r c of None \<Rightarrow> False | Some t \<Rightarrow> \<not> t \<le> deadline_monotonic)"

definition is_aggressive :: "execution_record \<Rightarrow> child_order \<Rightarrow> bool" where
  "is_aggressive r c \<longleftrightarrow> client_order_id c \<in> aggressive_child_client_order_ids r"

definition post_deadline_submission_counts :: "execution_record \<Rightarrow> decimal \<Rightarrow> int \<times> int \<times> int" where
  "post_deadline_submission_counts r requested_duration =
     (let deadline_monotonic = dadd (started_monotonic r) requested_duration
      in foldl
           (\<lambda>(orders, scheduled, aggressive) c.
              if \<not> submitted_after r deadline_monotonic c then (orders, scheduled, aggressive)
              else if is_aggressive r c then (orders + 1, scheduled, aggressive + 1)
              else (orders + 1, scheduled + 1, aggressive))
           (0, 0, 0) (child_orders r))"

section \<open>The TWAP slice ledger\<close>

definition planned_quantity :: "decimal \<Rightarrow> int \<Rightarrow> int \<Rightarrow> decimal" where
  "planned_quantity required k slices = ddiv (dmul required (of_int k)) (of_int slices)"

definition empty_twap_slice_ledger_row :: "execution_record \<Rightarrow> decimal \<Rightarrow> int \<Rightarrow> int \<Rightarrow> slice_row" where
  "empty_twap_slice_ledger_row r slice_duration slices k =
     (let previous_planned = planned_quantity (required_quantity r) (k - 1) slices;
          planned = planned_quantity (required_quantity r) k slices
      in \<lparr>row_execution_id = rec_execution_id r, slice_index = k,
          slice_start_seconds = dmul slice_duration (of_int (k - 1)),
          slice_end_seconds = dmul slice_duration (of_int k),
          planned_cumulative_quantity = planned,
          planned_slice_quantity = dsub planned previous_planned,
          row_submitted_quantity = 0, row_open_quantity = 0, row_filled_quantity = 0,
          row_cancelled_quantity = 0, row_unfilled_quantity = 0, row_schedule_deficit = 0,
          row_child_order_ids = [], row_client_order_ids = []\<rparr>)"

definition twap_child_slice_index :: "execution_record \<Rightarrow> int \<Rightarrow> decimal \<Rightarrow> child_order \<Rightarrow> int" where
  "twap_child_slice_index r slices slice_duration c =
     (case submitted_at r c of
        None \<Rightarrow> slices
      | Some t \<Rightarrow>
          if slice_duration \<le> 0 then slices
          else
            let elapsed = dsub t (started_monotonic r)
            in if elapsed \<le> 0 then 1
               else
                 let k = \<lceil>ddiv elapsed slice_duration\<rceil>
                 in if k < 1 then 1 else if k > slices then slices else k)"

definition add_child_to_row :: "child_order \<Rightarrow> slice_row \<Rightarrow> slice_row" where
  "add_child_to_row c row =
     row\<lparr>row_submitted_quantity := dadd (row_submitted_quantity row) (submitted_quantity c),
         row_filled_quantity := dadd (row_filled_quantity row) (child_filled c),
         row_open_quantity :=
           (if is_live (child_status c) then dadd (row_open_quantity row) (remaining_quantity c)
            else row_open_quantity row),
         row_cancelled_quantity :=
           (if child_status c = CHILD_CANCELLED
            then dadd (row_cancelled_quantity row) (remaining_quantity c)
            else row_cancelled_quantity row),
         row_child_order_ids := row_child_order_ids row @ [child_order_id c],
         row_client_order_ids := row_client_order_ids row @ [client_order_id c]\<rparr>"

definition book_child :: "execution_record \<Rightarrow> int \<Rightarrow> decimal \<Rightarrow> slice_row list \<Rightarrow> child_order \<Rightarrow> slice_row list" where
  "book_child r slices slice_duration rows c =
     (let i = nat (twap_child_slice_index r slices slice_duration c - 1)
      in rows[i := add_child_to_row c (rows ! i)])"

fun finish_rows :: "decimal \<Rightarrow> slice_row list \<Rightarrow> slice_row list" where
  "finish_rows cumulative_filled [] = []"
| "finish_rows cumulative_filled (row # rows) =
     (let cumulative_filled = dadd cumulative_filled (row_filled_quantity row)
      in row\<lparr>row_unfilled_quantity :=
               max (dsub (planned_slice_quantity row) (row_filled_quantity row)) 0,
             row_schedule_deficit :=
               max (dsub (planned_cumulative_quantity row) cumulative_filled) 0\<rparr>
         # finish_rows cumulative_filled rows)"

definition twap_slice_ledger :: "execution_record \<Rightarrow> slice_row list" where
  "twap_slice_ledger r =
     (let slices = number_of_slices (parameters (request r))
      in if req_algorithm (request r) \<noteq> TWAP \<or> rec_side r = NO_ACTION \<or> required_quantity r \<le> 0
            \<or> slices \<le> 0
         then []
         else
           let total_duration = of_int (target_duration_seconds (request r));
               slice_duration = ddiv total_duration (of_int slices);
               rows = map (empty_twap_slice_ledger_row r slice_duration slices) [1..slices]
           in finish_rows 0 (foldl (book_child r slices slice_duration) rows (child_orders r)))"

section \<open>The metrics dictionary\<close>

definition engine_metrics :: "execution_record \<Rightarrow> decimal \<Rightarrow> decimal \<Rightarrow> metrics" where
  "engine_metrics r actual_duration requested_duration =
     (let decision_deadline_elapsed = min actual_duration requested_duration;
          cleanup = dsub actual_duration decision_deadline_elapsed;
          (after, scheduled, aggressive) = post_deadline_submission_counts r requested_duration;
          counted = (\<lambda>name. (name, MInt (metric_count r name)))
      in [(''initial_position'', MDec (pos_position (initial_position r))),
          (''target_position'', MDec (target_position (request r))),
          (''side'', MSide (rec_side r)),
          (''child_order_count'', MInt (int (length (child_orders r)))),
          counted ''orders_submitted'', counted ''cancels_requested'', counted ''reprices'',
          counted ''rejections'', counted ''maker_fills'', counted ''taker_fills'',
          (''maker_filled_quantity'', MDec (maker_filled_quantity r)),
          (''taker_filled_quantity'', MDec (taker_filled_quantity r)),
          counted ''retryable_order_rejections'',
          (''retryable_order_reject_streak'', MInt (consecutive_retryable_order_rejects r)),
          (''retryable_order_reject_limit'',
            MInt (max_post_only_reject_retries (parameters (request r)))),
          (''retryable_order_reject_backoff_seconds'', MDec retryable_order_reject_backoff_seconds),
          counted ''retryable_order_reject_backoff_blocks'',
          counted ''retryable_order_reject_same_price_blocks'',
          (''rate_limit_backoff_seconds'', MDec rate_limit_backoff_seconds),
          counted ''rate_limit_backoffs'', counted ''rate_limit_backoff_blocks'',
          (''decision_deadline_elapsed_seconds'', MStr (decimal_string decision_deadline_elapsed)),
          (''terminal_cleanup_duration_seconds'', MStr (decimal_string cleanup)),
          (''total_lifecycle_duration_seconds'', MStr (decimal_string actual_duration)),
          (''orders_submitted_after_deadline'', MInt after),
          (''scheduled_orders_submitted_after_deadline'', MInt scheduled),
          (''deadline_aggressive_orders_submitted_after_deadline'', MInt aggressive),
          (''twap_slice_ledger'', MRows (twap_slice_ledger r))])"

definition summary_metrics_at :: "decimal \<Rightarrow> execution_record \<Rightarrow> metrics" where
  "summary_metrics_at completed_at r =
     (let or0 = (\<lambda>x. case x of None \<Rightarrow> 0 | Some d \<Rightarrow> d);
          vwap_inputs = summary_vwap_inputs r;
          vwap = (if vwap_inputs = [] then 0 else execution_vwap vwap_inputs);
          duration = dsub completed_at (started_monotonic r);
          actual_duration = (if duration < 0 then 0 else duration);
          requested_duration = target_duration_seconds (request r)
      in summary_metrics_of (status r) (rec_side r) (raw_required_quantity r) (required_quantity r)
           (target_dust_quantity r) (confirmed r) (or0 (arrival_bid r)) (or0 (arrival_ask r)) vwap
           requested_duration actual_duration (metric_count r ''price_bound_violations'')
           (metric_count r ''duplicate_events_ignored'')
           (metric_count r ''unknown_orders_reconciled'') (max_reserved_exposure r)
         @ engine_metrics r actual_duration (of_int requested_duration))"

definition summary_at :: "decimal \<Rightarrow> execution_record \<Rightarrow> execution_summary" where
  "summary_at completed_at r =
     \<lparr>summary_execution_id = rec_execution_id r, summary_final_status = status r,
      summary_final_reason = (case final_reason r of None \<Rightarrow> '''' | Some s \<Rightarrow> s),
      summary_metrics = summary_metrics_at completed_at r\<rparr>"

definition summary_of :: "'w adapter \<Rightarrow> ('w, execution_summary) eng" where
  "summary_of A =
     bind (getr completed_monotonic) (\<lambda>completed.
     bind (case completed of Some t \<Rightarrow> ret t | None \<Rightarrow> now_decimal A) (\<lambda>completed_at.
       getr (summary_at completed_at)))"

definition write_summary :: "'w adapter \<Rightarrow> ('w, unit) eng" where
  "write_summary A = bind (summary_of A) (\<lambda>s. modr (\<lambda>r. r\<lparr>summary := Some s\<rparr>))"

end
