(* ===== verification/Engine_Invariant.thy ===== *)
theory Engine_Invariant
  imports Engine_Summary
begin

text \<open>
  What the engine keeps. \<open>rec_ok\<close> is the invariant of an execution record; \<open>record_evolves\<close> is the
  relation between a record before and after any engine operation, normal or exceptional: the
  request and the derived quantities are fixed, statuses follow the transition tables, fills only
  grow, orders are not forgotten, and the invariant is kept. It interprets \<open>evolution\<close>, so compound
  operations obey it as soon as their statements do.
\<close>

section \<open>The invariant of a record\<close>

definition apart :: "interval \<Rightarrow> interval \<Rightarrow> bool" where
  "apart a b \<longleftrightarrow> snd a \<le> fst b \<or> snd b \<le> fst a"

definition intervals_ok :: "interval list \<Rightarrow> bool" where
  "intervals_ok ivs \<longleftrightarrow> sorted_wrt apart ivs \<and> (\<forall>iv \<in> set ivs. 0 \<le> fst iv \<and> fst iv < snd iv)"

definition fills_ok :: "execution_record \<Rightarrow> bool" where
  "fills_ok r \<longleftrightarrow>
     (\<forall>coid. intervals_ok (intervals_of r coid))
     \<and> distinct (map fst (trade_fill_vwap_inputs r))
     \<and> fst ` set (trade_fill_vwap_inputs r) \<subseteq> seen_fill_trade_ids r
     \<and> fill_vwap_inputs r = rebuilt_vwap_inputs r"

definition tracking_ok :: "execution_record \<Rightarrow> bool" where
  "tracking_ok r \<longleftrightarrow>
     dec_ok (required_quantity r)
     \<and> (case rec_tracker r of
        None \<Rightarrow> status r \<notin> {RUNNING, CANCELLING}
      | Some t \<Rightarrow> tracker_ok t \<and> target_quantity t = required_quantity r \<and> permitted_tolerance t = 0)"

definition closing_ok :: "execution_record \<Rightarrow> bool" where
  "closing_ok r \<longleftrightarrow>
     (execution_status_is_terminal (status r) \<longrightarrow> completed_monotonic r \<noteq> None \<and> summary r \<noteq> None)
     \<and> (\<forall>s. summary r = Some s \<longrightarrow>
          execution_status_is_terminal (status r) \<and> summary_final_status s = status r
          \<and> summary_execution_id s = rec_execution_id r)"

definition rec_ok :: "execution_record \<Rightarrow> bool" where
  "rec_ok r \<longleftrightarrow> fills_ok r \<and> tracking_ok r \<and> closing_ok r"

section \<open>The evolution of a record\<close>

definition child_evolves :: "child_order \<Rightarrow> child_order \<Rightarrow> bool" where
  "child_evolves c d \<longleftrightarrow>
     child_order_id d = child_order_id c \<and> client_order_id d = client_order_id c
     \<and> child_symbol d = child_symbol c \<and> child_side d = child_side c
     \<and> submitted_quantity d = submitted_quantity c \<and> child_price d = child_price c
     \<and> child_path (child_status c) (child_status d) \<and> child_filled c \<le> child_filled d"

definition children_evolve :: "child_order list \<Rightarrow> child_order list \<Rightarrow> bool" where
  "children_evolve cs ds \<longleftrightarrow>
     (\<forall>c \<in> set cs. child_status c \<noteq> PENDING_SUBMIT \<longrightarrow> (\<exists>d \<in> set ds. child_evolves c d))"

definition identity :: "execution_record \<Rightarrow>
    string \<times> execution_request \<times> side \<times> decimal \<times> position_snapshot \<times> decimal \<times> decimal" where
  "identity r =
     (rec_execution_id r, request r, rec_side r, required_quantity r, initial_position r,
      raw_required_quantity r, target_dust_quantity r)"

definition record_evolves :: "execution_record \<Rightarrow> execution_record \<Rightarrow> bool" where
  "record_evolves r r' \<longleftrightarrow>
     identity r' = identity r
     \<and> execution_path (status r) (status r')
     \<and> confirmed r \<le> confirmed r'
     \<and> seen_fill_trade_ids r \<subseteq> seen_fill_trade_ids r'
     \<and> ignored_fill_trade_ids r \<subseteq> ignored_fill_trade_ids r'
     \<and> children_evolve (child_orders r) (child_orders r')
     \<and> last_child_sequence r \<le> last_child_sequence r'
     \<and> max_reserved_exposure r \<le> max_reserved_exposure r'
     \<and> (rec_ok r \<longrightarrow> rec_ok r')"

abbreviation state_evolves :: "execution_record \<times> 'w \<Rightarrow> execution_record \<times> 'w \<Rightarrow> bool" where
  "state_evolves s t \<equiv> record_evolves (fst s) (fst t)"

lemma child_evolves_refl [simp, intro]: "child_evolves c c"
  by (simp add: child_evolves_def)

lemma child_evolves_trans: "child_evolves c d \<Longrightarrow> child_evolves d e \<Longrightarrow> child_evolves c e"
  by (auto simp: child_evolves_def intro: rtranclp_trans)

lemma children_evolve_refl [simp, intro]: "children_evolve cs cs"
  by (auto simp: children_evolve_def)

lemma children_evolve_trans:
  assumes "children_evolve cs ds" "children_evolve ds es"
  shows "children_evolve cs es"
  unfolding children_evolve_def
proof (intro ballI impI)
  fix c assume "c \<in> set cs" "child_status c \<noteq> PENDING_SUBMIT"
  then obtain d where d: "d \<in> set ds" "child_evolves c d" using assms(1) by (auto simp: children_evolve_def)
  then have "child_status d \<noteq> PENDING_SUBMIT"
    using \<open>child_status c \<noteq> PENDING_SUBMIT\<close> pending_submit_initial [of "child_status c"]
    by (auto simp: child_evolves_def)
  then show "\<exists>e\<in>set es. child_evolves c e"
    using assms(2) d child_evolves_trans unfolding children_evolve_def by blast
qed

lemma record_evolves_refl [simp, intro]: "record_evolves r r"
  by (simp add: record_evolves_def)

lemma record_evolves_trans: "record_evolves r s \<Longrightarrow> record_evolves s t \<Longrightarrow> record_evolves r t"
  unfolding record_evolves_def
  by (auto intro: rtranclp_trans children_evolve_trans order_trans)

interpretation rev: evolution state_evolves
  by unfold_locales (auto intro: record_evolves_trans)

lemmas rev_intros [evolve_intro] =
  rev.ev_ret rev.ev_throw rev.ev_gets rev.ev_lift_res rev.ev_bind rev.ev_try_else rev.ev_guarded
  rev.ev_for_each

lemma rev_getr [evolve_intro]: "evolves state_evolves (getr f)"
  by (simp add: getr_def rev.ev_gets)

lemma rev_call [evolve_intro]: "evolves state_evolves (call op)"
  by (simp add: evolves_def call_def Let_def)

lemma rev_now [evolve_intro]: "evolves state_evolves (now_decimal A)"
  by (simp add: now_decimal_def rev_call)

lemma rev_modr: "(\<And>r. record_evolves r (f r)) \<Longrightarrow> evolves state_evolves (modr f)"
  by (simp add: evolves_def modr_def modify_def)

section \<open>Updates that do not matter to the invariant\<close>

definition ok_core :: "execution_record \<Rightarrow> _" where
  "ok_core r =
     (rec_execution_id r, required_quantity r, status r, summary r, rec_tracker r,
      completed_monotonic r, seen_fill_trade_ids r, fill_vwap_inputs r, trade_fill_vwap_inputs r,
      trade_fill_sort_keys r, child_authoritative_fill_intervals r, anonymous_fill_vwap_inputs r)"

lemma ok_core_eq:
  assumes "ok_core r' = ok_core r"
  shows "rec_ok r' = rec_ok r" and "exposure_of r' = exposure_of r"
proof -
  have c: "status r' = status r" "summary r' = summary r" "rec_tracker r' = rec_tracker r"
    "required_quantity r' = required_quantity r" "rec_execution_id r' = rec_execution_id r"
    "completed_monotonic r' = completed_monotonic r"
    "seen_fill_trade_ids r' = seen_fill_trade_ids r"
    "fill_vwap_inputs r' = fill_vwap_inputs r"
    "trade_fill_vwap_inputs r' = trade_fill_vwap_inputs r"
    "trade_fill_sort_keys r' = trade_fill_sort_keys r"
    "child_authoritative_fill_intervals r' = child_authoritative_fill_intervals r"
    "anonymous_fill_vwap_inputs r' = anonymous_fill_vwap_inputs r"
    using assms by (simp_all add: ok_core_def)
  have "intervals_of r' = intervals_of r" by (rule ext) (simp add: intervals_of_def c)
  moreover have "trade_sort_key r' = trade_sort_key r" by (rule ext) (simp add: trade_sort_key_def c)
  ultimately show "rec_ok r' = rec_ok r"
    by (simp add: rec_ok_def fills_ok_def tracking_ok_def closing_ok_def rebuilt_vwap_inputs_def c
        cong: option.case_cong)
  show "exposure_of r' = exposure_of r" by (simp add: exposure_of_def c)
qed

definition core :: "execution_record \<Rightarrow> _" where
  "core r =
     (identity r, ok_core r, child_orders r, last_child_sequence r, max_reserved_exposure r,
      ignored_fill_trade_ids r)"

lemma core_evolves:
  assumes "core r' = core r"
  shows "record_evolves r r'"
proof -
  have "ok_core r' = ok_core r" using assms by (simp add: core_def)
  from ok_core_eq [OF this] assms show ?thesis
    by (simp add: record_evolves_def core_def ok_core_def)
qed

lemma rev_core: "(\<And>r. core (f r) = core r) \<Longrightarrow> evolves state_evolves (modr f)"
  by (intro rev_modr core_evolves)

lemma core_set_final_reason [simp]: "core (set_final_reason x r) = core r"
  and core_increment_metric [simp]: "core (increment_metric n r) = core r"
  by (simp_all add: core_def ok_core_def set_final_reason_def increment_metric_def identity_def)

lemma rev_set_final_reason [evolve_intro]: "evolves state_evolves (modr (set_final_reason x))"
  and rev_increment_metric [evolve_intro]: "evolves state_evolves (modr (increment_metric n))"
  by (simp_all add: rev_core)

section \<open>The tracker\<close>

definition tracker_evolves :: "exposure_tracker \<Rightarrow> exposure_tracker \<Rightarrow> bool" where
  "tracker_evolves t t' \<longleftrightarrow>
     target_quantity t' = target_quantity t \<and> permitted_tolerance t' = permitted_tolerance t
     \<and> confirmed_filled_quantity (tracked t) \<le> confirmed_filled_quantity (tracked t')
     \<and> (tracker_ok t \<longrightarrow> tracker_ok t')"

lemma tracker_frame_evolves: "tracker_frame t t' \<Longrightarrow> tracker_evolves t t'"
  by (simp add: tracker_frame_def tracker_evolves_def)

lemmas tracker_op_evolves = tracker_frames [THEN tracker_frame_evolves]

lemma set_tracker_evolves:
  assumes "case rec_tracker r of None \<Rightarrow> new_exposure_tracker (required_quantity r) = Inr t
           | Some t0 \<Rightarrow> tracker_evolves t0 t"
  shows "record_evolves r (r\<lparr>rec_tracker := Some t\<rparr>)"
proof -
  let ?r = "r\<lparr>rec_tracker := Some t\<rparr>"
  have "fills_ok r \<Longrightarrow> fills_ok ?r"
    by (simp add: fills_ok_def intervals_of_def rebuilt_vwap_inputs_def trade_sort_key_def [abs_def]
        cong: option.case_cong)
  moreover have "tracking_ok r \<Longrightarrow> tracking_ok ?r"
    using assms by (auto simp: tracking_ok_def tracker_evolves_def dest: new_exposure_tracker_ok
        split: option.splits)
  moreover have "closing_ok r \<Longrightarrow> closing_ok ?r" by (simp add: closing_ok_def)
  moreover have "confirmed r \<le> confirmed ?r"
    using assms by (auto simp: exposure_of_def tracker_evolves_def empty_exposure_def
        dest: new_exposure_tracker_ok split: option.splits)
  ultimately show ?thesis by (simp add: record_evolves_def rec_ok_def identity_def)
qed

lemma wp_require_tracker:
  "wp require_exposure_tracker Q E s =
     (case rec_tracker (fst s) of
        Some t \<Rightarrow> Q t s
      | None \<Rightarrow> (case new_exposure_tracker (required_quantity (fst s)) of
          Inl e \<Rightarrow> E e s
        | Inr t \<Rightarrow> Q t ((fst s)\<lparr>rec_tracker := Some t\<rparr>, snd s)))"
  by (simp add: require_exposure_tracker_def wp_simp split: option.splits sum.splits)

lemma rev_require_tracker [evolve_intro]: "evolves state_evolves require_exposure_tracker"
  by (auto simp: evolves_wp wp_require_tracker split: option.splits sum.splits
      intro!: set_tracker_evolves)

lemma tracker_evolves_refl [simp, intro]: "tracker_evolves t t"
  by (simp add: tracker_evolves_def)

lemma rev_on_tracker:
  assumes op: "\<And>t t'. op t = Inr t' \<Longrightarrow> tracker_evolves t t'"
  shows "evolves state_evolves (on_tracker op)"
  unfolding evolves_wp
proof
  fix s :: "execution_record \<times> 'w"
  have 1: "state_evolves s ((fst s)\<lparr>rec_tracker := Some t'\<rparr>, snd s)"
    if "rec_tracker (fst s) = Some t" "op t = Inr t'" for t t'
    using that op by (simp add: set_tracker_evolves)
  have 2: "record_evolves (fst s) ((fst s)\<lparr>rec_tracker := Some t\<rparr>)"
    "op t = Inr t' \<Longrightarrow> record_evolves (fst s) ((fst s)\<lparr>rec_tracker := Some t'\<rparr>)"
    if "rec_tracker (fst s) = None" "new_exposure_tracker (required_quantity (fst s)) = Inr t" for t t'
  proof -
    show a: "record_evolves (fst s) ((fst s)\<lparr>rec_tracker := Some t\<rparr>)"
      using that by (simp add: set_tracker_evolves)
    assume "op t = Inr t'"
    then have "record_evolves ((fst s)\<lparr>rec_tracker := Some t\<rparr>)
        ((fst s)\<lparr>rec_tracker := Some t, rec_tracker := Some t'\<rparr>)"
      using op by (intro set_tracker_evolves) simp
    with a show "record_evolves (fst s) ((fst s)\<lparr>rec_tracker := Some t'\<rparr>)"
      using record_evolves_trans by fastforce
  qed
  show "wp (on_tracker op) (\<lambda>_. state_evolves s) (\<lambda>_. state_evolves s) s"
    using 1 2 by (auto simp: on_tracker_def wp_simp wp_require_tracker split: option.splits sum.splits)
qed

lemma rev_tracker_ops [evolve_intro]:
  "evolves state_evolves (on_tracker (reserve_live_open q))"
  "evolves state_evolves (on_tracker (reserve_pending_submit q))"
  "evolves state_evolves (on_tracker (release_pending_submit q))"
  "evolves state_evolves (on_tracker (reserve_unknown_create q))"
  "evolves state_evolves (on_tracker (clear_unknown_create oq))"
  "evolves state_evolves (on_tracker (mark_pending_cancel q))"
  "evolves state_evolves (on_tracker (release_pending_cancel q))"
  by (rule rev_on_tracker, erule tracker_op_evolves)+

lemma record_max_evolves: "record_evolves r (record_max_reserved_exposure r)"
proof -
  have "ok_core (record_max_reserved_exposure r) = ok_core r"
    by (simp add: record_max_reserved_exposure_def ok_core_def)
  from ok_core_eq(1) [OF this] show ?thesis
    by (simp add: record_evolves_def record_max_reserved_exposure_def identity_def exposure_of_def)
qed

lemma rev_record_max [evolve_intro]: "evolves state_evolves (modr record_max_reserved_exposure)"
  by (rule rev_modr) (rule record_max_evolves)

lemma rev_assert [evolve_intro]: "evolves state_evolves assert_exposure_invariant"
  unfolding assert_exposure_invariant_def by (intro evolve_intro)

section \<open>Child orders\<close>

lemma set_children_evolves:
  assumes "children_evolve (child_orders r) cs"
  shows "record_evolves r (r\<lparr>child_orders := cs\<rparr>)"
proof -
  have "ok_core (r\<lparr>child_orders := cs\<rparr>) = ok_core r" by (simp add: ok_core_def)
  from ok_core_eq(1) [OF this] show ?thesis using assms by (simp add: record_evolves_def identity_def exposure_of_def)
qed

lemma list_update_evolves:
  assumes "i < length cs \<Longrightarrow> child_status (cs ! i) \<noteq> PENDING_SUBMIT \<Longrightarrow> child_evolves (cs ! i) c"
  shows "children_evolve cs (cs[i := c])"
  unfolding children_evolve_def
proof (intro ballI impI)
  fix x assume x: "x \<in> set cs" "child_status x \<noteq> PENDING_SUBMIT"
  then obtain j where j: "j < length cs" "x = cs ! j" by (auto simp: in_set_conv_nth)
  show "\<exists>d\<in>set (cs[i := c]). child_evolves x d"
  proof (cases "i = j")
    case True
    then show ?thesis using assms j x by (auto simp: set_update_memI)
  next
    case False
    then have "cs[i := c] ! j = x" using j by simp
    then show ?thesis using j by (metis child_evolves_refl length_list_update nth_mem)
  qed
qed

lemma modify_child_evolves:
  "(\<And>c. i < length (child_orders r) \<Longrightarrow> c = child_orders r ! i \<Longrightarrow> child_evolves c (f c)) \<Longrightarrow>
     record_evolves r (modify_child i f r)"
  unfolding modify_child_def by (rule set_children_evolves) (simp add: list_update_evolves)

lemma rev_modify_child: "(\<And>c. child_evolves c (f c)) \<Longrightarrow> evolves state_evolves (modr (modify_child i f))"
  by (intro rev_modr modify_child_evolves)

lemma rev_set_terminal_reason [evolve_intro]: "evolves state_evolves (modr (set_terminal_reason i x))"
  unfolding set_terminal_reason_def by (rule rev_modify_child) (simp add: child_evolves_def)

lemma copy_exchange_child_evolves: "child_evolves c (copy_exchange_child d b c)"
  by (simp add: copy_exchange_child_def child_evolves_def Let_def)

lemma rev_copy_exchange_child [evolve_intro]:
  "evolves state_evolves (modr (modify_child i (copy_exchange_child d b)))"
  by (rule rev_modify_child) (rule copy_exchange_child_evolves)

lemma rev_update_child_status [evolve_intro]: "evolves state_evolves (update_child_status i target)"
  unfolding evolves_wp update_child_status_def
  by (auto simp: wp_simp child_evolves_def split: sum.split
      intro!: modify_child_evolves dest: set_child_status_path)

section \<open>Reported fills\<close>

lemma ignored_evolves: "record_evolves r (record_ignored_fill_trade_id i r)"
proof (cases "i \<in> ignored_fill_trade_ids r")
  case False
  let ?r = "r\<lparr>ignored_fill_trade_ids := insert i (ignored_fill_trade_ids r)\<rparr>"
  have "ok_core ?r = ok_core r" by (simp add: ok_core_def)
  from ok_core_eq [OF this] have "record_evolves r ?r"
    by (simp add: record_evolves_def identity_def subset_insertI)
  moreover have "record_evolves ?r (increment_metric ''duplicate_events_ignored'' ?r)"
    by (rule core_evolves) simp
  ultimately have "record_evolves r (increment_metric ''duplicate_events_ignored'' ?r)"
    by (rule record_evolves_trans)
  then show ?thesis using False by (simp add: record_ignored_fill_trade_id_def)
qed (simp add: record_ignored_fill_trade_id_def)

lemma rev_ignored [evolve_intro]: "evolves state_evolves (modr (record_ignored_fill_trade_id i))"
  by (rule rev_modr) (rule ignored_evolves)

lemma seen_evolves:
  "record_evolves r (r\<lparr>seen_fill_trade_ids := insert i (seen_fill_trade_ids r)\<rparr>)"
  (is "record_evolves r ?r")
proof -
  have "fills_ok r \<Longrightarrow> fills_ok ?r"
    by (simp add: fills_ok_def intervals_of_def rebuilt_vwap_inputs_def
        trade_sort_key_def [abs_def] subset_insertI2)
  moreover have "tracking_ok ?r = tracking_ok r"
    by (simp add: tracking_ok_def cong: option.case_cong)
  moreover have "closing_ok ?r = closing_ok r" by (simp add: closing_ok_def)
  ultimately show ?thesis by (simp add: record_evolves_def rec_ok_def identity_def exposure_of_def subset_insertI)
qed

lemma rev_ignore_trade [evolve_intro]: "evolves state_evolves (modr (ignore_trade i))"
  by (intro rev_modr)
    (auto simp: ignore_trade_def split: option.split
      intro: record_evolves_trans [OF seen_evolves ignored_evolves])

lemma intervals_ok_append:
  "intervals_ok (ivs @ [iv]) \<longleftrightarrow>
     intervals_ok ivs \<and> 0 \<le> fst iv \<and> fst iv < snd iv \<and> (\<forall>jv \<in> set ivs. apart jv iv)"
  by (auto simp: intervals_ok_def sorted_wrt_append)

lemma not_overlaps_iff:
  "\<not> fill_interval_overlaps a b ivs \<longleftrightarrow> (\<forall>jv \<in> set ivs. apart jv (a, b))"
  by (auto simp: fill_interval_overlaps_def list_ex_iff apart_def not_less)

lemma accepted_interval_ok:
  assumes "accepted_interval a d l ivs = Some iv"
  shows "0 \<le> fst iv" "fst iv < snd iv" "snd iv \<le> l" "\<forall>jv \<in> set ivs. apart jv iv"
proof -
  have "fill_interval_is_valid (fst iv) (snd iv) l \<and> \<not> fill_interval_overlaps (fst iv) (snd iv) ivs"
    using assms by (auto simp: accepted_interval_def window_local_fill_interval_def Let_def
        split: if_splits)
  then show "0 \<le> fst iv" "fst iv < snd iv" "snd iv \<le> l" "\<forall>jv \<in> set ivs. apart jv iv"
    by (auto simp: fill_interval_is_valid_def not_overlaps_iff)
qed

lemma set_intervals_evolves:
  assumes "intervals_ok (intervals_of r coid) \<Longrightarrow> intervals_ok ivs"
  shows "record_evolves r (set_intervals coid ivs r)"
proof -
  have iv: "intervals_of (set_intervals coid ivs r) c = (if c = coid then ivs else intervals_of r c)" for c
    by (simp add: intervals_of_def set_intervals_def update_conv')
  have "fills_ok r \<Longrightarrow> fills_ok (set_intervals coid ivs r)"
    using assms unfolding fills_ok_def iv
    by (auto simp: set_intervals_def rebuilt_vwap_inputs_def trade_sort_key_def [abs_def])
  moreover have "tracking_ok (set_intervals coid ivs r) = tracking_ok r"
    by (simp add: tracking_ok_def set_intervals_def cong: option.case_cong)
  moreover have "closing_ok (set_intervals coid ivs r) = closing_ok r"
    by (simp add: closing_ok_def set_intervals_def)
  moreover have "exposure_of (set_intervals coid ivs r) = exposure_of r"
    by (simp add: exposure_of_def set_intervals_def)
  ultimately show ?thesis by (simp add: record_evolves_def rec_ok_def identity_def set_intervals_def)
qed

lemmas vwap_defs = record_vwap_input_def rebuild_trade_fill_vwap_inputs_def

lemma record_vwap_input_evolves: "record_evolves r (record_vwap_input a d r)"
proof -
  let ?r = "record_vwap_input a d r"
  have iv: "intervals_of ?r = intervals_of r"
    by (rule ext) (simp add: intervals_of_def record_vwap_input_def rebuild_trade_fill_vwap_inputs_def
        split: option.split)
  have "fills_ok ?r" if f: "fills_ok r"
    unfolding fills_ok_def
  proof (intro conjI)
    show "\<forall>coid. intervals_ok (intervals_of ?r coid)" using f by (simp add: iv fills_ok_def)
    show "distinct (map fst (trade_fill_vwap_inputs ?r))"
      using f by (simp add: fills_ok_def vwap_defs distinct_update split: option.split)
    have "fst ` set (trade_fill_vwap_inputs r) \<subseteq> seen_fill_trade_ids r"
      using f by (simp add: fills_ok_def)
    then show "fst ` set (trade_fill_vwap_inputs ?r) \<subseteq> seen_fill_trade_ids ?r"
      by (cases "trade_id a") (simp_all add: vwap_defs dom_update subset_insertI2)
    show "fill_vwap_inputs ?r = rebuilt_vwap_inputs ?r"
      using f by (simp add: fills_ok_def vwap_defs rebuilt_vwap_inputs_def
          trade_sort_key_def [abs_def] split: option.split)
  qed
  moreover have "tracking_ok r \<Longrightarrow> tracking_ok ?r"
    by (auto simp: tracking_ok_def record_vwap_input_def rebuild_trade_fill_vwap_inputs_def
        tracker_ok_def split: option.splits)
  moreover have "closing_ok ?r = closing_ok r"
    by (simp add: closing_ok_def record_vwap_input_def rebuild_trade_fill_vwap_inputs_def
        split: option.split)
  moreover have "exposure_of ?r = exposure_of r"
    by (simp add: exposure_of_def record_vwap_input_def rebuild_trade_fill_vwap_inputs_def
        split: option.split)
  ultimately show ?thesis
    by (cases "trade_id a") (simp_all add: record_evolves_def rec_ok_def identity_def vwap_defs subset_insertI)
qed

lemma rev_record_vwap_input [evolve_intro]: "evolves state_evolves (modr (record_vwap_input a d))"
  by (rule rev_modr) (rule record_vwap_input_evolves)

lemma rev_record_liquidity [evolve_intro]: "evolves state_evolves (modr (record_liquidity m d))"
proof (rule rev_core)
  show "core (record_liquidity m d r) = core r" for r
    by (cases m) (simp_all add: record_liquidity_def core_def ok_core_def identity_def increment_metric_def
        split: bool.split)
qed

lemma rev_apply_fill [evolve_intro]:
  "dec_ok c \<Longrightarrow>
   evolves state_evolves (on_tracker (\<lambda>t. sbind (apply_fill i c t) (\<lambda>(_, t'). Inr t')))"
  by (rule rev_on_tracker)
    (auto simp: sbind_Inr_iff tracker_evolves_def dest: apply_fill_Inr)

text \<open>The advance of a child's cumulative quantity, from the state its delta was computed in.\<close>

lemma wp_advance_child:
  assumes delta: "d = child_fill_delta (incoming_cumulative a) (child_orders (fst s) ! i)"
    and ok: "\<And>t. state_evolves s t \<Longrightarrow>
      child_authoritative_fill_intervals (fst t) = child_authoritative_fill_intervals (fst s) \<Longrightarrow> Q () t"
    and err: "\<And>e t. state_evolves s t \<Longrightarrow> E e t"
  shows "wp (advance_child i a d) Q E s"
proof (cases "0 < d")
  case True
  define s1 where "s1 = (modify_child i (\<lambda>c. c\<lparr>child_filled := incoming_cumulative a\<rparr>) (fst s), snd s)"
  have "child_filled (child_orders (fst s) ! i) \<le> incoming_cumulative a"
    using True delta by (simp add: child_fill_delta_def split: if_splits)
  then have s1: "state_evolves s s1"
    unfolding s1_def by (auto simp: child_evolves_def intro!: modify_child_evolves)
  let ?op = "\<lambda>t. sbind (apply_fill (trade_id a) (dadd (confirmed (fst s1)) d) t) (\<lambda>(_, t'). Inr t')"
  let ?keep = "\<lambda>t. child_authoritative_fill_intervals (fst t) = child_authoritative_fill_intervals (fst s1)"
  have "wp (on_tracker ?op) (\<lambda>_ t. state_evolves s1 t) (\<lambda>_ t. state_evolves s1 t) s1"
    using rev_apply_fill [OF dec_ok_ops(1)] by (rule wp_evolves)
  moreover have "wp (on_tracker ?op) (\<lambda>_. ?keep) (\<lambda>_ _. True) s1"
    by (simp add: on_tracker_def wp_simp wp_require_tracker split: option.split sum.split)
  ultimately have "wp (on_tracker ?op) (\<lambda>_ t. state_evolves s1 t \<and> ?keep t)
      (\<lambda>_ t. state_evolves s1 t \<and> True) s1" by (rule wp_conj)
  then have "wp (on_tracker ?op) Q E s1"
    by (rule wp_mono)
      (auto intro!: ok err intro: record_evolves_trans [OF s1] simp: s1_def modify_child_def)
  then show ?thesis using True by (simp add: advance_child_def wp_simp s1_def)
next
  case False
  then show ?thesis by (simp add: advance_child_def wp_simp ok)
qed

lemma book_trade_evolves:
  fixes s :: "execution_record \<times> 'w"
  assumes "intervals_of (fst s) coid = ivs" "accepted_interval a d l ivs = Some iv"
  shows "wp (book_trade coid ivs iv a d) (\<lambda>_. state_evolves s) (\<lambda>_. state_evolves s) s"
proof -
  have "state_evolves s (set_intervals coid (ivs @ [iv]) (fst s), snd s)"
    using assms(1) accepted_interval_ok [OF assms(2)]
    by (auto simp: intervals_ok_append intro!: set_intervals_evolves)
  moreover have ev: "evolves state_evolves (andthen (modr (record_vwap_input a d))
      (modr (record_liquidity (report_is_maker a) d)) :: ('w, unit) eng)" by (intro evolve_intro)
  ultimately show ?thesis
    unfolding book_trade_def wp_bind [of "modr (set_intervals coid (ivs @ [iv]))"] wp_modr
    by (intro wp_evolves [OF ev]) (auto elim: record_evolves_trans)
qed

lemma apply_authoritative_trade_evolves:
  assumes c: "c = child_orders (fst s) ! i" and ivs: "ivs = intervals_of (fst s) (client_order_id c)"
    and d: "child_delta = child_fill_delta (incoming_cumulative a) c"
  shows "wp (apply_authoritative_trade i a c ivs child_delta d)
           (\<lambda>_. state_evolves s) (\<lambda>_. state_evolves s) s"
proof -
  define s1 where "s1 = (set_intervals (client_order_id c) ivs (fst s), snd s)"
  have 1: "state_evolves s s1"
    by (auto simp: s1_def ivs intro!: set_intervals_evolves)
  have 2: "child_orders (fst s1) = child_orders (fst s)"
      "intervals_of (fst s1) (client_order_id c) = ivs"
    by (simp_all add: s1_def set_intervals_def intervals_of_def update_conv')
  let ?evo = "\<lambda>m. wp m (\<lambda>_. state_evolves s) (\<lambda>_. state_evolves s)"
  have "?evo (modr (ignore_trade (trade_id a))) s1"
    by (rule wp_evolves [OF rev_ignore_trade]) (auto intro: record_evolves_trans [OF 1])
  moreover have "?evo (andthen (advance_child i a child_delta) (book_trade (client_order_id c) ivs iv a d)) s1"
    if "accepted_interval a d l ivs = Some iv" for l iv
    unfolding wp_bind
  proof (rule wp_advance_child)
    show "child_delta = child_fill_delta (incoming_cumulative a) (child_orders (fst s1) ! i)"
      by (simp add: 2 d c)
    show "state_evolves s t" if "state_evolves s1 t" for t :: "execution_record \<times> 'a"
      using record_evolves_trans [OF 1 that] .
    fix t :: "execution_record \<times> 'a"
    assume t: "state_evolves s1 t" "child_authoritative_fill_intervals (fst t)
        = child_authoritative_fill_intervals (fst s1)"
    have "intervals_of (fst t) (client_order_id c) = ivs" using t(2) 2(2) by (simp add: intervals_of_def)
    from book_trade_evolves [OF this that]
    show "?evo (book_trade (client_order_id c) ivs iv a d) t"
      by (rule wp_mono) (auto intro: record_evolves_trans [OF 1] record_evolves_trans [OF t(1)])
  qed
  ultimately show ?thesis
    by (simp add: apply_authoritative_trade_def Let_def wp_bind [of "modr (set_intervals _ _)"] wp_modr
        s1_def [symmetric] split: option.split)
qed

lemma rev_update_child_cumulative_fill [evolve_intro]:
  "evolves state_evolves (update_child_cumulative_fill i a :: ('w, unit) eng)"
  unfolding update_child_cumulative_fill_def
proof (rule rev.ev_bind [OF rev_require_tracker], unfold evolves_wp, rule allI)
  fix s :: "execution_record \<times> 'w"
  have "wp (advance_child i a (child_fill_delta (incoming_cumulative a) (child_orders (fst s) ! i)))
      (\<lambda>_. state_evolves s) (\<lambda>_. state_evolves s) s"
    by (rule wp_advance_child) auto
  moreover note apply_authoritative_trade_evolves [OF refl refl refl, where s = s and i = i and a = a]
  moreover have "wp (modr f) (\<lambda>_. state_evolves s) (\<lambda>_. state_evolves s) s"
    if "evolves state_evolves (modr f :: ('w, unit) eng)" for f
    using that unfolding evolves_wp by blast
  ultimately show "wp (bind get_record (\<lambda>r.
       if (case trade_id a of None \<Rightarrow> False | Some t \<Rightarrow> t \<in> seen_fill_trade_ids r)
       then modr (record_ignored_fill_trade_id (the (trade_id a)))
       else
         let c = child_orders r ! i;
             child_delta = child_fill_delta (incoming_cumulative a) c;
             trade_delta = (case fill_quantity_delta a of Some d \<Rightarrow> d | None \<Rightarrow> child_delta)
         in if \<not> authoritative_trade a then advance_child i a child_delta
            else if trade_delta \<le> 0 then modr (ignore_trade (trade_id a))
            else apply_authoritative_trade i a c (intervals_of r (client_order_id c))
                   child_delta trade_delta)) (\<lambda>_. state_evolves s) (\<lambda>_. state_evolves s) s"
    by (simp add: wp_bind wp_getr Let_def rev_ignored rev_ignore_trade)
qed

lemma rev_apply_snapshot_fill [evolve_intro]: "evolves state_evolves (apply_snapshot_fill i q)"
  unfolding apply_snapshot_fill_def by (intro evolve_intro)

section \<open>Rebuilt buckets and summaries\<close>

lemma add_child_exposure_frame:
  "confirmed_filled_quantity (add_child_exposure e c) = confirmed_filled_quantity e"
  "exposure_nonneg e \<Longrightarrow> exposure_nonneg (add_child_exposure e c)"
  by (auto simp: add_child_exposure_def exposure_nonneg_def Let_def intro: dadd_nonneg)

lemma fold_child_exposure_frame:
  "confirmed_filled_quantity (foldl add_child_exposure e cs) = confirmed_filled_quantity e"
  "exposure_nonneg e \<Longrightarrow> exposure_nonneg (foldl add_child_exposure e cs)"
  by (induction cs arbitrary: e) (simp_all add: add_child_exposure_frame)

lemma rebuilt_exposure_frame:
  "confirmed_filled_quantity (rebuilt_exposure q cs) = q"
  "0 \<le> q \<Longrightarrow> exposure_nonneg (rebuilt_exposure q cs)"
proof -
  let ?e = "empty_exposure\<lparr>confirmed_filled_quantity := q\<rparr>"
  show "confirmed_filled_quantity (rebuilt_exposure q cs) = q"
    by (simp add: rebuilt_exposure_def fold_child_exposure_frame)
  assume "0 \<le> q"
  then have "exposure_nonneg ?e" by (simp add: exposure_nonneg_def empty_exposure_def)
  then show "exposure_nonneg (rebuilt_exposure q cs)"
    unfolding rebuilt_exposure_def by (rule fold_child_exposure_frame(2))
qed

lemma nonneg_confirmed: "exposure_nonneg e \<Longrightarrow> 0 \<le> confirmed_filled_quantity e"
  by (simp add: exposure_nonneg_def)

lemma rev_refresh_reserved_exposure [evolve_intro]:
  "evolves state_evolves refresh_reserved_exposure"
  unfolding refresh_reserved_exposure_def
  by (intro evolve_intro rev_on_tracker)
    (auto simp: tracker_evolves_def on_tracked_def rebuilt_exposure_frame tracker_ok_def
      intro!: rebuilt_exposure_frame(2) nonneg_confirmed)

end
