(* ===== verification/Fill_Accounting.thy ===== *)
theory Fill_Accounting
  imports Engine_Invariant "HOL-Library.Multiset"
begin

text \<open>
  What the fill accounting of \<^verbatim>\<open>src/execution/engine.py\<close> computes: a trade counts once, an accepted
  trade moves every book by its quantity, and on a decimal grid the rebuilt reservations and the covered
  quantity are the exact sums.
\<close>

section \<open>A trade counts once\<close>

lemma wp_require_some:
  "rec_tracker (fst s) \<noteq> None \<Longrightarrow>
   wp require_exposure_tracker Q E s = Q (the (rec_tracker (fst s))) s"
  by (auto simp: wp_require_tracker)



lemma ignored_fields [simp]:
  "seen_fill_trade_ids (record_ignored_fill_trade_id i r) = seen_fill_trade_ids r"
  "rec_tracker (record_ignored_fill_trade_id i r) = rec_tracker r"
  by (simp_all add: record_ignored_fill_trade_id_def increment_metric_def)

lemma liquidity_fields [simp]:
  "seen_fill_trade_ids (record_liquidity m d r) = seen_fill_trade_ids r"
  "rec_tracker (record_liquidity m d r) = rec_tracker r"
  "child_orders (record_liquidity m d r) = child_orders r"
  "child_authoritative_fill_intervals (record_liquidity m d r) = child_authoritative_fill_intervals r"
  "trade_fill_vwap_inputs (record_liquidity m d r) = trade_fill_vwap_inputs r"
  by (auto simp: record_liquidity_def increment_metric_def split: option.split bool.split)

lemma intervals_fields [simp]:
  "seen_fill_trade_ids (set_intervals coid ivs r) = seen_fill_trade_ids r"
  "rec_tracker (set_intervals coid ivs r) = rec_tracker r"
  "child_orders (set_intervals coid ivs r) = child_orders r"
  "trade_fill_vwap_inputs (set_intervals coid ivs r) = trade_fill_vwap_inputs r"
  by (simp_all add: set_intervals_def)





section \<open>An accepted trade\<close>

definition interval_limit_of :: "fill_report \<Rightarrow> child_order \<Rightarrow> decimal" where
  "interval_limit_of a c =
     max (max (child_filled c) (incoming_cumulative a))
       (case authoritative_confirmed_limit a of None \<Rightarrow> 0 | Some l \<Rightarrow> l)"

lemma advance_child_run:
  assumes t: "rec_tracker r = Some t" "tracker_ok t" and k: "k < length (child_orders r)"
    and fresh: "trade_id a = Some i" "i \<notin> seen_trade_ids t"
    and d: "d = child_fill_delta (incoming_cumulative a) (child_orders r ! k)"
  shows "\<exists>t'. advance_child k a d (r, w) =
      (Inr (), r\<lparr>child_orders := (child_orders r)[k := (child_orders r ! k)\<lparr>child_filled :=
          max (child_filled (child_orders r ! k)) (incoming_cumulative a)\<rparr>],
        rec_tracker := Some t'\<rparr>, w)
    \<and> confirmed_filled_quantity (tracked t') = dadd (confirmed r) d
    \<and> reserved_exposure (tracked t') = reserved r"
proof (cases "0 < d")
  case False
  then have "incoming_cumulative a \<le> child_filled (child_orders r ! k)" "d = 0"
    using d by (simp_all add: child_fill_delta_def split: if_splits)
  moreover have "dec_ok (confirmed r)" using t by (simp add: exposure_of_def tracker_ok_def)
  ultimately show ?thesis using t k
    by (intro exI [of _ t])
      (simp add: advance_child_def guarded_def ret_def exposure_of_def dadd_0_right max_absorb1)
next
  case True
  let ?q = "dadd (confirmed r) d"
  have c: "child_filled (child_orders r ! k) < incoming_cumulative a"
    using True d by (simp add: child_fill_delta_def split: if_splits)
  have conf: "0 \<le> confirmed r" "confirmed r \<le> ?q" "exposure_of r = tracked t"
    using t True by (auto simp: exposure_of_def tracker_ok_def exposure_nonneg_def intro: dadd_ge_left)
  have q: "0 \<le> ?q" using conf by linarith
  have "\<exists>delta t'. apply_fill (Some i) ?q t = Inr (delta, t')
      \<and> confirmed_filled_quantity (tracked t') = ?q
      \<and> reserved_exposure (tracked t') = reserved_exposure (tracked t)"
    using q conf fresh(2)
    by (cases "?q = confirmed r")
      (simp_all add: apply_fill_def require_non_negative_def Let_def on_tracked_def reserved_exposure_def)
  then obtain delta t' where fill: "apply_fill (Some i) ?q t = Inr (delta, t')"
      "confirmed_filled_quantity (tracked t') = ?q"
      "reserved_exposure (tracked t') = reserved_exposure (tracked t)"
    by blast
  then show ?thesis
    using True c t conf(3) fresh(1)
    by (intro exI [of _ t'])
      (simp add: advance_child_def guarded_def bind_def modr_def modify_def modify_child_def getr_def
        gets_def on_tracker_def require_exposure_tracker_def ret_def lift_res_def exposure_of_def
        max_absorb2)
qed

lemma accepted_trade_run:
  assumes t: "rec_tracker r = Some t" "tracker_ok t" and k: "k < length (child_orders r)"
    and fresh: "trade_id a = Some i" "i \<notin> seen_trade_ids t" "i \<notin> seen_fill_trade_ids r"
    and a: "authoritative_trade a" "fill_quantity_delta a = Some d" "0 < d"
    and iv: "accepted_interval a d (interval_limit_of a (child_orders r ! k))
        (intervals_of r (client_order_id (child_orders r ! k))) = Some iv"
  shows "\<exists>r'. update_child_cumulative_fill k a (r, w) = (Inr (), r', w)
    \<and> child_orders r' = (child_orders r)[k := (child_orders r ! k)\<lparr>child_filled :=
          max (child_filled (child_orders r ! k)) (incoming_cumulative a)\<rparr>]
    \<and> confirmed r' = dadd (confirmed r) (child_fill_delta (incoming_cumulative a) (child_orders r ! k))
    \<and> reserved r' = reserved r
    \<and> intervals_of r' (client_order_id (child_orders r ! k))
        = intervals_of r (client_order_id (child_orders r ! k)) @ [iv]
    \<and> map_of (trade_fill_vwap_inputs r') i = Some (fill_price a, d)
    \<and> i \<in> seen_fill_trade_ids r'"
proof -
  let ?c = "child_orders r ! k"
  let ?coid = "client_order_id ?c"
  let ?ivs = "intervals_of r ?coid"
  let ?cd = "child_fill_delta (incoming_cumulative a) ?c"
  let ?s = "set_intervals ?coid ?ivs r"
  have s: "rec_tracker ?s = Some t" "k < length (child_orders ?s)" "child_orders ?s = child_orders r"
      "exposure_of ?s = exposure_of r"
    using t k by (simp_all add: exposure_of_def)
  obtain t' where adv: "advance_child k a ?cd (?s, w) =
      (Inr (), ?s\<lparr>child_orders := (child_orders r)[k := ?c\<lparr>child_filled :=
          max (child_filled ?c) (incoming_cumulative a)\<rparr>], rec_tracker := Some t'\<rparr>, w)"
      "confirmed_filled_quantity (tracked t') = dadd (confirmed r) ?cd"
      "reserved_exposure (tracked t') = reserved r"
    using advance_child_run [OF s(1) t(2) s(2) fresh(1,2), of ?cd w] unfolding s(3,4) by blast
  let ?u = "?s\<lparr>child_orders := (child_orders r)[k := ?c\<lparr>child_filled :=
          max (child_filled ?c) (incoming_cumulative a)\<rparr>], rec_tracker := Some t'\<rparr>"
  let ?r' = "record_liquidity (report_is_maker a) d (record_vwap_input a d (set_intervals ?coid (?ivs @ [iv]) ?u))"
  have "update_child_cumulative_fill k a (r, w) = apply_authoritative_trade k a ?c ?ivs ?cd d (r, w)"
    using t fresh a
    by (simp add: update_child_cumulative_fill_def require_exposure_tracker_def bind_def getr_def
        gets_def ret_def Let_def)
  also have "\<dots> = andthen (advance_child k a ?cd) (book_trade ?coid ?ivs iv a d) (?s, w)"
    using iv by (simp add: apply_authoritative_trade_def interval_limit_of_def Let_def bind_def modr_def modify_def)
  also have "\<dots> = book_trade ?coid ?ivs iv a d (?u, w)" by (simp add: bind_def adv(1))
  also have "\<dots> = (Inr (), ?r', w)"
    by (simp add: book_trade_def bind_def modr_def modify_def)
  finally have run: "update_child_cumulative_fill k a (r, w) = (Inr (), ?r', w)" .
  show ?thesis
    using adv(2,3) fresh(1)
    by (intro exI [of _ ?r'])
      (simp add: run vwap_defs exposure_of_def intervals_of_def set_intervals_def update_conv')
qed

text \<open>C12. A fresh authoritative trade that reports a free interval of the order's cumulative quantity is
  booked under exactly that interval: the order advances to the reported cumulative quantity, the
  confirmed quantity of the execution by the order's advance, the price inputs gain the trade, and no
  reservation changes.\<close>

theorem accepted_trade_booked:
  assumes "rec_tracker r = Some t" "tracker_ok t" "k < length (child_orders r)"
    and c: "c = child_orders r ! k"
    and "trade_id a = Some i" "i \<notin> seen_trade_ids t" "i \<notin> seen_fill_trade_ids r"
    and "authoritative_trade a" "fill_quantity_delta a = Some d" "0 < d" "dec_ok d"
    and start: "0 \<le> dsub (incoming_cumulative a) d" "dsub (incoming_cumulative a) d < incoming_cumulative a"
    and free: "\<forall>(b, e) \<in> set (intervals_of r (client_order_id c)).
      incoming_cumulative a \<le> b \<or> e \<le> dsub (incoming_cumulative a) d"
  shows "\<exists>r'. update_child_cumulative_fill k a (r, w) = (Inr (), r', w)
    \<and> child_orders r' = (child_orders r)[k := c\<lparr>child_filled :=
          max (child_filled c) (incoming_cumulative a)\<rparr>]
    \<and> confirmed r' = dadd (confirmed r) (dsub (max (child_filled c) (incoming_cumulative a)) (child_filled c))
    \<and> reserved r' = reserved r
    \<and> intervals_of r' (client_order_id c)
        = intervals_of r (client_order_id c) @ [(dsub (incoming_cumulative a) d, incoming_cumulative a)]
    \<and> map_of (trade_fill_vwap_inputs r') i = Some (fill_price a, d)"
proof -
  have "accepted_interval a d (interval_limit_of a c) (intervals_of r (client_order_id c))
      = Some (dsub (incoming_cumulative a) d, incoming_cumulative a)"
    using start free
    by (fastforce simp: accepted_interval_def fill_interval_is_valid_def interval_limit_of_def
        fill_interval_overlaps_def list_ex_iff Let_def not_less)
  moreover have "child_fill_delta (incoming_cumulative a) c
      = dsub (max (child_filled c) (incoming_cumulative a)) (child_filled c)"
    by (simp add: child_fill_delta_def max_def dsub_def)
  ultimately show ?thesis
    using accepted_trade_run [OF assms(1-3) assms(5-7) assms(8-10), of _ w] unfolding c by metis
qed

text \<open>One open order of three units, and a trade of one.\<close>

definition one_order_record :: execution_record where
  "one_order_record =
     (new_execution_record ''exec_0''
        \<lparr>req_environment = SIMULATION, req_symbol = ''BTCUSDT'', req_algorithm = CHASE,
         target_position = 3, target_price_lower = 90, target_price_upper = 110,
         target_duration_seconds = 60, req_deadline_policy = CANCEL_REMAINDER,
         parameters = default_parameters\<rparr>
        BUY 3 \<lparr>pos_symbol = ''BTCUSDT'', pos_position = 0, pos_update_time_ms = None\<rparr> 3 0)
     \<lparr>status := RUNNING,
      child_orders := [(new_child_order ''child_0001'' ''ce_0_1'' ''BTCUSDT'' BUY 3 100)\<lparr>child_status := OPEN\<rparr>],
      rec_tracker := Some \<lparr>target_quantity = 3, permitted_tolerance = 0,
        tracked = empty_exposure\<lparr>live_open_quantity := 3\<rparr>, seen_trade_ids = {}\<rparr>\<rparr>"

definition one_unit_trade :: fill_report where
  "one_unit_trade =
     \<lparr>incoming_cumulative = 1, trade_id = Some ''t1'', fill_price = 100, report_is_maker = Some True,
      authoritative_trade = True, fill_quantity_delta = Some 1, event_time_ms = None,
      transaction_time_ms = None, authoritative_confirmed_limit = None\<rparr>"

lemma one_order_facts:
  "length (child_orders one_order_record) = 1" "seen_fill_trade_ids one_order_record = {}"
  "child_filled (child_orders one_order_record ! 0) = 0"
  "client_order_id (child_orders one_order_record ! 0) = ''ce_0_1''"
  "intervals_of one_order_record coid = []" "confirmed one_order_record = 0"
  "\<exists>t. rec_tracker one_order_record = Some t \<and> tracker_ok t \<and> seen_trade_ids t = {}"
  by (simp_all add: one_order_record_def new_execution_record_def new_child_order_def intervals_of_def
      exposure_of_def empty_exposure_def tracker_ok_def exposure_nonneg_def)

lemma exact_units [simp]: "dsub 1 1 = 0" "dadd 0 1 = 1" "dsub 1 0 = 1"
  by (simp_all add: dsub_def dadd_def)

theorem accepted_trade_booked_witness:
  "\<exists>r'. update_child_cumulative_fill 0 one_unit_trade (one_order_record, ()) = (Inr (), r', ())
    \<and> confirmed r' = 1 \<and> intervals_of r' ''ce_0_1'' = [(0, 1)]
    \<and> map_of (trade_fill_vwap_inputs r') ''t1'' = Some (100, 1)"
proof -
  obtain t where t: "rec_tracker one_order_record = Some t" "tracker_ok t" "seen_trade_ids t = {}"
    using one_order_facts(7) by blast
  show ?thesis
    using accepted_trade_booked [OF t(1,2), of 0 "child_orders one_order_record ! 0" one_unit_trade "''t1''" 1 "()"]
    by (force simp: one_order_facts t(3) one_unit_trade_def)
qed


section \<open>The rebuilt reservations\<close>

text \<open>What the exchange may still fill of an order that is not closed.\<close>

definition open_quantity :: "child_order \<Rightarrow> rat" where
  "open_quantity c =
     (if child_status_is_terminal (child_status c) then 0 else max 0 (submitted_quantity c - child_filled c))"

definition bucket_sum :: "(child_order_status \<Rightarrow> bool) \<Rightarrow> child_order list \<Rightarrow> rat" where
  "bucket_sum P cs = sum_list (map open_quantity (filter (\<lambda>c. P (child_status c)) cs))"

definition child_on_grid :: "nat \<Rightarrow> child_order \<Rightarrow> bool" where
  "child_on_grid k c \<longleftrightarrow>
     on_grid k (submitted_quantity c) \<and> on_grid k (child_filled c) \<and> 0 \<le> child_filled c
     \<and> \<bar>submitted_quantity c\<bar> * 10 ^ k < 10 ^ 28 \<and> child_filled c * 10 ^ k < 10 ^ 28"

lemma remaining_exact:
  assumes "child_on_grid k c" "\<not> child_status_is_terminal (child_status c)"
  shows "remaining_quantity c = open_quantity c" "on_grid k (remaining_quantity c)"
proof -
  let ?d = "submitted_quantity c - child_filled c"
  have "dsub (submitted_quantity c) (child_filled c) = ?d" if "0 < ?d"
  proof -
    have "0 \<le> child_filled c" using assms(1) by (simp add: child_on_grid_def)
    with that have "0 < submitted_quantity c" by linarith
    then have "submitted_quantity c * 10 ^ k < 10 ^ 28" using assms(1) by (simp add: child_on_grid_def abs_of_pos)
    then have "\<bar>?d\<bar> * 10 ^ k < 10 ^ 28"
      using that assms(1) by (intro scaled_less [of _ "submitted_quantity c"]) (simp_all add: child_on_grid_def)
    then show ?thesis using assms(1) by (intro dsub_exact [of k]) (simp_all add: child_on_grid_def)
  qed
  then show "remaining_quantity c = open_quantity c"
    using assms(2)
    by (auto simp: remaining_quantity_def open_quantity_def Let_def max_def not_less
        simp del: child_status_is_terminal.simps)
  then show "on_grid k (remaining_quantity c)"
    using assms by (auto simp: open_quantity_def max_def child_on_grid_def simp del: child_status_is_terminal.simps)
qed

lemma fold_add_child_buckets:
  "live_open_quantity (foldl add_child_exposure e cs)
     = foldl (\<lambda>a c. dadd a (remaining_quantity c)) (live_open_quantity e)
         (filter (\<lambda>c. is_live (child_status c)) cs)"
  "pending_submit_quantity (foldl add_child_exposure e cs)
     = foldl (\<lambda>a c. dadd a (remaining_quantity c)) (pending_submit_quantity e)
         (filter (\<lambda>c. child_status c = PENDING_SUBMIT) cs)"
  "pending_cancel_quantity (foldl add_child_exposure e cs)
     = foldl (\<lambda>a c. dadd a (remaining_quantity c)) (pending_cancel_quantity e)
         (filter (\<lambda>c. child_status c = PENDING_CANCEL) cs)"
  "unknown_order_quantity (foldl add_child_exposure e cs)
     = foldl (\<lambda>a c. dadd a (remaining_quantity c)) (unknown_order_quantity e)
         (filter (\<lambda>c. child_status c = UNKNOWN) cs)"
  by (induction cs arbitrary: e) (auto simp: add_child_exposure_def Let_def is_live_def)

lemma open_quantity_nonneg [simp]: "0 \<le> open_quantity c"
  by (simp add: open_quantity_def del: child_status_is_terminal.simps)

lemma bucket_exact:
  assumes "\<forall>c \<in> set cs. child_on_grid k c" "bucket_sum P cs * 10 ^ k < 10 ^ 28"
    and "\<And>s. P s \<Longrightarrow> \<not> child_status_is_terminal s"
  shows "foldl (\<lambda>a c. dadd a (remaining_quantity c)) 0 (filter (\<lambda>c. P (child_status c)) cs) = bucket_sum P cs"
proof -
  let ?cs = "filter (\<lambda>c. P (child_status c)) cs"
  have c: "remaining_quantity c = open_quantity c" "on_grid k (remaining_quantity c)" if "c \<in> set ?cs" for c
    using remaining_exact [of k c] that assms(1,3) by auto
  have s: "sum_list (map remaining_quantity ?cs) = bucket_sum P cs"
    unfolding bucket_sum_def by (rule arg_cong [of _ _ sum_list], rule map_cong [OF refl], rule c(1))
  have "foldl (\<lambda>a c. dadd a (remaining_quantity c)) 0 ?cs = 0 + sum_list (map remaining_quantity ?cs)"
    by (rule foldl_dadd_exact [of k]) (use c s assms(2) in auto)
  then show ?thesis by (simp add: s)
qed

lemma bucket_sum_le: "bucket_sum P cs \<le> sum_list (map open_quantity cs)"
  by (induction cs) (auto simp: bucket_sum_def intro: add_increasing)

lemma buckets_total:
  "bucket_sum is_live cs + bucket_sum (\<lambda>s. s = PENDING_SUBMIT) cs + bucket_sum (\<lambda>s. s = PENDING_CANCEL) cs
     + bucket_sum (\<lambda>s. s = UNKNOWN) cs = sum_list (map open_quantity cs)"
proof (induction cs)
  case (Cons c cs)
  then show ?case by (cases "child_status c") (auto simp: bucket_sum_def is_live_def open_quantity_def)
qed (simp add: bucket_sum_def)

lemma bucket_sum_facts:
  "0 \<le> bucket_sum P cs"
  "\<forall>c \<in> set cs. child_on_grid k c \<Longrightarrow> (\<And>s. P s \<Longrightarrow> \<not> child_status_is_terminal s) \<Longrightarrow> on_grid k (bucket_sum P cs)"
proof -
  show "0 \<le> bucket_sum P cs" unfolding bucket_sum_def by (intro sum_list_nonneg) auto
  assume "\<forall>c \<in> set cs. child_on_grid k c" and P: "\<And>s. P s \<Longrightarrow> \<not> child_status_is_terminal s"
  then show "on_grid k (bucket_sum P cs)"
  proof (induction cs)
    case (Cons c cs)
    then have "P (child_status c) \<Longrightarrow> on_grid k (open_quantity c)"
      using remaining_exact [of k c] by simp
    with Cons show ?case by (auto simp: bucket_sum_def)
  qed (simp add: bucket_sum_def)
qed

text \<open>C14. On a grid of \<open>k\<close> decimal places a refresh rebuilds the reservations exactly: what is reserved
  is the sum of the open quantities of all orders that are not closed, each order counted in the one
  bucket of its status, and the confirmed quantity stays.\<close>

theorem reserve_rebuilt_exactly:
  assumes t: "rec_tracker r = Some t" "tracker_ok t"
    and cs: "\<forall>c \<in> set (child_orders r). child_on_grid k c"
    and small: "on_grid k (confirmed r)"
      "(confirmed r + sum_list (map open_quantity (child_orders r))) * 10 ^ k < 10 ^ 28"
  shows "\<exists>r'. refresh_reserved_exposure (r, w) = (Inr (), r', w)
    \<and> r' = r\<lparr>rec_tracker := rec_tracker r'\<rparr> \<and> confirmed r' = confirmed r
    \<and> reserved r' = sum_list (map open_quantity (child_orders r))
    \<and> live_open_quantity (exposure_of r') = bucket_sum is_live (child_orders r)
    \<and> pending_submit_quantity (exposure_of r') = bucket_sum (\<lambda>s. s = PENDING_SUBMIT) (child_orders r)
    \<and> pending_cancel_quantity (exposure_of r') = bucket_sum (\<lambda>s. s = PENDING_CANCEL) (child_orders r)
    \<and> unknown_order_quantity (exposure_of r') = bucket_sum (\<lambda>s. s = UNKNOWN) (child_orders r)"
proof -
  define cs' where "cs' = child_orders r"
  define e where "e = rebuilt_exposure (confirmed r) cs'"
  let ?r' = "r\<lparr>rec_tracker := Some (t\<lparr>tracked := e\<rparr>)\<rparr>"
  have conf: "confirmed r = confirmed_filled_quantity (tracked t)" "0 \<le> confirmed r"
    using t by (simp_all add: exposure_of_def tracker_ok_def exposure_nonneg_def)
  have run: "refresh_reserved_exposure (r, w) = (Inr (), ?r', w)"
    using t by (simp add: refresh_reserved_exposure_def bind_def getr_def gets_def on_tracker_def ret_def
        require_exposure_tracker_def lift_res_def modr_def modify_def on_tracked_def e_def cs'_def conf)
  have grid: "\<forall>c \<in> set cs'. child_on_grid k c" using cs by (simp add: cs'_def)
  have bound: "bucket_sum P cs' * 10 ^ k < 10 ^ 28" for P
  proof -
    have "bucket_sum P cs' \<le> confirmed r + sum_list (map open_quantity cs')"
      using bucket_sum_le [of P cs'] conf(2) by linarith
    then have "bucket_sum P cs' * 10 ^ k \<le> (confirmed r + sum_list (map open_quantity cs')) * 10 ^ k"
      by (intro mult_right_mono) simp_all
    then show ?thesis unfolding cs'_def using small(2) by (rule le_less_trans)
  qed
  have live: "\<And>s. is_live s \<Longrightarrow> \<not> child_status_is_terminal s" by (auto simp: is_live_def)
  have b: "live_open_quantity e = bucket_sum is_live cs'"
      "pending_submit_quantity e = bucket_sum (\<lambda>s. s = PENDING_SUBMIT) cs'"
      "pending_cancel_quantity e = bucket_sum (\<lambda>s. s = PENDING_CANCEL) cs'"
      "unknown_order_quantity e = bucket_sum (\<lambda>s. s = UNKNOWN) cs'"
    using bucket_exact [OF grid bound live] bucket_exact [OF grid bound, of "\<lambda>s. s = PENDING_SUBMIT"]
      bucket_exact [OF grid bound, of "\<lambda>s. s = PENDING_CANCEL"] bucket_exact [OF grid bound, of "\<lambda>s. s = UNKNOWN"]
    by (simp_all add: e_def rebuilt_exposure_def fold_add_child_buckets empty_exposure_def live)
  have c: "confirmed_filled_quantity e = confirmed r"
    by (simp add: e_def rebuilt_exposure_frame)
  have "exposure_on_grid k e"
    using conf(2) small(1) bucket_sum_facts(2) [OF grid live]
      bucket_sum_facts(2) [OF grid, of "\<lambda>s. s = PENDING_SUBMIT"]
      bucket_sum_facts(2) [OF grid, of "\<lambda>s. s = PENDING_CANCEL"]
      bucket_sum_facts(2) [OF grid, of "\<lambda>s. s = UNKNOWN"]
    by (simp add: exposure_on_grid_def exposure_nonneg_def b c bucket_sum_facts(1))
  moreover have total: "exposure_total e = confirmed r + sum_list (map open_quantity cs')"
    using buckets_total [of cs'] by (simp add: exposure_total_def b c)
  ultimately have "reserved_exposure e = sum_list (map open_quantity cs')"
    using reserved_exact(1) [of k e] small(2) by (simp add: c cs'_def)
  then show ?thesis
    using run b c by (intro exI [of _ ?r']) (simp add: exposure_of_def cs'_def)
qed

theorem reserve_rebuilt_exactly_witness:
  "\<exists>r'. refresh_reserved_exposure (one_order_record, ()) = (Inr (), r', ())
    \<and> reserved r' = 3 \<and> live_open_quantity (exposure_of r') = 3 \<and> unknown_order_quantity (exposure_of r') = 0"
proof -
  obtain t where t: "rec_tracker one_order_record = Some t" "tracker_ok t"
    using one_order_facts(7) by blast
  have "on_grid 0 3" by (rule on_gridI [of _ 0 3]) simp
  then have cs: "\<forall>c \<in> set (child_orders one_order_record). child_on_grid 0 c"
      "map open_quantity (child_orders one_order_record) = [3]"
      "bucket_sum is_live (child_orders one_order_record) = 3"
      "bucket_sum (\<lambda>s. s = UNKNOWN) (child_orders one_order_record) = 0"
    by (simp_all add: one_order_record_def new_execution_record_def new_child_order_def
        child_on_grid_def open_quantity_def bucket_sum_def is_live_def)
  show ?thesis
    using reserve_rebuilt_exactly [OF t cs(1), of "()"] cs(2-4) by (force simp: one_order_facts)
qed

section \<open>The covered quantity\<close>

text \<open>The part of an interval below a quantity.\<close>

definition part_below :: "rat \<Rightarrow> interval \<Rightarrow> rat" where
  "part_below q iv = max 0 (min (snd iv) q - fst iv)"

lemma covered_loop_exact:
  assumes "sorted_wrt (\<lambda>a b. snd a \<le> fst b) ivs" "\<forall>iv \<in> set ivs. u \<le> fst iv \<and> fst iv < snd iv"
    and "\<forall>iv \<in> set ivs. on_grid k (fst iv) \<and> on_grid k (snd iv)"
    and "on_grid k q" "q * 10 ^ k < 10 ^ 28" "on_grid k c" "0 \<le> c" "c \<le> u" "0 \<le> u" "c \<le> q"
  shows "covered_loop ivs q c u = c + sum_list (map (part_below q) ivs)
    \<and> covered_loop ivs q c u \<le> q"
  using assms
proof (induction ivs arbitrary: c u)
  case (Cons iv ivs)
  obtain a b where iv: "iv = (a, b)" by (cases iv)
  have ab: "u \<le> a" "a < b" "on_grid k a" "on_grid k b" and later: "\<forall>jv \<in> set ivs. b \<le> fst jv"
    using Cons.prems(1-3) by (auto simp: iv)
  have u: "0 \<le> u" and a: "0 \<le> a" and q: "c \<le> q" using Cons.prems ab by auto
  show ?case
  proof (cases "q \<le> a")
    case True
    then have "part_below q (a, b) = 0" by (simp add: part_below_def)
    moreover have "\<forall>jv \<in> set ivs. u \<le> fst jv \<and> fst jv < snd jv"
      using Cons.prems(2) by auto
    ultimately show ?thesis
      using Cons.IH [of u c] Cons.prems True a by (simp add: iv Let_def min_le_iff_disj max_absorb1)
  next
    case False
    let ?e = "min b q"
    have e: "a < ?e" "on_grid k ?e" using ab False Cons.prems(4) by (auto simp: min_def)
    have step: "c + (?e - a) \<le> ?e" using Cons.prems(8) ab by linarith
    have eq: "?e \<le> q" by simp
    have "\<bar>?e - a\<bar> * 10 ^ k < 10 ^ 28" "\<bar>c + (?e - a)\<bar> * 10 ^ k < 10 ^ 28"
      using e a step eq Cons.prems(5,7) by (intro scaled_less [of _ q]; linarith)+
    then have ops: "dsub ?e a = ?e - a" "dadd c (?e - a) = c + (?e - a)"
      using e ab Cons.prems(6) by (auto intro!: dsub_exact [of k] dadd_exact [of k] on_grid_diff)
    have part: "part_below q (a, b) = ?e - a" using e by (simp add: part_below_def)
    have head: "covered_loop (iv # ivs) q c u
        = (if ?e \<ge> q then c + (?e - a) else covered_loop ivs q (c + (?e - a)) ?e)"
      using e a ab ops by (auto simp: iv Let_def max_absorb1)
    show ?thesis
    proof (cases "?e \<ge> q")
      case True
      then have "q \<le> b" by simp
      then have "\<forall>jv \<in> set ivs. part_below q jv = 0" using later by (auto simp: part_below_def)
      then have "sum_list (map (part_below q) ivs) = 0" by (simp add: sum_list_0 cong: map_cong)
      then show ?thesis using head True step part by (simp add: iv)
    next
      case False
      then have b: "?e = b" by simp
      have "covered_loop ivs q (c + (b - a)) b = c + (b - a) + sum_list (map (part_below q) ivs)
          \<and> covered_loop ivs q (c + (b - a)) b \<le> q"
        using Cons.prems ab a later step False b
        by (intro Cons.IH) (auto simp: iv)
      then show ?thesis using head False part b by (simp add: iv add.assoc)
    qed
  qed
qed simp

lemma sorted_apart:
  assumes "sorted ivs" "sorted_wrt apart ivs" "\<forall>iv \<in> set ivs. fst iv < snd iv"
  shows "sorted_wrt (\<lambda>a b. snd a \<le> fst b) ivs"
  using assms
proof (induction ivs)
  case (Cons a ivs)
  have "snd a \<le> fst b" if "b \<in> set ivs" for b
    using Cons.prems that by (fastforce simp: apart_def less_eq_prod_def)
  then show ?case using Cons by simp
qed simp

lemma apart_sort:
  assumes "sorted_wrt apart ivs" "\<forall>iv \<in> set ivs. fst iv < snd iv"
  shows "sorted_wrt apart (sort ivs)"
proof -
  have iff: "sorted_wrt apart xs \<longleftrightarrow> distinct xs \<and> (\<forall>a \<in> set xs. \<forall>b \<in> set xs. a \<noteq> b \<longrightarrow> apart a b)"
    if "\<forall>iv \<in> set xs. fst iv < snd iv" for xs
    using that
  proof (induction xs)
    case (Cons x xs)
    have "\<not> apart x x" using Cons.prems by (simp add: apart_def not_le)
    moreover have "apart a b \<longleftrightarrow> apart b a" for a b by (auto simp: apart_def)
    ultimately show ?case using Cons by auto
  qed simp
  show ?thesis using assms iff [of ivs] iff [of "sort ivs"] by simp
qed

text \<open>For the disjoint intervals the engine keeps, on a grid of \<open>k\<close> decimal places, the covered
  quantity is exactly the length the intervals have below the confirmed quantity, so what the summary
  counts as not covered by trades is never negative.\<close>

theorem covered_quantity_exact:
  assumes "intervals_ok ivs" "\<forall>iv \<in> set ivs. on_grid k (fst iv) \<and> on_grid k (snd iv)"
    and "0 \<le> q" "on_grid k q" "q * 10 ^ k < 10 ^ 28"
  shows "covered_interval_quantity ivs q = sum_list (map (part_below q) ivs)
    \<and> covered_interval_quantity ivs q \<le> q"
proof -
  have ok: "sorted_wrt apart ivs" "\<forall>iv \<in> set ivs. 0 \<le> fst iv \<and> fst iv < snd iv"
    using assms(1) by (simp_all add: intervals_ok_def)
  then have "sorted_wrt (\<lambda>a b. snd a \<le> fst b) (sort ivs)"
    by (intro sorted_apart apart_sort) auto
  then have "covered_interval_quantity ivs q = 0 + sum_list (map (part_below q) (sort ivs))
      \<and> covered_interval_quantity ivs q \<le> q"
    unfolding covered_interval_quantity_def
    using ok assms(2-5) by (intro covered_loop_exact [of _ _ k]) auto
  moreover have "sum_list (map (part_below q) (sort ivs)) = sum_list (map (part_below q) ivs)"
    by (metis mset_map mset_sort sum_mset_sum_list)
  ultimately show ?thesis by simp
qed

theorem covered_quantity_exact_witness: "covered_interval_quantity [(2, 3), (0, 1)] 3 = 2"
proof -
  have "on_grid 0 1" "on_grid 0 2" "on_grid 0 3"
    by (intro on_gridI [of _ 0 1] on_gridI [of _ 0 2] on_gridI [of _ 0 3]; simp)+
  then show ?thesis
    using covered_quantity_exact [of "[(2, 3), (0, 1)]" 0 3]
    by (simp add: intervals_ok_def apart_def part_below_def)
qed

end
