(* ===== verification/Ledger.thy ===== *)
theory Ledger
  imports Fill_Accounting
begin

text \<open>
  The TWAP slice ledger of \<^verbatim>\<open>src/execution/engine.py\<close>: every child order is booked in exactly one row,
  the row of the slice in which it was submitted, and the rows add up to the orders.
\<close>

section \<open>Booking children\<close>

abbreviation slices_of :: "execution_record \<Rightarrow> int" where
  "slices_of r \<equiv> number_of_slices (parameters (request r))"

definition slice_length :: "execution_record \<Rightarrow> decimal" where
  "slice_length r = ddiv (of_int (target_duration_seconds (request r))) (of_int (slices_of r))"

definition booked_rows :: "execution_record \<Rightarrow> slice_row list" where
  "booked_rows r =
     foldl (book_child r (slices_of r) (slice_length r))
       (map (empty_twap_slice_ledger_row r (slice_length r) (slices_of r)) [1..slices_of r]) (child_orders r)"

lemma twap_slice_ledger_eq:
  "twap_slice_ledger r =
     (if req_algorithm (request r) \<noteq> TWAP \<or> rec_side r = NO_ACTION \<or> required_quantity r \<le> 0
         \<or> slices_of r \<le> 0 then [] else finish_rows 0 (booked_rows r))"
  by (simp add: twap_slice_ledger_def booked_rows_def slice_length_def Let_def)

lemma finish_rows_fields:
  "map slice_index (finish_rows c rows) = map slice_index rows"
  "map row_child_order_ids (finish_rows c rows) = map row_child_order_ids rows"
  "map row_submitted_quantity (finish_rows c rows) = map row_submitted_quantity rows"
  "map row_filled_quantity (finish_rows c rows) = map row_filled_quantity rows"
  by (induction rows arbitrary: c) (simp_all add: Let_def)

lemma slice_index_range:
  "1 \<le> n \<Longrightarrow> 1 \<le> twap_child_slice_index r n d c \<and> twap_child_slice_index r n d c \<le> n"
  by (auto simp: twap_child_slice_index_def Let_def split: option.split)

lemma update_mset:
  "i < length xs \<Longrightarrow> mset (concat (xs[i := xs ! i @ ys])) = mset (concat xs) + mset ys"
proof (induction xs arbitrary: i)
  case (Cons x xs)
  then show ?case by (cases i) (auto simp: ac_simps)
qed simp

lemma book_child_frame:
  fixes r :: execution_record and d :: decimal and c :: child_order
  assumes "int (length rows) = slices_of r" "1 \<le> slices_of r"
  defines "rows' \<equiv> book_child r (slices_of r) d rows c"
  shows "length rows' = length rows" "map slice_index rows' = map slice_index rows"
    and "mset (concat (map row_child_order_ids rows'))
      = mset (concat (map row_child_order_ids rows)) + {# child_order_id c #}"
proof -
  let ?i = "nat (twap_child_slice_index r (slices_of r) d c - 1)"
  have i: "?i < length rows" using slice_index_range [OF assms(2), of r d c] assms(1) by linarith
  have same: "(map f rows)[?i := f (rows ! ?i)] = map f rows" for f :: "slice_row \<Rightarrow> int"
    using i list_update_id [of "map f rows" ?i] by simp
  show "length rows' = length rows" "map slice_index rows' = map slice_index rows"
    using same [of slice_index] by (simp_all add: rows'_def book_child_def Let_def add_child_to_row_def map_update)
  show "mset (concat (map row_child_order_ids rows'))
      = mset (concat (map row_child_order_ids rows)) + {# child_order_id c #}"
    using update_mset [of ?i "map row_child_order_ids rows" "[child_order_id c]"] i
    by (simp add: rows'_def book_child_def Let_def map_update add_child_to_row_def)
qed

lemma book_children_frame:
  assumes "int (length rows) = slices_of r" "1 \<le> slices_of r"
  shows "length (foldl (book_child r (slices_of r) d) rows cs) = length rows
    \<and> map slice_index (foldl (book_child r (slices_of r) d) rows cs) = map slice_index rows
    \<and> mset (concat (map row_child_order_ids (foldl (book_child r (slices_of r) d) rows cs)))
      = mset (concat (map row_child_order_ids rows)) + mset (map child_order_id cs)"
  using assms(1)
proof (induction cs arbitrary: rows)
  case (Cons c cs)
  let ?rows = "book_child r (slices_of r) d rows c"
  note b = book_child_frame [OF Cons.prems assms(2), of d c]
  have "int (length ?rows) = slices_of r" using b(1) Cons.prems by simp
  from Cons.IH [OF this] b show ?case by simp
qed simp

section \<open>Conservation\<close>

lemma sum_list_add_at:
  fixes xs :: "rat list"
  shows "i < length xs \<Longrightarrow> sum_list (xs[i := xs ! i + v]) = sum_list xs + v"
  by (induction xs arbitrary: i) (auto split: nat.split simp: ac_simps)

lemma book_child_sum:
  fixes r :: execution_record and d :: decimal and c :: child_order
  assumes field: "\<And>c row. f (add_child_to_row c row) = dadd (f row) (g c)"
    and rows: "int (length rows) = slices_of r" "1 \<le> slices_of r"
    and grid: "\<forall>row \<in> set rows. on_grid k (f row) \<and> 0 \<le> f row" "on_grid k (g c)" "0 \<le> g c"
    and small: "(sum_list (map f rows) + g c) * 10 ^ k < 10 ^ 28"
  defines "rows' \<equiv> book_child r (slices_of r) d rows c"
  shows "sum_list (map f rows') = sum_list (map f rows) + g c"
    and "\<forall>row \<in> set rows'. on_grid k (f row) \<and> 0 \<le> f row"
proof -
  let ?i = "nat (twap_child_slice_index r (slices_of r) d c - 1)"
  have i: "?i < length rows" using slice_index_range [OF rows(2), of r d c] rows(1) by linarith
  have row: "on_grid k (f (rows ! ?i))" "0 \<le> f (rows ! ?i)" using grid(1) i by simp_all
  have "f (rows ! ?i) \<le> sum_list (map f rows)"
    using grid(1) i by (intro member_le_sum_list) auto
  then have "\<bar>f (rows ! ?i) + g c\<bar> * 10 ^ k < 10 ^ 28"
    using small row grid(3) by (intro scaled_less [of _ "sum_list (map f rows) + g c"]) simp_all
  then have add: "dadd (f (rows ! ?i)) (g c) = f (rows ! ?i) + g c"
    using row grid(2) by (intro dadd_exact [of k])
  have fields: "map f rows' = (map f rows)[?i := map f rows ! ?i + g c]"
    using i by (simp add: rows'_def book_child_def Let_def map_update field add)
  then show "sum_list (map f rows') = sum_list (map f rows) + g c"
    using i sum_list_add_at [of ?i "map f rows" "g c"] by simp
  have "\<forall>x \<in> set (map f rows'). on_grid k x \<and> 0 \<le> x"
    unfolding fields using grid row i by (auto dest!: set_update_subset_insert [THEN subsetD])
  then show "\<forall>row \<in> set rows'. on_grid k (f row) \<and> 0 \<le> f row" by simp
qed

lemma book_children_sum:
  assumes field: "\<And>c row. f (add_child_to_row c row) = dadd (f row) (g c)"
    and slices: "1 \<le> slices_of r"
  shows "int (length rows) = slices_of r \<Longrightarrow> \<forall>row \<in> set rows. on_grid k (f row) \<and> 0 \<le> f row \<Longrightarrow>
    \<forall>c \<in> set cs. on_grid k (g c) \<and> 0 \<le> g c \<Longrightarrow>
    (sum_list (map f rows) + sum_list (map g cs)) * 10 ^ k < 10 ^ 28 \<Longrightarrow>
    sum_list (map f (foldl (book_child r (slices_of r) d) rows cs))
      = sum_list (map f rows) + sum_list (map g cs)"
proof (induction cs arbitrary: rows)
  case (Cons c cs)
  let ?rows = "book_child r (slices_of r) d rows c"
  have c: "on_grid k (g c)" "0 \<le> g c" using Cons.prems(3) by simp_all
  have rest: "0 \<le> sum_list (map g cs)" using Cons.prems(3) by (intro sum_list_nonneg) auto
  have "(sum_list (map f rows) + g c) * 10 ^ k
      \<le> (sum_list (map f rows) + sum_list (map g (c # cs))) * 10 ^ k"
    using rest by (intro mult_right_mono) simp_all
  then have small: "(sum_list (map f rows) + g c) * 10 ^ k < 10 ^ 28" using Cons.prems(4) by (rule le_less_trans)
  note b = book_child_sum [OF field Cons.prems(1) slices Cons.prems(2) c small, of d]
  have "int (length ?rows) = slices_of r"
    using book_child_frame(1) [OF Cons.prems(1) slices] Cons.prems(1) by simp
  moreover have "(sum_list (map f ?rows) + sum_list (map g cs)) * 10 ^ k < 10 ^ 28"
    using Cons.prems(4) b(1) by (simp add: add.assoc)
  ultimately show ?case
    using Cons.IH [of ?rows] Cons.prems(3) b by (simp add: add.assoc)
qed simp

section \<open>Properties\<close>

lemma start_rows:
  "int (length (map (empty_twap_slice_ledger_row r d n) [1..n])) = max 0 n"
  "map slice_index (map (empty_twap_slice_ledger_row r d n) [1..n]) = [1..n]"
  "concat (map row_child_order_ids (map (empty_twap_slice_ledger_row r d n) [1..n])) = []"
  "map row_submitted_quantity (map (empty_twap_slice_ledger_row r d n) [1..n]) = map (\<lambda>_. 0) [1..n]"
  "map row_filled_quantity (map (empty_twap_slice_ledger_row r d n) [1..n]) = map (\<lambda>_. 0) [1..n]"
  by (simp_all add: empty_twap_slice_ledger_row_def Let_def comp_def map_idI)

text \<open>C32. The ledger of a TWAP execution has one row per slice, in order; every child order is listed in
  exactly one row; and on a grid of \<open>k\<close> decimal places the submitted and the filled quantities of the
  rows add up to those of the child orders.\<close>

theorem ledger_conserves_orders:
  assumes twap: "req_algorithm (request r) = TWAP" "rec_side r \<noteq> NO_ACTION" "0 < required_quantity r"
      "1 \<le> slices_of r"
    and grid: "\<forall>c \<in> set (child_orders r). on_grid k (submitted_quantity c) \<and> 0 \<le> submitted_quantity c
      \<and> on_grid k (child_filled c) \<and> 0 \<le> child_filled c"
    and small: "sum_list (map submitted_quantity (child_orders r)) * 10 ^ k < 10 ^ 28"
      "sum_list (map child_filled (child_orders r)) * 10 ^ k < 10 ^ 28"
  shows "map slice_index (twap_slice_ledger r) = [1..slices_of r]
    \<and> mset (concat (map row_child_order_ids (twap_slice_ledger r))) = mset (map child_order_id (child_orders r))
    \<and> sum_list (map row_submitted_quantity (twap_slice_ledger r))
        = sum_list (map submitted_quantity (child_orders r))
    \<and> sum_list (map row_filled_quantity (twap_slice_ledger r))
        = sum_list (map child_filled (child_orders r))"
proof -
  let ?rows = "map (empty_twap_slice_ledger_row r (slice_length r) (slices_of r)) [1..slices_of r]"
  have ledger: "twap_slice_ledger r = finish_rows 0 (booked_rows r)"
    using twap by (simp add: twap_slice_ledger_eq)
  have len: "int (length ?rows) = slices_of r" using start_rows(1) twap(4) by simp
  note frame = book_children_frame [OF len twap(4), of "slice_length r" "child_orders r", folded booked_rows_def]
  have zero: "sum_list (map f ?rows) = 0" "\<forall>row \<in> set ?rows. on_grid k (f row) \<and> 0 \<le> f row"
    if "map f ?rows = map (\<lambda>_. 0) [1..slices_of r]" for f :: "slice_row \<Rightarrow> rat"
  proof -
    have "\<forall>x \<in> set (map f ?rows). x = 0" unfolding that by auto
    then have "\<forall>row \<in> set ?rows. f row = 0" by auto
    then show "\<forall>row \<in> set ?rows. on_grid k (f row) \<and> 0 \<le> f row" by simp
    show "sum_list (map f ?rows) = 0" unfolding that by (induction "[1..slices_of r]") simp_all
  qed
  have "sum_list (map row_submitted_quantity (booked_rows r)) = sum_list (map submitted_quantity (child_orders r))"
    unfolding booked_rows_def
    using book_children_sum [of row_submitted_quantity submitted_quantity, OF _ twap(4) len, of k "child_orders r" "slice_length r"]
      zero [OF start_rows(4)] grid small(1)
    by (simp add: add_child_to_row_def)
  moreover have "sum_list (map row_filled_quantity (booked_rows r)) = sum_list (map child_filled (child_orders r))"
    unfolding booked_rows_def
    using book_children_sum [of row_filled_quantity child_filled, OF _ twap(4) len, of k "child_orders r" "slice_length r"]
      zero [OF start_rows(5)] grid small(2)
    by (simp add: add_child_to_row_def)
  ultimately show ?thesis
    using frame by (simp add: ledger finish_rows_fields start_rows(2,3) del: map_map)
qed

definition sliced_record :: execution_record where
  "sliced_record =
     one_order_record\<lparr>request := (request one_order_record)\<lparr>req_algorithm := TWAP,
       parameters := default_parameters\<lparr>number_of_slices := 3\<rparr>\<rparr>\<rparr>"

lemma sliced_facts:
  "slices_of sliced_record = 3" "req_algorithm (request sliced_record) = TWAP"
  "rec_side sliced_record = BUY" "required_quantity sliced_record = 3"
  "map submitted_quantity (child_orders sliced_record) = [3]"
  "map child_filled (child_orders sliced_record) = [0]"
  "map child_order_id (child_orders sliced_record) = [''child_0001'']"
  by (simp_all add: sliced_record_def one_order_record_def new_execution_record_def new_child_order_def)

theorem ledger_conserves_orders_witness:
  "map slice_index (twap_slice_ledger sliced_record) = [1..3]
   \<and> sum_list (map row_submitted_quantity (twap_slice_ledger sliced_record)) = 3"
proof -
  have "on_grid 0 3" by (rule on_gridI [of _ 0 3]) simp
  moreover have "submitted_quantity c = 3 \<and> child_filled c = 0" if "c \<in> set (child_orders sliced_record)" for c
    using that by (simp add: sliced_record_def one_order_record_def new_execution_record_def new_child_order_def)
  ultimately show ?thesis
    using ledger_conserves_orders [of sliced_record 0] sliced_facts by simp
qed

text \<open>Every child order is booked in an existing slice; with an exact quotient it is the slice in
  which it was submitted, the end of a slice included.\<close>

theorem slice_of_submission:
  assumes "submitted_at r c = Some t" "0 < d" "dec_ok (dsub t (started_monotonic r) / d)"
    and "of_int (k - 1) * d < dsub t (started_monotonic r)" "dsub t (started_monotonic r) \<le> of_int k * d"
    and "1 \<le> n"
  shows "twap_child_slice_index r n d c = max 1 (min n k)
    \<and> (\<forall>c'. 1 \<le> twap_child_slice_index r n d c' \<and> twap_child_slice_index r n d c' \<le> n)"
proof -
  let ?e = "dsub t (started_monotonic r)"
  have "?e / d \<le> of_int k" "of_int k - 1 < ?e / d"
    using assms(2,4,5) by (simp_all add: pos_divide_le_eq pos_less_divide_eq)
  then have "\<lceil>?e / d\<rceil> = k" by (simp add: ceiling_eq_iff)
  then have quotient: "\<lceil>ddiv ?e d\<rceil> = k" using assms(3) by (simp add: ddiv_def dec_ok_def)
  have "k \<le> 0" if "?e \<le> 0"
  proof (rule ccontr)
    assume "\<not> k \<le> 0"
    then have "0 \<le> (of_int (k - 1) :: rat) * d" using assms(2) by (intro mult_nonneg_nonneg) simp_all
    with that assms(4) show False by linarith
  qed
  then have "twap_child_slice_index r n d c = max 1 (min n k)"
    using assms(1,2,6) quotient by (cases "?e \<le> 0") (simp_all add: twap_child_slice_index_def Let_def)
  then show ?thesis using slice_index_range [OF assms(6)] by blast
qed

theorem slice_of_submission_witness:
  "twap_child_slice_index (sliced_record\<lparr>child_submitted_monotonic := [(''ce_0_1'', 25)]\<rparr>) 3 20
     (child_orders one_order_record ! 0) = 2"
proof -
  have ok: "dec_ok (25 / 20)" "dsub 25 0 = 25"
    unfolding dec_ok_def dsub_def
    by (rule dround_exactI [of _ 2 125], simp_all) (rule dround_exactI [of _ 0 25], simp_all)
  show ?thesis
    using slice_of_submission [of "sliced_record\<lparr>child_submitted_monotonic := [(''ce_0_1'', 25)]\<rparr>"
        "child_orders one_order_record ! 0" 25 20 2 3] ok
    by (simp add: submitted_at_def sliced_record_def one_order_record_def new_execution_record_def
        new_child_order_def)
qed

end
