(* ===== verification/Engine_Lifecycle.thy ===== *)
theory Engine_Lifecycle
  imports Engine_Invariant
begin

text \<open>
  The parts of \<^verbatim>\<open>src/execution/engine.py\<close> that decide about time and endings: the deadline
  predicates (each reads the clock where the code does), the rate-limit and retry gates, and the
  functions that close an execution.
\<close>

section \<open>Closing an execution\<close>

text \<open>The four statements every closing function ends with.\<close>

definition conclude ::
  "'w adapter \<Rightarrow> execution_status \<Rightarrow> (string option \<Rightarrow> string option) \<Rightarrow> ('w, unit) eng" where
  "conclude A target reason =
     andthen (set_execution_status target)
     (andthen (modr (\<lambda>r. r\<lparr>final_reason := reason (final_reason r)\<rparr>))
     (bind (now_decimal A) (\<lambda>t.
        andthen (modr (\<lambda>r. r\<lparr>completed_monotonic := Some t\<rparr>)) (write_summary A))))"

definition partial_or :: "execution_status \<Rightarrow> execution_record \<Rightarrow> execution_status" where
  "partial_or other r = (if confirmed r > 0 then PARTIALLY_COMPLETED else other)"

definition complete :: "'w adapter \<Rightarrow> string \<Rightarrow> ('w, unit) eng" where
  "complete A reason =
     bind (getr status) (\<lambda>s. guarded (s \<in> {RUNNING, CANCELLING}) (conclude A COMPLETED (\<lambda>_. Some reason)))"

definition fail :: "'w adapter \<Rightarrow> string \<Rightarrow> ('w, unit) eng" where
  "fail A reason =
     bind (getr status) (\<lambda>s. guarded (s \<in> {RUNNING, CANCELLING}) (conclude A FAILED (\<lambda>_. Some reason)))"

definition mark_open_children :: "string \<Rightarrow> execution_record \<Rightarrow> execution_record" where
  "mark_open_children reason r =
     r\<lparr>child_orders := map (\<lambda>c. if child_status_is_terminal (child_status c) then c
                                else c\<lparr>terminal_reason := Some reason\<rparr>) (child_orders r)\<rparr>"

definition fail_for_venue_ban_hard_stop :: "'w adapter \<Rightarrow> exn \<Rightarrow> ('w, unit) eng" where
  "fail_for_venue_ban_hard_stop A e =
     andthen (modr (mark_open_children (exn_str e)))
     (andthen (fail A (exn_str e)) assert_exposure_invariant)"

definition expiry_reason :: "message \<Rightarrow> string" where
  "expiry_reason m =
     (if mentions ''bound'' m then price_outside_range
      else if mentions ''unsupported'' m then post_only_unsupported
      else if mentions ''post-only'' m then post_only_crosses
      else order_safety_rejected)"

definition expire_for_validation :: "'w adapter \<Rightarrow> message \<Rightarrow> ('w, unit) eng" where
  "expire_for_validation A m =
     andthen (modr (set_final_reason (expiry_reason m)))
     (bind get_record (\<lambda>r.
        guarded (status r = RUNNING) (conclude A (partial_or EXPIRED r) (\<lambda>reason. reason))))"

definition terminalize_deadline :: "'w adapter \<Rightarrow> string \<Rightarrow> ('w, unit) eng" where
  "terminalize_deadline A reason =
     bind get_record (\<lambda>r.
       if status r \<noteq> RUNNING then ret ()
       else if reserved r > 0 then ret ()
       else conclude A (partial_or EXPIRED r) (\<lambda>_. Some reason))"

definition terminalize_retryable_order_reject_limit :: "'w adapter \<Rightarrow> ('w, unit) eng" where
  "terminalize_retryable_order_reject_limit A =
     bind get_record (\<lambda>r.
       if status r \<noteq> RUNNING then ret ()
       else if consecutive_retryable_order_rejects r
               < max_post_only_reject_retries (parameters (request r)) then ret ()
       else if reserved r > 0 then ret ()
       else conclude A (partial_or EXPIRED r) (\<lambda>_. Some retryable_order_reject_limit_reached))"

definition terminalize_manual_cancel_if_clear :: "'w adapter \<Rightarrow> ('w, unit) eng" where
  "terminalize_manual_cancel_if_clear A =
     bind get_record (\<lambda>r.
       if status r \<noteq> CANCELLING then ret ()
       else if target_filled r then complete A target_quantity_filled
       else if reserved r > 0 then ret ()
       else conclude A (partial_or CANCELLED r)
              (\<lambda>reason. if reason \<in> {None, Some ''''} then Some cancel_requested else reason))"

section \<open>Deadlines\<close>

definition deadline_reached :: "'w adapter \<Rightarrow> ('w, bool) eng" where
  "deadline_reached A =
     bind (now_decimal A) (\<lambda>t.
       getr (\<lambda>r. dsub t (started_monotonic r) \<ge> of_int (target_duration_seconds (request r))))"

definition use_aggressive_deadline_price :: "'w adapter \<Rightarrow> ('w, bool) eng" where
  "use_aggressive_deadline_price A =
     bind (getr (\<lambda>r. req_deadline_policy (request r))) (\<lambda>policy.
       if policy = AGGRESSIVE_WITHIN_RANGE then deadline_reached A else ret False)"

definition needs_aggressive_deadline_cancel :: "execution_record \<Rightarrow> child_order \<Rightarrow> bool" where
  "needs_aggressive_deadline_cancel r c \<longleftrightarrow> is_live (child_status c) \<and> \<not> is_aggressive r c"

definition should_cancel_for_aggressive_deadline :: "'w adapter \<Rightarrow> ('w, bool) eng" where
  "should_cancel_for_aggressive_deadline A =
     bind (use_aggressive_deadline_price A) (\<lambda>use.
       if \<not> use then ret False
       else getr (\<lambda>r. list_ex (needs_aggressive_deadline_cancel r) (child_orders r)))"

definition child_order_timed_out :: "'w adapter \<Rightarrow> nat \<Rightarrow> ('w, bool) eng" where
  "child_order_timed_out A i =
     bind get_record (\<lambda>r.
       let c = child_orders r ! i
       in if \<not> is_live (child_status c) then ret False
          else
            let timeout = of_int (child_order_timeout_seconds (parameters (request r)));
                submitted = (case submitted_at r c of None \<Rightarrow> started_monotonic r | Some t \<Rightarrow> t)
            in bind (now_decimal A) (\<lambda>t. ret (dsub t submitted \<ge> timeout)))"

definition cancel_remainder_deadline_reached :: "'w adapter \<Rightarrow> ('w, bool) eng" where
  "cancel_remainder_deadline_reached A =
     bind (deadline_reached A) (\<lambda>reached.
       getr (\<lambda>r. reached \<and> req_deadline_policy (request r) = CANCEL_REMAINDER))"

definition should_terminalize_cancel_remainder_deadline :: "'w adapter \<Rightarrow> ('w, bool) eng" where
  "should_terminalize_cancel_remainder_deadline A =
     bind (cancel_remainder_deadline_reached A) (\<lambda>reached.
       getr (\<lambda>r. reached \<and> (reserved r > 0 \<or> child_orders r \<noteq> [])))"

definition should_terminalize_cancel_remainder_without_demand :: "'w adapter \<Rightarrow> ('w, bool) eng" where
  "should_terminalize_cancel_remainder_without_demand A =
     bind (cancel_remainder_deadline_reached A) (\<lambda>reached.
       getr (\<lambda>r. reached \<and> reserved r = 0 \<and> child_orders r = []))"

definition should_terminalize_aggressive_deadline :: "'w adapter \<Rightarrow> ('w, bool) eng" where
  "should_terminalize_aggressive_deadline A =
     bind (deadline_reached A) (\<lambda>reached.
       getr (\<lambda>r. reached \<and> req_deadline_policy (request r) = AGGRESSIVE_WITHIN_RANGE
         \<and> aggressive_child_client_order_ids r \<noteq> {} \<and> reserved r = 0))"

definition deadline_without_demand_reason :: "execution_record \<Rightarrow> string" where
  "deadline_without_demand_reason r =
     (if final_reason r = Some waiting_for_price_range then price_outside_range
      else if final_reason r = Some order_shape_temporarily_untradeable
      then order_shape_temporarily_untradeable
      else deadline_cancel_remainder)"

section \<open>The rate-limit gate\<close>

definition record_rate_limit_backoff :: "'w adapter \<Rightarrow> ('w, unit) eng" where
  "record_rate_limit_backoff A =
     bind (now_decimal A) (\<lambda>t.
     andthen (modr (\<lambda>r. r\<lparr>rate_limited_until_monotonic := Some (dadd t rate_limit_backoff_seconds)\<rparr>))
     (andthen (modr (set_final_reason rate_limit_backoff))
        (modr (increment_metric ''rate_limit_backoffs''))))"

definition clear_reason :: "string set \<Rightarrow> execution_record \<Rightarrow> execution_record" where
  "clear_reason reasons r =
     (case final_reason r of
        None \<Rightarrow> r
      | Some x \<Rightarrow> if x \<in> reasons then r\<lparr>final_reason := None\<rparr> else r)"

definition rate_limit_backoff_blocks :: "'w adapter \<Rightarrow> ('w, bool) eng" where
  "rate_limit_backoff_blocks A =
     bind (getr rate_limited_until_monotonic) (\<lambda>backoff. case backoff of
       None \<Rightarrow> ret False
     | Some backoff_until \<Rightarrow>
         bind (now_decimal A) (\<lambda>t.
           if t < backoff_until
           then andthen (modr (set_final_reason rate_limit_backoff))
                (andthen (modr (increment_metric ''rate_limit_backoff_blocks'')) (ret True))
           else andthen (modr (\<lambda>r. r\<lparr>rate_limited_until_monotonic := None\<rparr>))
                (andthen (modr (clear_reason {rate_limit_backoff})) (ret False))))"

section \<open>The retry gate of rejected post-only orders\<close>

abbreviation (input) "retry_reasons \<equiv>
  {retryable_order_reject_backoff, retryable_order_reject_waiting_for_fresh_quote}"

definition record_retryable_order_reject ::
  "'w adapter \<Rightarrow> decimal \<Rightarrow> decimal \<Rightarrow> decimal \<Rightarrow> string \<Rightarrow> ('w, unit) eng" where
  "record_retryable_order_reject A price bid ask reason =
     andthen (modr (\<lambda>r. r\<lparr>consecutive_retryable_order_rejects := consecutive_retryable_order_rejects r + 1\<rparr>))
     (bind (now_decimal A) (\<lambda>t.
     andthen (modr (\<lambda>r. r\<lparr>last_retryable_order_reject_monotonic := Some t,
                          last_retryable_order_reject_price := Some price,
                          last_retryable_order_reject_bid := Some bid,
                          last_retryable_order_reject_ask := Some ask,
                          last_retryable_order_reject_reason := Some reason\<rparr>))
       (modr (increment_metric ''retryable_order_rejections''))))"

definition reset_retryable_order_reject_gate :: "execution_record \<Rightarrow> execution_record" where
  "reset_retryable_order_reject_gate r =
     clear_reason retry_reasons
       (r\<lparr>consecutive_retryable_order_rejects := 0, last_retryable_order_reject_monotonic := None,
          last_retryable_order_reject_price := None, last_retryable_order_reject_bid := None,
          last_retryable_order_reject_ask := None, last_retryable_order_reject_reason := None\<rparr>)"

definition reconciled_unknown_child_resets_retryable_reject_gate :: "child_order \<Rightarrow> bool" where
  "reconciled_unknown_child_resets_retryable_reject_gate c \<longleftrightarrow>
     child_status c \<in> {OPEN, PARTIALLY_FILLED, FILLED}
     \<or> (child_status c = CHILD_CANCELLED \<and> child_filled c > 0)"

definition retryable_reject_crossing_quote :: "execution_record \<Rightarrow> decimal \<Rightarrow> decimal \<Rightarrow> decimal" where
  "retryable_reject_crossing_quote r bid ask = (if rec_side r = BUY then ask else bid)"

definition last_retryable_reject_crossing_quote :: "execution_record \<Rightarrow> decimal option" where
  "last_retryable_reject_crossing_quote r =
     (if rec_side r = BUY then last_retryable_order_reject_ask r
      else last_retryable_order_reject_bid r)"

definition retryable_order_reject_gate_blocks ::
  "'w adapter \<Rightarrow> decimal \<Rightarrow> decimal \<Rightarrow> decimal \<Rightarrow> ('w, bool) eng" where
  "retryable_order_reject_gate_blocks A passive_price bid ask =
     bind get_record (\<lambda>r.
       if consecutive_retryable_order_rejects r \<le> 0 then ret False
       else bind (now_decimal A) (\<lambda>t.
         if (case last_retryable_order_reject_monotonic r of None \<Rightarrow> False
             | Some rejected_at \<Rightarrow> dsub t rejected_at < retryable_order_reject_backoff_seconds)
         then andthen (modr (set_final_reason retryable_order_reject_backoff))
              (andthen (modr (increment_metric ''retryable_order_reject_backoff_blocks'')) (ret True))
         else if Some passive_price = last_retryable_order_reject_price r
                 \<and> Some (retryable_reject_crossing_quote r bid ask)
                   = last_retryable_reject_crossing_quote r
         then andthen (modr (set_final_reason retryable_order_reject_waiting_for_fresh_quote))
              (andthen (modr (increment_metric ''retryable_order_reject_same_price_blocks''))
                (ret True))
         else andthen (modr (clear_reason retry_reasons)) (ret False)))"

section \<open>Evolution\<close>

lemma wp_now: "wp (now_decimal A) Q E s =
    Q (float_decimal (fst (clock_monotonic A (snd s)))) (fst s, snd (clock_monotonic A (snd s)))"
  by (simp add: now_decimal_def wp_call Let_def)

lemma wp_set_execution_status:
  "wp (set_execution_status target) Q E s =
     (case transition_execution (status (fst s)) target of
        Inl e \<Rightarrow> E e s
      | Inr u \<Rightarrow> Q () ((fst s)\<lparr>status := u\<rparr>, snd s))"
  by (simp add: set_execution_status_def wp_simp split: sum.split del: transition_execution_Inr)

lemma summary_at_fields [simp]:
  "summary_execution_id (summary_at t r) = rec_execution_id r"
  "summary_final_status (summary_at t r) = status r"
  by (simp_all add: summary_at_def)

lemma wp_write_summary:
  "(\<And>t w. Q () ((fst s)\<lparr>summary := Some (summary_at t (fst s))\<rparr>, w)) \<Longrightarrow> wp (write_summary A) Q E s"
  by (simp add: write_summary_def summary_of_def wp_simp wp_now split: option.split)

lemma write_summary_evolves:
  assumes "summary r \<noteq> None"
  shows "record_evolves r (r\<lparr>summary := Some (summary_at t r)\<rparr>)"
proof -
  let ?r = "r\<lparr>summary := Some (summary_at t r)\<rparr>"
  have "fills_ok ?r = fills_ok r"
    by (simp add: fills_ok_def intervals_of_def rebuilt_vwap_inputs_def trade_sort_key_def [abs_def])
  moreover have "tracking_ok ?r = tracking_ok r" by (simp add: tracking_ok_def cong: option.case_cong)
  moreover have "closing_ok r \<Longrightarrow> closing_ok ?r"
    using assms by (auto simp: closing_ok_def simp del: execution_status_is_terminal.simps)
  ultimately show ?thesis
    by (simp add: record_evolves_def rec_ok_def identity_def exposure_of_def)
qed

lemma concluded_evolves:
  assumes step: "execution_path (status r) target" and "execution_status_is_terminal target"
  shows "record_evolves r
    (r\<lparr>status := target, final_reason := x, completed_monotonic := Some t,
       summary := Some (summary_at t'
         (r\<lparr>status := target, final_reason := x, completed_monotonic := Some t\<rparr>))\<rparr>)"
    (is "record_evolves r ?r")
proof -
  have "fills_ok ?r = fills_ok r"
    by (simp add: fills_ok_def intervals_of_def rebuilt_vwap_inputs_def trade_sort_key_def [abs_def])
  moreover have "tracking_ok r \<Longrightarrow> tracking_ok ?r"
    using assms(2) by (auto simp: tracking_ok_def split: option.splits)
  moreover have "closing_ok ?r"
    using assms(2) by (simp add: closing_ok_def del: execution_status_is_terminal.simps)
  ultimately show ?thesis using step
    by (simp add: record_evolves_def rec_ok_def identity_def exposure_of_def)
qed

lemma wp_conclude:
  assumes "\<And>t w. execution_step (status (fst s)) target \<Longrightarrow> completed_monotonic (fst t) \<noteq> None \<Longrightarrow>
      state_evolves s t \<Longrightarrow> status (fst t) = target \<Longrightarrow>
      final_reason (fst t) = reason (final_reason (fst s)) \<Longrightarrow>
      child_orders (fst t) = child_orders (fst s) \<Longrightarrow> exposure_of (fst t) = exposure_of (fst s) \<Longrightarrow>
      Q () t"
    and "\<And>e. \<not> execution_step (status (fst s)) target \<Longrightarrow> E e s"
    and "execution_status_is_terminal target"
  shows "wp (conclude A target reason) Q E s"
proof (cases "transition_execution (status (fst s)) target")
  case (Inl e)
  then show ?thesis
    using assms(2) transition_execution_Inl [OF Inl]
    by (simp add: conclude_def wp_bind wp_set_execution_status)
next
  case (Inr u)
  then have u: "u = target" "execution_step (status (fst s)) target" by simp_all
  then have "execution_path (status (fst s)) target" by blast
  note ev = concluded_evolves [OF this assms(3)]
  show ?thesis
    unfolding conclude_def wp_bind wp_set_execution_status wp_modr wp_now Inr sum.case u(1)
    by (rule wp_write_summary) (rule assms(1), simp_all add: u ev exposure_of_def)
qed

lemma rev_conclude:
  "execution_status_is_terminal target \<Longrightarrow> evolves state_evolves (conclude A target reason)"
  unfolding evolves_wp by (intro allI wp_conclude) auto

lemma partial_or_terminal [simp]:
  "execution_status_is_terminal other \<Longrightarrow> execution_status_is_terminal (partial_or other r)"
  by (simp add: partial_or_def)

lemma rev_closing [evolve_intro]:
  "evolves state_evolves (complete A reason)"
  "evolves state_evolves (fail A reason)"
  "evolves state_evolves (expire_for_validation A m)"
  "evolves state_evolves (terminalize_deadline A reason)"
  "evolves state_evolves (terminalize_retryable_order_reject_limit A)"
  "evolves state_evolves (terminalize_manual_cancel_if_clear A)"
proof -
  show c: "evolves state_evolves (complete A reason)" for A :: "'w adapter" and reason
    unfolding complete_def by (intro evolve_intro rev_conclude) (simp_all add: partial_or_def)
  show "evolves state_evolves (fail A reason)"
    unfolding fail_def by (intro evolve_intro rev_conclude) (simp_all add: partial_or_def)
  show "evolves state_evolves (expire_for_validation A m)"
    unfolding expire_for_validation_def by (intro evolve_intro rev_conclude) (simp_all add: partial_or_def)
  show "evolves state_evolves (terminalize_deadline A reason)"
    unfolding terminalize_deadline_def by (intro evolve_intro rev_conclude) (simp_all add: partial_or_def)
  show "evolves state_evolves (terminalize_retryable_order_reject_limit A)"
    unfolding terminalize_retryable_order_reject_limit_def by (intro evolve_intro rev_conclude) (simp_all add: partial_or_def)
  show "evolves state_evolves (terminalize_manual_cancel_if_clear A)"
    unfolding terminalize_manual_cancel_if_clear_def by (intro evolve_intro rev_conclude c) (simp_all add: partial_or_def)
qed

lemma map_children_evolve: "(\<And>c. child_evolves c (f c)) \<Longrightarrow> children_evolve cs (map f cs)"
  unfolding children_evolve_def by auto

lemma mark_open_children_evolves: "record_evolves r (mark_open_children reason r)"
  unfolding mark_open_children_def
  by (intro set_children_evolves map_children_evolve) (simp add: child_evolves_def)

lemma rev_fail_for_venue_ban [evolve_intro]: "evolves state_evolves (fail_for_venue_ban_hard_stop A e)"
  unfolding fail_for_venue_ban_hard_stop_def
  by (intro evolve_intro rev_modr mark_open_children_evolves)

lemma core_clear_reason [simp]: "core (clear_reason x r) = core r"
  by (simp add: clear_reason_def core_def ok_core_def identity_def split: option.split)

lemma core_reset_gate [simp]: "core (reset_retryable_order_reject_gate r) = core r"
  by (simp add: reset_retryable_order_reject_gate_def) (simp add: core_def ok_core_def identity_def)

lemma rev_clear_reason [evolve_intro]: "evolves state_evolves (modr (clear_reason x))"
  and rev_reset_gate [evolve_intro]: "evolves state_evolves (modr reset_retryable_order_reject_gate)"
  by (simp_all add: rev_core)

lemma rev_predicates [evolve_intro]:
  "evolves state_evolves (deadline_reached A)"
  "evolves state_evolves (use_aggressive_deadline_price A)"
  "evolves state_evolves (should_cancel_for_aggressive_deadline A)"
  "evolves state_evolves (child_order_timed_out A i)"
  "evolves state_evolves (cancel_remainder_deadline_reached A)"
  "evolves state_evolves (should_terminalize_cancel_remainder_deadline A)"
  "evolves state_evolves (should_terminalize_cancel_remainder_without_demand A)"
  "evolves state_evolves (should_terminalize_aggressive_deadline A)"
  unfolding should_terminalize_cancel_remainder_deadline_def
    should_terminalize_cancel_remainder_without_demand_def should_terminalize_aggressive_deadline_def
    cancel_remainder_deadline_reached_def child_order_timed_out_def
    should_cancel_for_aggressive_deadline_def use_aggressive_deadline_price_def deadline_reached_def Let_def
  by (intro evolve_intro)+

lemma rev_gates [evolve_intro]:
  "evolves state_evolves (record_rate_limit_backoff A)"
  "evolves state_evolves (rate_limit_backoff_blocks A)"
  "evolves state_evolves (record_retryable_order_reject A p b a reason)"
  "evolves state_evolves (retryable_order_reject_gate_blocks A p b a)"
  unfolding record_rate_limit_backoff_def rate_limit_backoff_blocks_def
    record_retryable_order_reject_def retryable_order_reject_gate_blocks_def
  by (intro evolve_intro rev_core; simp add: core_def ok_core_def identity_def)+

end
