(* ===== verification/Engine_Orders.thy ===== *)
theory Engine_Orders
  imports Engine_Lifecycle
begin

text \<open>
  The operations of \<^verbatim>\<open>src/execution/engine.py\<close> that talk to the exchange about orders: submitting
  and cancelling a child, refreshing children by id, and merging a reconciliation result. A child is
  named by its position in \<open>child_orders\<close>; the loops over \<^verbatim>\<open>list(record.child_orders)\<close> run over the
  positions of the list at their start.
\<close>

section \<open>Absorbing the exchange's view of a child\<close>

definition child_at :: "nat \<Rightarrow> execution_record \<Rightarrow> child_order" where
  "child_at i r = child_orders r ! i"

definition child_positions :: "execution_record \<Rightarrow> nat list" where
  "child_positions r = [0..<length (child_orders r)]"

text \<open>Copy the ids, move the status, book the confirmed quantity: the same three statements follow
  a submission, a cancellation and each lookup.\<close>

definition absorb_exchange_child :: "nat \<Rightarrow> child_order \<Rightarrow> ('w, unit) eng" where
  "absorb_exchange_child i exchange_child =
     andthen (modr (modify_child i (copy_exchange_child exchange_child False)))
     (andthen (update_child_status i (child_status exchange_child))
       (guarded (child_filled exchange_child > 0)
         (apply_snapshot_fill i (child_filled exchange_child))))"

definition mark_order_not_found :: "nat \<Rightarrow> ('w, unit) eng" where
  "mark_order_not_found i =
     andthen (update_child_status i REJECTED)
     (andthen (modr (set_terminal_reason i (Some create_timeout_order_not_found)))
     (andthen (modr (set_final_reason create_timeout_order_not_found))
        (modr (increment_metric ''unknown_orders_reconciled''))))"

definition note_unknown_reconciled :: "nat \<Rightarrow> ('w, unit) eng" where
  "note_unknown_reconciled i =
     andthen (modr (increment_metric ''unknown_orders_reconciled''))
     (bind (getr (child_at i)) (\<lambda>c.
        guarded (reconciled_unknown_child_resets_retryable_reject_gate c)
          (modr reset_retryable_order_reject_gate)))"

section \<open>Submitting a child\<close>

definition order_request_of ::
  "execution_record \<Rightarrow> nat \<Rightarrow> string \<Rightarrow> decimal \<Rightarrow> decimal \<Rightarrow> bool \<Rightarrow> order_request" where
  "order_request_of r sequence coid quantity price post_only =
     \<lparr>or_execution_id = rec_execution_id r, or_child_order_id = child_order_id_of sequence,
      or_client_order_id = coid, or_symbol = req_symbol (request r), or_side = rec_side r,
      or_quantity = quantity, or_price = price, or_post_only = post_only, or_reduce_only = False,
      or_time_in_force = Some (if post_only then GTX else IOC)\<rparr>"

definition add_child :: "child_order \<Rightarrow> decimal \<Rightarrow> bool \<Rightarrow> execution_record \<Rightarrow> execution_record" where
  "add_child c submit_time post_only r =
     r\<lparr>child_orders := child_orders r @ [c],
       child_submitted_monotonic :=
         AList.update (client_order_id c) submit_time (child_submitted_monotonic r),
       aggressive_child_client_order_ids :=
         (if post_only then aggressive_child_client_order_ids r
          else insert (client_order_id c) (aggressive_child_client_order_ids r))\<rparr>"

definition drop_child :: "nat \<Rightarrow> execution_record \<Rightarrow> execution_record" where
  "drop_child i r =
     (let c = child_at i r
      in r\<lparr>child_orders := remove1 c (child_orders r),
           child_submitted_monotonic :=
             AList.delete (client_order_id c) (child_submitted_monotonic r),
           aggressive_child_client_order_ids :=
             aggressive_child_client_order_ids r - {client_order_id c}\<rparr>)"

text \<open>The statements before the exchange is called: check, number, append and reserve.\<close>

definition append_child :: "child_order \<Rightarrow> decimal \<Rightarrow> bool \<Rightarrow> ('w, nat) eng" where
  "append_child c submit_time post_only =
     bind (getr (\<lambda>r. length (child_orders r))) (\<lambda>i.
     andthen (modr (add_child c submit_time post_only))
     (andthen (on_tracker (reserve_pending_submit (submitted_quantity c)))
     (andthen (modr (increment_metric ''orders_submitted''))
     (andthen (modr record_max_reserved_exposure) (ret i)))))"

definition number_child ::
  "'w adapter \<Rightarrow> decimal \<Rightarrow> decimal \<Rightarrow> bool \<Rightarrow> ('w, nat \<times> order_request) eng" where
  "number_child A quantity price post_only =
     andthen (modr (\<lambda>r. r\<lparr>last_child_sequence := last_child_sequence r + 1\<rparr>))
     (bind (getr last_child_sequence) (\<lambda>sequence.
     bind (now_decimal A) (\<lambda>submit_time.
     bind (getr rec_execution_id) (\<lambda>eid.
     bind (lift_res (make_client_order_id eid sequence)) (\<lambda>coid.
     bind (getr (\<lambda>r. new_child_order (child_order_id_of sequence) coid (req_symbol (request r))
                      (rec_side r) quantity price)) (\<lambda>c.
     bind (append_child c submit_time post_only) (\<lambda>i.
       getr (\<lambda>r. (i, order_request_of r sequence coid quantity price post_only)))))))))"

definition prepare_child ::
  "'w adapter \<Rightarrow> decimal \<Rightarrow> decimal \<Rightarrow> bool \<Rightarrow> ('w, nat \<times> order_request) eng" where
  "prepare_child A quantity price post_only =
     bind require_exposure_tracker (\<lambda>tracker.
     bind (lift_res (check_can_submit tracker quantity)) (\<lambda>_.
       number_child A quantity price post_only))"

text \<open>The exception handlers of the submission, in the code's order.\<close>

definition submit_failed ::
  "'w adapter \<Rightarrow> nat \<Rightarrow> decimal \<Rightarrow> decimal \<Rightarrow> bool \<Rightarrow> decimal \<Rightarrow> decimal \<Rightarrow> exn \<Rightarrow> ('w, unit) eng" where
  "submit_failed A i quantity price post_only market_bid market_ask e =
     (let release = on_tracker (release_pending_submit quantity);
          rejected =
            andthen release
            (andthen (update_child_status i REJECTED)
              (modr (set_terminal_reason i (Some (exn_str e)))));
          terminal = fail A (terminal_order_rejected @ '': '' @ exn_str e)
      in case e of
           VenueBanHardStop _ \<Rightarrow>
             andthen rejected (andthen (fail A (exn_str e)) assert_exposure_invariant)
         | OrderCreateTimeout _ \<Rightarrow>
             andthen release
             (andthen (update_child_status i UNKNOWN)
             (andthen (modr (set_terminal_reason i (Some create_timeout_pending_reconciliation)))
             (andthen (on_tracker (reserve_unknown_create quantity))
             (andthen (modr record_max_reserved_exposure)
             (andthen (modr (set_final_reason create_timeout_pending_reconciliation))
               assert_exposure_invariant)))))
         | TerminalOrderRejected _ \<Rightarrow>
             andthen rejected
             (andthen (modr (increment_metric ''rejections''))
             (andthen terminal assert_exposure_invariant))
         | OrderRejected _ \<Rightarrow>
             andthen rejected
             (andthen (modr (increment_metric ''rejections''))
             (andthen
               (if post_only
                then andthen (record_retryable_order_reject A price market_bid market_ask (exn_str e))
                       (terminalize_retryable_order_reject_limit A)
                else terminal)
               assert_exposure_invariant))
         | _ \<Rightarrow>
             if is_exchange_rate_limited e
             then andthen release
                  (andthen (modr (drop_child i))
                  (andthen (record_rate_limit_backoff A) assert_exposure_invariant))
             else andthen release (andthen (modr (drop_child i)) (throw e)))"

text \<open>The statements after the exchange accepted the order.\<close>

definition submit_accepted :: "nat \<Rightarrow> decimal \<Rightarrow> child_order \<Rightarrow> ('w, unit) eng" where
  "submit_accepted i quantity submitted =
     andthen (on_tracker (release_pending_submit quantity))
     (andthen (absorb_exchange_child i submitted)
     (bind (getr (child_at i)) (\<lambda>c.
        andthen
          (if is_live (child_status c) then on_tracker (reserve_live_open (remaining_quantity c))
           else if child_status c = UNKNOWN
           then on_tracker (reserve_unknown_create (remaining_quantity c)) else ret ())
        (andthen
          (guarded (child_status c \<notin> {UNKNOWN, REJECTED}) (modr reset_retryable_order_reject_gate))
        (andthen (modr record_max_reserved_exposure) assert_exposure_invariant)))))"

definition submit_child ::
  "'w adapter \<Rightarrow> decimal \<Rightarrow> decimal \<Rightarrow> bool \<Rightarrow> decimal \<Rightarrow> decimal \<Rightarrow> ('w, unit) eng" where
  "submit_child A quantity price post_only market_bid market_ask =
     bind (prepare_child A quantity price post_only) (\<lambda>(i, order).
       try_else (call (submit_limit_order A order))
         (submit_failed A i quantity price post_only market_bid market_ask)
         (submit_accepted i quantity))"

section \<open>Cancelling children\<close>

text \<open>The handlers that put a cancelled child back: its quantity is live again.\<close>

definition undo_cancel :: "nat \<Rightarrow> decimal \<Rightarrow> child_order_status \<Rightarrow> string \<Rightarrow> ('w, unit) eng" where
  "undo_cancel i remaining live_status reason =
     andthen (on_tracker (release_pending_cancel remaining))
     (andthen (on_tracker (reserve_live_open remaining))
     (andthen (modr record_max_reserved_exposure)
     (andthen (modr (set_terminal_reason i (Some reason)))
        (update_child_status i live_status))))"

definition cancel_failed ::
  "'w adapter \<Rightarrow> nat \<Rightarrow> decimal \<Rightarrow> child_order_status \<Rightarrow> exn \<Rightarrow> ('w, bool) eng" where
  "cancel_failed A i remaining live_status e =
     (case e of
        VenueBanHardStop _ \<Rightarrow>
          andthen (on_tracker (release_pending_cancel remaining))
          (andthen (on_tracker (reserve_live_open remaining))
          (andthen (update_child_status i live_status)
          (andthen (modr (set_terminal_reason i (Some (exn_str e))))
          (andthen (modr record_max_reserved_exposure)
          (andthen (fail A (exn_str e)) (andthen assert_exposure_invariant (ret True)))))))
      | OrderCancelTimeout _ \<Rightarrow>
          andthen (modr (set_terminal_reason i (Some (exn_str e))))
            (andthen assert_exposure_invariant (ret True))
      | _ \<Rightarrow>
          andthen (undo_cancel i remaining live_status (exn_str e))
            (if is_exchange_rate_limited e
             then andthen (record_rate_limit_backoff A) (andthen assert_exposure_invariant (ret True))
             else andthen assert_exposure_invariant (ret False)))"

definition cancel_answered :: "nat \<Rightarrow> decimal \<Rightarrow> child_order \<Rightarrow> ('w, bool) eng" where
  "cancel_answered i remaining cancelled =
     andthen (absorb_exchange_child i cancelled)
     (bind (getr (child_at i)) (\<lambda>c.
        andthen
          (if child_status c \<in> {CHILD_CANCELLED, FILLED}
           then on_tracker (release_pending_cancel remaining)
           else if is_live (child_status c)
           then andthen (on_tracker (release_pending_cancel remaining))
                  (on_tracker (reserve_live_open (remaining_quantity c)))
           else ret ())
        (andthen (modr record_max_reserved_exposure)
        (andthen assert_exposure_invariant (ret True)))))"

definition cancel_child :: "'w adapter \<Rightarrow> nat \<Rightarrow> ('w, bool) eng" where
  "cancel_child A i =
     bind require_exposure_tracker (\<lambda>_.
     bind (getr (child_at i)) (\<lambda>c.
       if \<not> is_live (child_status c) then ret False
       else if remaining_quantity c \<le> 0 then ret False
       else bind (rate_limit_backoff_blocks A) (\<lambda>blocked.
         if blocked then ret False
         else
           andthen (on_tracker (mark_pending_cancel (remaining_quantity c)))
           (andthen (modr (increment_metric ''cancels_requested''))
           (andthen (modr record_max_reserved_exposure)
           (andthen (update_child_status i PENDING_CANCEL)
           (bind (getr (\<lambda>r. req_symbol (request r))) (\<lambda>symb.
             try_else (call (cancel_order A symb (client_order_id c)))
               (cancel_failed A i (remaining_quantity c) (child_status c))
               (cancel_answered i (remaining_quantity c))))))))))"

text \<open>The three cancel loops differ in which children they skip; each stops once the execution has
  ended.\<close>

primrec cancel_loop :: "'w adapter \<Rightarrow> (nat \<Rightarrow> ('w, bool) eng) \<Rightarrow> nat list \<Rightarrow> ('w, bool) eng" where
  "cancel_loop A applies [] = ret False"
| "cancel_loop A applies (i # is) =
     bind (applies i) (\<lambda>chosen.
       if \<not> chosen then cancel_loop A applies is
       else bind (cancel_child A i) (\<lambda>cancelled.
            bind (getr (\<lambda>r. execution_status_is_terminal (status r))) (\<lambda>ended.
              if ended then ret cancelled
              else bind (cancel_loop A applies is) (\<lambda>others. ret (cancelled \<or> others)))))"

definition cancel_active_children :: "'w adapter \<Rightarrow> ('w, bool) eng" where
  "cancel_active_children A = bind (getr child_positions) (cancel_loop A (\<lambda>_. ret True))"

definition cancel_passive_children_for_aggressive_deadline :: "'w adapter \<Rightarrow> ('w, bool) eng" where
  "cancel_passive_children_for_aggressive_deadline A =
     bind (getr child_positions)
       (cancel_loop A (\<lambda>i. getr (\<lambda>r. needs_aggressive_deadline_cancel r (child_at i r))))"

definition cancel_timed_out_children :: "'w adapter \<Rightarrow> ('w, bool) eng" where
  "cancel_timed_out_children A =
     bind (getr child_positions) (cancel_loop A (child_order_timed_out A))"

section \<open>Evolution\<close>

lemma rev_absorb [evolve_intro]: "evolves state_evolves (absorb_exchange_child i c)"
  and rev_mark_not_found [evolve_intro]: "evolves state_evolves (mark_order_not_found i)"
  and rev_note_unknown_reconciled [evolve_intro]: "evolves state_evolves (note_unknown_reconciled i)"
  unfolding absorb_exchange_child_def mark_order_not_found_def note_unknown_reconciled_def
  by (intro evolve_intro)+

lemma rev_next_sequence [evolve_intro]:
  "evolves state_evolves (modr (\<lambda>r. r\<lparr>last_child_sequence := last_child_sequence r + 1\<rparr>))"
proof (rule rev_modr)
  fix r :: execution_record
  let ?r = "r\<lparr>last_child_sequence := last_child_sequence r + 1\<rparr>"
  have "ok_core ?r = ok_core r" by (simp add: ok_core_def)
  from ok_core_eq [OF this] show "record_evolves r ?r" by (simp add: record_evolves_def identity_def)
qed

lemma rev_add_child [evolve_intro]: "evolves state_evolves (modr (add_child c t po))"
proof (rule rev_modr)
  fix r :: execution_record
  have "record_evolves r (r\<lparr>child_orders := child_orders r @ [c]\<rparr>)" (is "record_evolves r ?r")
    by (rule set_children_evolves) (auto simp: children_evolve_def)
  moreover have "record_evolves ?r (add_child c t po r)"
    by (rule core_evolves) (simp add: core_def ok_core_def identity_def add_child_def)
  ultimately show "record_evolves r (add_child c t po r)" by (rule record_evolves_trans)
qed

text \<open>Only a child that is still being submitted is ever dropped.\<close>

lemma drop_child_evolves:
  assumes "i < length (child_orders r)" "child_status (child_at i r) = PENDING_SUBMIT"
  shows "record_evolves r (drop_child i r)"
proof -
  have "x \<in> set (remove1 (child_at i r) (child_orders r))"
    if "x \<in> set (child_orders r)" "child_status x \<noteq> PENDING_SUBMIT" for x
    using that assms(2) by (metis in_set_remove1)
  then have "record_evolves r (r\<lparr>child_orders := remove1 (child_at i r) (child_orders r)\<rparr>)"
    (is "record_evolves r ?r")
    by (intro set_children_evolves) (auto simp: children_evolve_def)
  moreover have "record_evolves ?r (drop_child i r)"
    by (rule core_evolves) (simp add: core_def ok_core_def identity_def drop_child_def Let_def)
  ultimately show ?thesis by (rule record_evolves_trans)
qed

lemma rev_append_new_child [evolve_intro]: "evolves state_evolves (append_child c submit_time po)"
  and rev_number_child [evolve_intro]: "evolves state_evolves (number_child A q p po)"
  and rev_prepare_child [evolve_intro]: "evolves state_evolves (prepare_child A q p po)"
  unfolding prepare_child_def number_child_def append_child_def by (intro evolve_intro)+

lemma rev_submit_accepted [evolve_intro]: "evolves state_evolves (submit_accepted i q c)"
  unfolding submit_accepted_def by (intro evolve_intro)

lemma rev_undo_cancel [evolve_intro]: "evolves state_evolves (undo_cancel i q s reason)"
  unfolding undo_cancel_def by (intro evolve_intro)

lemma rev_cancel_failed [evolve_intro]: "evolves state_evolves (cancel_failed A i q s e)"
  unfolding cancel_failed_def by (cases e; simp only: exn.case; intro evolve_intro)

lemma rev_cancel_answered [evolve_intro]: "evolves state_evolves (cancel_answered i q c)"
  unfolding cancel_answered_def by (intro evolve_intro)

lemma rev_cancel_child [evolve_intro]: "evolves state_evolves (cancel_child A i)"
  unfolding cancel_child_def by (intro evolve_intro)

lemma rev_cancel_loop:
  assumes "\<And>i. evolves state_evolves (applies i)"
  shows "evolves state_evolves (cancel_loop A applies is)"
  by (induction "is") (unfold cancel_loop.simps, (intro evolve_intro assms; assumption)+)

lemma rev_cancels [evolve_intro]:
  "evolves state_evolves (cancel_active_children A)"
  "evolves state_evolves (cancel_passive_children_for_aggressive_deadline A)"
  "evolves state_evolves (cancel_timed_out_children A)"
  unfolding cancel_active_children_def cancel_passive_children_for_aggressive_deadline_def
    cancel_timed_out_children_def
  by (intro evolve_intro rev_cancel_loop)+

text \<open>
  When the exchange is called, the child just prepared is the last of the list and pending, so the
  handlers that drop it drop only that.
\<close>

lemma wp_prepare_child:
  fixes s :: "execution_record \<times> 'w"
  assumes ok: "\<And>i order t. state_evolves s t \<Longrightarrow> i < length (child_orders (fst t)) \<Longrightarrow>
      child_status (child_at i (fst t)) = PENDING_SUBMIT \<Longrightarrow> Q (i, order) t"
    and err: "\<And>e t. state_evolves s t \<Longrightarrow> E e t"
  shows "wp (prepare_child A q p po) Q E s"
proof -
  have "wp (prepare_child A q p po) (\<lambda>_. state_evolves s) (\<lambda>_. state_evolves s) s"
    using rev_prepare_child by (rule wp_evolves)
  moreover have "wp (prepare_child A q p po)
      (\<lambda>x t. fst x < length (child_orders (fst t))
         \<and> child_status (child_at (fst x) (fst t)) = PENDING_SUBMIT) (\<lambda>_ _. True) s"
    by (simp add: prepare_child_def number_child_def append_child_def wp_simp wp_require_tracker wp_now on_tracker_def add_child_def
        child_at_def new_child_order_def increment_metric_def record_max_reserved_exposure_def
        split: option.split sum.split)
  ultimately have "wp (prepare_child A q p po)
      (\<lambda>x t. state_evolves s t \<and> fst x < length (child_orders (fst t))
         \<and> child_status (child_at (fst x) (fst t)) = PENDING_SUBMIT)
      (\<lambda>_ t. state_evolves s t \<and> True) s"
    by (rule wp_conj)
  then show ?thesis by (rule wp_mono) (auto intro: ok err)
qed

lemma wp_on_tracker_children:
  "wp (on_tracker op) (\<lambda>_ t. child_orders (fst t) = child_orders (fst s)) (\<lambda>_ _. True) s"
  by (simp add: on_tracker_def wp_simp wp_require_tracker split: option.split sum.split)

lemma release_and_drop:
  fixes s :: "execution_record \<times> 'w"
  assumes i: "i < length (child_orders (fst s))" "child_status (child_at i (fst s)) = PENDING_SUBMIT"
    and rest: "evolves state_evolves (rest :: ('w, 'a) eng)"
  shows "wp (andthen (on_tracker (release_pending_submit q)) (andthen (modr (drop_child i)) rest))
    (\<lambda>_. state_evolves s) (\<lambda>_. state_evolves s) s"
proof -
  have "wp (on_tracker (release_pending_submit q)) (\<lambda>_. state_evolves s) (\<lambda>_. state_evolves s) s"
    using rev_tracker_ops(3) by (rule wp_evolves)
  from wp_conj [OF this wp_on_tracker_children] show ?thesis
    unfolding wp_bind wp_modr
  proof (rule wp_mono)
    fix t :: "execution_record \<times> 'w"
    assume "state_evolves s t \<and> child_orders (fst t) = child_orders (fst s)"
    then have t: "state_evolves s t" and c: "child_orders (fst t) = child_orders (fst s)" by simp_all
    have d: "record_evolves (fst t) (drop_child i (fst t))"
      by (rule drop_child_evolves) (use i c in \<open>simp_all add: child_at_def\<close>)
    show "wp rest (\<lambda>_. state_evolves s) (\<lambda>_. state_evolves s) (drop_child i (fst t), snd t)"
      by (rule wp_evolves [OF rest])
        (auto intro: record_evolves_trans [OF record_evolves_trans [OF t d]])
  qed simp
qed

lemma wp_submit_failed:
  fixes s :: "execution_record \<times> 'w"
  assumes "i < length (child_orders (fst s))" "child_status (child_at i (fst s)) = PENDING_SUBMIT"
  shows "wp (submit_failed A i q p po bid ask e) (\<lambda>_. state_evolves s) (\<lambda>_. state_evolves s) s"
proof -
  have evo: "wp m (\<lambda>_. state_evolves s) (\<lambda>_. state_evolves s) s" if "evolves state_evolves m"
    for m :: "('w, unit) eng"
    using that unfolding evolves_wp by blast
  have drop: "wp (andthen (on_tracker (release_pending_submit q)) (andthen (modr (drop_child i)) rest))
      (\<lambda>_. state_evolves s) (\<lambda>_. state_evolves s) s" if "evolves state_evolves rest"
    for rest :: "('w, unit) eng"
    using assms that by (rule release_and_drop)
  show ?thesis
    unfolding submit_failed_def Let_def
    by (cases e; simp only: exn.case is_exchange_rate_limited.simps if_True if_False;
        (rule drop, intro evolve_intro | rule evo, intro evolve_intro))
qed

lemma rev_submit_child [evolve_intro]:
  "evolves state_evolves (submit_child (A :: 'w adapter) q p po bid ask)"
  unfolding evolves_wp submit_child_def wp_bind
proof (rule allI, rule wp_prepare_child, unfold prod.case wp_try_else wp_call)
  fix s t :: "execution_record \<times> 'w" and i order
  assume t: "state_evolves s t" and i: "i < length (child_orders (fst t))"
    "child_status (child_at i (fst t)) = PENDING_SUBMIT"
  show "case submit_limit_order A order (snd t) of
      (Inl e, w) \<Rightarrow> wp (submit_failed A i q p po bid ask e) (\<lambda>_. state_evolves s) (\<lambda>_. state_evolves s)
        (fst t, w)
    | (Inr c, w) \<Rightarrow> wp (submit_accepted i q c) (\<lambda>_. state_evolves s) (\<lambda>_. state_evolves s) (fst t, w)"
  proof (cases "submit_limit_order A order (snd t)")
    case (Pair x w)
    show ?thesis
    proof (cases x)
      case (Inl e)
      have "wp (submit_failed A i q p po bid ask e) (\<lambda>_. state_evolves (fst t, w))
          (\<lambda>_. state_evolves (fst t, w)) (fst t, w)"
        by (rule wp_submit_failed) (use i in simp_all)
      then show ?thesis using Pair Inl
        by (simp, elim wp_mono) (auto intro: record_evolves_trans [OF t])
    next
      case (Inr c)
      have "wp (submit_accepted i q c) (\<lambda>_. state_evolves s) (\<lambda>_. state_evolves s) (fst t, w)"
        by (rule wp_evolves [OF rev_submit_accepted]) (auto intro: record_evolves_trans [OF t])
      then show ?thesis using Pair Inr by simp
    qed
  qed
qed simp

end
