(* ===== verification/Engine_Reconcile.thy ===== *)
theory Engine_Reconcile
  imports Engine_Orders
begin

text \<open>
  Reconciliation in \<^verbatim>\<open>src/execution/engine.py\<close>: refreshing every open child by its client order id,
  resolving unknown children, and merging a list of exchange orders and fills into the record.
\<close>

section \<open>The end of every refresh\<close>

definition settle_children :: "execution_record \<Rightarrow> execution_record" where
  "settle_children r =
     r\<lparr>child_orders := map (\<lambda>c.
         if terminal_reason c = Some create_timeout_pending_reconciliation \<and> child_status c \<noteq> UNKNOWN
         then c\<lparr>terminal_reason := None\<rparr> else c) (child_orders r)\<rparr>"

definition settle_reason :: "execution_record \<Rightarrow> execution_record" where
  "settle_reason r =
     (if final_reason r = Some create_timeout_pending_reconciliation
      then set_final_reason create_timeout_reconciled r else r)"

definition refresh_summary :: "'w adapter \<Rightarrow> ('w, unit) eng" where
  "refresh_summary A = bind (getr summary) (\<lambda>s. guarded (s \<noteq> None) (write_summary A))"

definition finish_reconciliation_refresh :: "'w adapter \<Rightarrow> ('w, unit) eng" where
  "finish_reconciliation_refresh A =
     andthen refresh_reserved_exposure
     (andthen (modr record_max_reserved_exposure)
     (andthen assert_exposure_invariant
     (bind (getr (\<lambda>r. unknown_order_quantity (exposure_of r))) (\<lambda>unknown.
        andthen
          (guarded (unknown = 0) (andthen (modr settle_children) (modr settle_reason)))
          (refresh_summary A)))))"

section \<open>Lookups by client order id\<close>

definition refresh_child :: "nat \<Rightarrow> child_order option \<Rightarrow> ('w, unit) eng" where
  "refresh_child i answer =
     bind (getr (\<lambda>r. child_status (child_at i r) = UNKNOWN)) (\<lambda>was_unknown.
       case answer of
         None \<Rightarrow> guarded was_unknown (mark_order_not_found i)
       | Some exchange_child \<Rightarrow>
           andthen (absorb_exchange_child i exchange_child)
           (bind (getr (\<lambda>r. child_status (child_at i r) \<noteq> UNKNOWN)) (\<lambda>known.
              guarded (was_unknown \<and> known) (note_unknown_reconciled i))))"

text \<open>What a lookup that raised does: a ban ends the execution, a rate limit backs off, and both
  stop the loop; anything else propagates.\<close>

definition lookup_failed :: "'w adapter \<Rightarrow> ('w, unit) eng \<Rightarrow> exn \<Rightarrow> ('w, unit) eng" where
  "lookup_failed A after_rate_limit e =
     (case e of
        VenueBanHardStop _ \<Rightarrow> fail_for_venue_ban_hard_stop A e
      | _ \<Rightarrow>
          if is_exchange_rate_limited e then andthen (record_rate_limit_backoff A) after_rate_limit
          else throw e)"

definition lookup_child :: "'w adapter \<Rightarrow> nat \<Rightarrow> ('w, child_order option) eng" where
  "lookup_child A i =
     bind (getr (\<lambda>r. req_symbol (request r))) (\<lambda>symb.
     bind (getr (\<lambda>r. client_order_id (child_at i r))) (\<lambda>coid.
       call (get_order_by_client_order_id A symb coid)))"

primrec refresh_loop :: "'w adapter \<Rightarrow> nat list \<Rightarrow> ('w, unit) eng" where
  "refresh_loop A [] = finish_reconciliation_refresh A"
| "refresh_loop A (i # is) =
     bind (getr (\<lambda>r. child_status_is_terminal (child_status (child_at i r)))) (\<lambda>closed.
       if closed then refresh_loop A is
       else try_else (lookup_child A i)
              (lookup_failed A (finish_reconciliation_refresh A))
              (\<lambda>answer. andthen (refresh_child i answer) (refresh_loop A is)))"

definition refresh_order_states_exact :: "'w adapter \<Rightarrow> ('w, unit) eng" where
  "refresh_order_states_exact A =
     bind (getr rec_tracker) (\<lambda>tracker.
       guarded (tracker \<noteq> None) (bind (getr child_positions) (refresh_loop A)))"

definition reconcile_unknown_child :: "nat \<Rightarrow> child_order option \<Rightarrow> ('w, unit) eng" where
  "reconcile_unknown_child i answer =
     (case answer of
        None \<Rightarrow> mark_order_not_found i
      | Some exchange_child \<Rightarrow>
          andthen (absorb_exchange_child i exchange_child) (note_unknown_reconciled i))"

primrec unknown_loop :: "'w adapter \<Rightarrow> nat list \<Rightarrow> ('w, unit) eng" where
  "unknown_loop A [] = ret ()"
| "unknown_loop A (i # is) =
     bind (getr (\<lambda>r. child_status (child_at i r) \<noteq> UNKNOWN)) (\<lambda>known.
       if known then unknown_loop A is
       else try_else (lookup_child A i)
              (lookup_failed A (ret ()))
              (\<lambda>answer. andthen (reconcile_unknown_child i answer) (unknown_loop A is)))"

definition reconcile_unknown_children_exact :: "'w adapter \<Rightarrow> ('w, unit) eng" where
  "reconcile_unknown_children_exact A = bind (getr child_positions) (unknown_loop A)"

section \<open>Merging a reconciliation result\<close>

text \<open>
  The dictionary from client order ids to children: later children win. An id never changes and
  every appended child is entered at once, so the dictionary is at any point the one of the list.
\<close>

definition children_by_client_id :: "child_order list \<Rightarrow> string \<Rightarrow> nat option" where
  "children_by_client_id cs coid =
     map_of (rev (zip (map client_order_id cs) [0..<length cs])) coid"

definition find_child :: "string \<Rightarrow> ('w, nat option) eng" where
  "find_child coid = getr (\<lambda>r. children_by_client_id (child_orders r) coid)"

definition snapshot_limits :: "child_order list \<Rightarrow> string \<Rightarrow> decimal option" where
  "snapshot_limits orders =
     foldl (\<lambda>m c. let coid = client_order_id c in
              case m coid of
                None \<Rightarrow> m(coid \<mapsto> child_filled c)
              | Some q \<Rightarrow> if child_filled c > q then m(coid \<mapsto> child_filled c) else m)
       (\<lambda>_. None) orders"

definition enter_exchange_order :: "string set \<Rightarrow> child_order \<Rightarrow> ('w, unit) eng" where
  "enter_exchange_order fill_client_ids exchange_order =
     bind (find_child (client_order_id exchange_order)) (\<lambda>found. case found of
       None \<Rightarrow>
         let c = (if client_order_id exchange_order \<in> fill_client_ids
                  then exchange_order\<lparr>child_filled := 0\<rparr> else exchange_order)
         in modr (\<lambda>r. r\<lparr>child_orders := child_orders r @ [c]\<rparr>)
     | Some i \<Rightarrow> modr (modify_child i (copy_exchange_child exchange_order False)))"

definition fill_sort_key :: "fill \<Rightarrow> int \<times> int \<times> string" where
  "fill_sort_key f =
     (or_zero (fill_event_time_ms f), or_zero (fill_transaction_time_ms f),
      (case fill_trade_id f of None \<Rightarrow> '''' | Some i \<Rightarrow> i))"

definition trade_report :: "fill \<Rightarrow> decimal \<Rightarrow> fill_report" where
  "trade_report f limit =
     \<lparr>incoming_cumulative = cumulative_filled_quantity f, trade_id = fill_trade_id f,
      fill_price = last_fill_price f, report_is_maker = is_maker f, authoritative_trade = True,
      fill_quantity_delta = Some (last_filled_quantity f), event_time_ms = fill_event_time_ms f,
      transaction_time_ms = fill_transaction_time_ms f,
      authoritative_confirmed_limit = Some limit\<rparr>"

definition apply_exchange_fill :: "(string \<Rightarrow> decimal option) \<Rightarrow> fill \<Rightarrow> ('w, unit) eng" where
  "apply_exchange_fill limits f =
     bind (find_child (fill_client_order_id f)) (\<lambda>found. case found of
       None \<Rightarrow> ret ()
     | Some i \<Rightarrow>
         bind (getr (\<lambda>r. child_filled (child_at i r))) (\<lambda>filled.
           let snapshot = (case limits (fill_client_order_id f) of None \<Rightarrow> 0 | Some q \<Rightarrow> q)
           in update_child_cumulative_fill i
                (trade_report f (max (max filled snapshot) (cumulative_filled_quantity f)))))"

definition settle_exchange_order :: "child_order \<Rightarrow> ('w, unit) eng" where
  "settle_exchange_order exchange_order =
     bind (find_child (client_order_id exchange_order)) (\<lambda>found. case found of
       None \<Rightarrow> ret ()
     | Some i \<Rightarrow>
         bind (getr (\<lambda>r. child_status (child_at i r) = UNKNOWN)) (\<lambda>was_unknown.
         andthen (apply_snapshot_fill i (child_filled exchange_order))
         (andthen (modr (modify_child i (copy_exchange_child exchange_order True)))
         (andthen (update_child_status i (child_status exchange_order))
         (bind (getr (\<lambda>r. child_status (child_at i r) \<noteq> UNKNOWN)) (\<lambda>known.
            guarded (was_unknown \<and> known) (note_unknown_reconciled i)))))))"

definition reject_unlisted_unknown :: "string set \<Rightarrow> nat \<Rightarrow> ('w, unit) eng" where
  "reject_unlisted_unknown exchange_client_ids i =
     bind (getr (child_at i)) (\<lambda>c.
       guarded (child_status c = UNKNOWN \<and> client_order_id c \<notin> exchange_client_ids)
         (mark_order_not_found i))"

definition merge_reconciliation_result ::
  "'w adapter \<Rightarrow> reconciliation_result \<Rightarrow> bool \<Rightarrow> ('w, unit) eng" where
  "merge_reconciliation_result A result exact_unknown_lookup =
     bind (getr rec_tracker) (\<lambda>tracker. guarded (tracker \<noteq> None)
       (let exchange_client_ids = client_order_id ` set (rr_orders result);
            fill_client_ids = fill_client_order_id ` set (rr_fills result)
        in andthen (for_each (rr_orders result) (enter_exchange_order fill_client_ids))
           (andthen (for_each (sort_key fill_sort_key (rr_fills result))
              (apply_exchange_fill (snapshot_limits (rr_orders result))))
           (andthen (for_each (rr_orders result) settle_exchange_order)
           (andthen (guarded exact_unknown_lookup (reconcile_unknown_children_exact A))
           (andthen
              (guarded (create_timeout_order_not_found \<in> set (rr_warnings result))
                (andthen
                  (bind (getr child_positions) (\<lambda>is.
                     for_each is (reject_unlisted_unknown exchange_client_ids)))
                  (on_tracker (clear_unknown_create None))))
              (finish_reconciliation_refresh A)))))))"

definition reconcile :: "'w adapter \<Rightarrow> int option \<Rightarrow> int option \<Rightarrow> bool \<Rightarrow> ('w, unit) eng" where
  "reconcile A start_time_ms end_time_ms exact_unknown_lookup =
     bind get_record (\<lambda>r. guarded (rec_tracker r \<noteq> None)
       (try_else
         (call (reconcile_orders_and_fills A (req_symbol (request r))
            (Some (make_client_order_prefix (rec_execution_id r))) start_time_ms end_time_ms))
         (lookup_failed A (ret ()))
         (\<lambda>result. merge_reconciliation_result A result exact_unknown_lookup)))"

section \<open>Evolution\<close>

lemma rev_settle_children [evolve_intro]: "evolves state_evolves (modr settle_children)"
  by (rule rev_modr)
    (auto simp: settle_children_def child_evolves_def intro!: set_children_evolves map_children_evolve)

lemma rev_settle_reason [evolve_intro]: "evolves state_evolves (modr settle_reason)"
  by (rule rev_core) (simp add: settle_reason_def)

lemma rev_refresh_summary [evolve_intro]: "evolves state_evolves (refresh_summary A)"
  unfolding evolves_wp refresh_summary_def wp_bind wp_getr wp_guarded
  by (auto intro!: wp_write_summary write_summary_evolves)

lemma rev_finish_refresh [evolve_intro]: "evolves state_evolves (finish_reconciliation_refresh A)"
  unfolding finish_reconciliation_refresh_def by (intro evolve_intro)

lemma rev_refresh_child [evolve_intro]: "evolves state_evolves (refresh_child i answer)"
  unfolding refresh_child_def by (intro evolve_intro)

lemma rev_lookup_failed [evolve_intro]:
  "evolves state_evolves m \<Longrightarrow> evolves state_evolves (lookup_failed A m e)"
  unfolding lookup_failed_def by (cases e; simp only: exn.case; intro evolve_intro)

lemma rev_lookup_child [evolve_intro]: "evolves state_evolves (lookup_child A i)"
  unfolding lookup_child_def by (intro evolve_intro)

lemma rev_refresh_loop [evolve_intro]: "evolves state_evolves (refresh_loop A is)"
  by (induction "is") (unfold refresh_loop.simps, (intro evolve_intro; assumption)+)

lemma rev_unknown_loop [evolve_intro]: "evolves state_evolves (unknown_loop A is)"
  by (induction "is")
    (unfold unknown_loop.simps reconcile_unknown_child_def, (intro evolve_intro; assumption)+)

lemma rev_refresh_order_states [evolve_intro]: "evolves state_evolves (refresh_order_states_exact A)"
  and rev_reconcile_unknown [evolve_intro]: "evolves state_evolves (reconcile_unknown_children_exact A)"
  unfolding refresh_order_states_exact_def reconcile_unknown_children_exact_def
  by (intro evolve_intro)+

lemma rev_append_child [evolve_intro]:
  "evolves state_evolves (modr (\<lambda>r. r\<lparr>child_orders := child_orders r @ [c]\<rparr>))"
  by (intro rev_modr set_children_evolves) (auto simp: children_evolve_def)

lemma rev_merge_parts [evolve_intro]:
  "evolves state_evolves (enter_exchange_order ids x)"
  "evolves state_evolves (apply_exchange_fill limits f)"
  "evolves state_evolves (settle_exchange_order x)"
  "evolves state_evolves (reject_unlisted_unknown ids i)"
  unfolding enter_exchange_order_def apply_exchange_fill_def settle_exchange_order_def
    reject_unlisted_unknown_def find_child_def
  by (intro evolve_intro)+

lemma rev_merge [evolve_intro]: "evolves state_evolves (merge_reconciliation_result A result b)"
  unfolding merge_reconciliation_result_def by (intro evolve_intro)

lemma rev_reconcile [evolve_intro]: "evolves state_evolves (reconcile A t0 t1 b)"
  unfolding reconcile_def by (intro evolve_intro)

end
