(* ===== verification/Chase.thy ===== *)
theory Chase
  imports Models Errors
begin

text \<open>\<^verbatim>\<open>src/algorithms/chase.py\<close>: the desired price of a Chase order and the decision to reprice.\<close>

datatype chase_decision = WAIT | REPRICE

definition chase_desired_price :: "side \<Rightarrow> decimal \<Rightarrow> decimal \<Rightarrow> bool \<Rightarrow> exn + decimal" where
  "chase_desired_price sd best_bid best_ask passive =
     (case sd of
        NO_ACTION \<Rightarrow> Inl (ValueError ''NO_ACTION does not have a tradable chase price'')
      | BUY \<Rightarrow> Inr (if passive then best_bid else best_ask)
      | SELL \<Rightarrow> Inr (if passive then best_ask else best_bid))"

definition reprice_difference_bps :: "decimal \<Rightarrow> decimal \<Rightarrow> decimal" where
  "reprice_difference_bps desired active =
     (if active \<le> 0 then 0 else dmul (ddiv (dabs (dsub desired active)) active) 10000)"

definition should_reprice ::
  "side \<Rightarrow> decimal \<Rightarrow> decimal \<Rightarrow> decimal \<Rightarrow> int \<Rightarrow> int \<Rightarrow> repricing_mode \<Rightarrow> chase_decision" where
  "should_reprice sd active desired threshold_bps min_interval_ms elapsed_ms mode =
     (if sd = NO_ACTION \<or> elapsed_ms < min_interval_ms then WAIT
      else if active \<le> 0 then WAIT
      else if reprice_difference_bps desired active < threshold_bps then WAIT
      else if mode = TWO_SIDED then REPRICE
      else if mode = ADVERSE_ONLY \<and> sd = BUY \<and> desired > active then REPRICE
      else if mode = ADVERSE_ONLY \<and> sd = SELL \<and> desired < active then REPRICE
      else WAIT)"

lemma reprice_difference_nonneg: "0 \<le> reprice_difference_bps d a"
  by (auto simp: reprice_difference_bps_def intro!: dmul_nonneg ddiv_nonneg)

lemma reprice_difference_0_iff: "0 < a \<Longrightarrow> reprice_difference_bps d a = 0 \<longleftrightarrow> d = a"
  by (simp add: reprice_difference_bps_def dmul_def ddiv_def dabs_def)

lemma should_reprice_iff:
  "should_reprice sd active desired threshold min_ms elapsed mode = REPRICE \<longleftrightarrow>
     sd \<noteq> NO_ACTION \<and> min_ms \<le> elapsed \<and> 0 < active
     \<and> threshold \<le> reprice_difference_bps desired active
     \<and> (mode = ADVERSE_ONLY \<longrightarrow> (sd = BUY \<longrightarrow> active < desired) \<and> (sd = SELL \<longrightarrow> desired < active))"
  by (cases sd; cases mode) (auto simp: should_reprice_def)

text \<open>A resting order is repriced exactly when the minimum interval has passed, its price is positive
  and differs from the desired one by at least the threshold, and, when only adverse moves count, the
  market moved away from it.\<close>

theorem should_reprice_exact:
  "should_reprice sd active desired threshold min_ms elapsed mode = REPRICE \<longleftrightarrow>
     sd \<noteq> NO_ACTION \<and> min_ms \<le> elapsed \<and> 0 < active
     \<and> threshold \<le> reprice_difference_bps desired active
     \<and> (mode = TWO_SIDED \<or> sd = BUY \<and> active < desired \<or> sd = SELL \<and> desired < active)"
  by (cases sd; cases mode) (auto simp: should_reprice_iff)

end
