(* ===== verification/Twap.thy ===== *)
theory Twap
  imports Models Errors
begin

text \<open>\<^verbatim>\<open>src/algorithms/twap.py\<close>: the TWAP schedule and the safe size of the next child order.\<close>

section \<open>The functions\<close>

definition scheduled_cumulative_quantity :: "decimal \<Rightarrow> decimal \<Rightarrow> decimal \<Rightarrow> exn + decimal" where
  "scheduled_cumulative_quantity total_trade elapsed total_duration =
     (if total_duration \<le> 0 then Inl (ValueError ''total_duration must be positive'')
      else if total_trade < 0
      then Inl (ValueError ''total_trade_quantity must be an absolute non-negative quantity'')
      else let clamped = min (max elapsed 0) total_duration
           in Inr (ddiv (dmul total_trade clamped) total_duration))"

definition effective_slice_elapsed :: "decimal \<Rightarrow> decimal \<Rightarrow> int \<Rightarrow> exn + decimal" where
  "effective_slice_elapsed elapsed total_duration slices =
     (if total_duration \<le> 0 then Inl (ValueError ''total_duration must be positive'')
      else if slices \<le> 0 then Inl (ValueError ''number_of_slices must be positive'')
      else if elapsed \<le> 0 then Inr 0
      else if elapsed \<ge> total_duration then Inr total_duration
      else let slice_length = ddiv total_duration (of_int slices);
               completed_slices = dtrunc (ddiv elapsed slice_length)
           in Inr (dmul slice_length (of_int completed_slices)))"

definition scheduled_deficit :: "decimal \<Rightarrow> decimal \<Rightarrow> exn + decimal" where
  "scheduled_deficit scheduled confirmed =
     (if scheduled < 0 then Inl (ValueError ''scheduled_cumulative must be non-negative'')
      else if confirmed < 0
      then Inl (ValueError ''confirmed_cumulative_filled must be non-negative'')
      else let deficit = dsub scheduled confirmed
           in Inr (if deficit > 0 then deficit else 0))"

definition safe_child_quantity :: "decimal \<Rightarrow> exposure \<Rightarrow> exn + decimal" where
  "safe_child_quantity deficit e =
     (if deficit < 0 then Inl (ValueError ''deficit must be non-negative'')
      else let quantity = dsub deficit (reserved_exposure e)
           in Inr (if quantity > 0 then quantity else 0))"

section \<open>The schedule\<close>

lemma scheduled_nonneg:
  "scheduled_cumulative_quantity q e d = Inr s \<Longrightarrow> 0 \<le> s"
  by (auto simp: scheduled_cumulative_quantity_def Let_def split: if_splits
      intro!: ddiv_nonneg dmul_nonneg)

lemma scheduled_mono:
  assumes "scheduled_cumulative_quantity q e d = Inr s"
    and "scheduled_cumulative_quantity q e' d = Inr s'" and "e \<le> e'"
  shows "s \<le> s'"
proof -
  have d: "0 < d" "0 \<le> q" and s: "s = ddiv (dmul q (min (max e 0) d)) d"
    and s': "s' = ddiv (dmul q (min (max e' 0) d)) d"
    using assms(1,2) by (auto simp: scheduled_cumulative_quantity_def Let_def split: if_splits)
  have "q * min (max e 0) d \<le> q * min (max e' 0) d"
    using d assms(3) by (intro mult_left_mono) auto
  then have "dmul q (min (max e 0) d) / d \<le> dmul q (min (max e' 0) d) / d"
    using d unfolding dmul_def by (intro divide_right_mono dround_mono) auto
  then show ?thesis unfolding s s' ddiv_def by (rule dround_mono)
qed

lemma scheduled_le_total:
  assumes "scheduled_cumulative_quantity q e d = Inr s" and "dec_ok q" and "dec_ok (q * d)"
  shows "s \<le> q"
proof -
  have d: "0 < d" "0 \<le> q" and s: "s = ddiv (dmul q (min (max e 0) d)) d"
    using assms(1) by (auto simp: scheduled_cumulative_quantity_def Let_def split: if_splits)
  have "dmul q (min (max e 0) d) \<le> dmul q d"
    unfolding dmul_def using d by (intro dround_mono mult_left_mono) auto
  also have "dmul q d = q * d" using assms(3) by (simp add: dmul_def dec_ok_def)
  finally have "dmul q (min (max e 0) d) / d \<le> q" using d by (simp add: pos_divide_le_eq)
  then have "s \<le> dround q" unfolding s ddiv_def by (rule dround_mono)
  then show ?thesis using assms(2) by (simp add: dec_ok_def)
qed

lemma scheduled_at_end:
  assumes "0 < d" "0 \<le> q" "d \<le> e" "dec_ok q" "dec_ok (q * d)"
  shows "scheduled_cumulative_quantity q e d = Inr q"
  using assms
  by (auto simp: scheduled_cumulative_quantity_def Let_def dmul_def ddiv_def dec_ok_def)

lemma scheduled_deficit_Inr:
  "scheduled_deficit s c = Inr x \<Longrightarrow> 0 \<le> x \<and> (c \<le> s \<longrightarrow> x = dsub s c) \<and> (s \<le> c \<longrightarrow> x = 0)"
  by (auto simp: scheduled_deficit_def Let_def split: if_splits)

lemma safe_child_quantity_Inr:
  "safe_child_quantity x e = Inr q \<Longrightarrow> 0 \<le> q \<and> (x \<le> reserved_exposure e \<longrightarrow> q = 0)"
  by (auto simp: safe_child_quantity_def Let_def split: if_splits)

lemma effective_slice_nonneg:
  assumes "effective_slice_elapsed e d n = Inr x"
  shows "0 \<le> x"
  using assms
  by (auto simp: effective_slice_elapsed_def Let_def dtrunc_def split: if_splits
      intro!: dmul_nonneg ddiv_nonneg)

text \<open>
  With a slice length that needs no rounding, the effective time is the last slice boundary at or
  before the elapsed time.
\<close>

lemma effective_slice_boundary:
  assumes r: "effective_slice_elapsed e d n = Inr x" and e: "0 < e" "e < d"
    and L: "dec_ok (d / of_int n)" and q: "dec_ok (e / (d / of_int n))"
    and m: "dec_ok (d / of_int n * of_int \<lfloor>e / (d / of_int n)\<rfloor>)"
  shows "x = of_int \<lfloor>e / (d / of_int n)\<rfloor> * (d / of_int n) \<and> x \<le> e \<and> e < x + d / of_int n"
proof -
  have d: "0 < d" "0 < n" using r by (auto simp: effective_slice_elapsed_def split: if_splits)
  define l where "l = d / of_int n"
  have l: "0 < l" using d by (simp add: l_def)
  have "x = dmul (ddiv d (of_int n)) (of_int (dtrunc (ddiv e (ddiv d (of_int n)))))"
    using r e d by (auto simp: effective_slice_elapsed_def Let_def split: if_splits)
  also have "ddiv d (of_int n) = l" using L by (simp add: ddiv_def l_def dec_ok_def)
  also have "dtrunc (ddiv e l) = \<lfloor>e / l\<rfloor>"
    using q e l by (simp add: ddiv_def l_def [symmetric] dec_ok_def dtrunc_def)
  also have "dmul l (of_int \<lfloor>e / l\<rfloor>) = l * of_int \<lfloor>e / l\<rfloor>"
    using m by (simp add: dmul_def l_def [symmetric] dec_ok_def)
  finally have x: "x = of_int \<lfloor>e / l\<rfloor> * l" by (simp add: mult.commute)
  moreover have "of_int \<lfloor>e / l\<rfloor> * l \<le> e" "e < of_int \<lfloor>e / l\<rfloor> * l + l"
    using l floor_divide_lower [of l e] floor_divide_upper [of l e] by (simp_all add: distrib_right)
  ultimately show ?thesis by (simp add: l_def)
qed

section \<open>Properties\<close>

text \<open>C34. The scheduled quantity never falls as time passes, is never negative, and never exceeds the
  total; it is the whole total from the end on. (The product of total and duration is assumed to fit in
  28 digits.)\<close>

theorem schedule_monotone_and_complete:
  assumes "0 < d" "0 \<le> q" "dec_ok q" "dec_ok (q * d)" "e \<le> e'"
  shows "\<exists>s s'. scheduled_cumulative_quantity q e d = Inr s \<and> scheduled_cumulative_quantity q e' d = Inr s'
    \<and> 0 \<le> s \<and> s \<le> s' \<and> s' \<le> q \<and> (d \<le> e' \<longrightarrow> s' = q) \<and> (e \<le> 0 \<longrightarrow> s = 0)"
proof -
  obtain s s' where s: "scheduled_cumulative_quantity q e d = Inr s"
      and s': "scheduled_cumulative_quantity q e' d = Inr s'"
    using assms(1,2) by (simp add: scheduled_cumulative_quantity_def Let_def)
  have "e \<le> 0 \<longrightarrow> s = 0"
    using s assms(1) by (auto simp: scheduled_cumulative_quantity_def Let_def dmul_def ddiv_def split: if_splits)
  then show ?thesis
    using s s' scheduled_nonneg [OF s] scheduled_mono [OF s s' assms(5)] scheduled_le_total [OF s' assms(3,4)]
      scheduled_at_end [OF assms(1,2) _ assms(3,4)]
    by auto
qed

lemma small_int_ok: "\<bar>n\<bar> < 10 ^ 28 \<Longrightarrow> dec_ok (of_int n)"
  unfolding dec_ok_def by (rule dround_exactI [of _ 0 n]) simp_all

theorem schedule_monotone_and_complete_witness:
  "scheduled_cumulative_quantity 3 70 60 = Inr 3"
  using schedule_monotone_and_complete [of 60 3 70 70] small_int_ok [of 3] small_int_ok [of 180] by auto

text \<open>With a slice length that needs no rounding, the time a TWAP execution is measured by is the
  last slice boundary at or before the elapsed time.\<close>

theorem effective_time_is_slice_boundary:
  assumes "0 < e" "e < d" "0 < n" "dec_ok (d / of_int n)" "dec_ok (e / (d / of_int n))"
    and "dec_ok (d / of_int n * of_int \<lfloor>e / (d / of_int n)\<rfloor>)"
  shows "\<exists>k. effective_slice_elapsed e d n = Inr (of_int k * (d / of_int n)) \<and> 0 \<le> k \<and> k < n
    \<and> of_int k * (d / of_int n) \<le> e \<and> e < of_int (k + 1) * (d / of_int n)"
proof -
  define l where "l = d / of_int n"
  have l: "0 < l" using assms by (simp add: l_def)
  obtain x where x: "effective_slice_elapsed e d n = Inr x"
    using assms by (auto simp: effective_slice_elapsed_def Let_def)
  have b: "x = of_int \<lfloor>e / l\<rfloor> * l \<and> x \<le> e \<and> e < x + l"
    using effective_slice_boundary [OF x] assms by (simp add: l_def)
  have "e / l < of_int n" using assms l by (simp add: l_def field_simps)
  then have "\<lfloor>e / l\<rfloor> < n" by linarith
  moreover have "0 \<le> \<lfloor>e / l\<rfloor>" using assms l by simp
  ultimately show ?thesis
    using x b by (intro exI [of _ "\<lfloor>e / l\<rfloor>"]) (simp add: l_def [symmetric] distrib_right)
qed

theorem effective_time_is_slice_boundary_witness:
  "\<exists>k. effective_slice_elapsed 25 60 6 = Inr (of_int k * (60 / 6)) \<and> of_int k * (60 / 6) \<le> (25 :: rat)"
proof -
  have "dec_ok (25 / 10)" unfolding dec_ok_def by (rule dround_exactI [of _ 1 25]) simp_all
  then show ?thesis
    using effective_time_is_slice_boundary [of 25 60 6] small_int_ok [of 10] small_int_ok [of 20]
    by (force simp: floor_divide_of_int_eq [of 5 2, simplified])
qed

end
