(* ===== verification/Engine_Demand.thy ===== *)
theory Engine_Demand
  imports Engine_Reconcile Chase Twap
begin

text \<open>
  The sizing and pricing part of \<^verbatim>\<open>src/execution/engine.py\<close>: the decision to reprice a Chase order,
  the next child demand with its validation, and the classification of a failed validation.
\<close>

section \<open>Prices\<close>

definition rounded_price_of :: "bool \<Rightarrow> side \<Rightarrow> market_snapshot \<Rightarrow> symbol_rules \<Rightarrow> exn + decimal" where
  "rounded_price_of passive sd market rules =
     sbind (chase_desired_price sd (mkt_bid market) (mkt_ask market) passive)
       (\<lambda>desired. round_price desired (tick_size rules) sd passive)"

abbreviation "rounded_passive_price \<equiv> rounded_price_of True"
abbreviation "rounded_aggressive_price \<equiv> rounded_price_of False"

definition highest_legal_price_within_request_band ::
  "execution_record \<Rightarrow> symbol_rules \<Rightarrow> exn + decimal option" where
  "highest_legal_price_within_request_band r rules =
     (if tick_size rules \<le> 0 then Inr None
      else if rec_side r = BUY
      then sbind (round_price (target_price_upper (request r)) (tick_size rules) BUY True)
             (\<lambda>p. Inr (Some p))
      else Inr None)"

definition target_cannot_meet_min_quantity_or_min_notional ::
  "execution_record \<Rightarrow> symbol_rules option \<Rightarrow> exn + bool" where
  "target_cannot_meet_min_quantity_or_min_notional r rules =
     (case rules of
        None \<Rightarrow> Inr False
      | Some rules \<Rightarrow>
          if required_quantity r < min_quantity rules then Inr True
          else sbind (highest_legal_price_within_request_band r rules) (\<lambda>price.
            case price of
              None \<Rightarrow> Inr False
            | Some p \<Rightarrow> Inr (dmul (required_quantity r) p < min_notional rules)))"

definition is_price_outside_range_error :: "message \<Rightarrow> bool" where
  "is_price_outside_range_error m \<longleftrightarrow>
     mentions ''exceeds upper bound'' m \<or> mentions ''below lower bound'' m"

definition is_temporary_order_shape_error ::
  "execution_record \<Rightarrow> message \<Rightarrow> symbol_rules \<Rightarrow> exn + bool" where
  "is_temporary_order_shape_error r m rules =
     (if mentions ''below min notional'' m
      then sbind (target_cannot_meet_min_quantity_or_min_notional r (Some rules)) (\<lambda>b. Inr (\<not> b))
      else Inr False)"

section \<open>Repricing\<close>

definition reprice_base :: "execution_record \<Rightarrow> decimal" where
  "reprice_base r =
     (case last_reprice_monotonic r of
        None \<Rightarrow> started_monotonic r
      | Some t \<Rightarrow> if t = 0 then started_monotonic r else t)"

definition reprice_decision ::
  "execution_record \<Rightarrow> child_order \<Rightarrow> decimal \<Rightarrow> decimal \<Rightarrow> chase_decision" where
  "reprice_decision r c desired t =
     (let ps = parameters (request r)
      in should_reprice (rec_side r) (child_price c) desired (reprice_threshold_bps ps)
           (minimum_reprice_interval_ms ps) (dtrunc (dmul (dsub t (reprice_base r)) 1000))
           (repricing_mode ps))"

definition maybe_reprice_chase :: "'w adapter \<Rightarrow> ('w, bool) eng" where
  "maybe_reprice_chase A =
     bind (getr first_active_child) (\<lambda>active. case active of
       None \<Rightarrow> ret False
     | Some i \<Rightarrow>
         bind (getr (\<lambda>r. req_symbol (request r))) (\<lambda>symb.
         bind (call (get_best_bid_ask A symb)) (\<lambda>market.
         bind (call (get_symbol_rules A symb)) (\<lambda>rules.
         bind (getr rec_side) (\<lambda>sd.
         bind (lift_res (rounded_passive_price sd market rules)) (\<lambda>desired.
         bind (now_decimal A) (\<lambda>t.
         bind (getr (\<lambda>r. reprice_decision r (child_at i r) desired t)) (\<lambda>decision.
           if decision = REPRICE
           then bind (now_decimal A) (\<lambda>t.
                  andthen (modr (\<lambda>r. r\<lparr>last_reprice_monotonic := Some t\<rparr>))
                  (andthen (modr (increment_metric ''reprices''))
                  (bind (cancel_active_children A) (\<lambda>_. ret True))))
           else ret False))))))))"

section \<open>The next child\<close>

text \<open>Quantity, price, post-only flag, bid and ask of the next child order.\<close>

type_synonym demand = "decimal \<times> decimal \<times> bool \<times> decimal \<times> decimal"

definition record_arrival :: "market_snapshot \<Rightarrow> execution_record \<Rightarrow> execution_record" where
  "record_arrival market r =
     (if arrival_bid r = None
      then r\<lparr>arrival_bid := Some (mkt_bid market), arrival_ask := Some (mkt_ask market)\<rparr> else r)"

definition twap_quantity :: "decimal \<Rightarrow> execution_record \<Rightarrow> exn + decimal" where
  "twap_quantity elapsed r =
     (let total_duration = of_int (target_duration_seconds (request r))
      in sbind (effective_slice_elapsed elapsed total_duration
                  (number_of_slices (parameters (request r)))) (\<lambda>effective.
         sbind (scheduled_cumulative_quantity (required_quantity r) effective total_duration) (\<lambda>scheduled.
         sbind (scheduled_deficit scheduled (confirmed r)) (\<lambda>deficit.
           safe_child_quantity deficit (exposure_of r)))))"

definition demand_quantity :: "'w adapter \<Rightarrow> exposure_tracker \<Rightarrow> ('w, decimal) eng" where
  "demand_quantity A tracker =
     bind (getr (\<lambda>r. req_algorithm (request r))) (\<lambda>algorithm.
       if algorithm = TWAP
       then bind (now_decimal A) (\<lambda>t.
            bind (getr (\<lambda>r. twap_quantity (dsub t (started_monotonic r)) r)) lift_res)
       else ret (available_to_submit tracker))"

definition shape_check ::
  "execution_record \<Rightarrow> market_snapshot \<Rightarrow> symbol_rules \<Rightarrow> decimal \<Rightarrow> decimal \<Rightarrow> bool \<Rightarrow> exn + unit" where
  "shape_check r market rules quantity price post_only =
     validate_order_shape quantity price (rec_side r) rules (mkt_bid market) (mkt_ask market) post_only"

definition safety_check ::
  "execution_record \<Rightarrow> market_snapshot \<Rightarrow> symbol_rules \<Rightarrow> decimal \<Rightarrow> decimal \<Rightarrow> bool \<Rightarrow> exn + unit" where
  "safety_check r market rules quantity price post_only =
     validate_child_order_safety quantity price (rec_side r) rules (mkt_bid market) (mkt_ask market)
       post_only (target_price_lower (request r)) (target_price_upper (request r))"

definition wait_or_expire :: "'w adapter \<Rightarrow> message \<Rightarrow> ('w, unit) eng" where
  "wait_or_expire A m =
     bind (deadline_reached A) (\<lambda>reached.
       if reached then expire_for_validation A m
       else modr (set_final_reason waiting_for_price_range))"

text \<open>\<^verbatim>\<open>except ValidationError\<close>: any other exception propagates.\<close>

definition except_validation :: "exn \<Rightarrow> (message \<Rightarrow> ('w, 'a) eng) \<Rightarrow> ('w, 'a) eng" where
  "except_validation e handler = (case e of ValidationError m \<Rightarrow> handler m | _ \<Rightarrow> throw e)"

text \<open>The handler of a failed validation; no order follows.\<close>

definition validation_failed :: "'w adapter \<Rightarrow> symbol_rules \<Rightarrow> exn + unit \<Rightarrow> message \<Rightarrow> ('w, unit) eng" where
  "validation_failed A rules shape m =
     bind get_record (\<lambda>r.
       if is_price_outside_range_error m
       then andthen (modr (increment_metric ''price_bound_violations''))
         (case shape of
            Inr _ \<Rightarrow> wait_or_expire A m
          | Inl e \<Rightarrow> except_validation e (\<lambda>shape_m.
              bind (lift_res (is_temporary_order_shape_error r shape_m rules)) (\<lambda>temporary.
                if \<not> temporary then expire_for_validation A shape_m else wait_or_expire A m)))
       else bind (lift_res (is_temporary_order_shape_error r m rules)) (\<lambda>temporary.
         if temporary
         then bind (deadline_reached A) (\<lambda>reached.
           if reached then terminalize_deadline A order_shape_temporarily_untradeable
           else modr (set_final_reason order_shape_temporarily_untradeable))
         else expire_for_validation A m))"

definition offer_demand :: "'w adapter \<Rightarrow> demand \<Rightarrow> ('w, demand option) eng" where
  "offer_demand A d =
     (case d of (quantity, price, post_only, bid, ask) \<Rightarrow>
        bind (if post_only then retryable_order_reject_gate_blocks A price bid ask else ret False)
          (\<lambda>blocked.
             if blocked then ret None
             else andthen
               (modr (clear_reason {waiting_for_price_range, order_shape_temporarily_untradeable}))
               (andthen (modr (clear_reason retry_reasons)) (ret (Some d)))))"

text \<open>The second half of \<^verbatim>\<open>_build_child_demand_locked\<close>: a positive quantity is priced and
  validated.\<close>

definition price_demand ::
  "'w adapter \<Rightarrow> market_snapshot \<Rightarrow> symbol_rules \<Rightarrow> bool \<Rightarrow> decimal \<Rightarrow> ('w, demand option) eng" where
  "price_demand A market rules use_aggressive quantity =
     (if quantity \<le> 0 then ret None
      else
        bind get_record (\<lambda>r.
        bind (lift_res (rounded_price_of (\<not> use_aggressive) (rec_side r) market rules)) (\<lambda>price.
          let post_only = (\<not> use_aggressive)
          in case safety_check r market rules quantity price post_only of
               Inr _ \<Rightarrow>
                 offer_demand A (quantity, price, post_only, mkt_bid market, mkt_ask market)
             | Inl e \<Rightarrow> except_validation e (\<lambda>m.
                 andthen (validation_failed A rules
                   (shape_check r market rules quantity price post_only) m) (ret None)))))"

definition build_child_demand :: "'w adapter \<Rightarrow> ('w, demand option) eng" where
  "build_child_demand A =
     bind require_exposure_tracker (\<lambda>tracker.
     bind (getr (\<lambda>r. req_symbol (request r))) (\<lambda>symb.
     bind (call (get_best_bid_ask A symb)) (\<lambda>market.
     andthen (modr (record_arrival market))
     (bind (call (get_symbol_rules A symb)) (\<lambda>rules.
     bind (use_aggressive_deadline_price A) (\<lambda>use_aggressive.
     bind (demand_quantity A tracker) (\<lambda>wanted.
     bind (lift_res (floor_to_step wanted (quantity_step rules))) (\<lambda>quantity.
       price_demand A market rules use_aggressive quantity))))))))"

section \<open>Evolution\<close>

lemma rev_maybe_reprice [evolve_intro]: "evolves state_evolves (maybe_reprice_chase A)"
  unfolding maybe_reprice_chase_def
  by (intro evolve_intro rev_core) (simp add: core_def ok_core_def identity_def)

lemma rev_record_arrival [evolve_intro]: "evolves state_evolves (modr (record_arrival m))"
  by (rule rev_core) (simp add: core_def ok_core_def identity_def record_arrival_def)

lemma rev_demand_quantity [evolve_intro]: "evolves state_evolves (demand_quantity A t)"
  unfolding demand_quantity_def by (intro evolve_intro)

lemma rev_wait_or_expire [evolve_intro]: "evolves state_evolves (wait_or_expire A m)"
  unfolding wait_or_expire_def by (intro evolve_intro)

lemma rev_except_validation [evolve_intro]:
  "(\<And>m. evolves state_evolves (h m)) \<Longrightarrow> evolves state_evolves (except_validation e h)"
  unfolding except_validation_def by (cases e) (auto intro: evolve_intro)

lemma rev_validation_failed [evolve_intro]: "evolves state_evolves (validation_failed A rules shape m)"
  unfolding validation_failed_def by (intro evolve_intro)

lemma rev_offer_demand [evolve_intro]: "evolves state_evolves (offer_demand A d)"
  unfolding offer_demand_def by (intro evolve_intro)

lemma rev_build_child_demand [evolve_intro]: "evolves state_evolves (build_child_demand A)"
  unfolding build_child_demand_def price_demand_def by (intro evolve_intro)

section \<open>Properties\<close>




end
