(* ===== verification/Engine_Run.thy ===== *)
theory Engine_Run
  imports Engine_Demand
begin

text \<open>
  The operations a client calls on the \<^verbatim>\<open>ExecutionEngine\<close> of \<^verbatim>\<open>src/execution/engine.py\<close>: create,
  cancel, run once, reconcile and apply a reconciliation result. Each is first a computation on one
  record; the engine keeps the records in a dictionary and runs a computation on the record it
  finds. The lock of \<^verbatim>\<open>src/execution/events.py\<close> makes the computations on one record
  sequential, so a history of a record is a sequence of them.
\<close>

section \<open>Running an execution once\<close>

definition ended :: "execution_record \<Rightarrow> bool" where
  "ended r \<longleftrightarrow> execution_status_is_terminal (status r)"

definition unless_ended :: "('w, unit) eng \<Rightarrow> ('w, unit) eng" where
  "unless_ended m = bind (getr ended) (\<lambda>e. guarded (\<not> e) m)"

definition complete_or :: "'w adapter \<Rightarrow> ('w, unit) eng \<Rightarrow> ('w, unit) eng" where
  "complete_or A otherwise =
     bind (getr target_filled) (\<lambda>filled.
       if filled then complete A target_quantity_filled else otherwise)"

text \<open>What follows a cancel of all children at the end of an execution.\<close>

definition close_after_cancel :: "'w adapter \<Rightarrow> string \<Rightarrow> ('w, unit) eng" where
  "close_after_cancel A reason =
     bind (cancel_active_children A) (\<lambda>_.
       unless_ended
         (andthen (refresh_order_states_exact A) (complete_or A (terminalize_deadline A reason))))"

definition stale_market :: "'w adapter \<Rightarrow> ('w, unit) eng" where
  "stale_market A =
     andthen (modr (set_final_reason market_data_stale_reconciled))
     (andthen (refresh_order_states_exact A)
     (bind (deadline_reached A) (\<lambda>reached.
        guarded reached (close_after_cancel A market_data_stale_reconciled))))"

definition except_stale :: "'w adapter \<Rightarrow> exn \<Rightarrow> ('w, unit) eng" where
  "except_stale A e = (case e of NoFreshMarketData _ \<Rightarrow> stale_market A | _ \<Rightarrow> throw e)"

definition place_demand :: "'w adapter \<Rightarrow> demand \<Rightarrow> ('w, unit) eng" where
  "place_demand A d =
     (case d of (quantity, price, post_only, bid, ask) \<Rightarrow>
        if quantity > 0
        then try_else (submit_child A quantity price post_only bid ask) (except_stale A)
               (\<lambda>_. complete_or A (ret ()))
        else complete_or A (ret ()))"

text \<open>The body of the try block: nothing is sized while quantity is reserved.\<close>

definition next_demand :: "'w adapter \<Rightarrow> ('w, demand option) eng" where
  "next_demand A =
     bind (getr (\<lambda>r. reserved r > 0)) (\<lambda>busy.
       if \<not> busy then build_child_demand A
       else
         andthen
           (bind (getr (\<lambda>r. req_algorithm (request r))) (\<lambda>algorithm.
              guarded (algorithm = CHASE)
                (bind (maybe_reprice_chase A) (\<lambda>repriced.
                   guarded repriced (refresh_order_states_exact A)))))
           (bind (getr (\<lambda>r. reserved r > 0)) (\<lambda>busy.
              if busy then ret None else build_child_demand A)))"

definition order_phase :: "'w adapter \<Rightarrow> ('w, unit) eng" where
  "order_phase A =
     try_else (next_demand A) (except_stale A) (\<lambda>demand. case demand of
       None \<Rightarrow> ret ()
     | Some d \<Rightarrow> place_demand A d)"

definition timeout_phase :: "'w adapter \<Rightarrow> ('w, unit) eng" where
  "timeout_phase A =
     bind (cancel_timed_out_children A) (\<lambda>cancelled.
       if \<not> cancelled then order_phase A
       else unless_ended
         (andthen (refresh_order_states_exact A)
           (complete_or A
             (bind (should_terminalize_aggressive_deadline A) (\<lambda>done.
                if done then terminalize_deadline A deadline_aggressive_attempted
                else order_phase A)))))"

definition aggressive_phase :: "'w adapter \<Rightarrow> ('w, unit) eng" where
  "aggressive_phase A =
     bind (should_cancel_for_aggressive_deadline A) (\<lambda>needed.
       if \<not> needed then timeout_phase A
       else bind (cancel_passive_children_for_aggressive_deadline A) (\<lambda>_.
         unless_ended
           (andthen (refresh_order_states_exact A) (complete_or A (timeout_phase A)))))"

definition deadline_phase :: "'w adapter \<Rightarrow> ('w, unit) eng" where
  "deadline_phase A =
     bind (should_terminalize_aggressive_deadline A) (\<lambda>attempted.
       if attempted then terminalize_deadline A deadline_aggressive_attempted
       else bind (should_terminalize_cancel_remainder_deadline A) (\<lambda>remainder.
         if remainder then close_after_cancel A deadline_cancel_remainder
         else bind (should_terminalize_cancel_remainder_without_demand A) (\<lambda>idle.
           if idle
           then bind (getr deadline_without_demand_reason) (terminalize_deadline A)
           else aggressive_phase A)))"

definition health_phase :: "'w adapter \<Rightarrow> ('w, unit) eng" where
  "health_phase A =
     bind (call (health_check_streams A)) (\<lambda>healthy.
     bind (deadline_reached A) (\<lambda>reached.
       if reached \<and> \<not> healthy
       then andthen (modr (set_final_reason stream_health_degraded_reconciled))
              (close_after_cancel A stream_health_degraded_reconciled)
       else if \<not> healthy
       then modr (set_final_reason stream_health_degraded_reconciled)
       else deadline_phase A))"

definition resolve_unknown :: "'w adapter \<Rightarrow> ('w, unit) eng" where
  "resolve_unknown A =
     andthen (refresh_order_states_exact A)
     (bind (getr (\<lambda>r. unknown_order_quantity (exposure_of r) > 0)) (\<lambda>unknown.
        guarded unknown
          (bind (deadline_reached A) (\<lambda>reached.
             guarded reached (modr (set_final_reason create_timeout_pending_reconciliation))))))"

definition run_once_record :: "'w adapter \<Rightarrow> ('w, unit) eng" where
  "run_once_record A =
     unless_ended
       (bind (rate_limit_backoff_blocks A) (\<lambda>blocked. guarded (\<not> blocked)
         (bind (getr status) (\<lambda>s.
            if s = CANCELLING
            then andthen (refresh_order_states_exact A) (terminalize_manual_cancel_if_clear A)
            else bind (getr (\<lambda>r. unknown_order_quantity (exposure_of r) > 0)) (\<lambda>unknown.
              if unknown then resolve_unknown A
              else andthen (refresh_order_states_exact A) (complete_or A (health_phase A)))))))"

section \<open>The other operations on a record\<close>

definition cancel_record :: "'w adapter \<Rightarrow> ('w, unit) eng" where
  "cancel_record A =
     unless_ended
       (andthen
         (bind (getr status) (\<lambda>s. guarded (s \<noteq> CANCELLING)
            (andthen (set_execution_status CANCELLING) (modr (set_final_reason cancel_requested)))))
         (bind (rate_limit_backoff_blocks A) (\<lambda>blocked. guarded (\<not> blocked)
            (andthen (reconcile A None None True)
            (bind (cancel_active_children A) (\<lambda>_.
               unless_ended
                 (andthen (reconcile A None None True)
                   (complete_or A (terminalize_manual_cancel_if_clear A)))))))))"

text \<open>What ends both reconciliation operations.\<close>

definition close_if_done :: "'w adapter \<Rightarrow> ('w, unit) eng" where
  "close_if_done A =
     bind (getr status) (\<lambda>s.
       if s = CANCELLING then terminalize_manual_cancel_if_clear A
       else guarded (\<not> execution_status_is_terminal s) (complete_or A (ret ())))"

definition reconcile_record :: "'w adapter \<Rightarrow> int option \<Rightarrow> int option \<Rightarrow> ('w, unit) eng" where
  "reconcile_record A start_time_ms end_time_ms =
     bind (rate_limit_backoff_blocks A) (\<lambda>blocked. guarded (\<not> blocked)
       (andthen (reconcile A start_time_ms end_time_ms True) (close_if_done A)))"

definition apply_result_record :: "'w adapter \<Rightarrow> reconciliation_result \<Rightarrow> ('w, unit) eng" where
  "apply_result_record A result =
     andthen (merge_reconciliation_result A result False) (close_if_done A)"

text \<open>The start of a created execution.\<close>

definition nothing_to_trade :: "execution_record \<Rightarrow> symbol_rules option \<Rightarrow> exn + bool" where
  "nothing_to_trade r rules =
     (if rec_side r = NO_ACTION \<or> required_quantity r = 0 then Inr True
      else target_cannot_meet_min_quantity_or_min_notional r rules)"

definition start_record :: "'w adapter \<Rightarrow> symbol_rules option \<Rightarrow> ('w, unit) eng" where
  "start_record A rules =
     andthen (set_execution_status VALIDATING)
     (bind (getr (\<lambda>r. nothing_to_trade r rules)) (\<lambda>check.
     bind (lift_res check) (\<lambda>nothing.
       if nothing
       then andthen (set_execution_status COMPLETED)
         (andthen (modr (\<lambda>r. set_final_reason
             (if raw_required_quantity r = 0 then no_action_target_already_reached
              else untradeable_target_dust) r))
         (bind (now_decimal A) (\<lambda>t.
            andthen (modr (\<lambda>r. r\<lparr>started_monotonic := t, completed_monotonic := Some t\<rparr>))
              (write_summary A))))
       else
         bind (getr required_quantity) (\<lambda>q.
         bind (lift_res (new_exposure_tracker q)) (\<lambda>tracker.
         andthen (modr (\<lambda>r. r\<lparr>rec_tracker := Some tracker\<rparr>))
         (bind (now_decimal A) (\<lambda>t.
            andthen (modr (\<lambda>r. r\<lparr>started_monotonic := t\<rparr>)) (set_execution_status RUNNING))))))))"

section \<open>The engine\<close>

type_synonym records = "(string \<times> execution_record) list"

type_synonym ('w, 'a) engine = "(exn, records \<times> 'w, 'a) eff"

text \<open>\<^verbatim>\<open>_lookup_execution\<close> and the actor: the record that a computation leaves is stored whether it
  returned or raised.\<close>

definition on_execution :: "string \<Rightarrow> ('w, unit) eng \<Rightarrow> ('w, execution_record) engine" where
  "on_execution eid m =
     (\<lambda>(rs, w). case map_of rs eid of
        None \<Rightarrow> (Inl (UnknownExecution eid), rs, w)
      | Some r \<Rightarrow>
          let (x, r', w') = m (r, w)
          in (case x of Inl e \<Rightarrow> Inl e | Inr _ \<Rightarrow> Inr r', AList.update eid r' rs, w'))"

definition get_execution :: "string \<Rightarrow> ('w, execution_record) engine" where
  "get_execution eid = on_execution eid (ret ())"

definition cancel_execution :: "'w adapter \<Rightarrow> string \<Rightarrow> ('w, execution_record) engine" where
  "cancel_execution A eid = on_execution eid (cancel_record A)"

definition run_once :: "'w adapter \<Rightarrow> string \<Rightarrow> ('w, execution_record) engine" where
  "run_once A eid = on_execution eid (run_once_record A)"

definition reconcile_execution ::
  "'w adapter \<Rightarrow> string \<Rightarrow> int option \<Rightarrow> int option \<Rightarrow> ('w, execution_record) engine" where
  "reconcile_execution A eid start_time_ms end_time_ms =
     on_execution eid (reconcile_record A start_time_ms end_time_ms)"

definition apply_reconciliation_result ::
  "'w adapter \<Rightarrow> string \<Rightarrow> reconciliation_result \<Rightarrow> ('w, execution_record) engine" where
  "apply_reconciliation_result A eid result = on_execution eid (apply_result_record A result)"

definition ecall :: "('w \<Rightarrow> (exn + 'a) \<times> 'w) \<Rightarrow> ('w, 'a) engine" where
  "ecall op = (\<lambda>(rs, w). let (x, w') = op w in (x, rs, w'))"

definition add_record :: "execution_record \<Rightarrow> ('w, unit) engine" where
  "add_record r = modify (\<lambda>(rs, w). (AList.update (rec_execution_id r) r rs, w))"

text \<open>The random part of the execution id is an argument.\<close>

definition create_execution ::
  "'w adapter \<Rightarrow> string \<Rightarrow> execution_request \<Rightarrow> ('w, execution_record) engine" where
  "create_execution A hex req =
     bind (ecall (get_position A (req_symbol req))) (\<lambda>position.
       let (sd, raw_required) = required_trade (target_position req) (pos_position position)
       in bind
            (if raw_required = 0 then ret (None, 0, 0)
             else bind (ecall (get_symbol_rules A (req_symbol req))) (\<lambda>rules.
                  bind (lift_res (floor_to_step raw_required (quantity_step rules))) (\<lambda>required.
                    ret (Some rules, required, dsub raw_required required))))
            (\<lambda>(rules, required, dust).
               let eid = execution_id hex
               in andthen
                    (add_record (new_execution_record eid req sd required position raw_required dust))
                    (on_execution eid (start_record A rules))))"

section \<open>Evolution\<close>

lemma rev_complete_or [evolve_intro]:
  "evolves state_evolves m \<Longrightarrow> evolves state_evolves (complete_or A m)"
  and rev_unless_ended [evolve_intro]:
  "evolves state_evolves m \<Longrightarrow> evolves state_evolves (unless_ended m)"
  unfolding complete_or_def unless_ended_def by (intro evolve_intro; assumption)+

lemma rev_close_after_cancel [evolve_intro]: "evolves state_evolves (close_after_cancel A reason)"
  unfolding close_after_cancel_def by (intro evolve_intro)

lemma rev_stale_market [evolve_intro]: "evolves state_evolves (stale_market A)"
  unfolding stale_market_def by (intro evolve_intro)

lemma rev_except_stale [evolve_intro]: "evolves state_evolves (except_stale A e)"
  unfolding except_stale_def by (cases e) (auto intro: evolve_intro)

lemma rev_place_demand [evolve_intro]: "evolves state_evolves (place_demand A d)"
  unfolding place_demand_def by (intro evolve_intro)

lemma rev_next_demand [evolve_intro]: "evolves state_evolves (next_demand A)"
  unfolding next_demand_def by (intro evolve_intro)

lemma rev_order_phase [evolve_intro]: "evolves state_evolves (order_phase A)"
  unfolding order_phase_def by (intro evolve_intro)

lemma rev_phases [evolve_intro]:
  "evolves state_evolves (health_phase A)" "evolves state_evolves (resolve_unknown A)"
  unfolding health_phase_def resolve_unknown_def deadline_phase_def aggressive_phase_def
    timeout_phase_def
  by (intro evolve_intro)+

lemma rev_run_once: "evolves state_evolves (run_once_record A)"
  unfolding run_once_record_def by (intro evolve_intro)

lemma rev_close_if_done [evolve_intro]: "evolves state_evolves (close_if_done A)"
  unfolding close_if_done_def by (intro evolve_intro)

lemma rev_reconcile_record: "evolves state_evolves (reconcile_record A t0 t1)"
  and rev_apply_result: "evolves state_evolves (apply_result_record A result)"
  unfolding reconcile_record_def apply_result_record_def by (intro evolve_intro)+

end
