(* ===== verification/Engine_History.thy ===== *)
theory Engine_History
  imports Engine_Run
begin

text \<open>
  Histories of the engine: a step is one client operation, completed or failed, or a step of the
  outside world; the states reachable from the empty engine satisfy the invariant, and along any
  history every record evolves.
\<close>

section \<open>Cancelling and starting\<close>

lemma cancelling_evolves:
  "status r = RUNNING \<Longrightarrow> record_evolves r (r\<lparr>status := CANCELLING\<rparr>)"
proof -
  assume s: "status r = RUNNING"
  let ?r = "r\<lparr>status := CANCELLING\<rparr>"
  have "fills_ok ?r = fills_ok r"
    by (simp add: fills_ok_def intervals_of_def rebuilt_vwap_inputs_def trade_sort_key_def [abs_def])
  moreover have "tracking_ok r \<Longrightarrow> tracking_ok ?r"
    by (auto simp: tracking_ok_def s split: option.splits)
  moreover have "closing_ok r \<Longrightarrow> closing_ok ?r" by (auto simp: closing_ok_def s)
  moreover have "execution_path RUNNING CANCELLING"
    by (rule r_into_rtranclp) (simp add: execution_step_simps)
  ultimately show ?thesis using s
    by (simp add: record_evolves_def rec_ok_def identity_def exposure_of_def)
qed

lemma rev_set_cancelling [evolve_intro]: "evolves state_evolves (set_execution_status CANCELLING)"
proof -
  have "execution_step s CANCELLING \<Longrightarrow> s = RUNNING" for s
    by (cases s) (auto simp: execution_step_simps)
  then show ?thesis
    unfolding evolves_wp wp_set_execution_status
    by (auto split: sum.split intro: cancelling_evolves simp: cancelling_evolves)
qed

lemma rev_cancel_record: "evolves state_evolves (cancel_record A)"
  unfolding cancel_record_def by (intro evolve_intro)

text \<open>A started record: what creation leaves, whether it returned or raised.\<close>

definition started_ok :: "execution_record \<Rightarrow> execution_record \<Rightarrow> bool" where
  "started_ok r r' \<longleftrightarrow>
     identity r' = identity r \<and> rec_ok r' \<and> child_orders r' = [] \<and> confirmed r' = 0
     \<and> last_child_sequence r' = 0 \<and> status r' \<in> {VALIDATING, RUNNING, COMPLETED}"

lemma start_record_ok:
  fixes w :: 'w
  assumes r_def: "r = new_execution_record eid req sd required pos raw dust"
    and q: "dec_ok required"
  shows "wp (start_record A rules)
    (\<lambda>_ t. started_ok r (fst t) \<and> status (fst t) \<noteq> VALIDATING)
    (\<lambda>_ t. started_ok r (fst t) \<and> status (fst t) = VALIDATING) (r, w)"
proof -
  have v: "transition_execution CREATED VALIDATING = Inr VALIDATING"
    "transition_execution VALIDATING COMPLETED = Inr COMPLETED"
    "transition_execution VALIDATING RUNNING = Inr RUNNING"
    by (simp_all add: execution_step_simps)
  have r: "status r = CREATED" "rec_tracker r = None" "summary r = None" "child_orders r = []"
    "last_child_sequence r = 0" "required_quantity r = required" "trade_fill_vwap_inputs r = []"
    "fill_vwap_inputs r = []" "anonymous_fill_vwap_inputs r = []"
    "child_authoritative_fill_intervals r = []"
    by (simp_all add: r_def new_execution_record_def)
  note defs = started_ok_def rec_ok_def fills_ok_def tracking_ok_def closing_ok_def identity_def
    intervals_of_def intervals_ok_def rebuilt_vwap_inputs_def exposure_of_def q
  have tail: "wp (write_summary A) (\<lambda>_ t. started_ok r (fst t) \<and> status (fst t) \<noteq> VALIDATING) E
      (r\<lparr>status := COMPLETED, final_reason := x, started_monotonic := t, completed_monotonic := Some t\<rparr>, v)"
    for x t E v
    by (rule wp_write_summary) (simp add: defs r empty_exposure_def)
  show ?thesis
    unfolding start_record_def
    using tail
    by (auto simp: wp_simp wp_now wp_set_execution_status r v set_final_reason_def
        new_exposure_tracker_ok empty_exposure_def defs
        simp del: transition_execution_Inr split: sum.split dest!: new_exposure_tracker_ok)
qed

section \<open>The dictionary of records\<close>

definition engine_ok :: "records \<Rightarrow> bool" where
  "engine_ok rs \<longleftrightarrow>
     distinct (map fst rs) \<and> (\<forall>eid r. map_of rs eid = Some r \<longrightarrow> rec_ok r \<and> rec_execution_id r = eid)"

definition records_evolve :: "records \<Rightarrow> records \<Rightarrow> bool" where
  "records_evolve rs rs' \<longleftrightarrow>
     (\<forall>eid r. map_of rs eid = Some r \<longrightarrow> (\<exists>r'. map_of rs' eid = Some r' \<and> record_evolves r r'))"

definition engine_evolves :: "records \<times> 'w \<Rightarrow> records \<times> 'w \<Rightarrow> bool" where
  "engine_evolves s t \<longleftrightarrow>
     records_evolve (fst s) (fst t) \<and> (engine_ok (fst s) \<longrightarrow> engine_ok (fst t))"

lemma records_evolve_refl [simp, intro]: "records_evolve rs rs"
  by (simp add: records_evolve_def)

lemma records_evolve_trans: "records_evolve a b \<Longrightarrow> records_evolve b c \<Longrightarrow> records_evolve a c"
  unfolding records_evolve_def by (meson record_evolves_trans)

interpretation eev: evolution engine_evolves
  by unfold_locales (auto simp: engine_evolves_def intro: records_evolve_trans)

lemma update_records:
  assumes "map_of rs eid = Some r" "record_evolves r r'"
  shows "engine_evolves (rs, w) (AList.update eid r' rs, w')"
proof -
  have "rec_execution_id r' = rec_execution_id r" "rec_ok r \<Longrightarrow> rec_ok r'"
    using assms(2) by (simp_all add: record_evolves_def identity_def)
  then show ?thesis
    using assms by (auto simp: engine_evolves_def records_evolve_def engine_ok_def update_conv' distinct_update)
qed

lemma on_execution_evolves:
  assumes "evolves state_evolves m"
  shows "evolves engine_evolves (on_execution eid m)"
  unfolding evolves_def
proof
  fix s :: "records \<times> 'a"
  obtain rs w where s: "s = (rs, w)" by (cases s)
  show "engine_evolves s (snd (on_execution eid m s))"
  proof (cases "map_of rs eid")
    case (Some r)
    obtain x r' w' where m: "m (r, w) = (x, r', w')" by (cases "m (r, w)") auto
    then have "record_evolves r r'" using evolvesD [OF assms, of "(r, w)"] by simp
    then show ?thesis using Some m update_records [OF Some, of r' w w']
      by (simp add: s on_execution_def)
  qed (simp add: s on_execution_def eev.refl)
qed

lemma eev_ecall: "evolves engine_evolves (ecall op)"
  by (auto simp: evolves_def ecall_def engine_evolves_def split: prod.split)

lemma wp_ecall:
  "wp (ecall op) Q E s = (case op (snd s) of (Inl e, w) \<Rightarrow> E e (fst s, w) | (Inr x, w) \<Rightarrow> Q x (fst s, w))"
  by (cases s) (auto simp: wp_def ecall_def split: prod.split sum.split)

text \<open>Adding a fresh record and starting it.\<close>

lemma add_and_start_evolves:
  assumes fresh: "eid \<notin> fst ` set rs"
    and r: "r = new_execution_record eid req sd required pos raw dust" and q: "dec_ok required"
  shows "engine_evolves (rs, w) (snd (andthen (add_record r) (on_execution eid (start_record A rules)) (rs, w)))"
proof -
  have id: "rec_execution_id r = eid" by (simp add: r new_execution_record_def)
  have look: "map_of (AList.update eid r rs) eid = Some r" by (simp add: update_conv')
  obtain x r' w' where m: "start_record A rules (r, w) = (x, r', w')"
    by (cases "start_record A rules (r, w)") auto
  have "started_ok r r'"
    using start_record_ok [OF r q, where A = A and rules = rules and w = w]
    by (cases x) (simp_all add: wp_def m)
  then have ok: "rec_ok r'" "rec_execution_id r' = eid"
    using id by (simp_all add: started_ok_def identity_def)
  have "map_of rs eid = None" using fresh by (simp add: map_of_eq_None_iff)
  then have "engine_evolves (rs, w) (AList.update eid r' rs, w')"
    using ok by (auto simp: engine_evolves_def records_evolve_def engine_ok_def update_conv' distinct_update)
  then show ?thesis
    by (simp add: bind_def add_record_def modify_def on_execution_def id look m)
qed

lemma create_execution_evolves:
  assumes fresh: "execution_id hex \<notin> fst ` set rs"
  shows "engine_evolves (rs, w) (snd (create_execution A hex req (rs, w)))"
proof -
  let ?Q = "\<lambda>_. engine_evolves (rs, w)"
  have start: "wp (andthen (add_record (new_execution_record (execution_id hex) req sd q pos raw dust))
      (on_execution (execution_id hex) (start_record A rules))) ?Q ?Q (rs, v)"
    if "dec_ok q" for sd q pos raw dust rules v
    using add_and_start_evolves [OF fresh refl that, where w = v and A = A and rules = rules and req = req
        and sd = sd and pos = pos and raw = raw and dust = dust]
    by (auto simp: wp_def engine_evolves_def split: prod.split sum.split)
  have "wp (create_execution A hex req) ?Q ?Q (rs, w)"
    unfolding create_execution_def wp_bind [of "ecall _"] wp_ecall
    by (auto simp: Let_def wp_bind [of "if _ then _ else _"] wp_bind [of "ecall _"] wp_ecall
        wp_bind [of "lift_res _"] wp_lift_res wp_ret start floor_to_step_ok engine_evolves_def
        split: prod.split sum.split)
  then show ?thesis by (simp add: wp_def split: prod.splits sum.splits)
qed

section \<open>Histories\<close>

datatype client_op =
    Create string execution_request
  | Get string
  | Cancel string
  | Run_Once string
  | Reconcile string "int option" "int option"
  | Apply_Result string reconciliation_result

fun perform :: "'w adapter \<Rightarrow> client_op \<Rightarrow> ('w, execution_record) engine" where
  "perform A (Create hex req) = create_execution A hex req"
| "perform A (Get eid) = get_execution eid"
| "perform A (Cancel eid) = cancel_execution A eid"
| "perform A (Run_Once eid) = run_once A eid"
| "perform A (Reconcile eid t0 t1) = reconcile_execution A eid t0 t1"
| "perform A (Apply_Result eid result) = apply_reconciliation_result A eid result"

text \<open>A random id is assumed not to repeat.\<close>

fun fresh_op :: "records \<Rightarrow> client_op \<Rightarrow> bool" where
  "fresh_op rs (Create hex _) = (execution_id hex \<notin> fst ` set rs)"
| "fresh_op _ _ = True"

inductive engine_step :: "'w adapter \<Rightarrow> records \<times> 'w \<Rightarrow> records \<times> 'w \<Rightarrow> bool" for A where
  client: "fresh_op (fst s) op \<Longrightarrow> engine_step A s (snd (perform A op s))"
| outside: "engine_step A (rs, w) (rs, w')"

abbreviation engine_history :: "'w adapter \<Rightarrow> records \<times> 'w \<Rightarrow> records \<times> 'w \<Rightarrow> bool" where
  "engine_history A \<equiv> (engine_step A)\<^sup>*\<^sup>*"

lemma perform_evolves:
  assumes "fresh_op (fst s) op"
  shows "engine_evolves s (snd (perform A op s))"
proof (cases op)
  case (Create hex req)
  then show ?thesis using assms create_execution_evolves [of hex "fst s" "snd s" A req] by simp
next
  case (Get eid)
  have "evolves engine_evolves (on_execution eid (ret ()) :: ('a, _) engine)"
    by (intro on_execution_evolves evolve_intro)
  then show ?thesis using Get by (simp add: get_execution_def evolvesD)
qed (simp_all add: cancel_execution_def run_once_def reconcile_execution_def
    apply_reconciliation_result_def evolvesD on_execution_evolves rev_cancel_record rev_run_once
    rev_reconcile_record rev_apply_result)

lemma history_evolves: "engine_history A s t \<Longrightarrow> engine_evolves s t"
proof (induction rule: rtranclp_induct)
  case base
  show ?case by (rule eev.refl)
next
  case (step t u)
  from step.hyps(2) have "engine_evolves t u"
  proof (cases rule: engine_step.cases)
    case (client op)
    then show ?thesis using perform_evolves by blast
  next
    case (outside rs w w')
    then show ?thesis by (simp add: engine_evolves_def)
  qed
  with step.IH show ?case by (rule eev.trans)
qed

lemma reachable_ok: "engine_history A ([], w) t \<Longrightarrow> engine_ok (fst t)"
  using history_evolves [of A "([], w)" t] by (simp add: engine_evolves_def engine_ok_def)

lemma history_record:
  assumes "engine_history A s t" "map_of (fst s) eid = Some r"
  obtains r' where "map_of (fst t) eid = Some r'" "record_evolves r r'"
  using history_evolves [OF assms(1)] assms(2) by (auto simp: engine_evolves_def records_evolve_def)

end
