(* ===== verification/Simulator.thy ===== *)
theory Simulator
  imports Adapter State_Machine Ids "HOL-Library.AList"
begin

text \<open>
  The in-memory exchange of \<^verbatim>\<open>src/exchanges/simulator.py\<close> on a manual clock. Its state keeps orders
  by symbol and client order id; a method is a computation on the state, and the engine's view of it
  is the adapter \<open>sim_adapter\<close>. The user events name an order by its key, since the code's events
  share the order object. The checks that an argument is a \<^verbatim>\<open>Decimal\<close> are typing.
\<close>

section \<open>State\<close>

datatype event_kind = Order_Opened | Order_Cancelled | Fill_Event

type_synonym order_key = "string \<times> string"

record order_event =
  event_kind :: event_kind
  event_client_order_id :: string
  event_order :: "order_key option"
  event_fill :: "fill option"

record simulator =
  sim_clock :: pyfloat
  sim_position :: decimal
  stale_market_data_seconds :: pyfloat
  sim_market :: "(string \<times> market_snapshot) list"
  market_queue :: "market_snapshot list"
  sim_symbol_rules :: "(string \<times> symbol_rules) list"
  sim_orders :: "(order_key \<times> child_order) list"
  sim_fills :: "fill list"
  user_event_queue :: "order_event list"
  trade_sequence :: nat
  exchange_order_sequence :: nat
  create_timeout_prefixes :: "string list"
  create_timeout_not_found_prefixes :: "string list"
  create_timeout_not_found_warnings :: "order_key set"
  fill_during_cancel_scripts :: "(string \<times> decimal) list"
  cancel_reconcile_open_prefixes :: "string list"
  user_stream_healthy :: bool

definition new_simulator :: "pyfloat \<Rightarrow> decimal \<Rightarrow> simulator" where
  "new_simulator now position =
     \<lparr>sim_clock = now, sim_position = position, stale_market_data_seconds = 3/2, sim_market = [],
      market_queue = [], sim_symbol_rules = [], sim_orders = [], sim_fills = [],
      user_event_queue = [], trade_sequence = 0, exchange_order_sequence = 0,
      create_timeout_prefixes = [], create_timeout_not_found_prefixes = [],
      create_timeout_not_found_warnings = {}, fill_during_cancel_scripts = [],
      cancel_reconcile_open_prefixes = [], user_stream_healthy = True\<rparr>"

type_synonym 'a sim = "(exn, simulator, 'a) eff"

section \<open>Market data, rules and position\<close>

definition default_symbol_rules :: "string \<Rightarrow> symbol_rules" where
  "default_symbol_rules symb =
     \<lparr>rules_symbol = symb, tick_size = 1/10, quantity_step = 1/1000, min_quantity = 1/1000,
      min_notional = 5, rules_status = ''TRADING'',
      supported_time_in_force = {''GTC'', ''GTX'', ''IOC''}\<rparr>"

definition sim_get_symbol_rules :: "string \<Rightarrow> symbol_rules sim" where
  "sim_get_symbol_rules symb =
     gets (\<lambda>s. case map_of (sim_symbol_rules s) symb of
       Some rules \<Rightarrow> rules | None \<Rightarrow> default_symbol_rules symb)"

definition set_symbol_rules :: "symbol_rules \<Rightarrow> unit sim" where
  "set_symbol_rules rules =
     modify (\<lambda>s. s\<lparr>sim_symbol_rules := AList.update (rules_symbol rules) rules (sim_symbol_rules s)\<rparr>)"

definition sim_get_position :: "string \<Rightarrow> position_snapshot sim" where
  "sim_get_position symb =
     gets (\<lambda>s. \<lparr>pos_symbol = symb, pos_position = sim_position s, pos_update_time_ms = None\<rparr>)"

definition push_market_data :: "string \<Rightarrow> decimal \<Rightarrow> decimal \<Rightarrow> int option \<Rightarrow> unit sim" where
  "push_market_data symb bid ask exchange_event_time =
     modify (\<lambda>s.
       let snapshot = \<lparr>mkt_symbol = symb, mkt_bid = bid, mkt_ask = ask,
                       last_market_event_time_exchange = exchange_event_time,
                       last_market_event_time_local = sim_clock s\<rparr>
       in s\<lparr>sim_market := AList.update symb snapshot (sim_market s),
            market_queue := market_queue s @ [snapshot]\<rparr>)"

definition sim_get_best_bid_ask :: "string \<Rightarrow> market_snapshot sim" where
  "sim_get_best_bid_ask symb =
     bind (gets (\<lambda>s. map_of (sim_market s) symb)) (\<lambda>found. case found of
       None \<Rightarrow> throw (NoFreshMarketData (''no fresh market data for '' @ symb))
     | Some snapshot \<Rightarrow>
         if is_crossed snapshot
         then throw (NoFreshMarketData (''crossed market data for '' @ symb))
         else
           bind (gets (\<lambda>s. fsub (sim_clock s) (last_market_event_time_local snapshot))) (\<lambda>age.
           bind (gets stale_market_data_seconds) (\<lambda>limit.
             if age > limit
             then throw (NoFreshMarketData
               (''stale market data for '' @ symb @ '': age='' @ plain_string (float_decimal age)))
             else ret snapshot)))"

section \<open>Orders\<close>

fun open_status_for :: "child_order \<Rightarrow> child_order_status" where
  "open_status_for c =
     (if remaining_quantity c = 0 then FILLED
      else if child_filled c > 0 then PARTIALLY_FILLED else OPEN)"

definition set_order :: "order_key \<Rightarrow> child_order \<Rightarrow> simulator \<Rightarrow> simulator" where
  "set_order key c s = s\<lparr>sim_orders := AList.update key c (sim_orders s)\<rparr>"

definition put_event :: "order_event \<Rightarrow> simulator \<Rightarrow> simulator" where
  "put_event e s = s\<lparr>user_event_queue := user_event_queue s @ [e]\<rparr>"

text \<open>The next item of a stream; \<open>None\<close> while its reader waits.\<close>

definition next_market_event :: "market_snapshot option sim" where
  "next_market_event =
     bind (gets market_queue) (\<lambda>q. case q of
       [] \<Rightarrow> ret None
     | m # ms \<Rightarrow> andthen (modify (\<lambda>s. s\<lparr>market_queue := ms\<rparr>)) (ret (Some m)))"

definition next_user_event :: "order_event option sim" where
  "next_user_event =
     bind (gets user_event_queue) (\<lambda>q. case q of
       [] \<Rightarrow> ret None
     | e # es \<Rightarrow> andthen (modify (\<lambda>s. s\<lparr>user_event_queue := es\<rparr>)) (ret (Some e)))"

fun pop_matching :: "string list \<Rightarrow> string \<Rightarrow> (string \<times> string list) option" where
  "pop_matching [] coid = None"
| "pop_matching (p # ps) coid =
     (if prefix p coid then Some (p, ps)
      else map_option (\<lambda>(q, qs). (q, p # qs)) (pop_matching ps coid))"

fun pop_script :: "(string \<times> decimal) list \<Rightarrow> string \<Rightarrow> (decimal \<times> (string \<times> decimal) list) option" where
  "pop_script [] coid = None"
| "pop_script ((p, q) # ps) coid =
     (if prefix p coid then Some (q, ps)
      else map_option (\<lambda>(x, qs). (x, (p, q) # qs)) (pop_script ps coid))"

definition validate_order_time_in_force :: "order_request \<Rightarrow> market_snapshot \<Rightarrow> unit sim" where
  "validate_order_time_in_force ord snapshot =
     bind (sim_get_symbol_rules (or_symbol ord)) (\<lambda>rules.
       let requested =
             (if or_post_only ord then ''GTX''
              else case or_time_in_force ord of
                Some t \<Rightarrow> time_in_force_value t | None \<Rightarrow> ''GTC'')
       in if or_post_only ord \<and> ''GTX'' \<notin> supported_time_in_force rules
          then throw (OrderRejected
            (or_symbol ord @ '' does not support GTX/post-only time in force''))
          else if requested \<notin> supported_time_in_force rules
          then throw (OrderRejected
            (or_symbol ord @ '' does not support '' @ requested @ '' time in force''))
          else if \<not> or_post_only ord then ret ()
          else if or_side ord = BUY \<and> or_price ord \<ge> mkt_ask snapshot
          then throw (OrderRejected ''post-only order would cross the current ask'')
          else if or_side ord = SELL \<and> or_price ord \<le> mkt_bid snapshot
          then throw (OrderRejected ''post-only order would cross the current bid'')
          else ret ())"

definition create_open_order :: "order_request \<Rightarrow> child_order sim" where
  "create_open_order ord =
     andthen (modify (\<lambda>s. s\<lparr>exchange_order_sequence := exchange_order_sequence s + 1\<rparr>))
     (bind (gets exchange_order_sequence) (\<lambda>n.
        let c = (new_child_order (or_child_order_id ord) (or_client_order_id ord) (or_symbol ord)
                   (or_side ord) (or_quantity ord) (or_price ord))
                \<lparr>exchange_order_id := Some (''sim_order_'' @ padded 6 (int n))\<rparr>
        in bind (lift_res (transition_child (child_status c) OPEN)) (\<lambda>st.
             let c = c\<lparr>child_status := st\<rparr>
             in andthen (modify (set_order (or_symbol ord, or_client_order_id ord) c)) (ret c))))"

definition sim_submit_limit_order :: "order_request \<Rightarrow> child_order sim" where
  "sim_submit_limit_order ord =
     (let coid = or_client_order_id ord;
          timed_out = OrderCreateTimeout (''create timed out for '' @ coid)
      in bind (sim_get_best_bid_ask (or_symbol ord)) (\<lambda>snapshot.
         andthen (validate_order_time_in_force ord snapshot)
         (bind (gets (\<lambda>s. pop_matching (create_timeout_not_found_prefixes s) coid)) (\<lambda>lost.
            case lost of
              Some (p, ps) \<Rightarrow>
                andthen
                  (modify (\<lambda>s. s\<lparr>create_timeout_not_found_prefixes := ps,
                     create_timeout_not_found_warnings :=
                       insert (or_symbol ord, p) (create_timeout_not_found_warnings s)\<rparr>))
                  (throw timed_out)
            | None \<Rightarrow>
                bind (create_open_order ord) (\<lambda>c.
                andthen (modify (put_event
                  \<lparr>event_kind = Order_Opened, event_client_order_id = client_order_id c,
                   event_order = Some (child_symbol c, client_order_id c), event_fill = None\<rparr>))
                (bind (gets (\<lambda>s. pop_matching (create_timeout_prefixes s) coid)) (\<lambda>late.
                   case late of
                     Some (p, ps) \<Rightarrow>
                       andthen (modify (\<lambda>s. s\<lparr>create_timeout_prefixes := ps\<rparr>)) (throw timed_out)
                   | None \<Rightarrow> ret c)))))))"

section \<open>Fills\<close>

text \<open>\<^verbatim>\<open>int(utc_now().timestamp() * 1000)\<close>: the time is first rounded to microseconds.\<close>

definition clock_time_ms :: "pyfloat \<Rightarrow> int" where
  "clock_time_ms t =
     (let whole = dtrunc t;
          micros = whole * 1000000 + round_half_even (fl ((t - of_int whole) * 1000000))
      in dtrunc (fmul (fl (of_int micros / 1000000)) 1000))"

text \<open>The only order with a client order id, of any symbol; \<^verbatim>\<open>KeyError\<close> otherwise.\<close>

definition order_by_client_order_id :: "string \<Rightarrow> simulator \<Rightarrow> exn + (order_key \<times> child_order)" where
  "order_by_client_order_id coid s =
     (case filter (\<lambda>((_, stored), _). stored = coid) (sim_orders s) of
        [x] \<Rightarrow> Inr x
      | _ \<Rightarrow> Inl (KeyError (''unknown simulator order: '' @ coid)))"

definition move_order :: "child_order_status \<Rightarrow> child_order \<Rightarrow> exn + child_order" where
  "move_order target c =
     (if child_status c = target then Inr c
      else sbind (transition_child (child_status c) target) (\<lambda>st. Inr (c\<lparr>child_status := st\<rparr>)))"

definition push_fill :: "string \<Rightarrow> decimal \<Rightarrow> decimal \<Rightarrow> fill sim" where
  "push_fill coid fill_quantity price =
     (if fill_quantity \<le> 0 then throw (ValueError ''fill quantity must be positive'')
      else
        bind (gets (order_by_client_order_id coid)) (\<lambda>found.
        bind (lift_res found) (\<lambda>(key, c).
          if child_status c \<in> {CHILD_CANCELLED, FILLED, REJECTED}
          then throw (OrderRejected (''cannot fill terminal order '' @ coid))
          else if fill_quantity > remaining_quantity c
          then throw (OrderRejected (''fill exceeds remaining quantity for '' @ coid))
          else
            let c = c\<lparr>child_filled := dadd (child_filled c) fill_quantity\<rparr>
            in andthen (modify (set_order key c))
               (bind (lift_res (move_order (open_status_for c) c)) (\<lambda>c.
                andthen (modify (set_order key c))
                (andthen (modify (\<lambda>s. s\<lparr>sim_position :=
                    (if child_side c = BUY then dadd (sim_position s) fill_quantity
                     else if child_side c = SELL then dsub (sim_position s) fill_quantity
                     else sim_position s), trade_sequence := trade_sequence s + 1\<rparr>))
                (bind (gets (\<lambda>s. (trade_sequence s, clock_time_ms (sim_clock s)))) (\<lambda>(n, ms).
                   let f = \<lparr>fill_client_order_id = coid,
                            fill_trade_id = Some (''sim_trade_'' @ padded 6 (int n)),
                            cumulative_filled_quantity = child_filled c,
                            last_filled_quantity = fill_quantity, last_fill_price = price,
                            fill_event_time_ms = Some ms, fill_transaction_time_ms = Some ms,
                            is_maker = None\<rparr>
                   in andthen (modify (\<lambda>s. put_event
                        \<lparr>event_kind = Fill_Event, event_client_order_id = coid,
                         event_order = Some key, event_fill = Some f\<rparr>
                        (s\<lparr>sim_fills := sim_fills s @ [f]\<rparr>)))
                      (ret f)))))))))"

definition inject_reconciliation_fill :: "fill \<Rightarrow> fill sim" where
  "inject_reconciliation_fill f =
     (if last_filled_quantity f \<le> 0 then throw (ValueError ''fill quantity must be positive'')
      else bind (gets (order_by_client_order_id (fill_client_order_id f))) (\<lambda>found.
           bind (lift_res found) (\<lambda>_.
           andthen (modify (\<lambda>s. s\<lparr>sim_fills := sim_fills s @ [f]\<rparr>)) (ret f))))"

section \<open>Cancelling\<close>

text \<open>An order of a known key, as the code's reference to it sees it.\<close>

definition order_at :: "order_key \<Rightarrow> simulator \<Rightarrow> child_order" where
  "order_at key s = the (map_of (sim_orders s) key)"

definition move_order_at :: "order_key \<Rightarrow> child_order_status \<Rightarrow> unit sim" where
  "move_order_at key target =
     bind (gets (order_at key)) (\<lambda>c.
     bind (lift_res (transition_child (child_status c) target)) (\<lambda>st.
       modify (set_order key (c\<lparr>child_status := st\<rparr>))))"

definition consume_fill_during_cancel :: "string \<Rightarrow> decimal option sim" where
  "consume_fill_during_cancel coid =
     bind (gets (\<lambda>s. pop_script (fill_during_cancel_scripts s) coid)) (\<lambda>found. case found of
       None \<Rightarrow> ret None
     | Some (q, scripts) \<Rightarrow>
         andthen (modify (\<lambda>s. s\<lparr>fill_during_cancel_scripts := scripts\<rparr>)) (ret (Some q)))"

text \<open>The end of \<^verbatim>\<open>cancel_order\<close>: a scripted order stays open, any other is cancelled.\<close>

definition finish_cancel :: "order_key \<Rightarrow> child_order sim" where
  "finish_cancel key =
     bind (gets (\<lambda>s. pop_matching (cancel_reconcile_open_prefixes s) (snd key))) (\<lambda>stays.
     bind (gets (order_at key)) (\<lambda>c.
       case stays of
         Some (_, ps) \<Rightarrow>
           andthen (modify (\<lambda>s. s\<lparr>cancel_reconcile_open_prefixes := ps\<rparr>))
           (andthen
             (if child_status c \<noteq> open_status_for c then move_order_at key (open_status_for c)
              else ret ())
             (gets (order_at key)))
       | None \<Rightarrow>
           andthen (if child_status c \<noteq> PENDING_CANCEL then move_order_at key PENDING_CANCEL else ret ())
           (andthen (move_order_at key CHILD_CANCELLED)
           (andthen (modify (put_event
             \<lparr>event_kind = Order_Cancelled, event_client_order_id = snd key, event_order = Some key,
              event_fill = None\<rparr>))
             (gets (order_at key))))))"

definition sim_cancel_order :: "string \<Rightarrow> string \<Rightarrow> child_order sim" where
  "sim_cancel_order symb coid =
     bind (gets (\<lambda>s. map_of (sim_orders s) (symb, coid))) (\<lambda>found. case found of
       None \<Rightarrow> throw (KeyError (''unknown simulator order: '' @ symb @ '' '' @ coid))
     | Some c \<Rightarrow>
         if child_status_is_terminal (child_status c) then ret c
         else
           andthen (move_order_at (symb, coid) PENDING_CANCEL)
           (bind (consume_fill_during_cancel coid) (\<lambda>scripted.
            andthen
              (case scripted of
                 None \<Rightarrow> ret ()
               | Some q \<Rightarrow> bind (push_fill coid q (child_price c)) (\<lambda>_. ret ()))
              (bind (gets (order_at (symb, coid))) (\<lambda>c.
                 if child_status_is_terminal (child_status c) then ret c
                 else finish_cancel (symb, coid))))))"

definition sim_get_order :: "string \<Rightarrow> string \<Rightarrow> child_order option sim" where
  "sim_get_order symb coid = gets (\<lambda>s. map_of (sim_orders s) (symb, coid))"

section \<open>Reconciliation, health and scripts\<close>

text \<open>\<^verbatim>\<open>^ce_[0-9a-f]{12}_$\<close>, matched in full; \<^verbatim>\<open>$\<close> adds nothing after the last character.\<close>

definition lower_hex :: "char \<Rightarrow> bool" where
  "lower_hex c \<longleftrightarrow> digit c \<or> (CHR ''a'' \<le> c \<and> c \<le> CHR ''f'')"

definition execution_prefix :: "string \<Rightarrow> bool" where
  "execution_prefix p \<longleftrightarrow>
     length p = 16 \<and> take 3 p = ''ce_'' \<and> list_all lower_hex (take 12 (drop 3 p)) \<and> drop 15 p = ''_''"

definition reject_broad_client_order_prefix :: "string option \<Rightarrow> exn + unit" where
  "reject_broad_client_order_prefix p =
     (case p of
        Some p \<Rightarrow>
          if execution_prefix p then Inr ()
          else Inl (ValueError
            ''client_order_prefix must be execution-scoped: ce_<12 lowercase hex chars>_'')
      | None \<Rightarrow> Inl (ValueError
          ''client_order_prefix must be execution-scoped: ce_<12 lowercase hex chars>_''))"

definition fill_in_time_window :: "fill \<Rightarrow> int option \<Rightarrow> int option \<Rightarrow> bool" where
  "fill_in_time_window f start_time_ms end_time_ms \<longleftrightarrow>
     (case fill_event_time_ms f of
        None \<Rightarrow> True
      | Some t \<Rightarrow>
          (case start_time_ms of None \<Rightarrow> True | Some a \<Rightarrow> \<not> t < a)
          \<and> (case end_time_ms of None \<Rightarrow> True | Some b \<Rightarrow> \<not> t > b))"

text \<open>The fills of a prefix in order; looking up a fill's order may raise.\<close>

fun matching_fills ::
  "simulator \<Rightarrow> string \<Rightarrow> string \<Rightarrow> int option \<Rightarrow> int option \<Rightarrow> fill list \<Rightarrow> exn + fill list" where
  "matching_fills s symb p t0 t1 [] = Inr []"
| "matching_fills s symb p t0 t1 (f # fs) =
     (if \<not> prefix p (fill_client_order_id f) then matching_fills s symb p t0 t1 fs
      else sbind (order_by_client_order_id (fill_client_order_id f) s) (\<lambda>(_, c).
           sbind (matching_fills s symb p t0 t1 fs) (\<lambda>rest.
             Inr (if child_symbol c = symb \<and> fill_in_time_window f t0 t1 then f # rest else rest))))"

definition sim_reconcile ::
  "string \<Rightarrow> string option \<Rightarrow> int option \<Rightarrow> int option \<Rightarrow> reconciliation_result sim" where
  "sim_reconcile symb pre t0 t1 =
     andthen (lift_res (reject_broad_client_order_prefix pre))
     (bind (gets (\<lambda>s. s)) (\<lambda>s.
        let p = the pre;
            orders = [c. ((order_symbol, coid), c) \<leftarrow> sim_orders s, order_symbol = symb \<and> prefix p coid];
            warnings = (if (symb, p) \<in> create_timeout_not_found_warnings s
                        then [''CREATE_TIMEOUT_ORDER_NOT_FOUND''] else [])
        in bind (lift_res (matching_fills s symb p t0 t1 (sim_fills s))) (\<lambda>fills.
             ret \<lparr>rr_orders = orders, rr_fills = fills, rr_warnings = warnings\<rparr>)))"

definition sim_health_check :: "bool sim" where
  "sim_health_check = gets user_stream_healthy"

definition script_fill_during_cancel :: "string \<Rightarrow> decimal \<Rightarrow> unit sim" where
  "script_fill_during_cancel p q =
     andthen (lift_res (reject_broad_client_order_prefix (Some p)))
       (modify (\<lambda>s. s\<lparr>fill_during_cancel_scripts := fill_during_cancel_scripts s @ [(p, q)]\<rparr>))"

definition script_create_timeout :: "string \<Rightarrow> unit sim" where
  "script_create_timeout p =
     andthen (lift_res (reject_broad_client_order_prefix (Some p)))
       (modify (\<lambda>s. s\<lparr>create_timeout_prefixes := create_timeout_prefixes s @ [p]\<rparr>))"

definition script_create_timeout_not_found :: "string \<Rightarrow> unit sim" where
  "script_create_timeout_not_found p =
     andthen (lift_res (reject_broad_client_order_prefix (Some p)))
       (modify (\<lambda>s. s\<lparr>create_timeout_not_found_prefixes := create_timeout_not_found_prefixes s @ [p]\<rparr>))"

definition script_cancel_reconcile_open :: "string \<Rightarrow> unit sim" where
  "script_cancel_reconcile_open p =
     andthen (lift_res (reject_broad_client_order_prefix (Some p)))
       (modify (\<lambda>s. s\<lparr>cancel_reconcile_open_prefixes := cancel_reconcile_open_prefixes s @ [p]\<rparr>))"

definition set_stream_health :: "bool \<Rightarrow> unit sim" where
  "set_stream_health healthy = modify (\<lambda>s. s\<lparr>user_stream_healthy := healthy\<rparr>)"

definition advance_clock :: "pyfloat \<Rightarrow> unit sim" where
  "advance_clock seconds =
     bind (gets (\<lambda>s. manual_clock_advance (sim_clock s) seconds)) (\<lambda>r.
     bind (lift_res r) (\<lambda>t. modify (\<lambda>s. s\<lparr>sim_clock := t\<rparr>)))"

section \<open>The adapter\<close>

definition sim_adapter :: "simulator adapter" where
  "sim_adapter =
     \<lparr>get_symbol_rules = sim_get_symbol_rules, get_position = sim_get_position,
      get_best_bid_ask = sim_get_best_bid_ask, submit_limit_order = sim_submit_limit_order,
      cancel_order = sim_cancel_order, get_order_by_client_order_id = sim_get_order,
      reconcile_orders_and_fills = sim_reconcile, health_check_streams = sim_health_check,
      clock_monotonic = (\<lambda>s. (sim_clock s, s))\<rparr>"

end
