(* ===== verification/Engine_Safety.thy ===== *)
theory Engine_Safety
  imports Engine_History
begin

text \<open>
  What the engine asks of an exchange. \<open>exchange_laws\<close> states that the operations other than a
  submission keep an invariant of the exchange's world and that quotes and rules come from given
  sets; \<open>order_guard\<close> adds that safe orders keep it. Inside, every engine operation is shown to keep
  the invariant, so the engine only ever submits safe orders.
\<close>

section \<open>Invariants of the world\<close>

definition world_kept :: "('w \<Rightarrow> bool) \<Rightarrow> execution_record \<times> 'w \<Rightarrow> execution_record \<times> 'w \<Rightarrow> bool" where
  "world_kept J s t \<longleftrightarrow> (J (snd s) \<longrightarrow> J (snd t))"

interpretation wk: evolution "world_kept J" for J
  by unfold_locales (auto simp: world_kept_def)

named_theorems kept_intro

lemmas wk_intros [kept_intro] =
  wk.ev_ret wk.ev_throw wk.ev_gets wk.ev_lift_res wk.ev_bind wk.ev_try_else wk.ev_guarded wk.ev_for_each
  evolves_if evolves_case_option evolves_case_prod evolves_case_sum evolves_Let

lemma wk_getr [kept_intro]: "evolves (world_kept J) (getr f)"
  by (simp add: getr_def wk.ev_gets)

lemma wk_modr [kept_intro]: "evolves (world_kept J) (modr f)"
  by (simp add: evolves_def modr_def modify_def world_kept_def)

lemma wk_call: "(\<And>w. J w \<Longrightarrow> J (snd (op w))) \<Longrightarrow> evolves (world_kept J) (call op)"
  by (simp add: evolves_def call_def Let_def world_kept_def)

lemma wk_on_tracker [kept_intro]: "evolves (world_kept J) (on_tracker op)"
  unfolding on_tracker_def require_exposure_tracker_def by (intro kept_intro)

lemma wk_require_tracker [kept_intro]: "evolves (world_kept J) require_exposure_tracker"
  unfolding require_exposure_tracker_def by (intro kept_intro)

lemma wk_record_steps [kept_intro]:
  "evolves (world_kept J) assert_exposure_invariant"
  "evolves (world_kept J) (set_execution_status s)"
  "evolves (world_kept J) (update_child_status i cs)"
  "evolves (world_kept J) refresh_reserved_exposure"
  unfolding assert_exposure_invariant_def set_execution_status_def update_child_status_def
    refresh_reserved_exposure_def
  by (intro kept_intro)+

lemma wk_fills [kept_intro]:
  "evolves (world_kept J) (update_child_cumulative_fill i a)"
  "evolves (world_kept J) (apply_snapshot_fill i q)"
  unfolding apply_snapshot_fill_def update_child_cumulative_fill_def apply_authoritative_trade_def
    book_trade_def advance_child_def
  by (intro kept_intro)+

lemma wk_absorb [kept_intro]:
  "evolves (world_kept J) (absorb_exchange_child i c)"
  "evolves (world_kept J) (mark_order_not_found i)"
  "evolves (world_kept J) (note_unknown_reconciled i)"
  "evolves (world_kept J) (submit_accepted i q c)"
  "evolves (world_kept J) (undo_cancel i q cs reason)"
  "evolves (world_kept J) (cancel_answered i q c)"
  unfolding submit_accepted_def undo_cancel_def cancel_answered_def absorb_exchange_child_def
    mark_order_not_found_def note_unknown_reconciled_def
  by (intro kept_intro)+

lemma wk_merge_parts [kept_intro]:
  "evolves (world_kept J) (enter_exchange_order ids x)"
  "evolves (world_kept J) (apply_exchange_fill limits f)"
  "evolves (world_kept J) (settle_exchange_order x)"
  "evolves (world_kept J) (reject_unlisted_unknown ids i)"
  "evolves (world_kept J) (refresh_child i answer)"
  "evolves (world_kept J) (reconcile_unknown_child i answer)"
  unfolding enter_exchange_order_def apply_exchange_fill_def settle_exchange_order_def
    reject_unlisted_unknown_def find_child_def refresh_child_def reconcile_unknown_child_def
  by (intro kept_intro)+

text \<open>The same for computations of the engine.\<close>

definition engine_kept :: "('w \<Rightarrow> bool) \<Rightarrow> records \<times> 'w \<Rightarrow> records \<times> 'w \<Rightarrow> bool" where
  "engine_kept J s t \<longleftrightarrow> (J (snd s) \<longrightarrow> J (snd t))"

interpretation ek: evolution "engine_kept J" for J
  by unfold_locales (auto simp: engine_kept_def)

lemmas ek_intros =
  ek.ev_ret ek.ev_throw ek.ev_lift_res ek.ev_bind evolves_if evolves_case_prod

lemma ek_ecall:
  assumes "\<And>w. J w \<Longrightarrow> J (snd (op w))"
  shows "evolves (engine_kept J) (ecall op)"
  using assms by (fastforce simp: evolves_def ecall_def engine_kept_def split: prod.split)

lemma ek_add_record: "evolves (engine_kept J) (add_record r)"
  unfolding add_record_def by (rule ek.ev_modify) (auto simp: engine_kept_def)

lemma on_execution_world:
  "snd (snd (on_execution eid m (rs, w))) =
     (case map_of rs eid of None \<Rightarrow> w | Some r \<Rightarrow> snd (snd (m (r, w))))"
  by (simp add: on_execution_def split: option.split prod.split)

lemma ek_on_execution: "evolves (world_kept J) m \<Longrightarrow> evolves (engine_kept J) (on_execution eid m)"
  unfolding evolves_def engine_kept_def world_kept_def
  by (auto simp: on_execution_world split: option.split)

section \<open>Exchanges that keep an invariant\<close>

locale exchange_laws =
  fixes A :: "'w adapter" and J :: "'w \<Rightarrow> bool"
  assumes keeps_clock: "J w \<Longrightarrow> J (snd (clock_monotonic A w))"
    and keeps_rules: "J w \<Longrightarrow> J (snd (get_symbol_rules A symb w))"
    and keeps_market: "J w \<Longrightarrow> J (snd (get_best_bid_ask A symb w))"
    and keeps_position: "J w \<Longrightarrow> J (snd (get_position A symb w))"
    and keeps_cancel: "J w \<Longrightarrow> J (snd (cancel_order A symb coid w))"
    and keeps_lookup: "J w \<Longrightarrow> J (snd (get_order_by_client_order_id A symb coid w))"
    and keeps_reconcile: "J w \<Longrightarrow> J (snd (reconcile_orders_and_fills A symb pre t0 t1 w))"
    and keeps_health: "J w \<Longrightarrow> J (snd (health_check_streams A w))"
begin

lemma wk_calls [kept_intro]:
  "evolves (world_kept J) (call (get_symbol_rules A symb))"
  "evolves (world_kept J) (call (get_best_bid_ask A symb))"
  "evolves (world_kept J) (call (cancel_order A symb coid))"
  "evolves (world_kept J) (call (get_order_by_client_order_id A symb coid))"
  "evolves (world_kept J) (call (reconcile_orders_and_fills A symb pre t0 t1))"
  "evolves (world_kept J) (call (health_check_streams A))"
  "evolves (world_kept J) (now_decimal A)"
  unfolding now_decimal_def
  by (rule wk_call, simp add: keeps_rules keeps_market keeps_cancel keeps_lookup keeps_reconcile
      keeps_health keeps_clock Let_def)+

lemma wk_conclude [kept_intro]: "evolves (world_kept J) (conclude A target reason)"
  and wk_write_summary [kept_intro]: "evolves (world_kept J) (write_summary A)"
  unfolding conclude_def write_summary_def summary_of_def by (intro kept_intro)+

lemma wk_closing [kept_intro]:
  "evolves (world_kept J) (complete A reason)"
  "evolves (world_kept J) (fail A reason)"
  "evolves (world_kept J) (fail_for_venue_ban_hard_stop A e)"
  "evolves (world_kept J) (expire_for_validation A m)"
  "evolves (world_kept J) (terminalize_deadline A reason)"
  "evolves (world_kept J) (terminalize_retryable_order_reject_limit A)"
  "evolves (world_kept J) (terminalize_manual_cancel_if_clear A)"
  unfolding fail_for_venue_ban_hard_stop_def expire_for_validation_def terminalize_deadline_def
    terminalize_retryable_order_reject_limit_def terminalize_manual_cancel_if_clear_def
    complete_def fail_def
  by (intro kept_intro)+

lemma wk_predicates [kept_intro]:
  "evolves (world_kept J) (deadline_reached A)"
  "evolves (world_kept J) (use_aggressive_deadline_price A)"
  "evolves (world_kept J) (should_cancel_for_aggressive_deadline A)"
  "evolves (world_kept J) (child_order_timed_out A i)"
  "evolves (world_kept J) (should_terminalize_cancel_remainder_deadline A)"
  "evolves (world_kept J) (should_terminalize_cancel_remainder_without_demand A)"
  "evolves (world_kept J) (should_terminalize_aggressive_deadline A)"
  "evolves (world_kept J) (record_rate_limit_backoff A)"
  "evolves (world_kept J) (rate_limit_backoff_blocks A)"
  "evolves (world_kept J) (record_retryable_order_reject A p b a reason)"
  "evolves (world_kept J) (retryable_order_reject_gate_blocks A p b a)"
  unfolding should_terminalize_cancel_remainder_deadline_def
    should_terminalize_cancel_remainder_without_demand_def should_terminalize_aggressive_deadline_def
    cancel_remainder_deadline_reached_def child_order_timed_out_def
    should_cancel_for_aggressive_deadline_def use_aggressive_deadline_price_def deadline_reached_def
    record_rate_limit_backoff_def rate_limit_backoff_blocks_def Let_def
    record_retryable_order_reject_def retryable_order_reject_gate_blocks_def
  by (intro kept_intro)+

lemma wk_cancel_failed [kept_intro]: "evolves (world_kept J) (cancel_failed A i q cs e)"
  unfolding cancel_failed_def by (cases e; simp only: exn.case; intro kept_intro)

lemma wk_submit_failed [kept_intro]: "evolves (world_kept J) (submit_failed A i q p po bid ask e)"
  unfolding submit_failed_def Let_def by (cases e; simp only: exn.case; intro kept_intro)

lemma wk_cancel_child [kept_intro]: "evolves (world_kept J) (cancel_child A i)"
  unfolding cancel_child_def by (intro kept_intro)

lemma wk_cancel_loop:
  assumes "\<And>i. evolves (world_kept J) (applies i)"
  shows "evolves (world_kept J) (cancel_loop A applies is)"
  by (induction "is") (unfold cancel_loop.simps, (intro kept_intro assms; assumption)+)

lemma wk_cancels [kept_intro]:
  "evolves (world_kept J) (cancel_active_children A)"
  "evolves (world_kept J) (cancel_passive_children_for_aggressive_deadline A)"
  "evolves (world_kept J) (cancel_timed_out_children A)"
  unfolding cancel_active_children_def cancel_passive_children_for_aggressive_deadline_def
    cancel_timed_out_children_def
  by (intro kept_intro wk_cancel_loop)+

lemma wk_finish_refresh [kept_intro]: "evolves (world_kept J) (finish_reconciliation_refresh A)"
  unfolding finish_reconciliation_refresh_def refresh_summary_def by (intro kept_intro)

lemma wk_lookup_failed [kept_intro]:
  "evolves (world_kept J) m \<Longrightarrow> evolves (world_kept J) (lookup_failed A m e)"
  unfolding lookup_failed_def by (cases e; simp only: exn.case; intro kept_intro)

lemma wk_refresh_loop [kept_intro]: "evolves (world_kept J) (refresh_loop A is)"
  by (induction "is") (unfold refresh_loop.simps lookup_child_def, (intro kept_intro; assumption)+)

lemma wk_unknown_loop [kept_intro]: "evolves (world_kept J) (unknown_loop A is)"
  by (induction "is") (unfold unknown_loop.simps lookup_child_def, (intro kept_intro; assumption)+)

lemma wk_reconcile [kept_intro]:
  "evolves (world_kept J) (refresh_order_states_exact A)"
  "evolves (world_kept J) (merge_reconciliation_result A result b)"
  "evolves (world_kept J) (reconcile A t0 t1 b)"
  unfolding refresh_order_states_exact_def reconcile_def merge_reconciliation_result_def
    reconcile_unknown_children_exact_def
  by (intro kept_intro)+

lemma wk_maybe_reprice [kept_intro]: "evolves (world_kept J) (maybe_reprice_chase A)"
  unfolding maybe_reprice_chase_def by (intro kept_intro)

lemma wk_except_validation [kept_intro]:
  "(\<And>m. evolves (world_kept J) (h m)) \<Longrightarrow> evolves (world_kept J) (except_validation e h)"
  unfolding except_validation_def by (cases e) (auto intro: kept_intro)

lemma wk_build_demand [kept_intro]: "evolves (world_kept J) (build_child_demand A)"
  unfolding build_child_demand_def price_demand_def validation_failed_def wait_or_expire_def offer_demand_def
    demand_quantity_def
  by (intro kept_intro)

lemma wk_next_demand [kept_intro]: "evolves (world_kept J) (next_demand A)"
  unfolding next_demand_def by (intro kept_intro)

lemma wk_close_after_cancel [kept_intro]: "evolves (world_kept J) (close_after_cancel A reason)"
  unfolding close_after_cancel_def unless_ended_def complete_or_def by (intro kept_intro)

lemma wk_except_stale [kept_intro]: "evolves (world_kept J) (except_stale A e)"
  unfolding except_stale_def stale_market_def by (cases e; simp only: exn.case; intro kept_intro)

lemma wk_prepare_child [kept_intro]: "evolves (world_kept J) (prepare_child A q p po)"
  unfolding prepare_child_def number_child_def append_child_def by (intro kept_intro)

lemma wk_resolve_unknown [kept_intro]: "evolves (world_kept J) (resolve_unknown A)"
  unfolding resolve_unknown_def by (intro kept_intro)

text \<open>Cancelling, reconciling and starting never submit.\<close>

lemma wk_quiet_operations:
  "evolves (world_kept J) (cancel_record A)"
  "evolves (world_kept J) (reconcile_record A t0 t1)"
  "evolves (world_kept J) (apply_result_record A result)"
  "evolves (world_kept J) (start_record A rules)"
  unfolding cancel_record_def reconcile_record_def apply_result_record_def start_record_def
    close_if_done_def unless_ended_def complete_or_def
  by (intro kept_intro)+

lemma ek_create: "evolves (engine_kept J) (create_execution A hex req)"
  unfolding create_execution_def Let_def
  by (intro ek_intros ek_ecall ek_add_record ek_on_execution wk_quiet_operations)
    (simp_all add: keeps_position keeps_rules)

lemma ek_quiet_operations:
  "evolves (engine_kept J) (get_execution eid)"
  "evolves (engine_kept J) (cancel_execution A eid)"
  "evolves (engine_kept J) (reconcile_execution A eid t0 t1)"
  "evolves (engine_kept J) (apply_reconciliation_result A eid result)"
  unfolding get_execution_def cancel_execution_def reconcile_execution_def
    apply_reconciliation_result_def
  by (intro ek_on_execution wk_quiet_operations kept_intro)+

end

section \<open>Safe orders\<close>

text \<open>
  A safe order carries out the request of \<open>r\<close>: right symbol and side, passive unless the request
  lets the deadline be aggressive, a valid client order id, a quantity that with what is already
  filled stays within the required trade, a price within the band, and exchange rules and quote, of
  those the exchange gave, that it respects.
\<close>

definition within_band :: "execution_record \<Rightarrow> decimal \<Rightarrow> bool" where
  "within_band r price \<longleftrightarrow>
     (rec_side r = BUY \<longrightarrow> price \<le> target_price_upper (request r))
     \<and> (rec_side r = SELL \<longrightarrow> target_price_lower (request r) \<le> price)"

definition respects_rules ::
  "side \<Rightarrow> symbol_rules \<Rightarrow> market_snapshot \<Rightarrow> decimal \<Rightarrow> decimal \<Rightarrow> bool \<Rightarrow> bool" where
  "respects_rules sd rules market quantity price post_only \<longleftrightarrow>
     rules_status rules = ''TRADING''
     \<and> (\<exists>k :: int. quantity = of_int k * quantity_step rules)
     \<and> (\<exists>k :: int. price = of_int k * tick_size rules)
     \<and> min_quantity rules \<le> quantity \<and> min_notional rules \<le> dmul quantity price
     \<and> (post_only \<longrightarrow> ''GTX'' \<in> supported_time_in_force rules
          \<and> (sd = BUY \<longrightarrow> price < mkt_ask market) \<and> (sd = SELL \<longrightarrow> mkt_bid market < price))"

definition safe_order ::
  "execution_record \<Rightarrow> symbol_rules set \<Rightarrow> market_snapshot set \<Rightarrow> order_request \<Rightarrow> bool" where
  "safe_order r GR GM ord \<longleftrightarrow>
     or_execution_id ord = rec_execution_id r \<and> or_symbol ord = req_symbol (request r)
     \<and> or_side ord = rec_side r \<and> \<not> or_reduce_only ord
     \<and> or_time_in_force ord = Some (if or_post_only ord then GTX else IOC)
     \<and> (or_post_only ord \<or> req_deadline_policy (request r) = AGGRESSIVE_WITHIN_RANGE)
     \<and> client_order_id_re (or_client_order_id ord)
     \<and> 0 < or_quantity ord \<and> dadd (confirmed r) (or_quantity ord) \<le> required_quantity r
     \<and> within_band r (or_price ord)
     \<and> (\<exists>rules\<in>GR. \<exists>market\<in>GM.
          respects_rules (rec_side r) rules market (or_quantity ord) (or_price ord) (or_post_only ord))"

lemma safety_check_Inr:
  assumes "safety_check r market rules q p po = Inr ()"
  shows "within_band r p" "respects_rules (rec_side r) rules market q p po"
  using assms
  by (auto simp: safety_check_def validate_child_order_safety_def sbind_Inr_iff validate_order_shape_ok
      within_band_def respects_rules_def dest: is_multiple_True)

lemma safety_check_identity:
  "identity r' = identity r \<Longrightarrow> safety_check r' market rules q p po = safety_check r market rules q p po"
  by (simp add: safety_check_def identity_def)

definition demand_ok ::
  "execution_record \<Rightarrow> symbol_rules set \<Rightarrow> market_snapshot set \<Rightarrow> demand \<Rightarrow> bool" where
  "demand_ok r GR GM d \<longleftrightarrow>
     (case d of (q, p, po, bid, ask) \<Rightarrow>
        0 < q \<and> (po \<or> req_deadline_policy (request r) = AGGRESSIVE_WITHIN_RANGE)
        \<and> (\<exists>rules\<in>GR. \<exists>market\<in>GM. safety_check r market rules q p po = Inr ()))"

lemma demand_safe:
  assumes "demand_ok r GR GM (q, p, po, bid, ask)" "identity r' = identity r"
    and "dadd (confirmed r) q \<le> required_quantity r" and "client_order_id_re coid"
  shows "safe_order r GR GM (order_request_of r' sequence coid q p po)"
  using assms
  by (auto simp: demand_ok_def safe_order_def order_request_of_def identity_def dest: safety_check_Inr)

lemma make_client_order_id_valid: "make_client_order_id eid n = Inr coid \<Longrightarrow> client_order_id_re coid"
  by (auto simp: make_client_order_id_def Let_def split: if_splits)

section \<open>The guard\<close>

definition guarded_state :: "execution_record \<Rightarrow> ('w \<Rightarrow> bool) \<Rightarrow> execution_record \<times> 'w \<Rightarrow> bool" where
  "guarded_state r J s \<longleftrightarrow> record_evolves r (fst s) \<and> J (snd s)"

definition guard_kept ::
  "execution_record \<Rightarrow> ('w \<Rightarrow> bool) \<Rightarrow> execution_record \<times> 'w \<Rightarrow> execution_record \<times> 'w \<Rightarrow> bool" where
  "guard_kept r J s t \<longleftrightarrow> (guarded_state r J s \<longrightarrow> guarded_state r J t)"

interpretation gk: evolution "guard_kept r J" for r J
  by unfold_locales (auto simp: guard_kept_def)

lemmas gk_intros =
  gk.ev_ret gk.ev_throw gk.ev_gets gk.ev_lift_res gk.ev_bind gk.ev_try_else gk.ev_guarded
  evolves_if evolves_case_option evolves_case_prod

lemma gk_both:
  "evolves state_evolves m \<Longrightarrow> evolves (world_kept J) m \<Longrightarrow> evolves (guard_kept r J) m"
  unfolding evolves_def guard_kept_def guarded_state_def world_kept_def
  using record_evolves_trans by blast

lemma gk_getr: "evolves (guard_kept r J) (getr f)"
  by (simp add: getr_def gk.ev_gets)

lemma wp_guard:
  assumes "evolves (guard_kept r J) m" "guarded_state r J s"
    and "\<And>x t. guarded_state r J t \<Longrightarrow> Q x t" and "\<And>e t. guarded_state r J t \<Longrightarrow> E e t"
  shows "wp m Q E s"
  using wp_evolves [OF assms(1), of s Q E] assms(2-) by (simp add: guard_kept_def)

definition offered ::
  "execution_record \<Rightarrow> ('w \<Rightarrow> bool) \<Rightarrow> symbol_rules set \<Rightarrow> market_snapshot set \<Rightarrow> demand option
   \<Rightarrow> execution_record \<times> 'w \<Rightarrow> bool" where
  "offered r J GR GM x t \<longleftrightarrow>
     guarded_state r J t \<and> (\<forall>d. x = Some d \<longrightarrow> demand_ok r GR GM d)"

lemma offered_None [simp]: "offered r J GR GM None t = guarded_state r J t"
  and offered_Some [simp]: "offered r J GR GM (Some d) t \<longleftrightarrow> guarded_state r J t \<and> demand_ok r GR GM d"
  by (auto simp: offered_def)

locale order_guard = exchange_laws +
  fixes GR :: "symbol_rules set" and GM :: "market_snapshot set" and r0 :: execution_record
  assumes rules_source: "J w \<Longrightarrow> get_symbol_rules A symb w = (Inr rules, w') \<Longrightarrow> rules \<in> GR"
    and market_source: "J w \<Longrightarrow> get_best_bid_ask A symb w = (Inr market, w') \<Longrightarrow> market \<in> GM"
    and keeps_submit: "J w \<Longrightarrow> safe_order r0 GR GM ord \<Longrightarrow> J (snd (submit_limit_order A ord w))"
    and start_ok: "rec_ok r0"
begin

abbreviation "G \<equiv> guarded_state r0 J"

lemma gk_ops:
  "evolves (guard_kept r0 J) require_exposure_tracker"
  "evolves (guard_kept r0 J) (modr (record_arrival market))"
  "evolves (guard_kept r0 J) (use_aggressive_deadline_price A)"
  "evolves (guard_kept r0 J) (demand_quantity A t)"
  "evolves (guard_kept r0 J) (offer_demand A d)"
  "evolves (guard_kept r0 J) (validation_failed A rules shape m)"
  unfolding demand_quantity_def offer_demand_def validation_failed_def wait_or_expire_def
  by (rule gk_both, intro evolve_intro, intro kept_intro)+

lemma wp_call_rules:
  assumes "G s" "\<And>rules t. G t \<Longrightarrow> rules \<in> GR \<Longrightarrow> Q rules t" "\<And>e t. G t \<Longrightarrow> E e t"
  shows "wp (call (get_symbol_rules A symb)) Q E s"
  using assms keeps_rules [of "snd s" symb] rules_source [of "snd s" symb]
  by (auto simp: wp_call guarded_state_def split: prod.split sum.split)

lemma wp_call_market:
  assumes "G s" "\<And>market t. G t \<Longrightarrow> market \<in> GM \<Longrightarrow> Q market t" "\<And>e t. G t \<Longrightarrow> E e t"
  shows "wp (call (get_best_bid_ask A symb)) Q E s"
  using assms keeps_market [of "snd s" symb] market_source [of "snd s" symb]
  by (auto simp: wp_call guarded_state_def split: prod.split sum.split)

lemma wp_use_aggressive:
  assumes "G s"
    and "\<And>b t. G t \<Longrightarrow> (b \<longrightarrow> req_deadline_policy (request r0) = AGGRESSIVE_WITHIN_RANGE) \<Longrightarrow> Q b t"
    and "\<And>e t. G t \<Longrightarrow> E e t"
  shows "wp (use_aggressive_deadline_price A) Q E s"
proof -
  have "request (fst s) = request r0"
    using assms(1) by (simp add: guarded_state_def record_evolves_def identity_def)
  then show ?thesis
    using assms keeps_clock [of "snd s"]
    by (simp add: use_aggressive_deadline_price_def deadline_reached_def wp_simp wp_now guarded_state_def)
qed

lemma wp_offer_demand:
  assumes "G s" "\<And>t. G t \<Longrightarrow> Q None t" "\<And>t. G t \<Longrightarrow> Q (Some d) t" "\<And>e t. G t \<Longrightarrow> E e t"
  shows "wp (offer_demand A d) Q E s"
proof -
  obtain q p po bid ask where d: "d = (q, p, po, bid, ask)" by (cases d)
  have gate: "evolves (guard_kept r0 J)
      (if po then retryable_order_reject_gate_blocks A p bid ask else ret False)"
    by (rule gk_both, intro evolve_intro, intro kept_intro)
  have clear: "evolves (guard_kept r0 J) (modr (clear_reason x) :: ('a, unit) eng)" for x
    by (rule gk_both, intro evolve_intro, intro kept_intro)
  show ?thesis
    unfolding offer_demand_def d prod.case wp_bind
    by (rule wp_guard [OF gate assms(1)])
      (auto simp: wp_ret wp_bind assms(2) assms(4) d [symmetric]
        intro!: wp_guard [OF clear] assms(3))
qed

abbreviation "offers \<equiv> offered r0 J GR GM"

lemma wp_price_demand:
  assumes t: "G t" and gave: "market \<in> GM" "rules \<in> GR"
    and aggressive: "use \<longrightarrow> req_deadline_policy (request r0) = AGGRESSIVE_WITHIN_RANGE"
  shows "wp (price_demand A market rules use q) offers (\<lambda>_. G) t"
proof (cases "q \<le> 0")
  case True
  then show ?thesis using t by (simp add: price_demand_def wp_ret)
next
  case False
  have ident: "identity (fst t) = identity r0"
    using t by (simp add: guarded_state_def record_evolves_def)
  have "wp (case safety_check (fst t) market rules q p (\<not> use) of
        Inr _ \<Rightarrow> offer_demand A (q, p, \<not> use, mkt_bid market, mkt_ask market)
      | Inl e \<Rightarrow> except_validation e (\<lambda>m.
          andthen (validation_failed A rules (shape_check (fst t) market rules q p (\<not> use)) m) (ret None)))
      offers (\<lambda>_. G) t" for p
  proof (cases "safety_check (fst t) market rules q p (\<not> use)")
    case (Inl e)
    then show ?thesis using t
      by (cases e) (auto simp: except_validation_def wp_bind wp_ret wp_throw intro!: wp_guard [OF gk_ops(6)])
  next
    case (Inr u)
    then have "demand_ok r0 GR GM (q, p, \<not> use, mkt_bid market, mkt_ask market)"
      using False gave aggressive safety_check_identity [OF ident] by (auto simp: demand_ok_def)
    then show ?thesis using t Inr by (auto intro!: wp_offer_demand)
  qed
  note checked = this
  show ?thesis
  proof (cases "rounded_price_of (\<not> use) (rec_side (fst t)) market rules")
    case (Inl e)
    then show ?thesis using t False by (simp add: price_demand_def wp_bind wp_getr wp_lift_res)
  next
    case (Inr p)
    then show ?thesis using checked [of p] False
      by (simp add: price_demand_def wp_bind wp_getr wp_lift_res Let_def)
  qed
qed

lemma wp_build_demand:
  assumes s: "G s"
  shows "wp (build_child_demand A) offers (\<lambda>_. G) s"
  unfolding build_child_demand_def wp_bind wp_getr wp_lift_res
  by (rule wp_guard [OF gk_ops(1) s], rule wp_call_market, assumption, rule wp_guard [OF gk_ops(2)],
      assumption, rule wp_call_rules, assumption, rule wp_use_aggressive, assumption,
      rule wp_guard [OF gk_ops(4)], assumption)
    (auto split: sum.split intro: wp_price_demand)

lemma gk_refresh: "evolves (guard_kept r0 J) (refresh_order_states_exact A)"
  and gk_reprice: "evolves (guard_kept r0 J) (maybe_reprice_chase A)"
  by (rule gk_both, intro evolve_intro, intro kept_intro)+

lemma wp_next_demand:
  assumes "G s"
  shows "wp (next_demand A) offers (\<lambda>_. G) s"
proof -
  have wait: "evolves (guard_kept r0 J)
      (bind (getr (\<lambda>r. req_algorithm (request r))) (\<lambda>algorithm.
        guarded (algorithm = CHASE)
          (bind (maybe_reprice_chase A) (\<lambda>repriced. guarded repriced (refresh_order_states_exact A)))))"
    by (rule gk_both, intro evolve_intro, intro kept_intro)
  show ?thesis
    unfolding next_demand_def wp_bind [of "getr (\<lambda>r. reserved r > 0)"] wp_getr wp_if
      wp_bind [of "bind _ _"]
    using assms
    by (auto intro: wp_build_demand intro!: wp_guard [OF wait] simp: wp_ret)
qed

text \<open>The order handed to the exchange is safe.\<close>

lemma start_facts:
  assumes "G s"
  shows "identity (fst s) = identity r0" "rec_ok (fst s)" "confirmed r0 \<le> confirmed (fst s)"
  using assms start_ok by (simp_all add: guarded_state_def record_evolves_def)

lemma submit_bound:
  assumes s: "G s" and check: "check_can_submit t q = Inr ()"
    and t: "rec_tracker (fst s) = Some t
      \<or> rec_tracker (fst s) = None \<and> new_exposure_tracker (required_quantity (fst s)) = Inr t"
  shows "dadd (confirmed r0) q \<le> required_quantity r0"
proof -
  note f = start_facts [OF s]
  have req: "required_quantity (fst s) = required_quantity r0" using f(1) by (simp add: identity_def)
  have ok: "tracker_ok t" "target_quantity t = required_quantity r0" "permitted_tolerance t = 0"
      "confirmed r0 \<le> confirmed_filled_quantity (tracked t)" "dec_ok (required_quantity r0)"
    using t f req
    by (auto simp: rec_ok_def tracking_ok_def exposure_of_def dest: new_exposure_tracker_ok)
  then have "confirmed_filled_quantity (tracked t)
      \<le> dadd (confirmed_filled_quantity (tracked t)) (reserved_exposure (tracked t))"
    by (intro dadd_ge_left reserved_nonneg) (simp_all add: tracker_ok_def)
  with ok(4) have "dadd (confirmed r0) q
      \<le> dadd (dadd (confirmed_filled_quantity (tracked t)) (reserved_exposure (tracked t))) q"
    by (intro dadd_mono) auto
  also have "\<dots> \<le> dadd (required_quantity r0) 0" using check ok(2,3) by simp
  also have "\<dots> = required_quantity r0" using ok(5) by (rule dadd_0_right)
  finally show ?thesis .
qed

lemma wp_identity:
  assumes "evolves state_evolves m" "\<And>x t. identity (fst t) = identity (fst u) \<Longrightarrow> Q x t"
  shows "wp m Q (\<lambda>_ _. True) u"
  using assms(1) by (rule wp_evolves) (auto simp: record_evolves_def intro: assms(2))

lemma wp_prepare_safe:
  assumes s: "G s" and d: "demand_ok r0 GR GM (q, p, po, bid, ask)"
  shows "wp (prepare_child A q p po) (\<lambda>x t. G t \<and> safe_order r0 GR GM (snd x)) (\<lambda>_ t. G t \<and> True) s"
proof (rule wp_conj)
  have "evolves (guard_kept r0 J) (prepare_child A q p po)"
    by (rule gk_both, intro evolve_intro, intro kept_intro)
  then show "wp (prepare_child A q p po) (\<lambda>_. G) (\<lambda>_. G) s" using s by (rule wp_guard)
next
  note ident = start_facts(1) [OF s]
  have number: "wp (number_child A q p po) (\<lambda>x _. safe_order r0 GR GM (snd x)) (\<lambda>_ _. True) u"
    if bound: "dadd (confirmed r0) q \<le> required_quantity r0" and u: "identity (fst u) = identity r0" for u
  proof -
    have safe: "safe_order r0 GR GM (order_request_of r' k coid q p po)"
      if "make_client_order_id eid k = Inr coid" "identity r' = identity r0" for r' k coid eid
      using demand_safe [OF d that(2) bound make_client_order_id_valid [OF that(1)]] .
    have append: "wp (append_child c submit_time po)
        (\<lambda>i. wp (getr (\<lambda>r. (i, order_request_of r k coid q p po)))
           (\<lambda>x _. safe_order r0 GR GM (snd x)) (\<lambda>_ _. True)) (\<lambda>_ _. True) v"
      if "make_client_order_id eid k = Inr coid" "identity (fst v) = identity r0"
      for c submit_time k coid eid v
      by (rule wp_identity [OF rev_append_new_child]) (simp add: wp_getr safe [OF that(1)] that(2))
    show ?thesis using u
      by (auto simp: number_child_def wp_bind wp_getr wp_modr wp_now wp_lift_res identity_def
          intro!: append [unfolded identity_def] split: sum.split)
  qed
  have start: "identity (fst s) = identity r0 \<and> identity ((fst s)\<lparr>rec_tracker := Some t\<rparr>) = identity r0" for t
    using ident by (simp add: identity_def)
  show "wp (prepare_child A q p po) (\<lambda>x _. safe_order r0 GR GM (snd x)) (\<lambda>_ _. True) s"
    unfolding prepare_child_def wp_bind wp_require_tracker wp_lift_res
    using number submit_bound [OF s] start
    by (auto simp del: check_can_submit_Inr split: option.split sum.split)
qed

lemma gk_except_stale: "evolves (guard_kept r0 J) (except_stale A e)"
  and gk_complete: "evolves (guard_kept r0 J) (complete A reason)"
  and gk_submit_accepted: "evolves (guard_kept r0 J) (submit_accepted i q c)"
  by (rule gk_both, intro evolve_intro, intro kept_intro)+

lemma wp_submit_safe:
  assumes s: "G s" and d: "demand_ok r0 GR GM (q, p, po, bid, ask)"
  shows "wp (submit_child A q p po bid ask) (\<lambda>_. G) (\<lambda>_. G) s"
proof -
  have "wp (submit_child A q p po bid ask) (\<lambda>_. state_evolves s) (\<lambda>_. state_evolves s) s"
    using rev_submit_child by (rule wp_evolves)
  moreover have "wp (submit_child A q p po bid ask) (\<lambda>_ t. J (snd t)) (\<lambda>_ t. J (snd t)) s"
    unfolding submit_child_def wp_bind
  proof (rule wp_mono [OF wp_prepare_safe [OF s d]])
    fix x :: "nat \<times> order_request" and t
    assume x: "G t \<and> safe_order r0 GR GM (snd x)"
    obtain i ord where ord: "x = (i, ord)" by (cases x)
    have "J (snd t)" using x by (simp add: guarded_state_def)
    with x ord have sub: "J (snd (submit_limit_order A ord (snd t)))" by (simp add: keeps_submit)
    have after: "wp m (\<lambda>_ t. J (snd t)) (\<lambda>_ t. J (snd t)) u"
      if "evolves (world_kept J) m" "J (snd u)" for m :: "('a, unit) eng" and u
      using that(1) by (rule wp_evolves) (use that(2) in \<open>auto simp: world_kept_def\<close>)
    show "wp (case x of (i, ord) \<Rightarrow> try_else (call (submit_limit_order A ord))
        (submit_failed A i q p po bid ask) (submit_accepted i q))
      (\<lambda>_ t. J (snd t)) (\<lambda>_ t. J (snd t)) t"
      using sub
      by (auto simp: ord wp_try_else wp_call split: prod.split sum.split
          intro!: after wk_submit_failed wk_absorb)
  qed (simp add: guarded_state_def)
  ultimately have "wp (submit_child A q p po bid ask)
      (\<lambda>_ t. state_evolves s t \<and> J (snd t)) (\<lambda>_ t. state_evolves s t \<and> J (snd t)) s" by (rule wp_conj)
  then show ?thesis
    by (rule wp_mono) (use s in \<open>auto simp: guarded_state_def intro: record_evolves_trans\<close>)
qed

lemma gk_order_phase: "evolves (guard_kept r0 J) (order_phase A)"
  unfolding evolves_wp
proof
  fix s :: "execution_record \<times> 'a"
  have complete: "wp (complete_or A (ret ())) (\<lambda>_. G) (\<lambda>_. G) t" if "G t" for t
    using that by (auto simp: complete_or_def wp_bind wp_getr wp_ret intro: wp_guard [OF gk_complete])
  have place: "wp (place_demand A d) (\<lambda>_. G) (\<lambda>_. G) t" if "G t" "demand_ok r0 GR GM d" for d t
  proof -
    obtain q p po bid ask where d: "d = (q, p, po, bid, ask)" by (cases d)
    have "wp (submit_child A q p po bid ask) (\<lambda>_. G) (\<lambda>_. G) t"
      using that by (intro wp_submit_safe) (simp_all add: d)
    then have "wp (submit_child A q p po bid ask) (\<lambda>_. wp (complete_or A (ret ())) (\<lambda>_. G) (\<lambda>_. G))
        (\<lambda>e. wp (except_stale A e) (\<lambda>_. G) (\<lambda>_. G)) t"
      by (rule wp_mono) (auto intro: complete wp_guard [OF gk_except_stale])
    then show ?thesis using complete [OF that(1)]
      by (simp add: place_demand_def d wp_try_else)
  qed
  have "wp (order_phase A) (\<lambda>_. G) (\<lambda>_. G) s" if "G s"
  proof -
    have "wp (next_demand A) (\<lambda>x. wp (case x of None \<Rightarrow> ret () | Some d \<Rightarrow> place_demand A d)
          (\<lambda>_. G) (\<lambda>_. G)) (\<lambda>e. wp (except_stale A e) (\<lambda>_. G) (\<lambda>_. G)) s"
      by (rule wp_mono [OF wp_next_demand [OF that]])
        (auto simp: wp_ret intro: place wp_guard [OF gk_except_stale] split: option.split)
    then show ?thesis by (simp add: order_phase_def wp_try_else)
  qed
  then show "wp (order_phase A) (\<lambda>_. guard_kept r0 J s) (\<lambda>_. guard_kept r0 J s) s"
    by (cases "G s") (auto simp: guard_kept_def wp_def split: prod.splits sum.splits)
qed

text \<open>Every run of an execution keeps the invariant, so it submits only safe orders.\<close>

lemma run_once_guarded: "evolves (guard_kept r0 J) (run_once_record A)"
proof -
  note both = gk_both [where r = r0 and J = J]
  have quiet: "evolves (guard_kept r0 J) (refresh_order_states_exact A)"
    "evolves (guard_kept r0 J) (close_after_cancel A reason)"
    "evolves (guard_kept r0 J) (terminalize_deadline A reason)"
    "evolves (guard_kept r0 J) (terminalize_manual_cancel_if_clear A)"
    "evolves (guard_kept r0 J) (should_terminalize_aggressive_deadline A)"
    "evolves (guard_kept r0 J) (should_terminalize_cancel_remainder_deadline A)"
    "evolves (guard_kept r0 J) (should_terminalize_cancel_remainder_without_demand A)"
    "evolves (guard_kept r0 J) (should_cancel_for_aggressive_deadline A)"
    "evolves (guard_kept r0 J) (cancel_timed_out_children A)"
    "evolves (guard_kept r0 J) (cancel_passive_children_for_aggressive_deadline A)"
    "evolves (guard_kept r0 J) (call (health_check_streams A))"
    "evolves (guard_kept r0 J) (deadline_reached A)"
    "evolves (guard_kept r0 J) (modr (set_final_reason reason))"
    "evolves (guard_kept r0 J) (resolve_unknown A)"
    "evolves (guard_kept r0 J) (rate_limit_backoff_blocks A)" for reason
    by (rule both, intro evolve_intro, intro kept_intro)+
  show ?thesis
    unfolding run_once_record_def health_phase_def deadline_phase_def aggressive_phase_def
      timeout_phase_def unless_ended_def complete_or_def
    by (intro gk_intros gk_getr gk_order_phase gk_complete quiet)
qed

end

section \<open>Client operations\<close>

text \<open>Every client operation keeps an invariant that safe orders and the other exchange operations keep.\<close>

lemma perform_guarded_records:
  assumes laws: "exchange_laws A J"
    and guard: "\<And>eid r. map_of (fst s) eid = Some r \<Longrightarrow> order_guard A J GR GM r"
    and J: "J (snd s)"
  shows "J (snd (snd (perform A op s)))"
proof -
  have kept: "J (snd (snd (m s)))" if "evolves (engine_kept J) m" for m :: "('a, execution_record) engine"
    using evolvesD [OF that, of s] J by (simp add: engine_kept_def)
  have run: "J (snd (snd (run_once_record A (r, snd s))))" if "map_of (fst s) eid = Some r" for eid r
  proof -
    have "guarded_state r J (r, snd s)" using J by (simp add: guarded_state_def)
    with evolvesD [OF order_guard.run_once_guarded [OF guard [OF that]], of "(r, snd s)"]
    show ?thesis by (simp add: guard_kept_def guarded_state_def)
  qed
  show ?thesis
  proof (cases op)
    case (Run_Once eid)
    then show ?thesis
      using J run by (cases s) (simp add: run_once_def on_execution_world split: option.split)
  qed (simp_all add: kept exchange_laws.ek_create [OF laws] exchange_laws.ek_quiet_operations [OF laws])
qed

lemma perform_guarded:
  assumes guard: "\<And>r. rec_ok r \<Longrightarrow> order_guard A J GR GM r"
    and ok: "engine_ok (fst s)" and J: "J (snd s)"
  shows "J (snd (snd (perform A op s)))"
proof (rule perform_guarded_records [where J = J])
  have "rec_ok (new_execution_record [] (undefined :: execution_request) BUY 0 undefined 0 0)"
    by (simp add: new_execution_record_def rec_ok_def fills_ok_def tracking_ok_def closing_ok_def
        intervals_of_def intervals_ok_def rebuilt_vwap_inputs_def)
  from guard [OF this] show "exchange_laws A J" by (simp add: order_guard_def)
  show "order_guard A J GR GM r" if "map_of (fst s) eid = Some r" for eid r
    using guard ok that by (simp add: engine_ok_def)
qed (rule J)

end
