(* ===== verification/Simulator_Laws.thy ===== *)
theory Simulator_Laws
  imports Simulator Engine_Safety
begin

text \<open>
  The invariant of the simulator, that each of its operations keeps it, and the interpretation of
  the exchange contract of the engine on it: every quote it gives is fresh and uncrossed, and the
  orders the engine submits keep its books in order.
\<close>

section \<open>The invariant\<close>

definition order_ok :: "order_key \<Rightarrow> child_order \<Rightarrow> bool" where
  "order_ok key c \<longleftrightarrow>
     key = (child_symbol c, client_order_id c) \<and> 0 < submitted_quantity c \<and> 0 \<le> child_filled c
     \<and> child_status c \<in> {OPEN, PARTIALLY_FILLED, PENDING_CANCEL, CHILD_CANCELLED, FILLED}
     \<and> (child_status c = FILLED \<longleftrightarrow> remaining_quantity c = 0)
     \<and> (child_status c = OPEN \<longrightarrow> child_filled c = 0)
     \<and> (child_status c = PARTIALLY_FILLED \<longrightarrow> 0 < child_filled c)"

definition sim_ok :: "simulator \<Rightarrow> bool" where
  "sim_ok s \<longleftrightarrow>
     distinct (map fst (sim_orders s))
     \<and> (\<forall>key c. map_of (sim_orders s) key = Some c \<longrightarrow> order_ok key c)
     \<and> (\<forall>f \<in> set (sim_fills s). 0 < last_filled_quantity f)"

lemma set_order_ok: "sim_ok s \<Longrightarrow> order_ok key c \<Longrightarrow> sim_ok (set_order key c s)"
  by (auto simp: sim_ok_def set_order_def update_conv' distinct_update)

lemma put_event_ok [simp]: "sim_ok (put_event e s) = sim_ok s"
  by (simp add: sim_ok_def put_event_def)

lemma sim_ok_cong:
  "sim_orders s' = sim_orders s \<Longrightarrow> sim_fills s' = sim_fills s \<Longrightarrow> sim_ok s' = sim_ok s"
  by (simp add: sim_ok_def)

lemma found_order:
  assumes "sim_ok s" "order_by_client_order_id coid s = Inr (key, c)"
  shows "map_of (sim_orders s) key = Some c" "order_ok key c" "snd key = coid"
proof -
  have "filter (\<lambda>((_, stored), _). stored = coid) (sim_orders s) = [(key, c)]"
    using assms(2) by (auto simp: order_by_client_order_id_def split: list.splits)
  then have "(key, c) \<in> set (filter (\<lambda>((_, stored), _). stored = coid) (sim_orders s))" by simp
  then have "(key, c) \<in> set (sim_orders s)" "snd key = coid" by auto
  then show "map_of (sim_orders s) key = Some c" "snd key = coid"
    using assms(1) by (simp_all add: sim_ok_def)
  then show "order_ok key c" using assms(1) unfolding sim_ok_def by blast
qed

section \<open>Fills\<close>

text \<open>A fill moves the order it was given for to the status of its new quantity.\<close>

definition filled_by :: "decimal \<Rightarrow> child_order \<Rightarrow> child_order" where
  "filled_by q c =
     (let c = c\<lparr>child_filled := dadd (child_filled c) q\<rparr>
      in c\<lparr>child_status := (if remaining_quantity c = 0 then FILLED else PARTIALLY_FILLED)\<rparr>)"

lemma remaining_status [simp]: "remaining_quantity (c\<lparr>child_status := x\<rparr>) = remaining_quantity c"
  by (simp add: remaining_quantity_def)

lemma dadd_positive: "0 \<le> x \<Longrightarrow> 0 < y \<Longrightarrow> 0 < dadd x y"
  by (simp add: dadd_def)

lemma move_filled:
  assumes "order_ok key c" "0 < q" "child_status c \<notin> {CHILD_CANCELLED, FILLED, REJECTED}"
  defines "d \<equiv> c\<lparr>child_filled := dadd (child_filled c) q\<rparr>"
  shows "move_order (open_status_for d) d = Inr (filled_by q c)" and "order_ok key (filled_by q c)"
proof -
  have pos: "0 < child_filled d" using assms by (simp add: order_ok_def dadd_positive)
  have st: "child_status c \<in> {OPEN, PARTIALLY_FILLED, PENDING_CANCEL}"
    using assms(1,3) by (auto simp: order_ok_def)
  have f: "filled_by q c = d\<lparr>child_status := open_status_for d\<rparr>"
    using pos by (simp add: filled_by_def d_def Let_def)
  have same: "child_status d = child_status c" by (simp add: d_def)
  have tgt: "open_status_for d \<in> {FILLED, PARTIALLY_FILLED}" using pos by simp
  have "child_step (child_status d) (open_status_for d)" if "child_status d \<noteq> open_status_for d"
    using that st tgt by (auto simp: child_step_simps same simp del: open_status_for.simps)
  then show "move_order (open_status_for d) d = Inr (filled_by q c)"
    by (auto simp: move_order_def f sbind_Inr_iff simp del: open_status_for.simps)
  show "order_ok key (filled_by q c)"
    using assms(1) pos by (auto simp: f order_ok_def d_def)
qed

definition fill_of :: "simulator \<Rightarrow> string \<Rightarrow> decimal \<Rightarrow> decimal \<Rightarrow> child_order \<Rightarrow> fill" where
  "fill_of s coid q price c =
     \<lparr>fill_client_order_id = coid,
      fill_trade_id = Some (''sim_trade_'' @ padded 6 (int (trade_sequence s + 1))),
      cumulative_filled_quantity = child_filled c, last_filled_quantity = q,
      last_fill_price = price, fill_event_time_ms = Some (clock_time_ms (sim_clock s)),
      fill_transaction_time_ms = Some (clock_time_ms (sim_clock s)), is_maker = None\<rparr>"

definition moved_position :: "side \<Rightarrow> decimal \<Rightarrow> decimal \<Rightarrow> decimal" where
  "moved_position sd position q =
     (if sd = BUY then dadd position q else if sd = SELL then dsub position q else position)"

lemma set_order_twice: "set_order key c' (set_order key c s) = set_order key c' s"
  by (simp add: set_order_def)

text \<open>The complete behaviour of a fill on a well-formed simulator.\<close>

lemma push_fill_result:
  assumes s: "sim_ok s"
  shows "push_fill coid q price s =
    (if q \<le> 0 then (Inl (ValueError ''fill quantity must be positive''), s)
     else case order_by_client_order_id coid s of
       Inl e \<Rightarrow> (Inl e, s)
     | Inr (key, c) \<Rightarrow>
         if child_status c \<in> {CHILD_CANCELLED, FILLED, REJECTED}
         then (Inl (OrderRejected (''cannot fill terminal order '' @ coid)), s)
         else if q > remaining_quantity c
         then (Inl (OrderRejected (''fill exceeds remaining quantity for '' @ coid)), s)
         else
           let d = filled_by q c; f = fill_of s coid q price d;
               s1 = (set_order key d s)
                 \<lparr>sim_position := moved_position (child_side c) (sim_position s) q,
                  trade_sequence := trade_sequence s + 1, sim_fills := sim_fills s @ [f]\<rparr>
           in (Inr f, put_event \<lparr>event_kind = Fill_Event, event_client_order_id = coid,
                event_order = Some key, event_fill = Some f\<rparr> s1))"
proof (cases "q \<le> 0")
  case False
  then have q: "0 < q" by simp
  show ?thesis
  proof (cases "order_by_client_order_id coid s")
    case (Inl e)
    then show ?thesis using False by (simp add: push_fill_def bind_def gets_def lift_res_def)
  next
    case (Inr x)
    obtain key c where x: "x = (key, c)" by (cases x)
    note ok = found_order(2) [OF s Inr [unfolded x]]
    show ?thesis
    proof (cases "child_status c \<in> {CHILD_CANCELLED, FILLED, REJECTED} \<or> q > remaining_quantity c")
      case True
      then show ?thesis using False Inr x
        by (auto simp: push_fill_def bind_def gets_def lift_res_def throw_def)
    next
      case rest: False
      note mv = move_filled(1) [OF ok q]
      have "child_side (filled_by q c) = child_side c" by (simp add: filled_by_def Let_def)
      then show ?thesis using False Inr x rest mv
        by (simp add: push_fill_def bind_def gets_def lift_res_def modify_def ret_def Let_def
            set_order_twice set_order_def fill_of_def moved_position_def put_event_def
            del: open_status_for.simps)
    qed
  qed
qed (simp add: push_fill_def throw_def)

lemma booked_ok:
  assumes "sim_ok s" "order_ok key d" "0 < last_filled_quantity f"
  shows "sim_ok ((set_order key d s)\<lparr>sim_position := p, trade_sequence := n, sim_fills := sim_fills s @ [f]\<rparr>)"
proof -
  have "sim_ok (set_order key d s)" using assms(1,2) by (rule set_order_ok)
  with assms(3) show ?thesis by (simp add: sim_ok_def set_order_def ball_Un)
qed

lemma push_fill_ok:
  assumes s: "sim_ok s"
  shows "sim_ok (snd (push_fill coid q price s))"
proof (cases "q \<le> 0")
  case False
  then have q: "0 < q" by simp
  show ?thesis
  proof (cases "order_by_client_order_id coid s")
    case (Inr x)
    obtain key c where x: "x = (key, c)" by (cases x)
    note ok = found_order(2) [OF s Inr [unfolded x]]
    have "sim_ok ((set_order key (filled_by q c) s)\<lparr>sim_position := p, trade_sequence := n,
        sim_fills := sim_fills s @ [fill_of s coid q price (filled_by q c)]\<rparr>)"
      if "child_status c \<notin> {CHILD_CANCELLED, FILLED, REJECTED}" for p n
      using s move_filled(2) [OF ok q that] by (rule booked_ok) (simp add: fill_of_def q)
    then show ?thesis using s False Inr x by (simp add: push_fill_result Let_def)
  qed (use s in \<open>simp add: push_fill_result\<close>)
qed (use s in \<open>simp add: push_fill_result\<close>)

lemma push_fill_keeps_keys:
  assumes "sim_ok s" "map_of (sim_orders s) key \<noteq> None"
  shows "map_of (sim_orders (snd (push_fill coid q price s))) key \<noteq> None"
  using assms
  by (auto simp: push_fill_result Let_def set_order_def put_event_def update_conv'
      split: sum.split prod.split)

section \<open>Cancelling\<close>

definition holds_order :: "order_key \<Rightarrow> simulator \<Rightarrow> bool" where
  "holds_order key s \<longleftrightarrow> sim_ok s \<and> map_of (sim_orders s) key \<noteq> None"

lemma order_at_ok:
  assumes "holds_order key s"
  shows "order_ok key (order_at key s)"
proof -
  obtain c where c: "map_of (sim_orders s) key = Some c" using assms by (auto simp: holds_order_def)
  have "order_ok key c" using assms c unfolding holds_order_def sim_ok_def by blast
  with c show ?thesis by (simp add: order_at_def)
qed

lemma holds_order_ok: "holds_order key s \<Longrightarrow> sim_ok s"
  by (simp add: holds_order_def)

lemma holds_set_order: "holds_order key s \<Longrightarrow> order_ok key c \<Longrightarrow> holds_order key (set_order key c s)"
  unfolding holds_order_def using set_order_ok [of s key c]
  by (simp add: set_order_def update_conv')

lemma order_at_set_order [simp]: "order_at key (set_order key c s) = c"
  by (simp add: order_at_def set_order_def update_conv')

lemma holds_order_cong:
  "sim_orders s' = sim_orders s \<Longrightarrow> sim_fills s' = sim_fills s \<Longrightarrow> holds_order key s' = holds_order key s"
  by (simp add: holds_order_def sim_ok_def)

lemmas wp_forms = wp_bind wp_gets wp_modify wp_ret wp_bind_fun wp_gets_fun wp_modify_fun wp_ret_fun

lemma wp_move_order_at:
  assumes "holds_order key s"
    and "child_step (child_status (order_at key s)) target \<Longrightarrow>
      order_ok key ((order_at key s)\<lparr>child_status := target\<rparr>)"
    and "\<And>t. holds_order key t \<Longrightarrow> order_at key t = (order_at key s)\<lparr>child_status := target\<rparr> \<Longrightarrow> Q () t"
    and "\<And>e. E e s"
  shows "wp (move_order_at key target) Q E s"
  using assms holds_set_order
  by (auto simp: move_order_at_def wp_simp split: sum.split)

lemma wp_finish_cancel:
  assumes h: "holds_order key s" and live: "\<not> child_status_is_terminal (child_status (order_at key s))"
  shows "wp (finish_cancel key) (\<lambda>_. sim_ok) (\<lambda>_. sim_ok) s"
proof -
  let ?c = "order_at key s"
  have ok: "order_ok key ?c" using h by (rule order_at_ok)
  have st: "child_status ?c \<in> {OPEN, PARTIALLY_FILLED, PENDING_CANCEL}"
    using ok live by (auto simp: order_ok_def)
  have cancelled: "order_ok key (?c\<lparr>child_status := x\<rparr>)" if "x \<in> {PENDING_CANCEL, CHILD_CANCELLED}" for x
    using ok st that by (auto simp: order_ok_def)
  have reopened: "order_ok key (?c\<lparr>child_status := open_status_for ?c\<rparr>)"
    using ok st by (auto simp: order_ok_def)
  let ?safe = "\<lambda>m t. wp m (\<lambda>_. sim_ok) (\<lambda>_. sim_ok) t"
  have stay: "wp (if child_status ?c \<noteq> open_status_for ?c then move_order_at key (open_status_for ?c)
      else ret ()) (\<lambda>_. ?safe (gets (order_at key))) (\<lambda>_. sim_ok) t"
    if "holds_order key t" "order_at key t = ?c" for t
  proof (cases "child_status ?c = open_status_for ?c")
    case True
    then show ?thesis using holds_order_ok [OF that(1)] by (simp add: wp_ret wp_gets del: open_status_for.simps)
  next
    case False
    have "wp (move_order_at key (open_status_for ?c)) (\<lambda>_. ?safe (gets (order_at key))) (\<lambda>_. sim_ok) t"
      by (rule wp_move_order_at [OF that(1)])
        (use that reopened holds_order_ok in \<open>simp_all add: wp_gets del: open_status_for.simps\<close>)
    then show ?thesis using False by (simp del: open_status_for.simps)
  qed
  have drop: "holds_order key (s\<lparr>cancel_reconcile_open_prefixes := ps\<rparr>)"
    "order_at key (s\<lparr>cancel_reconcile_open_prefixes := ps\<rparr>) = ?c" for ps
    using h holds_order_cong [of "s\<lparr>cancel_reconcile_open_prefixes := ps\<rparr>" s key]
    by (simp_all add: order_at_def)
  let ?tail = "andthen (modify (put_event
      \<lparr>event_kind = Order_Cancelled, event_client_order_id = snd key, event_order = Some key,
       event_fill = None\<rparr>)) (gets (order_at key))"
  have cancel: "wp (move_order_at key CHILD_CANCELLED) (\<lambda>_. ?safe ?tail) (\<lambda>_. sim_ok) t"
    if "holds_order key t" "order_at key t = ?c \<or> order_at key t = ?c\<lparr>child_status := PENDING_CANCEL\<rparr>" for t
    by (rule wp_move_order_at [OF that(1)])
      (use that cancelled [of CHILD_CANCELLED] holds_order_ok in \<open>auto simp: wp_bind wp_modify wp_gets\<close>)
  have mark: "wp (if child_status ?c \<noteq> PENDING_CANCEL then move_order_at key PENDING_CANCEL else ret ())
      (\<lambda>_. wp (move_order_at key CHILD_CANCELLED) (\<lambda>_. ?safe ?tail) (\<lambda>_. sim_ok)) (\<lambda>_. sim_ok) s"
  proof (cases "child_status ?c = PENDING_CANCEL")
    case True
    then show ?thesis using cancel [OF h] by (simp add: wp_ret)
  next
    case False
    have "wp (move_order_at key PENDING_CANCEL)
        (\<lambda>_. wp (move_order_at key CHILD_CANCELLED) (\<lambda>_. ?safe ?tail) (\<lambda>_. sim_ok)) (\<lambda>_. sim_ok) s"
      by (rule wp_move_order_at [OF h])
        (use cancelled [of PENDING_CANCEL] holds_order_ok [OF h] in \<open>auto intro: cancel\<close>)
    then show ?thesis using False by simp
  qed
  show ?thesis
  proof (cases "pop_matching (cancel_reconcile_open_prefixes s) (snd key)")
    case None
    then show ?thesis using mark unfolding finish_cancel_def wp_bind wp_gets wp_modify
      by (simp add: wp_forms split del: if_split)
  next
    case (Some x)
    then show ?thesis using stay [OF drop, of "snd x"]
      unfolding finish_cancel_def wp_bind wp_gets wp_modify
      by (cases x) (simp add: wp_forms del: open_status_for.simps split del: if_split)
  qed
qed

lemma sim_cancel_ok:
  assumes "sim_ok s"
  shows "wp (sim_cancel_order symb coid) (\<lambda>_. sim_ok) (\<lambda>_. sim_ok) s"
proof (cases "map_of (sim_orders s) (symb, coid)")
  case (Some c)
  let ?k = "(symb, coid)"
  have h: "holds_order ?k s" using assms Some by (simp add: holds_order_def)
  have c: "order_at ?k s = c" using Some by (simp add: order_at_def)
  have ok: "order_ok ?k c" using order_at_ok [OF h] c by simp
  have finish: "wp (bind (gets (order_at ?k)) (\<lambda>c. if child_status_is_terminal (child_status c) then ret c
      else finish_cancel ?k)) (\<lambda>_. sim_ok) (\<lambda>_. sim_ok) t" if "holds_order ?k t" for t
    using that wp_finish_cancel [OF that] by (auto simp: wp_simp dest: holds_order_ok
        simp del: child_status_is_terminal.simps)
  have fill: "wp (push_fill coid q price) (\<lambda>_. holds_order ?k) (\<lambda>_. sim_ok) t" if "holds_order ?k t"
    for q price t
    using that push_fill_ok [of t coid q price] push_fill_keeps_keys [of t ?k coid q price]
    by (auto simp: wp_def holds_order_def split: prod.split sum.split)
  have marked: "order_ok ?k (c\<lparr>child_status := PENDING_CANCEL\<rparr>)"
    if "\<not> child_status_is_terminal (child_status c)"
    using ok that by (auto simp: order_ok_def)
  let ?body = "bind (consume_fill_during_cancel coid) (\<lambda>scripted.
      andthen (case scripted of None \<Rightarrow> ret () | Some q \<Rightarrow> bind (push_fill coid q (child_price c)) (\<lambda>_. ret ()))
      (bind (gets (order_at ?k)) (\<lambda>c. if child_status_is_terminal (child_status c) then ret c
         else finish_cancel ?k)))"
  have body: "wp ?body (\<lambda>_. sim_ok) (\<lambda>_. sim_ok) t" if t: "holds_order ?k t" for t
  proof -
    have scripts: "holds_order ?k (t\<lparr>fill_during_cancel_scripts := x\<rparr>)" for x
      using t holds_order_cong [of "t\<lparr>fill_during_cancel_scripts := x\<rparr>" t ?k] by simp
    have "wp (push_fill coid q (child_price c)) (\<lambda>_. wp (bind (gets (order_at ?k))
        (\<lambda>c. if child_status_is_terminal (child_status c) then ret c else finish_cancel ?k))
        (\<lambda>_. sim_ok) (\<lambda>_. sim_ok)) (\<lambda>_. sim_ok) (t\<lparr>fill_during_cancel_scripts := x\<rparr>)" for q x
      by (rule wp_mono [OF fill [OF scripts]], erule finish)
    note scripted = this
    show ?thesis
    proof (cases "pop_script (fill_during_cancel_scripts t) coid")
      case None
      then show ?thesis using finish [OF t]
        by (simp add: consume_fill_during_cancel_def wp_forms del: child_status_is_terminal.simps
            split del: if_split)
    next
      case (Some x)
      then show ?thesis using scripted [of "fst x" "snd x"]
        by (cases x) (simp add: consume_fill_during_cancel_def wp_forms
            del: child_status_is_terminal.simps split del: if_split)
    qed
  qed
  show ?thesis
  proof (cases "child_status_is_terminal (child_status c)")
    case True
    then show ?thesis using Some assms by (simp add: sim_cancel_order_def wp_simp)
  next
    case False
    have "wp (move_order_at ?k PENDING_CANCEL) (\<lambda>_. wp ?body (\<lambda>_. sim_ok) (\<lambda>_. sim_ok)) (\<lambda>_. sim_ok) s"
      by (rule wp_move_order_at [OF h]) (use marked [OF False] assms body c in simp_all)
    then show ?thesis using Some False
      by (simp add: sim_cancel_order_def wp_bind [of "gets _"] wp_gets wp_bind [of "move_order_at _ _"]
          del: child_status_is_terminal.simps)
  qed
qed (use assms in \<open>simp add: sim_cancel_order_def wp_simp\<close>)

section \<open>Submissions and the other operations\<close>

lemma new_order_ok:
  "0 < or_quantity ord \<Longrightarrow>
   order_ok (or_symbol ord, or_client_order_id ord)
     ((new_child_order (or_child_order_id ord) (or_client_order_id ord) (or_symbol ord)
        (or_side ord) (or_quantity ord) (or_price ord))
      \<lparr>exchange_order_id := x, child_status := OPEN\<rparr>)"
  by (simp add: order_ok_def new_child_order_def remaining_quantity_def Let_def)

definition sim_kept :: "simulator \<Rightarrow> simulator \<Rightarrow> bool" where
  "sim_kept s t \<longleftrightarrow> (sim_ok s \<longrightarrow> sim_ok t)"

interpretation sk: evolution sim_kept
  by unfold_locales (auto simp: sim_kept_def)

lemmas sk_intros =
  sk.ev_ret sk.ev_throw sk.ev_gets sk.ev_lift_res sk.ev_bind sk.ev_try_else sk.ev_guarded
  evolves_if evolves_case_option evolves_case_prod evolves_Let

lemma sk_modify:
  "(\<And>s. sim_orders (f s) = sim_orders s) \<Longrightarrow> (\<And>s. sim_fills (f s) = sim_fills s) \<Longrightarrow>
   evolves sim_kept (modify f)"
  by (rule sk.ev_modify) (simp add: sim_kept_def sim_ok_def)

lemma sk_create_open_order:
  assumes "0 < or_quantity ord"
  shows "evolves sim_kept (create_open_order ord)"
  unfolding evolves_wp
proof
  fix s
  have step: "transition_child PENDING_SUBMIT OPEN = Inr OPEN" by (simp add: child_step_simps)
  have "sim_ok (s\<lparr>exchange_order_sequence := n\<rparr>) = sim_ok s" for n
    by (rule sim_ok_cong) simp_all
  then have "sim_ok s \<Longrightarrow> sim_ok (set_order (or_symbol ord, or_client_order_id ord)
      ((new_child_order (or_child_order_id ord) (or_client_order_id ord) (or_symbol ord)
        (or_side ord) (or_quantity ord) (or_price ord)) \<lparr>exchange_order_id := x, child_status := OPEN\<rparr>)
      (s\<lparr>exchange_order_sequence := n\<rparr>))" for x n
    by (intro set_order_ok new_order_ok assms) simp
  then show "wp (create_open_order ord) (\<lambda>_. sim_kept s) (\<lambda>_. sim_kept s) s"
    by (simp add: create_open_order_def wp_simp Let_def new_child_order_def step sim_kept_def
        del: transition_child_Inr)
qed

lemma sk_submit:
  "0 < or_quantity ord \<Longrightarrow> evolves sim_kept (sim_submit_limit_order ord)"
  unfolding sim_submit_limit_order_def sim_get_best_bid_ask_def validate_order_time_in_force_def
    sim_get_symbol_rules_def Let_def
  by (intro sk_intros sk_create_open_order sk_modify) (auto simp: put_event_def)

lemma sk_cancel: "evolves sim_kept (sim_cancel_order symb coid)"
  unfolding evolves_def sim_kept_def
proof (intro allI impI)
  fix s assume "sim_ok s"
  from sim_cancel_ok [OF this, of symb coid] show "sim_ok (snd (sim_cancel_order symb coid s))"
    by (cases "sim_cancel_order symb coid s") (auto simp: wp_def split: sum.splits)
qed

lemma sk_reads:
  "evolves sim_kept (sim_get_symbol_rules symb)"
  "evolves sim_kept (sim_get_position symb)"
  "evolves sim_kept (sim_get_best_bid_ask symb)"
  "evolves sim_kept (sim_get_order symb coid)"
  "evolves sim_kept (sim_reconcile symb pre t0 t1)"
  "evolves sim_kept sim_health_check"
  unfolding sim_get_symbol_rules_def sim_get_position_def sim_get_best_bid_ask_def sim_get_order_def
    sim_reconcile_def sim_health_check_def Let_def
  by (intro sk_intros)+

lemma sk_controls:
  "evolves sim_kept (set_symbol_rules rules)"
  "evolves sim_kept (push_market_data symb bid ask t)"
  "evolves sim_kept (push_fill coid q price)"
  "evolves sim_kept (inject_reconciliation_fill f)"
  "evolves sim_kept (script_fill_during_cancel p q)"
  "evolves sim_kept (script_create_timeout p)"
  "evolves sim_kept (script_create_timeout_not_found p)"
  "evolves sim_kept (script_cancel_reconcile_open p)"
  "evolves sim_kept (set_stream_health b)"
  "evolves sim_kept (advance_clock seconds)"
  "evolves sim_kept next_market_event"
  "evolves sim_kept next_user_event"
proof -
  show "evolves sim_kept (push_fill coid q price)"
    by (simp add: evolves_def sim_kept_def push_fill_ok)
  show "evolves sim_kept (inject_reconciliation_fill f)"
    unfolding inject_reconciliation_fill_def
    by (intro sk_intros sk.ev_modify) (simp add: sim_kept_def sim_ok_def ball_Un)
  show "evolves sim_kept next_market_event" "evolves sim_kept next_user_event"
    by (auto simp: next_market_event_def next_user_event_def evolves_def sim_kept_def sim_ok_def
        bind_def gets_def ret_def modify_def split: list.split)
qed (unfold set_symbol_rules_def push_market_data_def script_fill_during_cancel_def
    script_create_timeout_def script_create_timeout_not_found_def script_cancel_reconcile_open_def
    set_stream_health_def advance_clock_def Let_def, (intro sk_intros sk_modify; simp)+)

section \<open>The exchange contract\<close>

lemma fresh_quote:
  "sim_get_best_bid_ask symb s = (Inr m, t) \<Longrightarrow>
     t = s \<and> map_of (sim_market s) symb = Some m \<and> \<not> is_crossed m
     \<and> fsub (sim_clock s) (last_market_event_time_local m) \<le> stale_market_data_seconds s"
  by (auto simp: sim_get_best_bid_ask_def bind_def gets_def throw_def ret_def
      split: option.splits if_splits)

interpretation sim_laws: exchange_laws sim_adapter sim_ok
proof unfold_locales
qed (simp_all add: sim_adapter_def sk_reads [unfolded evolves_def sim_kept_def, rule_format]
    sk_cancel [unfolded evolves_def sim_kept_def, rule_format])

lemma new_record_ok: "dec_ok q \<Longrightarrow> rec_ok (new_execution_record eid req sd q pos raw dust)"
  by (simp add: new_execution_record_def rec_ok_def fills_ok_def tracking_ok_def closing_ok_def
      intervals_of_def intervals_ok_def rebuilt_vwap_inputs_def)

lemma sim_order_guard:
  assumes "rec_ok r"
  shows "order_guard sim_adapter sim_ok UNIV {m. \<not> is_crossed m} r"
proof unfold_locales
  show "rec_ok r" by (rule assms)
  show "market \<in> {m. \<not> is_crossed m}"
    if "sim_ok w" "get_best_bid_ask sim_adapter symb w = (Inr market, w')" for w symb market w'
    using that fresh_quote by (auto simp: sim_adapter_def)
  show "sim_ok (snd (submit_limit_order sim_adapter ord w))"
    if "sim_ok w" "safe_order r UNIV {m. \<not> is_crossed m} ord" for w ord
    using that sk_submit [of ord] by (auto simp: sim_adapter_def evolves_def sim_kept_def safe_order_def)
qed simp

interpretation sim_guard:
  order_guard sim_adapter sim_ok UNIV "{m. \<not> is_crossed m}"
    "new_execution_record eid req sd (dround q) pos raw dust"
  for eid req sd q pos raw dust
  by (rule sim_order_guard) (simp add: new_record_ok)

end
