(* ===== verification/Service.thy ===== *)
theory Service
  imports Engine_Run
begin

text \<open>
  The application facade of \<^verbatim>\<open>src/execution/service.py\<close>. Most of its methods are the engine's;
  its own are the two queries for executions that have not ended.
\<close>

section \<open>Queries\<close>

text \<open>The loop over \<^verbatim>\<open>list(self._engine._records)\<close>.\<close>

primrec collect_active :: "string list \<Rightarrow> ('w, execution_record list) engine" where
  "collect_active [] = ret []"
| "collect_active (eid # eids) =
     bind (get_execution eid) (\<lambda>r.
     bind (collect_active eids) (\<lambda>active.
       ret (if execution_status_is_terminal (status r) then active else r # active)))"

definition active_executions :: "('w, execution_record list) engine" where
  "active_executions = bind (gets (\<lambda>s. map fst (fst s))) collect_active"

definition active_execution_for :: "environment \<Rightarrow> string \<Rightarrow> ('w, execution_record option) engine" where
  "active_execution_for env symb =
     bind active_executions (\<lambda>active.
       ret (find (\<lambda>r. req_environment (request r) = env \<and> req_symbol (request r) = symb) active))"

section \<open>What the queries return\<close>

lemma update_same: "map_of rs eid = Some r \<Longrightarrow> AList.update eid r rs = rs"
  by (rule update_triv)

lemma get_execution_result:
  "get_execution eid (rs, w) =
     (case map_of rs eid of
        None \<Rightarrow> (Inl (UnknownExecution eid), rs, w)
      | Some r \<Rightarrow> (Inr r, rs, w))"
  by (simp add: get_execution_def on_execution_def ret_def update_same split: option.split)

lemma collect_active_result:
  assumes "distinct (map fst rs)" "set part \<subseteq> set rs"
  shows "collect_active (map fst part) (rs, w) =
    (Inr (filter (\<lambda>r. \<not> execution_status_is_terminal (status r)) (map snd part)), rs, w)"
  using assms(2)
proof (induction part)
  case Nil
  show ?case by (simp add: ret_def)
next
  case (Cons x part)
  obtain eid r where x: "x = (eid, r)" by (cases x)
  have "map_of rs eid = Some r" using Cons.prems assms(1) x by simp
  with Cons show ?case
    by (simp add: bind_def get_execution_result x ret_def del: execution_status_is_terminal.simps)
qed

lemma active_executions_result:
  "distinct (map fst rs) \<Longrightarrow>
   active_executions (rs, w) =
     (Inr (filter (\<lambda>r. \<not> execution_status_is_terminal (status r)) (map snd rs)), rs, w)"
  by (simp add: active_executions_def bind_def gets_def collect_active_result)

end
