(* ===== verification/System.thy ===== *)
theory System
  imports Simulator_Laws Service
begin

text \<open>
  The engine running on the simulator: a system step is a client operation or a control of the
  simulator (market data, fills, scripts, the clock). In every reachable state both the records and
  the exchange satisfy their invariants.
\<close>

section \<open>Steps\<close>

datatype control =
    Push_Market string decimal decimal "int option"
  | Push_Fill string decimal decimal
  | Inject_Fill fill
  | Set_Rules symbol_rules
  | Script_Fill string decimal
  | Script_Timeout string
  | Script_Not_Found string
  | Script_Stay_Open string
  | Set_Health bool
  | Advance pyfloat
  | Take_Market_Event
  | Take_User_Event

fun act :: "control \<Rightarrow> unit sim" where
  "act (Push_Market symb bid ask t) = push_market_data symb bid ask t"
| "act (Push_Fill coid q price) = bind (push_fill coid q price) (\<lambda>_. ret ())"
| "act (Inject_Fill f) = bind (inject_reconciliation_fill f) (\<lambda>_. ret ())"
| "act (Set_Rules rules) = set_symbol_rules rules"
| "act (Script_Fill p q) = script_fill_during_cancel p q"
| "act (Script_Timeout p) = script_create_timeout p"
| "act (Script_Not_Found p) = script_create_timeout_not_found p"
| "act (Script_Stay_Open p) = script_cancel_reconcile_open p"
| "act (Set_Health b) = set_stream_health b"
| "act (Advance seconds) = advance_clock seconds"
| "act Take_Market_Event = bind next_market_event (\<lambda>_. ret ())"
| "act Take_User_Event = bind next_user_event (\<lambda>_. ret ())"

inductive system_step :: "records \<times> simulator \<Rightarrow> records \<times> simulator \<Rightarrow> bool" where
  client: "fresh_op (fst s) op \<Longrightarrow> system_step s (snd (perform sim_adapter op s))"
| control: "system_step (rs, w) (rs, snd (act c w))"

abbreviation system_history :: "records \<times> simulator \<Rightarrow> records \<times> simulator \<Rightarrow> bool" where
  "system_history \<equiv> system_step\<^sup>*\<^sup>*"

inductive_cases system_stepE: "system_step s t"

lemma system_engine_step: "system_step s t \<Longrightarrow> engine_step sim_adapter s t"
  by (erule system_stepE) (auto intro: engine_step.intros)

lemma system_engine_history: "system_history s t \<Longrightarrow> engine_history sim_adapter s t"
  by (rule rtranclp_mono [THEN predicate2D]) (auto intro: system_engine_step)

section \<open>The invariant\<close>

definition system_ok :: "records \<times> simulator \<Rightarrow> bool" where
  "system_ok s \<longleftrightarrow> engine_ok (fst s) \<and> sim_ok (snd s)"

lemma act_keeps: "sim_ok w \<Longrightarrow> sim_ok (snd (act c w))"
proof -
  have "evolves sim_kept (act c)"
    by (cases c) (simp_all add: sk_controls sk.ev_bind sk.ev_ret)
  then show "sim_ok w \<Longrightarrow> sim_ok (snd (act c w))" by (simp add: evolves_def sim_kept_def)
qed

lemma perform_keeps:
  "engine_ok (fst s) \<Longrightarrow> sim_ok (snd s) \<Longrightarrow> sim_ok (snd (snd (perform sim_adapter op s)))"
  using perform_guarded [OF sim_order_guard] by blast

lemma system_step_ok:
  assumes "system_step s t" "system_ok s"
  shows "system_ok t"
proof -
  have "engine_evolves s t"
    using history_evolves [of sim_adapter s t] system_engine_step [OF assms(1)] by blast
  then have "engine_ok (fst t)" using assms(2) by (simp add: engine_evolves_def system_ok_def)
  moreover have "sim_ok (snd t)"
    using assms perform_keeps act_keeps by (cases rule: system_step.cases) (auto simp: system_ok_def)
  ultimately show ?thesis by (simp add: system_ok_def)
qed

lemma system_invariant: "system_history s t \<Longrightarrow> system_ok s \<Longrightarrow> system_ok t"
  by (induction rule: rtranclp_induct) (auto intro: system_step_ok)

lemma new_system_ok: "system_ok ([], new_simulator now position)"
  by (simp add: system_ok_def engine_ok_def sim_ok_def new_simulator_def)

end
