(* ===== verification/Recording.thy ===== *)
theory Recording
  imports System
begin

text \<open>
  A recording exchange: any adapter, with a log of the orders submitted through it, each noted as \<open>f\<close> makes
  of it. The log turns a
  statement about what the engine sends into one about the world it leaves, for every exchange.
\<close>

section \<open>The recording\<close>

definition carried :: "('w \<Rightarrow> 'a \<times> 'w) \<Rightarrow> 'w \<times> 'l \<Rightarrow> 'a \<times> 'w \<times> 'l" where
  "carried op w = (let xw = op (fst w) in (fst xw, snd xw, snd w))"

definition recording_as :: "(order_request \<Rightarrow> 'l) \<Rightarrow> 'w adapter \<Rightarrow> ('w \<times> 'l list) adapter" where
  "recording_as f A =
     \<lparr>get_symbol_rules = (\<lambda>symb. carried (get_symbol_rules A symb)),
          get_position = (\<lambda>symb. carried (get_position A symb)),
          get_best_bid_ask = (\<lambda>symb. carried (get_best_bid_ask A symb)),
          submit_limit_order = (\<lambda>ord w.
            let xw = submit_limit_order A ord (fst w) in (fst xw, snd xw, snd w @ [f ord])),
          cancel_order = (\<lambda>symb coid. carried (cancel_order A symb coid)),
          get_order_by_client_order_id =
            (\<lambda>symb coid. carried (get_order_by_client_order_id A symb coid)),
          reconcile_orders_and_fills =
            (\<lambda>symb pre t0 t1. carried (reconcile_orders_and_fills A symb pre t0 t1)),
          health_check_streams = carried (health_check_streams A),
          clock_monotonic = carried (clock_monotonic A)\<rparr>"

abbreviation recording :: "'w adapter \<Rightarrow> ('w \<times> order_request list) adapter" where
  "recording \<equiv> recording_as (\<lambda>ord. ord)"

text \<open>The rules and the quotes the exchange answers, in whatever world it is asked.\<close>

definition rules_given :: "'w adapter \<Rightarrow> symbol_rules set" where
  "rules_given A = {rules. \<exists>symb w. fst (get_symbol_rules A symb w) = Inr rules}"

definition quotes_given :: "'w adapter \<Rightarrow> market_snapshot set" where
  "quotes_given A = {market. \<exists>symb w. fst (get_best_bid_ask A symb w) = Inr market}"

section \<open>The laws of the recording\<close>

lemma recording_as_guard:
  assumes "\<And>ord. safe_order r (rules_given A) (quotes_given A) ord \<Longrightarrow> K (f ord)" "rec_ok r"
  shows "order_guard (recording_as f A) (\<lambda>w. \<forall>e \<in> set (snd w). K e) (rules_given A) (quotes_given A) r"
  using assms
  by unfold_locales (auto simp: recording_as_def carried_def Let_def rules_given_def quotes_given_def)

lemma recording_laws: "exchange_laws (recording_as f A) (\<lambda>w. \<forall>e \<in> set (snd w). K e)"
  by unfold_locales (simp_all add: recording_as_def carried_def Let_def)

lemma recording_as_quiet: "exchange_laws (recording_as f A) (\<lambda>w. snd w = l)"
  by unfold_locales (simp_all add: recording_as_def carried_def Let_def)

lemma recording_guard:
  assumes "rec_ok r"
  shows "order_guard (recording A)
    (\<lambda>w. \<forall>ord \<in> set (snd w). safe_order r (rules_given A) (quotes_given A) ord)
    (rules_given A) (quotes_given A) r"
  using assms by (intro recording_as_guard)

lemma recording_quiet: "exchange_laws (recording A) (\<lambda>w. snd w = l)"
  by (rule recording_as_quiet)

end
