(* ===== verification/Samples.thy ===== *)
theory Samples
  imports Recording
begin

text \<open>
  Concrete inputs for the witnesses: an exchange with constant rules and quote that accepts every
  order, a request to buy three units, and the record of its execution once it runs.
\<close>

definition steady_rules :: symbol_rules where
  "steady_rules = \<lparr>rules_symbol = ''BTCUSDT'', tick_size = 1, quantity_step = 1, min_quantity = 1,
      min_notional = 5, rules_status = ''TRADING'', supported_time_in_force = {''GTC'', ''GTX'', ''IOC''}\<rparr>"

definition steady_market :: market_snapshot where
  "steady_market = \<lparr>mkt_symbol = ''BTCUSDT'', mkt_bid = 100, mkt_ask = 101,
                       last_market_event_time_exchange = None,
                       last_market_event_time_local = 0\<rparr>"

definition steady_exchange :: "unit adapter" where
  "steady_exchange =
     \<lparr>get_symbol_rules = (\<lambda>symb w. (Inr steady_rules, w)),
      get_position = (\<lambda>symb w. (Inr \<lparr>pos_symbol = symb, pos_position = 0, pos_update_time_ms = None\<rparr>, w)),
      get_best_bid_ask = (\<lambda>symb w. (Inr steady_market, w)),
      submit_limit_order = (\<lambda>ord w.
        (Inr ((new_child_order (or_child_order_id ord) (or_client_order_id ord) (or_symbol ord)
                (or_side ord) (or_quantity ord) (or_price ord))\<lparr>child_status := OPEN\<rparr>), w)),
      cancel_order = (\<lambda>symb coid w. (Inl (KeyError coid), w)),
      get_order_by_client_order_id = (\<lambda>symb coid w. (Inr None, w)),
      reconcile_orders_and_fills = (\<lambda>symb pre t0 t1 w.
        (Inr \<lparr>rr_orders = [], rr_fills = [], rr_warnings = []\<rparr>, w)),
      health_check_streams = (\<lambda>w. (Inr True, w)),
      clock_monotonic = (\<lambda>w. (0, w))\<rparr>"

definition sample_request :: execution_request where
  "sample_request = \<lparr>req_environment = SIMULATION, req_symbol = ''BTCUSDT'', req_algorithm = CHASE,
     target_position = 3, target_price_lower = 90, target_price_upper = 110,
     target_duration_seconds = 60, req_deadline_policy = CANCEL_REMAINDER, parameters = default_parameters\<rparr>"

definition running_record :: execution_record where
  "running_record =
     (new_execution_record ''exec_0123456789abcdef'' sample_request BUY 3
        \<lparr>pos_symbol = ''BTCUSDT'', pos_position = 0, pos_update_time_ms = None\<rparr> 3 0)
     \<lparr>status := RUNNING,
      rec_tracker := Some \<lparr>target_quantity = 3, permitted_tolerance = 0,
        tracked = empty_exposure, seen_trade_ids = {}\<rparr>\<rparr>"

lemma running_record_ok: "rec_ok running_record"
proof -
  have "dec_ok 3" unfolding dec_ok_def by (rule dround_exactI [of _ 0 3]) simp_all
  then show ?thesis
    by (simp add: rec_ok_def fills_ok_def tracking_ok_def closing_ok_def running_record_def
        new_execution_record_def intervals_of_def intervals_ok_def rebuilt_vwap_inputs_def
        tracker_ok_def empty_exposure_def exposure_nonneg_def)
qed

end
