(* ===== verification/Lifecycle.thy ===== *)
theory Lifecycle
  imports Engine_History Samples "HOL-Library.Multiset"
begin

text \<open>
  The abstract view of an execution, and the proof that the engine implements it: whatever clients
  and exchange do, the execution a client sees only follows its lifecycle, and the quantity it has
  filled, the trades it has processed and the orders it has placed only grow.
\<close>

section \<open>The specification\<close>

record lifecycle =
  spec_identity :: "string \<times> execution_request \<times> side \<times> decimal"
  spec_status :: execution_status
  spec_filled :: decimal
  spec_trades :: "string set"
  spec_sequence :: nat

text \<open>One change at a time: of the status along an allowed transition, of the filled quantity
  upwards, of the processed trades, or of the number of orders placed.\<close>

inductive lifecycle_step :: "lifecycle \<Rightarrow> lifecycle \<Rightarrow> bool" where
  advance: "execution_step (spec_status s) t \<Longrightarrow> lifecycle_step s (s\<lparr>spec_status := t\<rparr>)"
| fill: "spec_filled s < q \<Longrightarrow> lifecycle_step s (s\<lparr>spec_filled := q\<rparr>)"
| trade: "spec_trades s \<subset> ids \<Longrightarrow> lifecycle_step s (s\<lparr>spec_trades := ids\<rparr>)"
| place: "spec_sequence s < n \<Longrightarrow> lifecycle_step s (s\<lparr>spec_sequence := n\<rparr>)"

inductive_cases lifecycle_stepE: "lifecycle_step s t"

abbreviation lifecycle_path :: "lifecycle \<Rightarrow> lifecycle \<Rightarrow> bool" where
  "lifecycle_path \<equiv> lifecycle_step\<^sup>*\<^sup>*"

definition lifecycle_of :: "execution_record \<Rightarrow> lifecycle" where
  "lifecycle_of r = \<lparr>spec_identity = (rec_execution_id r, request r, rec_side r, required_quantity r),
     spec_status = status r, spec_filled = confirmed r, spec_trades = seen_fill_trade_ids r,
     spec_sequence = last_child_sequence r\<rparr>"

section \<open>The simulation\<close>

lemma advance_path: "execution_path (spec_status s) t \<Longrightarrow> lifecycle_path s (s\<lparr>spec_status := t\<rparr>)"
proof (induction rule: rtranclp_induct)
  case (step t u)
  have "lifecycle_step (s\<lparr>spec_status := t\<rparr>) ((s\<lparr>spec_status := t\<rparr>)\<lparr>spec_status := u\<rparr>)"
    by (rule lifecycle_step.advance) (simp add: step.hyps(2))
  with step.IH show ?case by simp
qed simp

lemma fill_path: "spec_filled s \<le> q \<Longrightarrow> lifecycle_path s (s\<lparr>spec_filled := q\<rparr>)"
  using lifecycle_step.fill [of s q] by (cases "spec_filled s = q") auto

lemma place_path: "spec_sequence s \<le> n \<Longrightarrow> lifecycle_path s (s\<lparr>spec_sequence := n\<rparr>)"
  using lifecycle_step.place [of s n] by (cases "spec_sequence s = n") auto

lemma trade_path: "spec_trades s \<subseteq> ids \<Longrightarrow> lifecycle_path s (s\<lparr>spec_trades := ids\<rparr>)"
  using lifecycle_step.trade [of s ids] by (cases "spec_trades s = ids") auto

lemma evolution_path:
  assumes "record_evolves r r'"
  shows "lifecycle_path (lifecycle_of r) (lifecycle_of r')"
proof -
  let ?s = "lifecycle_of r"
  let ?a = "?s\<lparr>spec_status := status r'\<rparr>"
  let ?b = "?a\<lparr>spec_filled := confirmed r'\<rparr>"
  let ?c = "?b\<lparr>spec_sequence := last_child_sequence r'\<rparr>"
  let ?d = "?c\<lparr>spec_trades := seen_fill_trade_ids r'\<rparr>"
  note ev = assms [unfolded record_evolves_def]
  have "lifecycle_path ?s ?a" using ev by (intro advance_path) (simp add: lifecycle_of_def)
  also have "lifecycle_path ?a ?b" using ev by (intro fill_path) (simp add: lifecycle_of_def)
  also have "lifecycle_path ?b ?c" using ev by (intro place_path) (simp add: lifecycle_of_def)
  also have "lifecycle_path ?c ?d" using ev by (intro trade_path) (simp add: lifecycle_of_def)
  also have "?d = lifecycle_of r'" using ev by (simp add: identity_def lifecycle_of_def)
  finally show ?thesis .
qed

text \<open>
  C5. The engine implements the lifecycle of an execution: from any state with the execution, and
  whatever clients do and any exchange answers, what a client later sees of it is reached from what
  it saw before by steps of the specification, so it keeps its identity, only follows allowed
  transitions, and no filled quantity, processed trade or placed order is ever lost.
\<close>

theorem engine_implements_lifecycle:
  assumes "engine_history A s t" "map_of (fst s) eid = Some r"
  shows "\<exists>r'. map_of (fst t) eid = Some r' \<and> lifecycle_path (lifecycle_of r) (lifecycle_of r')"
  using history_record [OF assms] evolution_path by metis

text \<open>The sample execution, run and then cancelled.\<close>

definition run_then_cancelled :: "records \<times> unit" where
  "run_then_cancelled = snd (cancel_execution steady_exchange ''exec_0123456789abcdef''
     (snd (run_once steady_exchange ''exec_0123456789abcdef''
       ([(''exec_0123456789abcdef'', running_record)], ()))))"

lemma client_steps:
  "engine_step A s (snd (run_once A eid s))" "engine_step A s (snd (cancel_execution A eid s))"
  using engine_step.client [of s "Run_Once eid" A] engine_step.client [of s "Cancel eid" A] by simp_all

lemma run_then_cancelled_history:
  "engine_history steady_exchange ([(''exec_0123456789abcdef'', running_record)], ()) run_then_cancelled"
  unfolding run_then_cancelled_def
  by (rule rtranclp.rtrancl_into_rtrancl, rule r_into_rtranclp, rule client_steps(1), rule client_steps(2))

lemma engine_implements_lifecycle_witness:
  "\<exists>r'. map_of (fst run_then_cancelled) ''exec_0123456789abcdef'' = Some r'
     \<and> lifecycle_path (lifecycle_of running_record) (lifecycle_of r')"
  using engine_implements_lifecycle [OF run_then_cancelled_history, of "''exec_0123456789abcdef''" running_record]
  by simp

section \<open>What every reachable record satisfies\<close>





end
