(* ===== verification/Payload.thy ===== *)
theory Payload
  imports Ids
begin

text \<open>
  Dynamic values of Python, as \<^verbatim>\<open>json.loads\<close> and \<^verbatim>\<open>response.json()\<close> return them, and the
  conversions of the standard library the adapters apply to them: \<^verbatim>\<open>str\<close>, \<^verbatim>\<open>int\<close>,
  \<^verbatim>\<open>bool\<close>, \<^verbatim>\<open>Decimal\<close>, \<^verbatim>\<open>dict.get\<close> and iteration. A float is kept by its
  \<^verbatim>\<open>repr\<close>, the shortest text that reads back as it, since the code reads floats only through
  their text. Characters are the 256 of HOL, treated as ASCII.
\<close>

section \<open>Values\<close>

datatype pyval =
    PNone
  | PBool bool
  | PInt int
  | PFloat string
  | PStr string
  | PList "pyval list"
  | PDict "(string \<times> pyval) list"

section \<open>Texts\<close>

definition blank :: "char \<Rightarrow> bool" where
  "blank c \<longleftrightarrow> c = CHR '' '' \<or> (CHR 0x09 \<le> c \<and> c \<le> CHR 0x0D) \<or> (CHR 0x1C \<le> c \<and> c \<le> CHR 0x1F)"

definition strip_text :: "string \<Rightarrow> string" where
  "strip_text s = rev (dropWhile blank (rev (dropWhile blank s)))"

definition lower_char :: "char \<Rightarrow> char" where
  "lower_char c = (if CHR ''A'' \<le> c \<and> c \<le> CHR ''Z'' then char_of (of_char c + 32 :: nat) else c)"

definition upper_char :: "char \<Rightarrow> char" where
  "upper_char c = (if CHR ''a'' \<le> c \<and> c \<le> CHR ''z'' then char_of (of_char c - 32 :: nat) else c)"

text \<open>\<^verbatim>\<open>s.lower()\<close>, which for ASCII is also \<^verbatim>\<open>s.casefold()\<close>, and \<^verbatim>\<open>s.upper()\<close>.\<close>

definition lower :: "string \<Rightarrow> string" where
  "lower s = map lower_char s"

definition upper :: "string \<Rightarrow> string" where
  "upper s = map upper_char s"

text \<open>The number a text of digits stands for.\<close>

definition digits_value :: "string \<Rightarrow> int" where
  "digits_value ds = foldl (\<lambda>n c. 10 * n + (of_char c - 48)) 0 ds"

definition take_sign :: "string \<Rightarrow> bool \<times> string" where
  "take_sign s =
     (case s of
        [] \<Rightarrow> (False, [])
      | c # cs \<Rightarrow> if c = CHR ''-'' then (True, cs) else if c = CHR ''+'' then (False, cs) else (False, s))"

section \<open>Reading numbers\<close>

definition exponent_text :: "string \<Rightarrow> int option" where
  "exponent_text s =
     (case s of
        [] \<Rightarrow> Some 0
      | c # cs \<Rightarrow>
          (let (negative, ds) = take_sign cs
           in if c \<in> {CHR ''e'', CHR ''E''} \<and> ds \<noteq> [] \<and> list_all digit ds
              then Some (if negative then - digits_value ds else digits_value ds) else None))"

text \<open>
  The value of a decimal text: sign, digits with at most one point, exponent; blanks around it and
  underscores within it are skipped. The special texts (infinities and NaN), from which Python
  builds a special value, have no value here.
\<close>

definition decimal_text :: "string \<Rightarrow> decimal option" where
  "decimal_text text_value =
     (let (negative, u) = take_sign (filter (\<lambda>c. c \<noteq> CHR ''_'') (strip_text text_value));
          whole = takeWhile digit u;
          (frac, rest) = (case dropWhile digit u of
             [] \<Rightarrow> ([], [])
           | c # cs \<Rightarrow> if c = CHR ''.'' then (takeWhile digit cs, dropWhile digit cs)
                       else ([], c # cs))
      in if whole = [] \<and> frac = [] then None
         else map_option (\<lambda>e.
           (if negative then -1 else 1) * of_int (digits_value (whole @ frac))
             * 10 powi (e - int (length frac)))
           (exponent_text rest))"

text \<open>\<^verbatim>\<open>Decimal(s)\<close>: \<^verbatim>\<open>decimal.InvalidOperation\<close> for a text that is no number.\<close>

definition to_decimal :: "string \<Rightarrow> exn + decimal" where
  "to_decimal s =
     (case decimal_text s of
        Some x \<Rightarrow> Inr x
      | None \<Rightarrow> Inl (ArithmeticError ''[<class 'decimal.ConversionSyntax'>]''))"

fun split_at :: "char \<Rightarrow> string \<Rightarrow> string list" where
  "split_at c [] = [[]]"
| "split_at c (x # xs) =
     (if x = c then [] # split_at c xs
      else case split_at c xs of p # ps \<Rightarrow> (x # p) # ps | [] \<Rightarrow> [[x]])"

text \<open>\<^verbatim>\<open>int(s)\<close>: digits in groups joined by single underscores, with a sign and blanks around.\<close>

definition int_text :: "string \<Rightarrow> int option" where
  "int_text s =
     (let (negative, u) = take_sign (strip_text s); groups = split_at (CHR ''_'') u
      in if list_all (\<lambda>g. g \<noteq> [] \<and> list_all digit g) groups
         then Some (if negative then - digits_value (concat groups) else digits_value (concat groups))
         else None)"

section \<open>Printing values\<close>

definition hex_digit :: "nat \<Rightarrow> char" where
  "hex_digit n = char_of (if n < 10 then 48 + n else 87 + n)"

definition escaped :: "char \<Rightarrow> char \<Rightarrow> string" where
  "escaped quote_char c =
     (if c = quote_char \<or> c = CHR 0x5C then [CHR 0x5C, c]
      else if c = CHR 0x0A then [CHR 0x5C, CHR ''n'']
      else if c = CHR 0x0D then [CHR 0x5C, CHR ''r'']
      else if c = CHR 0x09 then [CHR 0x5C, CHR ''t'']
      else if c < CHR '' '' \<or> c = CHR 0x7F
      then [CHR 0x5C, CHR ''x'', hex_digit (of_char c div 16), hex_digit (of_char c mod 16)]
      else [c])"

definition repr_text :: "string \<Rightarrow> string" where
  "repr_text s =
     (let q = (if CHR 0x27 \<in> set s \<and> CHR 0x22 \<notin> set s then CHR 0x22 else CHR 0x27)
      in q # concat (map (escaped q) s) @ [q])"

fun commas :: "string list \<Rightarrow> string" where
  "commas [] = []"
| "commas [s] = s"
| "commas (s # t # us) = s @ '', '' @ commas (t # us)"

fun repr_value :: "pyval \<Rightarrow> string" where
  "repr_value PNone = ''None''"
| "repr_value (PBool b) = (if b then ''True'' else ''False'')"
| "repr_value (PInt n) = int_digits n"
| "repr_value (PFloat t) = t"
| "repr_value (PStr s) = repr_text s"
| "repr_value (PList xs) = ''['' @ commas (map repr_value xs) @ '']''"
| "repr_value (PDict kvs) =
     ''{'' @ commas (map (\<lambda>kv. repr_text (fst kv) @ '': '' @ repr_value (snd kv)) kvs) @ ''}''"

text \<open>\<^verbatim>\<open>str(value)\<close>\<close>

fun text_of :: "pyval \<Rightarrow> string" where
  "text_of (PStr s) = s"
| "text_of v = repr_value v"

section \<open>Conversions and access\<close>

text \<open>\<^verbatim>\<open>bool(value)\<close>; a float is false when its value is zero.\<close>

fun truthy :: "pyval \<Rightarrow> bool" where
  "truthy PNone = False"
| "truthy (PBool b) = b"
| "truthy (PInt n) = (n \<noteq> 0)"
| "truthy (PFloat t) = (decimal_text t \<noteq> Some 0)"
| "truthy (PStr s) = (s \<noteq> [])"
| "truthy (PList xs) = (xs \<noteq> [])"
| "truthy (PDict kvs) = (kvs \<noteq> [])"

text \<open>\<^verbatim>\<open>int(value)\<close>; a float is the binary number its text reads as.\<close>

fun to_int :: "pyval \<Rightarrow> exn + int" where
  "to_int (PBool b) = Inr (if b then 1 else 0)"
| "to_int (PInt n) = Inr n"
| "to_int (PFloat t) =
     (case decimal_text t of
        Some x \<Rightarrow> Inr (dtrunc (fl x))
      | None \<Rightarrow>
          if t = ''nan'' then Inl (ValueError ''cannot convert float NaN to integer'')
          else Inl (ArithmeticError ''cannot convert float infinity to integer''))"
| "to_int (PStr s) =
     (case int_text s of
        Some n \<Rightarrow> Inr n
      | None \<Rightarrow> Inl (ValueError (''invalid literal for int() with base 10: '' @ repr_text s)))"
| "to_int _ = Inl (TypeError
     ''int() argument must be a string, a bytes-like object or a real number'')"

text \<open>\<^verbatim>\<open>Decimal(str(value))\<close>\<close>

definition decimal_of :: "pyval \<Rightarrow> exn + decimal" where
  "decimal_of v = to_decimal (text_of v)"

text \<open>Attribute \<^verbatim>\<open>get\<close> exists on a dictionary only.\<close>

fun entries :: "pyval \<Rightarrow> exn + (string \<times> pyval) list" where
  "entries (PDict kvs) = Inr kvs"
| "entries _ = Inl (OtherError ''AttributeError'')"

fun is_mapping :: "pyval \<Rightarrow> bool" where
  "is_mapping (PDict _) = True"
| "is_mapping _ = False"

definition get_or :: "(string \<times> pyval) list \<Rightarrow> string \<Rightarrow> pyval \<Rightarrow> pyval" where
  "get_or kvs key v = (case map_of kvs key of Some u \<Rightarrow> u | None \<Rightarrow> v)"

abbreviation get_value :: "(string \<times> pyval) list \<Rightarrow> string \<Rightarrow> pyval" where
  "get_value kvs key \<equiv> get_or kvs key PNone"

definition subscript :: "(string \<times> pyval) list \<Rightarrow> string \<Rightarrow> exn + pyval" where
  "subscript kvs key = (case map_of kvs key of Some v \<Rightarrow> Inr v | None \<Rightarrow> Inl (KeyError key))"

text \<open>What a \<^verbatim>\<open>for\<close> loop over a value visits.\<close>

fun iterate :: "pyval \<Rightarrow> exn + pyval list" where
  "iterate (PList xs) = Inr xs"
| "iterate (PDict kvs) = Inr (map (PStr \<circ> fst) kvs)"
| "iterate (PStr s) = Inr (map (\<lambda>c. PStr [c]) s)"
| "iterate _ = Inl (TypeError ''object is not iterable'')"

fun optional_text :: "pyval \<Rightarrow> string option" where
  "optional_text PNone = None"
| "optional_text v = Some (text_of v)"

text \<open>A list built by a step that may raise.\<close>

fun smap :: "('a \<Rightarrow> 'e + 'b) \<Rightarrow> 'a list \<Rightarrow> 'e + 'b list" where
  "smap f [] = Inr []"
| "smap f (x # xs) = sbind (f x) (\<lambda>y. sbind (smap f xs) (\<lambda>ys. Inr (y # ys)))"

lemma smap_Inr_iff: "smap f xs = Inr ys \<longleftrightarrow> list_all2 (\<lambda>x y. f x = Inr y) xs ys"
  by (induction xs arbitrary: ys) (auto simp: sbind_Inr_iff list_all2_Cons1)

end
