(* ===== verification/Config.thy ===== *)
theory Config
  imports Payload Models
begin

text \<open>
  \<^verbatim>\<open>src/config.py\<close>: the settings of an adapter, the reading of credentials and of the switch
  for mainnet trading. The environment of the process and what the dotenv library reads from a file
  are arguments: a variable of the environment goes before one of the file.
\<close>

record settings =
  set_environment :: environment
  allow_mainnet_trading :: bool
  stale_market_data_ms :: int
  recv_window_ms :: int
  binance_api_key :: "string option"
  binance_api_secret :: "string option"

fun environment_value :: "environment \<Rightarrow> string" where
  "environment_value SIMULATION = ''simulation''"
| "environment_value TESTNET = ''testnet''"
| "environment_value MAINNET = ''mainnet''"

text \<open>\<^verbatim>\<open>Environment(text)\<close>\<close>

definition environment_of :: "string \<Rightarrow> exn + environment" where
  "environment_of s =
     (if s = ''simulation'' then Inr SIMULATION
      else if s = ''testnet'' then Inr TESTNET
      else if s = ''mainnet'' then Inr MAINNET
      else Inl (ValueError (repr_text s @ '' is not a valid Environment'')))"

definition parse_bool :: "pyval \<Rightarrow> string \<Rightarrow> exn + bool" where
  "parse_bool v field_name =
     (let failure = Inl (ValueError (field_name @ '' must be a boolean or boolean string''))
      in case v of
           PBool b \<Rightarrow> Inr b
         | PStr s \<Rightarrow>
             (let normalized = lower (strip_text s)
              in if normalized \<in> {''true'', ''1'', ''yes'', ''y'', ''on''} then Inr True
                 else if normalized \<in> {''false'', ''0'', ''no'', ''n'', ''off''} then Inr False
                 else failure)
         | _ \<Rightarrow> failure)"

text \<open>\<^verbatim>\<open>Settings(...)\<close> with its \<^verbatim>\<open>__post_init__\<close>.\<close>

definition new_settings ::
  "string \<Rightarrow> pyval \<Rightarrow> int \<Rightarrow> int \<Rightarrow> string option \<Rightarrow> string option \<Rightarrow> exn + settings" where
  "new_settings env allow stale recv key secret =
     sbind (environment_of env) (\<lambda>e.
     sbind (parse_bool allow ''allow_mainnet_trading'') (\<lambda>b.
       Inr \<lparr>set_environment = e, allow_mainnet_trading = b, stale_market_data_ms = stale,
            recv_window_ms = recv, binance_api_key = key, binance_api_secret = secret\<rparr>))"

definition can_trade_mainnet :: "settings \<Rightarrow> bool" where
  "can_trade_mainnet s \<longleftrightarrow> set_environment s = MAINNET \<and> allow_mainnet_trading s"

record credentials =
  api_key :: "string option"
  api_secret :: "string option"

definition is_configured :: "credentials \<Rightarrow> bool" where
  "is_configured c \<longleftrightarrow> api_key c \<notin> {None, Some []} \<and> api_secret c \<notin> {None, Some []}"

type_synonym variables = "(string \<times> string) list"
type_synonym dotenv = "(string \<times> string option) list"

definition credential_value :: "variables \<Rightarrow> string \<Rightarrow> dotenv \<Rightarrow> string option" where
  "credential_value environ name dotenv_credentials =
     (case map_of environ name of
        Some v \<Rightarrow> Some v
      | None \<Rightarrow> (case map_of dotenv_credentials name of Some v \<Rightarrow> v | None \<Rightarrow> None))"

definition dotenv_disabled :: "variables \<Rightarrow> bool" where
  "dotenv_disabled environ \<longleftrightarrow>
     lower (case map_of environ ''PYTHON_DOTENV_DISABLED'' of Some v \<Rightarrow> v | None \<Rightarrow> [])
       \<in> {''1'', ''true'', ''t'', ''yes'', ''y''}"

text \<open>The file is what \<^verbatim>\<open>dotenv_values\<close> reads; it is not read when disabled.\<close>

definition load_binance_usdm_credentials :: "variables \<Rightarrow> dotenv \<Rightarrow> credentials" where
  "load_binance_usdm_credentials environ file_values =
     (let dotenv_credentials = (if dotenv_disabled environ then [] else file_values)
      in \<lparr>api_key = credential_value environ ''BINANCE_USDM_API_KEY'' dotenv_credentials,
          api_secret = credential_value environ ''BINANCE_USDM_API_SECRET'' dotenv_credentials\<rparr>)"

definition load_allow_mainnet_trading :: "variables \<Rightarrow> dotenv \<Rightarrow> exn + bool" where
  "load_allow_mainnet_trading environ file_values =
     (let dotenv_credentials = (if dotenv_disabled environ then [] else file_values)
      in case credential_value environ ''ALLOW_MAINNET_TRADING'' dotenv_credentials of
           None \<Rightarrow> Inr False
         | Some raw \<Rightarrow> parse_bool (PStr raw) ''ALLOW_MAINNET_TRADING'')"

section \<open>Settings from a file\<close>

text \<open>
  \<^verbatim>\<open>load_settings\<close>, with what the YAML library reads from the file as an argument. The values
  of the fields are not converted but for the environment and the switch, so the result is the list of the
  fields with their values.
\<close>

definition settings_defaults :: "(string \<times> pyval) list" where
  "settings_defaults =
     [(''environment'', PStr (environment_value SIMULATION)), (''allow_mainnet_trading'', PBool False),
      (''stale_market_data_ms'', PInt 1500), (''recv_window_ms'', PInt 5000),
      (''binance_api_key'', PNone), (''binance_api_secret'', PNone)]"

definition initialized_settings :: "(string \<times> pyval) list \<Rightarrow> exn + (string \<times> pyval) list" where
  "initialized_settings values =
     sbind (environment_of (text_of (get_value values ''environment''))) (\<lambda>e.
     sbind (parse_bool (get_value values ''allow_mainnet_trading'') ''allow_mainnet_trading'') (\<lambda>b.
       Inr (map (\<lambda>(f, v). (f, if f = ''environment'' then PStr (environment_value e)
                             else if f = ''allow_mainnet_trading'' then PBool b else v)) values)))"

definition load_settings :: "string \<Rightarrow> pyval \<Rightarrow> exn + (string \<times> pyval) list" where
  "load_settings path content =
     (case if truthy content then content else PDict [] of
        PDict payload \<Rightarrow>
          initialized_settings (map (\<lambda>(f, default). (f, case map_of payload f of Some v \<Rightarrow> v | None \<Rightarrow> default))
            settings_defaults)
      | _ \<Rightarrow> Inl (ValueError (''settings file must contain a mapping: '' @ path)))"

text \<open>With values of the annotated types these are the settings that are constructed from them.\<close>

definition settings_values :: "settings \<Rightarrow> (string \<times> pyval) list" where
  "settings_values s =
     (let optional = (\<lambda>v. case v of None \<Rightarrow> PNone | Some t \<Rightarrow> PStr t)
      in [(''environment'', PStr (environment_value (set_environment s))),
          (''allow_mainnet_trading'', PBool (allow_mainnet_trading s)),
          (''stale_market_data_ms'', PInt (stale_market_data_ms s)), (''recv_window_ms'', PInt (recv_window_ms s)),
          (''binance_api_key'', optional (binance_api_key s)), (''binance_api_secret'', optional (binance_api_secret s))])"

lemma initialized_typed_settings:
  fixes key secret :: "string option"
  defines "optional \<equiv> \<lambda>v :: string option. case v of None \<Rightarrow> PNone | Some t \<Rightarrow> PStr t"
  shows "initialized_settings [(''environment'', PStr env), (''allow_mainnet_trading'', allow),
      (''stale_market_data_ms'', PInt stale), (''recv_window_ms'', PInt recv),
      (''binance_api_key'', optional key), (''binance_api_secret'', optional secret)]
    = sbind (new_settings env allow stale recv key secret) (\<lambda>s. Inr (settings_values s))"
  by (cases "environment_of env"; cases "parse_bool allow ''allow_mainnet_trading''")
    (simp_all add: initialized_settings_def new_settings_def settings_values_def optional_def get_or_def Let_def)

text \<open>Mainnet is traded only on the word of the file: the switch is off unless the file turns it on.\<close>

lemma map_of_keyed: "map_of (map (\<lambda>(k, v). (k, f k v)) xs) k = map_option (f k) (map_of xs k)"
  by (induction xs) auto

lemma initialized_fields:
  assumes "initialized_settings values = Inr vs"
  shows "map fst vs = map fst values"
    and "map_of vs ''allow_mainnet_trading'' = Some v \<Longrightarrow>
      \<exists>b. v = PBool b \<and> parse_bool (get_value values ''allow_mainnet_trading'') ''allow_mainnet_trading'' = Inr b"
  using assms by (auto simp: initialized_settings_def sbind_Inr_iff map_of_keyed)

lemma load_settings_default: "\<not> truthy content \<Longrightarrow> load_settings path content = Inr settings_defaults"
  by (simp add: load_settings_def settings_defaults_def initialized_settings_def get_or_def environment_of_def
      parse_bool_def)

lemma load_settings_switch:
  assumes loaded: "load_settings path content = Inr vs"
    and on: "map_of vs ''allow_mainnet_trading'' = Some (PBool True)"
  shows "\<exists>payload v. content = PDict payload \<and> map_of payload ''allow_mainnet_trading'' = Some v
    \<and> parse_bool v ''allow_mainnet_trading'' = Inr True"
proof -
  obtain payload where content: "(if truthy content then content else PDict []) = PDict payload"
    using loaded by (auto simp: load_settings_def split: pyval.splits)
  let ?default = "\<lambda>f default. case map_of payload f of Some v \<Rightarrow> v | None \<Rightarrow> default"
  have "initialized_settings (map (\<lambda>(f, default). (f, ?default f default)) settings_defaults) = Inr vs"
    using loaded by (simp add: load_settings_def content)
  then have parsed: "parse_bool (?default ''allow_mainnet_trading'' (PBool False)) ''allow_mainnet_trading'' = Inr True"
    using initialized_fields(2) [OF _ on] by (force simp: get_or_def map_of_keyed settings_defaults_def)
  then obtain v where "map_of payload ''allow_mainnet_trading'' = Some v"
    by (cases "map_of payload ''allow_mainnet_trading''") (auto simp: parse_bool_def)
  with parsed content show ?thesis by (auto split: if_splits)
qed

end
