(* ===== verification/Binance_Payloads.thy ===== *)
theory Binance_Payloads
  imports Config Models Ids "HOL-Library.AList"
begin

text \<open>
  The translations of \<^verbatim>\<open>src/exchanges/binance_usdm.py\<close>: order parameters and their
  signature, the classification of statuses and error payloads, and the parsing of rules, orders,
  trades and user events. A payload may be any JSON value; what the code does not expect raises as
  Python does.
\<close>

section \<open>Order parameters\<close>

datatype mutation_kind = CREATE | CANCEL

text \<open>\<^verbatim>\<open>format(value, ''f'')\<close>; a decimal is its value here, so trailing zeros are not kept.\<close>

definition decimal_to_api :: "decimal \<Rightarrow> string" where
  "decimal_to_api value = plain_string value"

fun classify_mutation_timeout :: "mutation_kind \<Rightarrow> string" where
  "classify_mutation_timeout CREATE = ''UNKNOWN_CREATE_OUTCOME''"
| "classify_mutation_timeout CANCEL = ''PENDING_CANCEL_OUTCOME''"

type_synonym api_params = "(string \<times> string) list"

definition requested_time_in_force :: "order_request \<Rightarrow> symbol_rules \<Rightarrow> exn + string" where
  "requested_time_in_force ord rules =
     (if or_post_only ord
      then if ''GTX'' \<notin> supported_time_in_force rules
           then Inl (TerminalOrderRejected ''POST_ONLY_GTX_UNSUPPORTED'') else Inr ''GTX''
      else case or_time_in_force ord of
             None \<Rightarrow> Inr ''GTC''
           | Some t \<Rightarrow>
               if time_in_force_value t \<notin> supported_time_in_force rules
               then Inl (TerminalOrderRejected (time_in_force_value t @ ''_TIME_IN_FORCE_UNSUPPORTED''))
               else Inr (time_in_force_value t))"

definition build_new_order_params :: "order_request \<Rightarrow> symbol_rules \<Rightarrow> exn + api_params" where
  "build_new_order_params ord rules =
     (if length (or_client_order_id ord) > 36 \<or> \<not> client_order_id_re (or_client_order_id ord)
      then Inl (TerminalOrderRejected ''INVALID_CLIENT_ORDER_ID'')
      else sbind (requested_time_in_force ord rules) (\<lambda>tif.
        Inr [(''symbol'', or_symbol ord), (''side'', side_value (or_side ord)), (''type'', ''LIMIT''),
             (''timeInForce'', tif), (''quantity'', decimal_to_api (or_quantity ord)),
             (''price'', decimal_to_api (or_price ord)),
             (''newClientOrderId'', or_client_order_id ord)]))"

text \<open>\<^verbatim>\<open>urllib.parse.urlencode\<close> of text pairs.\<close>

definition unreserved :: "char \<Rightarrow> bool" where
  "unreserved c \<longleftrightarrow>
     (CHR ''A'' \<le> c \<and> c \<le> CHR ''Z'') \<or> (CHR ''a'' \<le> c \<and> c \<le> CHR ''z'') \<or> digit c \<or> c \<in> set ''_.-~''"

definition upper_hex_digit :: "nat \<Rightarrow> char" where
  "upper_hex_digit n = char_of (if n < 10 then 48 + n else 55 + n)"

definition quote_plus :: "string \<Rightarrow> string" where
  "quote_plus s = concat (map (\<lambda>c.
     if unreserved c then [c] else if c = CHR '' '' then ''+''
     else [CHR ''%'', upper_hex_digit (of_char c div 16), upper_hex_digit (of_char c mod 16)]) s)"

fun joined :: "string \<Rightarrow> string list \<Rightarrow> string" where
  "joined sep [] = []"
| "joined sep [s] = s"
| "joined sep (s # t # us) = s @ sep @ joined sep (t # us)"

definition urlencode :: "api_params \<Rightarrow> string" where
  "urlencode params = joined ''&'' (map (\<lambda>(k, v). quote_plus k @ ''='' @ quote_plus v) params)"

text \<open>HMAC-SHA256 in hexadecimal, of a secret and a text, is an argument.\<close>

definition sign_params :: "(string \<Rightarrow> string \<Rightarrow> string) \<Rightarrow> api_params \<Rightarrow> string \<Rightarrow> api_params" where
  "sign_params hmac params secret = AList.update ''signature'' (hmac secret (urlencode params)) params"

fun serialize_param :: "pyval \<Rightarrow> string" where
  "serialize_param (PBool b) = (if b then ''true'' else ''false'')"
| "serialize_param v = text_of v"

section \<open>Statuses and error payloads\<close>

definition classify_http_status :: "int \<Rightarrow> string" where
  "classify_http_status status_code =
     (if status_code = 408 then ''REQUEST_TIMEOUT_AMBIGUOUS''
      else if status_code = 429 then ''RATE_LIMIT_BACKOFF''
      else if status_code = 418 then ''VENUE_BAN_HARD_STOP''
      else if 500 \<le> status_code \<and> status_code \<le> 599 then ''RETRYABLE_READ_OR_UNKNOWN_MUTATION''
      else if 400 \<le> status_code \<and> status_code \<le> 499 then ''TERMINAL_REJECT''
      else ''OK'')"

definition normalize_order_status :: "string \<Rightarrow> child_order_status" where
  "normalize_order_status raw =
     (if raw = ''NEW'' then OPEN
      else if raw = ''PARTIALLY_FILLED'' then PARTIALLY_FILLED
      else if raw = ''FILLED'' then FILLED
      else if raw = ''CANCELED'' then CHILD_CANCELLED
      else if raw = ''EXPIRED'' then CHILD_CANCELLED
      else if raw = ''EXPIRED_IN_MATCH'' then CHILD_CANCELLED
      else if raw = ''REJECTED'' then REJECTED
      else if raw = ''PENDING_CANCEL'' then PENDING_CANCEL
      else UNKNOWN)"

definition terminal_reject_reason :: "int \<Rightarrow> pyval \<Rightarrow> string" where
  "terminal_reject_reason status_code payload =
     (case payload of
        PDict kvs \<Rightarrow>
          (let code = get_value kvs ''code''; message = get_value kvs ''msg''
           in if code \<noteq> PNone \<and> message \<noteq> PNone
              then ''BINANCE_'' @ text_of code @ '':'' @ text_of message
              else if message \<noteq> PNone then text_of message
              else ''BINANCE_HTTP_'' @ int_digits status_code)
      | _ \<Rightarrow> ''BINANCE_HTTP_'' @ int_digits status_code)"

text \<open>\<^verbatim>\<open>^BINANCE_(-?\d+):\<close> at the start of a reason: the code, if it matches.\<close>

definition reason_code :: "string \<Rightarrow> int option" where
  "reason_code reason =
     (if \<not> prefix ''BINANCE_'' reason then None
      else let u = drop 8 reason;
               negative = (take 1 u = ''-'');
               v = (if negative then drop 1 u else u);
               ds = takeWhile digit v
           in if ds \<noteq> [] \<and> take 1 (dropWhile digit v) = '':''
              then Some (if negative then - digits_value ds else digits_value ds) else None)"

definition is_specific_terminal_5xx_reject :: "string \<Rightarrow> bool" where
  "is_specific_terminal_5xx_reject reason =
     (case reason_code reason of
        None \<Rightarrow> False
      | Some code \<Rightarrow> code \<notin> {-1000, -1001, -1006, -1007, -1008})"

definition classify_binance_503_payload :: "pyval \<Rightarrow> exn + string option" where
  "classify_binance_503_payload payload =
     (case payload of
        PDict kvs \<Rightarrow>
          (let code = get_value kvs ''code'';
               numeric = (if code = PNone then Inr None
                 else case to_int code of
                   Inr n \<Rightarrow> Inr (Some n)
                 | Inl (TypeError t) \<Rightarrow> Inr None
                 | Inl (ValueError t) \<Rightarrow> Inr None
                 | Inl e \<Rightarrow> Inl e)
           in sbind numeric (\<lambda>numeric_code.
              let message = text_of (get_or kvs ''msg'' (PStr ''''))
              in if numeric_code = Some (-1008) then Inr (Some ''SYSTEM_OVERLOAD'')
                 else if message = ''Unknown error, please check your request or try again later.''
                 then Inr (Some ''UNKNOWN_EXECUTION_STATUS'')
                 else if message \<in> {''Service Unavailable.'',
                   ''Internal error; unable to process your request. Please try again.''}
                 then Inr (Some ''RETRYABLE_FAILURE'')
                 else Inr None))
      | _ \<Rightarrow> Inr None)"

definition is_order_not_found_reason :: "string \<Rightarrow> bool" where
  "is_order_not_found_reason reason \<longleftrightarrow>
     sublist ''BINANCE_-2013'' reason \<or> sublist ''Order does not exist'' reason"

definition is_retryable_order_reject_reason :: "string \<Rightarrow> bool" where
  "is_retryable_order_reject_reason reason \<longleftrightarrow> prefix ''BINANCE_-5022:'' reason"

definition is_listen_key_expired_payload :: "(string \<times> pyval) list \<Rightarrow> bool" where
  "is_listen_key_expired_payload kvs \<longleftrightarrow>
     (let code = get_value kvs ''code''; message = lower (text_of (get_or kvs ''msg'' (PStr '''')))
      in text_of code = ''-1125''
         \<or> (case code of PFloat t \<Rightarrow> decimal_text t = Some (-1125) | _ \<Rightarrow> False)
         \<or> sublist ''listenkey'' message
            \<and> (sublist ''does not exist'' message \<or> sublist ''not exist'' message
               \<or> sublist ''expired'' message))"

definition listen_key_failure_reason :: "int \<Rightarrow> (string \<times> pyval) list option \<Rightarrow> string" where
  "listen_key_failure_reason status_code payload =
     (if status_code = 429 then ''LISTEN_KEY_RATE_LIMIT_BACKOFF''
      else if status_code = 418 then ''LISTEN_KEY_VENUE_BAN_HARD_STOP''
      else if status_code = 408 \<or> 500 \<le> status_code \<and> status_code \<le> 599
      then ''LISTEN_KEY_RETRYABLE_FAILURE''
      else case payload of
             Some kvs \<Rightarrow>
               if is_listen_key_expired_payload kvs then ''LISTEN_KEY_EXPIRED''
               else ''LISTEN_KEY_TERMINAL_FAILURE:'' @ terminal_reject_reason status_code (PDict kvs)
           | None \<Rightarrow> ''LISTEN_KEY_TERMINAL_FAILURE:BINANCE_HTTP_'' @ int_digits status_code)"

section \<open>Rules\<close>

fun find_symbol_payload :: "string \<Rightarrow> pyval list \<Rightarrow> exn + (string \<times> pyval) list" where
  "find_symbol_payload symb [] = Inl (KeyError (''symbol not found in exchangeInfo: '' @ symb))"
| "find_symbol_payload symb (p # ps) =
     sbind (entries p) (\<lambda>kvs.
       if get_value kvs ''symbol'' = PStr symb then Inr kvs else find_symbol_payload symb ps)"

text \<open>\<^verbatim>\<open>key in value\<close> and \<^verbatim>\<open>value[key]\<close> for a text key.\<close>

fun has_key :: "string \<Rightarrow> pyval \<Rightarrow> exn + bool" where
  "has_key key (PDict kvs) = Inr (map_of kvs key \<noteq> None)"
| "has_key key (PList xs) = Inr (PStr key \<in> set xs)"
| "has_key key (PStr s) = Inr (sublist key s)"
| "has_key key _ = Inl (TypeError ''argument is not iterable'')"

fun item :: "string \<Rightarrow> pyval \<Rightarrow> exn + pyval" where
  "item key (PDict kvs) = subscript kvs key"
| "item key _ = Inl (TypeError ''indices must be integers'')"

fun hashed :: "pyval \<Rightarrow> exn + pyval" where
  "hashed (PList _) = Inl (TypeError ''unhashable type'')"
| "hashed (PDict _) = Inl (TypeError ''unhashable type'')"
| "hashed v = Inr v"

text \<open>The filters by type; a later filter of the same type replaces an earlier one.\<close>

fun collect_filters ::
  "(pyval \<times> pyval) list \<Rightarrow> pyval list \<Rightarrow> exn + (pyval \<times> pyval) list" where
  "collect_filters acc [] = Inr acc"
| "collect_filters acc (f # fs) =
     sbind (has_key ''filterType'' f) (\<lambda>typed.
       if typed
       then sbind (item ''filterType'' f) (\<lambda>t. sbind (hashed t) (\<lambda>t.
              collect_filters (AList.update t f acc) fs))
       else collect_filters acc fs)"

definition filter_of :: "(pyval \<times> pyval) list \<Rightarrow> string \<Rightarrow> exn + pyval" where
  "filter_of filters name =
     (case map_of filters (PStr name) of Some f \<Rightarrow> Inr f | None \<Rightarrow> Inl (KeyError name))"

definition parse_symbol_rules_from_exchange_info ::
  "(string \<times> pyval) list \<Rightarrow> string \<Rightarrow> exn + symbol_rules" where
  "parse_symbol_rules_from_exchange_info payload symb =
     sbind (iterate (get_or payload ''symbols'' (PList []))) (\<lambda>symbols.
     sbind (find_symbol_payload symb symbols) (\<lambda>symbol_payload.
     sbind (iterate (get_or symbol_payload ''filters'' (PList []))) (\<lambda>raw_filters.
     sbind (collect_filters [] raw_filters) (\<lambda>filters.
     sbind (filter_of filters ''PRICE_FILTER'') (\<lambda>price_filter.
     sbind (filter_of filters ''LOT_SIZE'') (\<lambda>lot_size.
     sbind (filter_of filters ''MIN_NOTIONAL'') (\<lambda>min_notional_filter.
     sbind (entries min_notional_filter) (\<lambda>mn.
       let min_notional_value = get_or mn ''notional'' (get_value mn ''minNotional'')
       in if min_notional_value = PNone
          then Inl (KeyError (''MIN_NOTIONAL filter for '' @ symb @ '' is missing notional/minNotional''))
          else
            sbind (sbind (item ''tickSize'' price_filter) decimal_of) (\<lambda>tick.
            sbind (sbind (item ''stepSize'' lot_size) decimal_of) (\<lambda>step.
            sbind (sbind (item ''minQty'' lot_size) decimal_of) (\<lambda>least.
            sbind (decimal_of min_notional_value) (\<lambda>notional.
            sbind (iterate (get_or symbol_payload ''timeInForce'' (PList []))) (\<lambda>tifs.
              Inr \<lparr>rules_symbol = symb, tick_size = tick, quantity_step = step, min_quantity = least,
                   min_notional = notional,
                   rules_status = text_of (get_or symbol_payload ''status'' (PStr ''UNKNOWN'')),
                   supported_time_in_force = text_of ` set tifs\<rparr>)))))))))))))"

fun collect_rate_limits :: "(string \<times> int) list \<Rightarrow> pyval list \<Rightarrow> exn + (string \<times> int) list" where
  "collect_rate_limits acc [] = Inr acc"
| "collect_rate_limits acc (l # ls) =
     sbind (entries l) (\<lambda>kvs.
     sbind (hashed (get_value kvs ''rateLimitType'')) (\<lambda>kind.
       if kind \<in> {PStr ''REQUEST_WEIGHT'', PStr ''ORDERS''}
       then sbind (subscript kvs ''limit'') (\<lambda>v. sbind (to_int v) (\<lambda>n.
              collect_rate_limits (AList.update (text_of kind) n acc) ls))
       else collect_rate_limits acc ls))"

definition parse_exchange_info_rate_limits ::
  "(string \<times> pyval) list \<Rightarrow> exn + (string \<times> int) list" where
  "parse_exchange_info_rate_limits payload =
     sbind (iterate (get_or payload ''rateLimits'' (PList []))) (collect_rate_limits [])"

end
