(* ===== verification/Binance_Orders.thy ===== *)
theory Binance_Orders
  imports Binance_Payloads Simulator
begin

text \<open>
  The parsing of orders, trades and user events in \<^verbatim>\<open>src/exchanges/binance_usdm.py\<close>, and
  the fold that turns raw orders and trades into a reconciliation result.
\<close>

section \<open>Fields\<close>

definition parse_side :: "string \<Rightarrow> exn + side" where
  "parse_side s =
     (if s = ''BUY'' then Inr BUY else if s = ''SELL'' then Inr SELL
      else if s = ''NO_ACTION'' then Inr NO_ACTION
      else Inl (ValueError (repr_text s @ '' is not a valid Side'')))"

fun optional_int :: "pyval \<Rightarrow> exn + int option" where
  "optional_int PNone = Inr None"
| "optional_int v = sbind (to_int v) (\<lambda>n. Inr (Some n))"

fun optional_bool :: "pyval \<Rightarrow> bool option" where
  "optional_bool PNone = None"
| "optional_bool (PBool b) = Some b"
| "optional_bool (PStr s) =
     (let normalized = lower (strip_text s)
      in if normalized \<in> {''true'', ''1''} then Some True
         else if normalized \<in> {''false'', ''0''} then Some False
         else Some (truthy (PStr s)))"
| "optional_bool v = Some (truthy v)"

text \<open>
  \<^verbatim>\<open>raw.get(key, default)\<close> for a default that is a number already, or a text; the first of two
  keys that is present goes before the default.
\<close>

definition decimal_field :: "(string \<times> pyval) list \<Rightarrow> string list \<Rightarrow> decimal \<Rightarrow> exn + decimal" where
  "decimal_field raw keys default_value =
     (case filter (\<lambda>k. map_of raw k \<noteq> None) keys of
        k # _ \<Rightarrow> decimal_of (get_value raw k)
      | [] \<Rightarrow> Inr default_value)"

definition text_field :: "(string \<times> pyval) list \<Rightarrow> string \<Rightarrow> string \<Rightarrow> string" where
  "text_field raw key default_text = (case map_of raw key of Some v \<Rightarrow> text_of v | None \<Rightarrow> default_text)"

section \<open>Orders and trades\<close>

text \<open>\<^verbatim>\<open>a or b or c\<close> on texts of values.\<close>

definition first_truthy :: "(string \<times> pyval) list \<Rightarrow> string list \<Rightarrow> string \<Rightarrow> string" where
  "first_truthy raw keys default_text =
     (case filter truthy (map (get_value raw) keys) of v # _ \<Rightarrow> text_of v | [] \<Rightarrow> default_text)"

text \<open>\<^verbatim>\<open>_fallback_attr\<close>\<close>

definition fallback_attr :: "child_order option \<Rightarrow> (child_order \<Rightarrow> 'a) \<Rightarrow> 'a \<Rightarrow> 'a" where
  "fallback_attr fallback attr default_value =
     (case fallback of Some c \<Rightarrow> attr c | None \<Rightarrow> default_value)"

definition closing_statuses :: "string set" where
  "closing_statuses = {''EXPIRED'', ''EXPIRED_IN_MATCH'', ''REJECTED''}"

definition parse_order :: "pyval \<Rightarrow> child_order option \<Rightarrow> exn + child_order" where
  "parse_order payload fallback =
     sbind (entries payload) (\<lambda>raw.
       let coid = first_truthy raw [''clientOrderId'', ''origClientOrderId'']
                    (fallback_attr fallback client_order_id []);
           raw_state = text_field raw ''status''
             (fallback_attr fallback
               (\<lambda>c. case raw_status c of Some s \<Rightarrow> s | None \<Rightarrow> ''None'') ''UNKNOWN'')
       in sbind (decimal_field raw [''origQty'', ''quantity''] (fallback_attr fallback submitted_quantity 0)) (\<lambda>quantity.
          sbind (decimal_field raw [''executedQty'', ''cumQty''] (fallback_attr fallback child_filled 0)) (\<lambda>filled.
          sbind (parse_side (text_field raw ''side'' (side_value (fallback_attr fallback child_side BUY)))) (\<lambda>sd.
          sbind (decimal_field raw [''price''] (fallback_attr fallback child_price 0)) (\<lambda>price.
            Inr \<lparr>child_order_id = fallback_attr fallback child_order_id coid, client_order_id = coid,
                 child_symbol = text_field raw ''symbol'' (fallback_attr fallback child_symbol []),
                 child_side = sd, submitted_quantity = quantity, child_price = price,
                 child_status = normalize_order_status raw_state, child_filled = filled,
                 exchange_order_id =
                   (case optional_text (get_value raw ''orderId'') of
                      Some i \<Rightarrow> Some i
                    | None \<Rightarrow> fallback_attr fallback exchange_order_id None),
                 raw_status = Some raw_state,
                 terminal_reason = (if raw_state \<in> closing_statuses then Some raw_state else None)\<rparr>)))))"

definition parse_fill :: "(string \<times> pyval) list \<Rightarrow> string \<Rightarrow> decimal \<Rightarrow> exn + fill" where
  "parse_fill raw coid cumulative =
     sbind (decimal_field raw [''qty''] 0) (\<lambda>quantity.
     sbind (decimal_field raw [''price''] 0) (\<lambda>price.
     sbind (optional_int (get_value raw ''time'')) (\<lambda>time.
       Inr \<lparr>fill_client_order_id = coid, fill_trade_id = optional_text (get_value raw ''id''),
            cumulative_filled_quantity = cumulative, last_filled_quantity = quantity,
            last_fill_price = price, fill_event_time_ms = time, fill_transaction_time_ms = time,
            is_maker = optional_bool (get_value raw ''maker'')\<rparr>)))"

section \<open>User events\<close>

definition order_update_price :: "(string \<times> pyval) list \<Rightarrow> exn + decimal" where
  "order_update_price raw =
     sbind (decimal_field raw [''p''] 0) (\<lambda>price.
       if price \<noteq> 0 then Inr price
       else sbind (decimal_field raw [''L''] 0) (\<lambda>last.
              if last \<noteq> 0 then Inr last else Inr 0))"

definition event_order_of :: "(string \<times> pyval) list \<Rightarrow> string \<Rightarrow> exn + child_order" where
  "event_order_of raw coid =
     (let raw_state = text_field raw ''X'' ''UNKNOWN''
      in sbind (decimal_field raw [''q''] 0) (\<lambda>quantity.
         sbind (decimal_field raw [''z''] 0) (\<lambda>filled.
         sbind (order_update_price raw) (\<lambda>price.
         sbind (parse_side (text_field raw ''S'' ''BUY'')) (\<lambda>sd.
           Inr \<lparr>child_order_id = coid, client_order_id = coid, child_symbol = text_field raw ''s'' [],
                child_side = sd, submitted_quantity = quantity, child_price = price,
                child_status = normalize_order_status raw_state, child_filled = filled,
                exchange_order_id = optional_text (get_value raw ''i''),
                raw_status = Some raw_state,
                terminal_reason = (if raw_state \<in> closing_statuses then Some raw_state else None)\<rparr>)))))"

definition event_fills_of ::
  "(string \<times> pyval) list \<Rightarrow> (string \<times> pyval) list \<Rightarrow> child_order \<Rightarrow> exn + fill list" where
  "event_fills_of event raw c =
     sbind (decimal_field raw [''l''] 0) (\<lambda>quantity.
       if quantity > 0
       then
         sbind (decimal_field raw [''L''] (child_price c)) (\<lambda>price.
         sbind (optional_int (get_value event ''E'')) (\<lambda>event_time.
         sbind (optional_int (get_or raw ''T'' (get_value event ''T''))) (\<lambda>transaction_time.
           Inr [\<lparr>fill_client_order_id = client_order_id c,
                 fill_trade_id =
                   (case optional_text (get_value raw ''t'') of
                      None \<Rightarrow> None
                    | Some t \<Rightarrow> if t = ''-1'' then None else Some t),
                 cumulative_filled_quantity = child_filled c, last_filled_quantity = quantity,
                 last_fill_price = price, fill_event_time_ms = event_time,
                 fill_transaction_time_ms = transaction_time,
                 is_maker = optional_bool (get_value raw ''m'')\<rparr>])))
       else Inr [])"

definition reconciliation_from_user_event :: "pyval \<Rightarrow> exn + reconciliation_result option" where
  "reconciliation_from_user_event event =
     (case event of
        PDict outer \<Rightarrow>
          (case get_or outer ''raw'' event of
             PDict raw \<Rightarrow>
               if get_or outer ''event_type'' (get_value raw ''e'') \<noteq> PStr ''ORDER_TRADE_UPDATE''
               then Inr None
               else (case get_value raw ''o'' of
                 PDict payload \<Rightarrow>
                   (let coid = first_truthy payload [''c''] []
                    in if coid = [] then Inr None
                       else sbind (event_order_of payload coid) (\<lambda>c.
                            sbind (event_fills_of raw payload c) (\<lambda>fills.
                              Inr (Some \<lparr>rr_orders = [c], rr_fills = fills, rr_warnings = []\<rparr>))))
               | _ \<Rightarrow> Inr None)
           | _ \<Rightarrow> Inr None)
      | _ \<Rightarrow> Inr None)"

definition parse_user_event :: "pyval \<Rightarrow> exn + pyval" where
  "parse_user_event message =
     sbind (entries message) (\<lambda>kvs.
     sbind (optional_int (get_value kvs ''E'')) (\<lambda>event_time.
     sbind (optional_int (get_value kvs ''T'')) (\<lambda>transaction_time.
       let number = (\<lambda>n. case n of Some i \<Rightarrow> PInt i | None \<Rightarrow> PNone)
       in Inr (PDict [(''event_type'', get_value kvs ''e''), (''event_time_ms'', number event_time),
            (''transaction_time_ms'', number transaction_time), (''raw'', PDict kvs)]))))"

text \<open>A book ticker, but for the local time, which is read once everything else is parsed.\<close>

definition parse_book_ticker :: "pyval \<Rightarrow> exn + (pyfloat \<Rightarrow> market_snapshot)" where
  "parse_book_ticker message =
     sbind (entries message) (\<lambda>outer.
       case get_or outer ''data'' message of
         PDict payload \<Rightarrow>
           sbind (subscript payload ''s'') (\<lambda>symb.
           sbind (sbind (subscript payload ''b'') decimal_of) (\<lambda>bid.
           sbind (sbind (subscript payload ''a'') decimal_of) (\<lambda>ask.
           sbind (optional_int (get_value payload ''E'')) (\<lambda>time.
             Inr (\<lambda>now. \<lparr>mkt_symbol = text_of symb, mkt_bid = bid, mkt_ask = ask,
                  last_market_event_time_exchange = time, last_market_event_time_local = now\<rparr>)))))
       | _ \<Rightarrow> Inl (ValueError ''stream message data must be a mapping''))"

section \<open>Reconciliation\<close>

definition require_execution_prefix :: "string option \<Rightarrow> exn + unit" where
  "require_execution_prefix p = reject_broad_client_order_prefix p"

text \<open>The client order id by symbol and exchange order id, as far as it is known.\<close>

type_synonym order_ids = "((string \<times> string) \<times> string) list"

definition remember_order_identity :: "child_order \<Rightarrow> order_ids \<Rightarrow> order_ids" where
  "remember_order_identity c known =
     (case exchange_order_id c of
        None \<Rightarrow> known
      | Some i \<Rightarrow> AList.update (child_symbol c, i) (client_order_id c) known)"

text \<open>
  The first loop: orders of the prefix by client order id, exchange order ids, and what is
  remembered; the ids remembered before a payload raises stay, so they are the state.
\<close>

fun collect_orders ::
  "string \<Rightarrow> (string \<times> child_order) list \<times> (string \<times> string) list \<Rightarrow> pyval list
   \<Rightarrow> (exn, order_ids, (string \<times> child_order) list \<times> (string \<times> string) list) eff" where
  "collect_orders p (orders, ids) [] = ret (orders, ids)"
| "collect_orders p (orders, ids) (x # xs) =
     bind (lift_res (entries x)) (\<lambda>raw.
       let coid = text_of (get_or raw ''clientOrderId'' (PStr ''''))
       in if \<not> prefix p coid then collect_orders p (orders, ids) xs
          else
            bind (lift_res (parse_order x None)) (\<lambda>c.
            andthen (modify (remember_order_identity c))
              (collect_orders p
                (AList.update coid c orders,
                 (case optional_text (get_value raw ''orderId'') of
                    Some i \<Rightarrow> AList.update i coid ids | None \<Rightarrow> ids)) xs)))"

text \<open>The client order id of a trade: its own, or the one its exchange order id is known under.\<close>

definition trade_client_order_id ::
  "string \<Rightarrow> (string \<times> string) list \<Rightarrow> order_ids \<Rightarrow> (string \<times> pyval) list \<Rightarrow> string option" where
  "trade_client_order_id symb ids known raw =
     (let coid = optional_text (get_value raw ''clientOrderId'')
      in case optional_text (get_value raw ''orderId'') of
           None \<Rightarrow> coid
         | Some i \<Rightarrow>
             if coid \<in> {None, Some []}
             then (case map_of ids i of Some c \<Rightarrow> Some c | None \<Rightarrow> map_of known (symb, i))
             else coid)"

fun collect_fills ::
  "string \<Rightarrow> string \<Rightarrow> (string \<times> string) list \<Rightarrow> order_ids \<Rightarrow> (string \<times> decimal) list \<Rightarrow> pyval list
   \<Rightarrow> exn + fill list" where
  "collect_fills p symb ids known totals [] = Inr []"
| "collect_fills p symb ids known totals (x # xs) =
     sbind (entries x) (\<lambda>raw.
       case trade_client_order_id symb ids known raw of
         None \<Rightarrow> collect_fills p symb ids known totals xs
       | Some coid \<Rightarrow>
           if \<not> prefix p coid then collect_fills p symb ids known totals xs
           else
             sbind (decimal_field raw [''qty''] 0) (\<lambda>quantity.
               let cumulative = dadd (case map_of totals coid of Some t \<Rightarrow> t | None \<Rightarrow> 0) quantity
               in sbind (parse_fill raw coid cumulative) (\<lambda>f.
                  sbind (collect_fills p symb ids known (AList.update coid cumulative totals) xs) (\<lambda>fs.
                    Inr (f # fs)))))"

end
