(* ===== verification/Binance_Adapter.thy ===== *)
theory Binance_Adapter
  imports Binance_Orders
begin

text \<open>
  The stateful part of \<^verbatim>\<open>src/exchanges/binance_usdm.py\<close>: the adapter's state, signed and
  listen-key requests, the exchange operations and the two streams. The network, the clock and
  HMAC-SHA256 are a \<open>venue\<close>: a request gets a response, with a status and a body that may be no
  JSON, or a transport failure. An adapter whose venue does anything is an \<open>adapter\<close> of the engine.
  The text kept for diagnosis in \<^verbatim>\<open>last_stream_error\<close> is left out.
\<close>

section \<open>The venue and the state\<close>

record http_response =
  http_status :: int
  http_json :: "pyval option"

record 'w venue =
  venue_send :: "string \<Rightarrow> string \<Rightarrow> api_params \<Rightarrow> api_params \<Rightarrow> 'w \<Rightarrow> http_response option \<times> 'w"
  venue_utc :: "'w \<Rightarrow> pyfloat \<times> 'w"
  venue_monotonic :: "'w \<Rightarrow> pyfloat \<times> 'w"
  venue_hmac :: "string \<Rightarrow> string \<Rightarrow> string"

record binance =
  bn_settings :: settings
  server_time_offset_ms :: int
  bn_rate_limits :: "(string \<times> int) list"
  market_stream_healthy :: bool
  bn_user_stream_healthy :: bool
  latest_listen_key :: "string option"
  latest_market :: "(string \<times> market_snapshot) list"
  client_order_id_by_order_id :: order_ids
  market_stream_symbol :: string

definition new_binance :: "settings \<Rightarrow> binance" where
  "new_binance s =
     \<lparr>bn_settings = s, server_time_offset_ms = 0, bn_rate_limits = [], market_stream_healthy = False,
      bn_user_stream_healthy = False, latest_listen_key = None, latest_market = [],
      client_order_id_by_order_id = [], market_stream_symbol = ''BTCUSDT''\<rparr>"

type_synonym ('w, 'a) bin = "(exn, binance \<times> 'w, 'a) eff"

definition getb :: "(binance \<Rightarrow> 'a) \<Rightarrow> ('w, 'a) bin" where
  "getb f = gets (\<lambda>s. f (fst s))"

definition modb :: "(binance \<Rightarrow> binance) \<Rightarrow> ('w, unit) bin" where
  "modb f = modify (\<lambda>s. (f (fst s), snd s))"

text \<open>Code on the venue, and code on the remembered order ids.\<close>

definition vcall :: "('w \<Rightarrow> 'a \<times> 'w) \<Rightarrow> ('w, 'a) bin" where
  "vcall op = (\<lambda>(b, w). let (x, w') = op w in (Inr x, b, w'))"

definition on_ids :: "(exn, order_ids, 'a) eff \<Rightarrow> ('w, 'a) bin" where
  "on_ids m = (\<lambda>(b, w). let (x, ids) = m (client_order_id_by_order_id b)
     in (x, b\<lparr>client_order_id_by_order_id := ids\<rparr>, w))"

section \<open>Addresses\<close>

definition select_base_url :: "settings \<Rightarrow> string" where
  "select_base_url s =
     (if set_environment s = MAINNET \<and> can_trade_mainnet s then ''https://fapi.binance.com''
      else ''https://demo-fapi.binance.com'')"

definition ws_root_url :: "settings \<Rightarrow> string" where
  "ws_root_url s =
     (if set_environment s = MAINNET \<and> can_trade_mainnet s then ''wss://fstream.binance.com''
      else ''wss://demo-fstream.binance.com'')"

definition public_ws_base_url :: "settings \<Rightarrow> string" where
  "public_ws_base_url s = ws_root_url s @ ''/public''"

definition private_ws_base_url :: "settings \<Rightarrow> string" where
  "private_ws_base_url s = ws_root_url s @ ''/private''"

definition market_stream_url :: "settings \<Rightarrow> string \<Rightarrow> string" where
  "market_stream_url s symb = public_ws_base_url s @ ''/ws/'' @ lower symb @ ''@bookTicker''"

definition set_market_stream_symbol :: "string \<Rightarrow> ('w, unit) bin" where
  "set_market_stream_symbol symb = modb (\<lambda>b. b\<lparr>market_stream_symbol := upper symb\<rparr>)"

definition supports_post_only :: "symbol_rules \<Rightarrow> bool" where
  "supports_post_only rules \<longleftrightarrow> ''GTX'' \<in> supported_time_in_force rules"

section \<open>Signed requests\<close>

definition missing :: "string option \<Rightarrow> bool" where
  "missing k \<longleftrightarrow> k = None \<or> k = Some []"

definition secret_required :: exn where
  "secret_required =
     ValueError ''Binance API secret is required to sign authenticated REST requests''"

definition signed_params ::
  "(string \<Rightarrow> string \<Rightarrow> string) \<Rightarrow> (string \<times> pyval) list \<Rightarrow> int \<Rightarrow> binance \<Rightarrow> exn + api_params" where
  "signed_params hmac params now_ms b =
     (if missing (binance_api_secret (bn_settings b)) then Inl secret_required
      else
        let serialized = map (\<lambda>(k, v). (k, serialize_param v)) params;
            stamped = AList.update ''timestamp'' (int_digits (now_ms + server_time_offset_ms b)) serialized;
            framed = AList.update ''recvWindow'' (int_digits (recv_window_ms (bn_settings b))) stamped
        in Inr (sign_params hmac framed (the (binance_api_secret (bn_settings b)))))"

definition clock_wall_ms :: "'w venue \<Rightarrow> ('w, int) bin" where
  "clock_wall_ms V = bind (vcall (venue_utc V)) (\<lambda>t. ret (dtrunc (fmul t 1000)))"

definition mutation_timeout :: "mutation_kind option \<Rightarrow> exn" where
  "mutation_timeout kind =
     (case kind of
        Some CREATE \<Rightarrow> OrderCreateTimeout (classify_mutation_timeout CREATE)
      | Some CANCEL \<Rightarrow> OrderCancelTimeout (classify_mutation_timeout CANCEL)
      | None \<Rightarrow> ExchangeRateLimited ''SIGNED_READ_TIMEOUT'')"

definition json_payload_or_conservative_failure ::
  "http_response \<Rightarrow> mutation_kind option \<Rightarrow> exn + pyval" where
  "json_payload_or_conservative_failure response kind =
     (case http_json response of
        Some v \<Rightarrow> Inr v
      | None \<Rightarrow> Inl (case kind of
            Some CREATE \<Rightarrow> OrderCreateTimeout ''UNKNOWN_CREATE_OUTCOME_INVALID_JSON''
          | Some CANCEL \<Rightarrow> OrderCancelTimeout ''PENDING_CANCEL_OUTCOME_INVALID_JSON''
          | None \<Rightarrow> ExchangeRateLimited ''SIGNED_READ_INVALID_JSON''))"

definition json_payload_or_retryable_read_failure :: "http_response \<Rightarrow> exn + pyval" where
  "json_payload_or_retryable_read_failure response =
     (case http_json response of
        Some v \<Rightarrow> Inr v
      | None \<Rightarrow> Inl (ExchangeRateLimited ''RETRYABLE_READ_FAILURE''))"

text \<open>A server error: what the exchange did with a mutation may be unknown.\<close>

definition server_error :: "int \<Rightarrow> pyval \<Rightarrow> mutation_kind option \<Rightarrow> exn" where
  "server_error status_code payload kind =
     (case kind of
        None \<Rightarrow> ExchangeRateLimited ''RETRYABLE_READ_FAILURE''
      | Some mutation \<Rightarrow>
          let reason = terminal_reject_reason status_code payload;
              unknown = (case mutation of
                 CREATE \<Rightarrow> OrderCreateTimeout ''UNKNOWN_CREATE_OUTCOME''
               | CANCEL \<Rightarrow> OrderCancelTimeout ''PENDING_CANCEL_OUTCOME'')
          in if is_specific_terminal_5xx_reject reason then TerminalOrderRejected reason
             else if status_code = 503
             then (case classify_binance_503_payload payload of
                 Inl e \<Rightarrow> e
               | Inr failure_kind \<Rightarrow>
                   if failure_kind = Some ''SYSTEM_OVERLOAD''
                   then ExchangeRateLimited ''SYSTEM_OVERLOAD_RETRYABLE''
                   else if failure_kind = Some ''RETRYABLE_FAILURE''
                   then ExchangeRateLimited ''RETRYABLE_503_FAILURE''
                   else if failure_kind = Some ''UNKNOWN_EXECUTION_STATUS'' then unknown
                   else ExchangeRateLimited ''RETRYABLE_READ_FAILURE'')
             else unknown)"

definition client_error :: "int \<Rightarrow> pyval \<Rightarrow> mutation_kind option \<Rightarrow> exn" where
  "client_error status_code payload kind =
     (let reason = terminal_reject_reason status_code payload
      in if kind = Some CREATE \<and> is_retryable_order_reject_reason reason then OrderRejected reason
         else TerminalOrderRejected reason)"

definition response_result :: "http_response \<Rightarrow> mutation_kind option \<Rightarrow> exn + pyval" where
  "response_result response kind =
     (let status_code = http_status response
      in if classify_http_status status_code = ''OK''
         then json_payload_or_conservative_failure response kind
         else if status_code = 408 then Inl (mutation_timeout kind)
         else if status_code = 429 then Inl (ExchangeRateLimited ''RATE_LIMIT_BACKOFF'')
         else if status_code = 418 then Inl (VenueBanHardStop ''VENUE_BAN_HARD_STOP'')
         else
           sbind (if status_code = 503 then json_payload_or_retryable_read_failure response
                  else json_payload_or_conservative_failure response kind) (\<lambda>payload.
             Inl (if 500 \<le> status_code \<and> status_code \<le> 599 then server_error status_code payload kind
                  else client_error status_code payload kind)))"

definition mainnet_guard :: "settings \<Rightarrow> mutation_kind option \<Rightarrow> exn + unit" where
  "mainnet_guard s kind =
     (if kind \<noteq> None \<and> set_environment s = MAINNET \<and> \<not> can_trade_mainnet s
      then Inl (TerminalOrderRejected ''MAINNET_TRADING_NOT_ALLOWED'')
      else if missing (binance_api_key s)
      then Inl (ValueError ''Binance API key is required for authenticated REST requests'')
      else if missing (binance_api_secret s) then Inl secret_required
      else Inr ())"

definition signed_request ::
  "'w venue \<Rightarrow> string \<Rightarrow> string \<Rightarrow> (string \<times> pyval) list \<Rightarrow> mutation_kind option \<Rightarrow> ('w, pyval) bin" where
  "signed_request V http_method path params kind =
     bind (getb (\<lambda>b. mainnet_guard (bn_settings b) kind)) (\<lambda>check.
     andthen (lift_res check)
     (bind (clock_wall_ms V) (\<lambda>now_ms.
      bind (getb (signed_params (venue_hmac V) params now_ms)) (\<lambda>r.
      bind (lift_res r) (\<lambda>signed.
      bind (getb bn_settings) (\<lambda>s.
      bind (vcall (venue_send V http_method (select_base_url s @ path) signed
             [(''X-MBX-APIKEY'', the (binance_api_key s))])) (\<lambda>answer.
        case answer of
          None \<Rightarrow> throw (mutation_timeout kind)
        | Some response \<Rightarrow> lift_res (response_result response kind))))))))"

definition synchronize_server_time :: "'w venue \<Rightarrow> ('w, int) bin" where
  "synchronize_server_time V =
     bind (getb (\<lambda>b. select_base_url (bn_settings b))) (\<lambda>url.
     bind (vcall (venue_send V ''GET'' (url @ ''/fapi/v1/time'') [] [])) (\<lambda>answer.
       let malformed = throw (ServerTimeSynchronizationFailure ''SERVER_TIME_SYNC_MALFORMED_RESPONSE'')
       in case answer of
         None \<Rightarrow> throw (ServerTimeSynchronizationFailure ''SERVER_TIME_SYNC_TRANSPORT_FAILURE'')
       | Some response \<Rightarrow>
           if http_status response \<noteq> 200
           then throw (ServerTimeSynchronizationFailure
             (''SERVER_TIME_SYNC_HTTP_'' @ int_digits (http_status response)))
           else (case http_json response of
               None \<Rightarrow> throw (ServerTimeSynchronizationFailure ''SERVER_TIME_SYNC_INVALID_JSON'')
             | Some (PDict kvs) \<Rightarrow>
                 (case map_of kvs ''serverTime'' of
                    None \<Rightarrow> malformed
                  | Some v \<Rightarrow>
                      (case to_int v of
                         Inr n \<Rightarrow>
                           bind (clock_wall_ms V) (\<lambda>now_ms.
                           andthen (modb (\<lambda>b. b\<lparr>server_time_offset_ms := n - now_ms\<rparr>))
                             (ret (n - now_ms)))
                       | Inl (TypeError t) \<Rightarrow> malformed
                       | Inl (ValueError t) \<Rightarrow> malformed
                       | Inl e \<Rightarrow> throw e))
             | Some _ \<Rightarrow> malformed)))"

section \<open>The exchange operations\<close>

definition bn_get_best_bid_ask :: "'w venue \<Rightarrow> string \<Rightarrow> ('w, market_snapshot) bin" where
  "bn_get_best_bid_ask V symb =
     bind (getb (\<lambda>b. map_of (latest_market b) symb)) (\<lambda>found. case found of
       None \<Rightarrow> throw (NoFreshMarketData (''no fresh market data for '' @ symb))
     | Some snapshot \<Rightarrow>
         if is_crossed snapshot
         then throw (NoFreshMarketData (''crossed market data for '' @ symb))
         else
           bind (vcall (venue_monotonic V)) (\<lambda>now.
           bind (getb (\<lambda>b. stale_market_data_ms (bn_settings b))) (\<lambda>limit.
             let age_ms = fmul (fsub now (last_market_event_time_local snapshot)) 1000
             in if age_ms > of_int limit
                then throw (NoFreshMarketData
                  (''stale market data for '' @ symb @ '': age_ms='' @ plain_string (float_decimal age_ms)))
                else ret snapshot)))"

definition bn_get_symbol_rules :: "'w venue \<Rightarrow> string \<Rightarrow> ('w, symbol_rules) bin" where
  "bn_get_symbol_rules V symb =
     bind (getb (\<lambda>b. select_base_url (bn_settings b))) (\<lambda>url.
     bind (vcall (venue_send V ''GET'' (url @ ''/fapi/v1/exchangeInfo'') [] [])) (\<lambda>answer.
       let failure = throw (ExchangeRateLimited ''RETRYABLE_READ_FAILURE'')
       in case answer of
         None \<Rightarrow> failure
       | Some response \<Rightarrow>
           let status_code = http_status response
           in if status_code = 429 then throw (ExchangeRateLimited ''RATE_LIMIT_BACKOFF'')
              else if status_code = 418 then throw (VenueBanHardStop ''VENUE_BAN_HARD_STOP'')
              else if 500 \<le> status_code \<and> status_code \<le> 599 then failure
              else if status_code \<noteq> 200
              then bind (lift_res (json_payload_or_retryable_read_failure response)) (\<lambda>payload.
                     throw (TerminalOrderRejected (terminal_reject_reason status_code payload)))
              else (case http_json response of
                  Some (PDict kvs) \<Rightarrow>
                    bind (lift_res (parse_exchange_info_rate_limits kvs)) (\<lambda>limits.
                    andthen (modb (\<lambda>b. b\<lparr>bn_rate_limits := limits\<rparr>))
                      (lift_res (parse_symbol_rules_from_exchange_info kvs symb)))
                | _ \<Rightarrow> failure)))"

definition remember_order :: "child_order \<Rightarrow> ('w, unit) bin" where
  "remember_order c = on_ids (modify (remember_order_identity c))"

definition bn_submit_limit_order :: "'w venue \<Rightarrow> order_request \<Rightarrow> ('w, child_order) bin" where
  "bn_submit_limit_order V ord =
     bind (bn_get_symbol_rules V (or_symbol ord)) (\<lambda>rules.
     bind (lift_res (build_new_order_params ord rules)) (\<lambda>params.
     bind (signed_request V ''POST'' ''/fapi/v1/order'' (map (\<lambda>(k, v). (k, PStr v)) params) (Some CREATE)) (\<lambda>raw.
     bind (lift_res (parse_order raw (Some (new_child_order (or_child_order_id ord)
             (or_client_order_id ord) (or_symbol ord) (or_side ord) (or_quantity ord) (or_price ord))))) (\<lambda>c.
       andthen (remember_order c) (ret c)))))"

definition order_params :: "string \<Rightarrow> string \<Rightarrow> (string \<times> pyval) list" where
  "order_params symb coid = [(''symbol'', PStr symb), (''origClientOrderId'', PStr coid)]"

definition bn_cancel_order :: "'w venue \<Rightarrow> string \<Rightarrow> string \<Rightarrow> ('w, child_order) bin" where
  "bn_cancel_order V symb coid =
     bind (signed_request V ''DELETE'' ''/fapi/v1/order'' (order_params symb coid) (Some CANCEL)) (\<lambda>raw.
     bind (lift_res (parse_order raw None)) (\<lambda>c.
       andthen (remember_order c) (ret c)))"

definition bn_get_order :: "'w venue \<Rightarrow> string \<Rightarrow> string \<Rightarrow> ('w, child_order option) bin" where
  "bn_get_order V symb coid =
     try_else (signed_request V ''GET'' ''/fapi/v1/order'' (order_params symb coid) None)
       (\<lambda>e. case e of
          TerminalOrderRejected reason \<Rightarrow> if is_order_not_found_reason reason then ret None else throw e
        | _ \<Rightarrow> throw e)
       (\<lambda>raw. bind (lift_res (parse_order raw None)) (\<lambda>c.
          andthen (remember_order c) (ret (Some c))))"

text \<open>The rows of a symbol, and the position they tell.\<close>

definition symbol_rows :: "string \<Rightarrow> pyval \<Rightarrow> exn + (string \<times> pyval) list list" where
  "symbol_rows symb rows =
     sbind (iterate rows) (\<lambda>xs. sbind (smap entries xs) (\<lambda>kvss.
       Inr (filter (\<lambda>kvs. get_value kvs ''symbol'' = PStr symb) kvss)))"

definition position_of_rows :: "string \<Rightarrow> (string \<times> pyval) list list \<Rightarrow> exn + position_snapshot" where
  "position_of_rows symb rows =
     (case rows of
        [] \<Rightarrow> Inr \<lparr>pos_symbol = symb, pos_position = 0, pos_update_time_ms = None\<rparr>
      | row # _ \<Rightarrow>
          if list_ex (\<lambda>r. get_or r ''positionSide'' (PStr ''BOTH'') \<noteq> PStr ''BOTH'') rows
          then Inl (TerminalOrderRejected ''HEDGE_MODE_UNSUPPORTED'')
          else sbind (decimal_field row [''positionAmt''] 0) (\<lambda>amount.
               sbind (optional_int (get_value row ''updateTime'')) (\<lambda>time.
                 Inr \<lparr>pos_symbol = symb, pos_position = amount, pos_update_time_ms = time\<rparr>)))"

definition bn_get_position :: "'w venue \<Rightarrow> string \<Rightarrow> ('w, position_snapshot) bin" where
  "bn_get_position V symb =
     bind (signed_request V ''GET'' ''/fapi/v3/positionRisk'' [(''symbol'', PStr symb)] None) (\<lambda>rows.
     bind (lift_res (symbol_rows symb rows)) (\<lambda>kvss. lift_res (position_of_rows symb kvss)))"

definition historical_reconciliation_params ::
  "string \<Rightarrow> int option \<Rightarrow> int option \<Rightarrow> (string \<times> pyval) list" where
  "historical_reconciliation_params symb t0 t1 =
     [(''symbol'', PStr symb), (''limit'', PInt 1000)]
     @ (case t0 of Some t \<Rightarrow> [(''startTime'', PInt t)] | None \<Rightarrow> [])
     @ (case t1 of Some t \<Rightarrow> [(''endTime'', PInt t)] | None \<Rightarrow> [])"

definition bn_reconcile ::
  "'w venue \<Rightarrow> string \<Rightarrow> string option \<Rightarrow> int option \<Rightarrow> int option \<Rightarrow> ('w, reconciliation_result) bin" where
  "bn_reconcile V symb pre t0 t1 =
     andthen (lift_res (require_execution_prefix pre))
     (let history = historical_reconciliation_params symb t0 t1
      in bind (signed_request V ''GET'' ''/fapi/v1/openOrders'' [(''symbol'', PStr symb)] None) (\<lambda>open_raw.
         bind (signed_request V ''GET'' ''/fapi/v1/allOrders'' history None) (\<lambda>all_raw.
         bind (signed_request V ''GET'' ''/fapi/v1/userTrades'' history None) (\<lambda>trades_raw.
         bind (lift_res (iterate open_raw)) (\<lambda>opens.
         bind (lift_res (iterate all_raw)) (\<lambda>alls.
         bind (on_ids (collect_orders (the pre) ([], []) (opens @ alls))) (\<lambda>(orders, ids).
         bind (lift_res (iterate trades_raw)) (\<lambda>trades.
         bind (getb client_order_id_by_order_id) (\<lambda>known.
         bind (lift_res (collect_fills (the pre) symb ids known [] trades)) (\<lambda>fills.
           ret \<lparr>rr_orders = map snd orders, rr_fills = fills, rr_warnings = []\<rparr>))))))))))"

definition bn_health_check :: "('w, bool) bin" where
  "bn_health_check = getb (\<lambda>b. market_stream_healthy b \<and> bn_user_stream_healthy b)"

section \<open>Listen keys and streams\<close>

definition listen_key_error_payload :: "http_response \<Rightarrow> exn + (string \<times> pyval) list option" where
  "listen_key_error_payload response =
     (let status_code = http_status response
      in if status_code \<in> {408, 418, 429} \<or> 500 \<le> status_code \<and> status_code \<le> 599 then Inr None
         else case http_json response of
             None \<Rightarrow> Inl (StreamHealthFailure ''LISTEN_KEY_ERROR_INVALID_JSON'')
           | Some (PDict kvs) \<Rightarrow> Inr (Some kvs)
           | Some _ \<Rightarrow> Inl (StreamHealthFailure ''LISTEN_KEY_MALFORMED_ERROR_RESPONSE''))"

definition api_key_request :: "'w venue \<Rightarrow> string \<Rightarrow> string \<Rightarrow> ('w, (string \<times> pyval) list) bin" where
  "api_key_request V http_method path =
     bind (getb bn_settings) (\<lambda>s.
       if missing (binance_api_key s)
       then throw (ValueError ''Binance API key is required for listen-key requests'')
       else
         bind (vcall (venue_send V http_method (select_base_url s @ path) []
                [(''X-MBX-APIKEY'', the (binance_api_key s))])) (\<lambda>answer. case answer of
           None \<Rightarrow> throw (StreamHealthFailure ''LISTEN_KEY_RETRYABLE_FAILURE'')
         | Some response \<Rightarrow>
             if http_status response \<noteq> 200
             then bind (lift_res (listen_key_error_payload response)) (\<lambda>payload.
                    throw (StreamHealthFailure (listen_key_failure_reason (http_status response) payload)))
             else (case http_json response of
                 None \<Rightarrow> throw (StreamHealthFailure ''LISTEN_KEY_INVALID_JSON'')
               | Some (PDict kvs) \<Rightarrow> ret kvs
               | Some _ \<Rightarrow> throw (StreamHealthFailure ''LISTEN_KEY_MALFORMED_RESPONSE''))))"

definition create_listen_key :: "'w venue \<Rightarrow> ('w, string) bin" where
  "create_listen_key V =
     bind (api_key_request V ''POST'' ''/fapi/v1/listenKey'') (\<lambda>kvs.
       let listen_key = get_value kvs ''listenKey''
       in if \<not> truthy listen_key then throw (StreamHealthFailure ''LISTEN_KEY_MISSING'')
          else andthen (modb (\<lambda>b. b\<lparr>latest_listen_key := Some (text_of listen_key)\<rparr>))
                 (ret (text_of listen_key)))"

text \<open>The code of a stream failure is its reason up to the first colon.\<close>

definition failure_code :: "string \<Rightarrow> string" where
  "failure_code reason = takeWhile (\<lambda>c. c \<noteq> CHR '':'') reason"

definition renew_listen_key :: "'w venue \<Rightarrow> string \<Rightarrow> ('w, unit) bin" where
  "renew_listen_key V listen_key =
     try_else (api_key_request V ''PUT'' ''/fapi/v1/listenKey'')
       (\<lambda>e. case e of
          StreamHealthFailure reason \<Rightarrow>
            andthen (modb (\<lambda>b.
              if failure_code reason = ''LISTEN_KEY_EXPIRED'' \<and> latest_listen_key b = Some listen_key
              then b\<lparr>latest_listen_key := None\<rparr> else b))
            (throw e)
        | _ \<Rightarrow> throw e)
       (\<lambda>_. ret ())"

text \<open>The market stream: connected, a message, closed; a message that cannot be read closes it.\<close>

definition market_stream_opened :: "('w, string) bin" where
  "market_stream_opened =
     andthen (modb (\<lambda>b. b\<lparr>market_stream_healthy := True\<rparr>))
       (getb (\<lambda>b. market_stream_url (bn_settings b) (market_stream_symbol b)))"

definition market_stream_closed :: "('w, unit) bin" where
  "market_stream_closed = modb (\<lambda>b. b\<lparr>market_stream_healthy := False\<rparr>)"

definition market_stream_message :: "'w venue \<Rightarrow> pyval option \<Rightarrow> ('w, market_snapshot) bin" where
  "market_stream_message V message =
     try_else
       (case message of
          None \<Rightarrow> throw (ValueError ''invalid JSON'')
        | Some payload \<Rightarrow>
            bind (lift_res (parse_book_ticker payload)) (\<lambda>book.
            bind (vcall (venue_monotonic V)) (\<lambda>now.
              let snapshot = book now
              in andthen (modb (\<lambda>b. b\<lparr>latest_market :=
                   AList.update (mkt_symbol snapshot) snapshot (latest_market b)\<rparr>))
                 (ret snapshot))))
       (\<lambda>e. andthen market_stream_closed (throw e)) ret"

definition user_stream_opened :: "'w venue \<Rightarrow> ('w, string) bin" where
  "user_stream_opened V =
     andthen (modb (\<lambda>b. b\<lparr>bn_user_stream_healthy := False\<rparr>))
     (bind (create_listen_key V) (\<lambda>listen_key.
      bind (getb (\<lambda>b. private_ws_base_url (bn_settings b) @ ''/ws/'' @ listen_key)) (\<lambda>url.
        andthen (modb (\<lambda>b. b\<lparr>bn_user_stream_healthy := True\<rparr>)) (ret url))))"

definition user_stream_closed :: "('w, unit) bin" where
  "user_stream_closed = modb (\<lambda>b. b\<lparr>bn_user_stream_healthy := False\<rparr>)"

definition user_stream_message :: "pyval option \<Rightarrow> ('w, pyval) bin" where
  "user_stream_message message =
     try_else
       (case message of
          None \<Rightarrow> throw (ValueError ''invalid JSON'')
        | Some payload \<Rightarrow> lift_res (parse_user_event payload))
       (\<lambda>e. andthen user_stream_closed (throw e)) ret"

section \<open>The adapter\<close>

definition binance_adapter :: "'w venue \<Rightarrow> (binance \<times> 'w) adapter" where
  "binance_adapter V =
     \<lparr>get_symbol_rules = bn_get_symbol_rules V, get_position = bn_get_position V,
      get_best_bid_ask = bn_get_best_bid_ask V, submit_limit_order = bn_submit_limit_order V,
      cancel_order = bn_cancel_order V, get_order_by_client_order_id = bn_get_order V,
      reconcile_orders_and_fills = bn_reconcile V, health_check_streams = bn_health_check,
      clock_monotonic = (\<lambda>(b, w). let (t, w') = venue_monotonic V w in (t, b, w'))\<rparr>"

end
