(* ===== verification/Decimal_Text.thy ===== *)
theory Decimal_Text
  imports Payload
begin

text \<open>
  Printing a decimal in plain notation and reading it back: what the adapter writes into an order's
  parameters, and the API into its answers, stands for exactly the number that was written.
\<close>

section \<open>Decimal places\<close>

text \<open>The loop of \<open>places\<close> finds enough places for every terminating fraction.\<close>

lemma gcd_ten:
  assumes "d dvd 10 ^ j" "d \<noteq> 1" "0 < (d :: int)"
  shows "2 \<le> gcd d 10"
proof -
  have "\<not> coprime d 10"
  proof
    assume "coprime d 10"
    then have "coprime d (10 ^ j)" by (simp add: coprime_power_right_iff)
    then have "d dvd 1" using assms(1) by (metis coprime_common_divisor dvd_refl)
    then show False using assms(2,3) by simp
  qed
  then have "gcd d 10 \<noteq> 1" by (simp add: coprime_iff_gcd_eq_1)
  moreover have "0 < gcd d 10" by simp
  ultimately show ?thesis by linarith
qed

lemma places_enough:
  assumes "0 < d" "d dvd 10 ^ j" "d < 2 ^ fuel"
  shows "d dvd 10 ^ places fuel d"
  using assms
proof (induction fuel arbitrary: d)
  case (Suc fuel)
  show ?case
  proof (cases "d = 1")
    case False
    define g where "g = gcd d 10"
    have g: "2 \<le> g" "g dvd d" "g dvd 10"
      using gcd_ten [OF Suc.prems(2) False Suc.prems(1)] by (simp_all add: g_def)
    then obtain e where e: "d = g * e" by (auto elim: dvdE)
    have quotient: "d div g = e" using e g(1) by simp
    have e_pos: "0 < e" using e g(1) Suc.prems(1) by (simp add: zero_less_mult_iff)
    have "2 * e \<le> d" using e g(1) e_pos by simp
    then have "e < 2 ^ fuel" using Suc.prems(3) by simp
    moreover have "e dvd 10 ^ j" using Suc.prems(2) e by (metis dvd_mult_right)
    ultimately have "e dvd 10 ^ places fuel e" using Suc.IH e_pos by simp
    then have "d dvd 10 * 10 ^ places fuel e" using g(3) e by (simp add: mult_dvd_mono)
    then show ?thesis using False by (simp add: quotient [unfolded g_def])
  qed simp
qed simp

text \<open>The digits before and after the point, of the absolute value.\<close>

lemma grid_digits:
  assumes "on_grid j x"
  defines "d \<equiv> snd (quotient_of \<bar>x\<bar>)"
  defines "k \<equiv> places (idigits 2 d) d"
  defines "m \<equiv> fst (quotient_of \<bar>x\<bar>) * 10 ^ k div d"
  shows "\<bar>x\<bar> * 10 ^ k = of_int m" "0 \<le> m"
proof -
  obtain n where n: "quotient_of \<bar>x\<bar> = (n, d)" by (metis d_def prod.collapse)
  have d: "0 < d" and x: "\<bar>x\<bar> = of_int n / of_int d" and cop: "coprime n d"
    using n quotient_of_denom_pos quotient_of_div quotient_of_coprime by blast+
  obtain z where z: "x * 10 ^ j = of_int z" using assms(1) by (auto simp: on_grid_def)
  then have "\<bar>x\<bar> * 10 ^ j = of_int \<bar>z\<bar>" by (simp add: abs_mult [symmetric] flip: z) (simp add: abs_mult)
  then have "(of_int (n * 10 ^ j) :: rat) = of_int (\<bar>z\<bar> * d)"
    using d by (simp add: x field_simps)
  then have "n * 10 ^ j = \<bar>z\<bar> * d" by (simp only: of_int_eq_iff)
  then have "d dvd n * 10 ^ j" by simp
  then have "d dvd 10 ^ j" using cop by (metis coprime_commute coprime_dvd_mult_right_iff)
  moreover have "d < 2 ^ idigits 2 d" using idigits_bounds [of 2 d] d by simp
  ultimately have "d dvd 10 ^ k" unfolding k_def by (rule places_enough [OF d])
  then have m: "m * d = n * 10 ^ k" by (simp add: m_def n)
  then have "(of_int m :: rat) * of_int d = of_int n * 10 ^ k" by (metis of_int_mult of_int_power of_int_numeral)
  then show "\<bar>x\<bar> * 10 ^ k = of_int m" using d by (simp add: x field_simps)
  then have "(0 :: rat) \<le> of_int m" by (metis abs_ge_zero mult_nonneg_nonneg zero_le_numeral zero_le_power)
  then show "0 \<le> m" by simp
qed

section \<open>Digits\<close>

lemma digits_value_append:
  "digits_value (a @ b) = digits_value a * 10 ^ length b + digits_value b"
proof -
  have shift: "foldl (\<lambda>n c. 10 * n + (of_char c - 48)) v b
      = v * 10 ^ length b + foldl (\<lambda>n c. 10 * n + (of_char c - 48)) (0 :: int) b" for v
  proof (induction b arbitrary: v)
    case (Cons c b)
    show ?case
      by (simp only: foldl_Cons length_Cons Cons.IH [of "10 * v + _"] Cons.IH [of "10 * 0 + _"])
        (simp add: algebra_simps)
  qed simp
  show ?thesis by (simp add: digits_value_def) (rule shift)
qed

lemma digits_value_of: "0 \<le> n \<Longrightarrow> digits_value (digits_of n) = n"
proof (induction n rule: digits_of.induct)
  case (1 n)
  have last: "(of_char (char_of (48 + m)) :: int) = 48 + m" if "0 \<le> m" "m < 10" for m :: int
    using that by (simp add: of_char_of)
  show ?case
  proof (cases "n < 10")
    case True
    then show ?thesis using 1 last [of n] by (simp add: digits_of.simps [of n] digits_value_def)
  next
    case False
    then show ?thesis using 1 last [of "n mod 10"]
      by (simp add: digits_of.simps [of n] digits_value_append) (simp add: digits_value_def)
  qed
qed

lemma digits_of_length:
  assumes "0 \<le> n" "n < 10 ^ k" "0 < k"
  shows "length (digits_of n) \<le> k"
  using assms
proof (induction n arbitrary: k rule: digits_of.induct)
  case (1 n)
  show ?case
  proof (cases "n < 10")
    case False
    obtain j where j: "k = Suc j" "0 < j"
      using "1.prems" False by (cases k; cases "k = 1") auto
    then have "n div 10 < 10 ^ j" using 1 by simp
    then have "length (digits_of (n div 10)) \<le> j" using 1 False j by simp
    then show ?thesis using False j by (simp add: digits_of.simps [of n])
  qed (use 1 in \<open>simp add: digits_of.simps [of n]\<close>)
qed

lemma zeros_value: "digits_value (replicate k (CHR ''0'')) = 0"
  by (induction k) (simp_all add: digits_value_def)

lemma padded_facts:
  assumes "0 \<le> n" "n < 10 ^ k" "0 < k"
  shows "length (padded k n) = k" "digits_value (padded k n) = n" "list_all digit (padded k n)"
  using digits_of_length [OF assms] digits_of_facts(1) [OF assms(1)] digits_value_of [OF assms(1)]
  by (auto simp: padded_def Let_def digits_value_append zeros_value list_all_iff digit_iff)

lemma take_digits:
  "list_all digit ds \<Longrightarrow> takeWhile digit (ds @ rest) = ds @ takeWhile digit rest"
  "list_all digit ds \<Longrightarrow> dropWhile digit (ds @ rest) = dropWhile digit rest"
  by (induction ds) auto

lemma digit_not: "digit c \<Longrightarrow> \<not> blank c \<and> c \<noteq> CHR ''_'' \<and> c \<noteq> CHR ''-'' \<and> c \<noteq> CHR ''+'' \<and> c \<noteq> CHR ''.''"
  by (auto simp: digit_iff blank_def less_eq_char_def)

section \<open>The round trip\<close>

text \<open>A text of digits, with a sign and a point, is read as it stands.\<close>

lemma strip_inner:
  assumes "s \<noteq> []" "\<not> blank (hd s)" "\<not> blank (last s)"
  shows "strip_text s = s"
proof -
  have "dropWhile blank s = s" using assms(1,2) by (cases s) simp_all
  moreover have "dropWhile blank (rev s) = rev s"
    using assms(1,3) by (cases s rule: rev_cases) simp_all
  ultimately show ?thesis by (simp add: strip_text_def)
qed

lemma decimal_text_None:
  assumes "\<not> blank c" "\<not> digit c" "c \<noteq> CHR ''-''" "c \<noteq> CHR ''+''" "c \<noteq> CHR ''.''" "c \<noteq> CHR ''_''"
  shows "decimal_text (c # cs) = None"
proof -
  have "strip_text (c # cs) = c # rev (dropWhile blank (rev cs))"
  proof (cases "\<forall>x \<in> set (rev cs). blank x")
    case True
    then have "dropWhile blank (rev cs) = []" by (simp only: dropWhile_eq_Nil_conv)
    moreover have "dropWhile blank (rev cs @ [c]) = dropWhile blank [c]"
      using True by (intro dropWhile_append2) blast
    ultimately show ?thesis using assms(1) by (simp add: strip_text_def)
  next
    case False
    then obtain x where "x \<in> set (rev cs)" "\<not> blank x" by blast
    with assms(1) show ?thesis by (simp add: strip_text_def dropWhile_append1)
  qed
  then show ?thesis using assms by (simp add: decimal_text_def take_sign_def)
qed

lemma decimal_text_plain:
  assumes whole: "list_all digit whole" "whole \<noteq> []" and fracs: "list_all digit fracs"
  shows "decimal_text ((if negative then ''-'' else []) @ whole @ (if fracs = [] then [] else ''.'' @ fracs))
    = Some ((if negative then -1 else 1) * of_int (digits_value (whole @ fracs)) * 10 powi (- int (length fracs)))"
proof -
  let ?u = "whole @ (if fracs = [] then [] else ''.'' @ fracs)"
  let ?s = "(if negative then ''-'' else []) @ ?u"
  have chars: "\<not> blank c \<and> c \<noteq> CHR ''_''" if "c \<in> set ?s" for c
  proof -
    have "c = CHR ''-'' \<or> c = CHR ''.'' \<or> c \<in> set whole \<or> c \<in> set fracs"
      using that by (auto split: if_splits)
    moreover have "digit c" if "c \<in> set whole \<or> c \<in> set fracs"
      using that whole(1) fracs by (auto simp only: list_all_iff)
    moreover have "\<not> blank (CHR ''-'')" "\<not> blank (CHR ''.'')" by code_simp+
    ultimately show ?thesis using digit_not [of c] by auto
  qed
  have ne: "?s \<noteq> []" using whole(2) by simp
  have strip_eq: "strip_text ?s = ?s"
    using chars [OF hd_in_set [OF ne]] chars [OF last_in_set [OF ne]] strip_inner [OF ne] by blast
  have text_eq: "filter (\<lambda>c. c \<noteq> CHR ''_'') (strip_text ?s) = ?s"
    unfolding strip_eq by (intro filter_True ballI chars [THEN conjunct2])
  have sign_eq: "take_sign ?s = (negative, ?u)"
  proof -
    obtain c cs where c: "whole = c # cs" using whole(2) by (cases whole) auto
    then have "c \<noteq> CHR ''-''" "c \<noteq> CHR ''+''" using whole(1) digit_not [of c] by simp_all
    with c show ?thesis by (simp add: take_sign_def)
  qed
  have dot: "\<not> digit (CHR ''.'')" by (simp add: digit_iff)
  have whole_eq: "takeWhile digit ?u = whole"
      "dropWhile digit ?u = (if fracs = [] then [] else ''.'' @ fracs)"
    using whole(1) dot by (simp_all add: take_digits)
  have fracs_eq: "takeWhile digit fracs = fracs" "dropWhile digit fracs = []"
    using take_digits [OF fracs, of "[]"] by simp_all
  show ?thesis
    unfolding decimal_text_def text_eq sign_eq Let_def prod.case whole_eq
    using whole(2) by (simp add: exponent_text_def fracs_eq)
qed

text \<open>The fixed-point text of a number: a sign, digits, and the digits after a point, if any.\<close>

lemma plain_string_shape:
  assumes "on_grid j x"
  obtains whole fracs where
    "plain_string x = (if x < 0 then ''-'' else []) @ whole @ (if fracs = [] then [] else ''.'' @ fracs)"
    "list_all digit whole" "whole \<noteq> []" "list_all digit fracs"
    "of_int (digits_value (whole @ fracs)) * 10 powi (- int (length fracs)) = \<bar>x\<bar>"
proof -
  define d where "d = snd (quotient_of \<bar>x\<bar>)"
  define k where "k = places (idigits 2 d) d"
  define m where "m = fst (quotient_of \<bar>x\<bar>) * 10 ^ k div d"
  have m: "\<bar>x\<bar> * 10 ^ k = of_int m" "0 \<le> m"
    using grid_digits [OF assms] by (simp_all add: d_def k_def m_def)
  define whole where "whole = digits_of (m div 10 ^ k)"
  define fracs where "fracs = (if k = 0 then [] else padded k (m mod 10 ^ k))"
  have w: "list_all digit whole" "whole \<noteq> []" "digits_value whole = m div 10 ^ k"
    using m(2) digits_of_facts(1,2) [of "m div 10 ^ k"]
    by (simp_all add: whole_def digits_value_of pos_imp_zdiv_nonneg_iff)
  have f: "list_all digit fracs" "length fracs = k" "digits_value fracs = m mod 10 ^ k"
    using padded_facts [of "m mod 10 ^ k" k] by (auto simp: fracs_def digits_value_def)
  have "plain_string x = (if x < 0 then ''-'' else []) @ whole @ (if fracs = [] then [] else ''.'' @ fracs)"
    using f(2) by (auto simp: plain_string_def Let_def whole_def fracs_def m_def k_def d_def)
  moreover have "digits_value (whole @ fracs) = m"
    unfolding digits_value_append w(3) f by (rule div_mult_mod_eq)
  moreover have "of_int m * 10 powi (- int k) = \<bar>x\<bar>"
    using m(1) by (simp add: power_int_minus field_simps flip: m(1))
  ultimately show thesis using w(1,2) f(1,2) by (intro that [of whole fracs]) simp_all
qed

theorem plain_string_parses:
  assumes "on_grid j x"
  shows "decimal_text (plain_string x) = Some x"
proof -
  obtain whole fracs where
    s: "plain_string x = (if x < 0 then ''-'' else []) @ whole @ (if fracs = [] then [] else ''.'' @ fracs)"
    and digits: "list_all digit whole" "whole \<noteq> []" "list_all digit fracs"
    and x: "of_int (digits_value (whole @ fracs)) * 10 powi (- int (length fracs)) = \<bar>x\<bar>"
    using assms by (rule plain_string_shape)
  have "(if x < 0 then -1 else 1) * of_int (digits_value (whole @ fracs)) * 10 powi (- int (length fracs)) = x"
    using x by (auto simp: mult.assoc)
  then show ?thesis unfolding s decimal_text_plain [OF digits] by simp
qed

end
