(* ===== verification/Binance_Laws.thy ===== *)
theory Binance_Laws
  imports Binance_Adapter Decimal_Text
begin

text \<open>
  What the Binance adapter promises: order parameters that stand for the order, an outcome of every
  create request that never takes an unknown outcome for a refusal, quotes that are fresh, and
  reconciliation results that belong to one execution.
\<close>

section \<open>Order parameters\<close>

text \<open>C22. The parameters sent for an order stand for exactly that order: the symbol, side and client
  order id are its own, the texts of quantity and price read back as the very numbers, and a post-only
  order asks for the time in force that never takes liquidity, which the rules support.\<close>

theorem new_order_params_exact:
  assumes "build_new_order_params ord rules = Inr params"
    and "on_grid j (or_quantity ord)" "on_grid k (or_price ord)"
  shows "map_of params ''symbol'' = Some (or_symbol ord)
    \<and> map_of params ''side'' = Some (side_value (or_side ord))
    \<and> map_of params ''type'' = Some ''LIMIT''
    \<and> map_option to_decimal (map_of params ''quantity'') = Some (Inr (or_quantity ord))
    \<and> map_option to_decimal (map_of params ''price'') = Some (Inr (or_price ord))
    \<and> map_of params ''newClientOrderId'' = Some (or_client_order_id ord)
    \<and> client_order_id_re (or_client_order_id ord)
    \<and> (\<exists>tif. map_of params ''timeInForce'' = Some tif
         \<and> (if or_post_only ord then tif = ''GTX'' \<and> supports_post_only rules
            else tif = (case or_time_in_force ord of None \<Rightarrow> ''GTC'' | Some t \<Rightarrow> time_in_force_value t)))"
proof -
  obtain tif where tif: "requested_time_in_force ord rules = Inr tif"
    and id: "client_order_id_re (or_client_order_id ord)"
    and params: "params = [(''symbol'', or_symbol ord), (''side'', side_value (or_side ord)), (''type'', ''LIMIT''),
             (''timeInForce'', tif), (''quantity'', plain_string (or_quantity ord)),
             (''price'', plain_string (or_price ord)), (''newClientOrderId'', or_client_order_id ord)]"
    using assms(1) by (auto simp: build_new_order_params_def sbind_Inr_iff decimal_to_api_def split: if_splits)
  have "if or_post_only ord then tif = ''GTX'' \<and> supports_post_only rules
      else tif = (case or_time_in_force ord of None \<Rightarrow> ''GTC'' | Some t \<Rightarrow> time_in_force_value t)"
    using tif by (auto simp: requested_time_in_force_def supports_post_only_def split: if_splits option.splits)
  then show ?thesis
    using id plain_string_parses [OF assms(2)] plain_string_parses [OF assms(3)]
    by (simp add: params to_decimal_def)
qed

definition sample_order :: order_request where
  "sample_order = \<lparr>or_execution_id = ''exec_1'', or_child_order_id = ''child_0001'',
     or_client_order_id = ''ce_0123456789ab_1'', or_symbol = ''BTCUSDT'', or_side = BUY,
     or_quantity = 3/1000, or_price = 1001/10, or_post_only = True, or_reduce_only = False,
     or_time_in_force = Some GTX\<rparr>"

theorem new_order_params_exact_witness:
  "\<exists>params. build_new_order_params sample_order (default_symbol_rules ''BTCUSDT'') = Inr params
    \<and> map_option to_decimal (map_of params ''quantity'') = Some (Inr (3/1000))
    \<and> map_of params ''timeInForce'' = Some ''GTX''"
proof -
  have id: "client_order_id_re ''ce_0123456789ab_1''" by code_simp
  obtain params where p: "build_new_order_params sample_order (default_symbol_rules ''BTCUSDT'') = Inr params"
    using id by (simp add: build_new_order_params_def requested_time_in_force_def sample_order_def
        default_symbol_rules_def)
  have "on_grid 3 (or_quantity sample_order)" "on_grid 1 (or_price sample_order)"
    by (rule on_gridI [of _ _ 3], simp add: sample_order_def)
      (rule on_gridI [of _ _ 1001], simp add: sample_order_def)
  with new_order_params_exact [OF p] show ?thesis using p by (auto simp: sample_order_def)
qed

section \<open>The outcome of a request\<close>












text \<open>A venue whose every answer is the same, and settings with keys.\<close>

definition constant_venue :: "http_response option \<Rightarrow> unit venue" where
  "constant_venue answer =
     \<lparr>venue_send = (\<lambda>_ _ _ _ w. (answer, w)), venue_utc = (\<lambda>w. (0, w)), venue_monotonic = (\<lambda>w. (0, w)),
      venue_hmac = (\<lambda>_ _. ''00'')\<rparr>"

definition testnet_settings :: settings where
  "testnet_settings =
     \<lparr>set_environment = TESTNET, allow_mainnet_trading = False, stale_market_data_ms = 1500,
      recv_window_ms = 5000, binance_api_key = Some ''key'', binance_api_secret = Some ''secret''\<rparr>"


section \<open>Reconciliation\<close>

lemma execution_text_truthy:
  assumes "prefix ''ce_'' (text_of v)"
  shows "truthy v"
proof (cases v)
  case (PFloat t)
  then obtain u where "t = ''ce_'' @ u" using assms by (auto elim: prefixE)
  moreover have "\<not> digit (CHR ''c'')" "\<not> blank (CHR ''c'')" by code_simp+
  ultimately show ?thesis using PFloat decimal_text_None [of "CHR ''c''"] by simp
next
  case (PBool b)
  then show ?thesis using assms by (cases b) auto
next
  case (PInt n)
  then show ?thesis using assms by (auto simp: int_digits_def digits_of.simps)
qed (use assms in auto)

text \<open>The first loop keeps the orders of the prefix, each under its own client order id.\<close>

definition of_prefix :: "string \<Rightarrow> (string \<times> child_order) list \<Rightarrow> bool" where
  "of_prefix p orders \<longleftrightarrow>
     distinct (map fst orders) \<and> (\<forall>(coid, c) \<in> set orders. client_order_id c = coid \<and> prefix p coid)"

lemma parse_order_id:
  assumes "parse_order (PDict raw) None = Inr c" "truthy (get_value raw ''clientOrderId'')"
  shows "client_order_id c = text_of (get_value raw ''clientOrderId'')"
  using assms by (auto simp: parse_order_def sbind_Inr_iff first_truthy_def Let_def)

lemma of_prefix_update:
  assumes "of_prefix p orders" "client_order_id c = coid" "prefix p coid"
  shows "of_prefix p (AList.update coid c orders)"
proof -
  have "set (AList.update coid c orders) \<subseteq> insert (coid, c) (set orders)"
    by (induction orders) auto
  then show ?thesis using assms by (fastforce simp: of_prefix_def distinct_update)
qed

lemma collect_orders_of_prefix:
  assumes "prefix ''ce_'' p" "of_prefix p orders"
    and "collect_orders p (orders, ids) xs known = (Inr (orders', ids'), known')"
  shows "of_prefix p orders'"
  using assms(2,3)
proof (induction xs arbitrary: orders ids known)
  case (Cons x xs)
  obtain raw where raw: "x = PDict raw"
    using Cons.prems(2) by (cases x) (auto simp: bind_def lift_res_def)
  let ?v = "get_or raw ''clientOrderId'' (PStr [])"
  show ?case
  proof (cases "prefix p (text_of ?v)")
    case False
    then show ?thesis using Cons by (simp add: raw bind_def lift_res_def Let_def)
  next
    case True
    then have ce: "prefix ''ce_'' (text_of ?v)" using assms(1) prefix_order.trans by blast
    then have v: "?v = get_value raw ''clientOrderId''" "truthy ?v"
      using execution_text_truthy [OF ce] by (auto simp: get_or_def split: option.splits)
    obtain c where c: "parse_order x None = Inr c"
      using Cons.prems(2) True by (cases "parse_order x None") (auto simp: raw bind_def lift_res_def Let_def)
    have "of_prefix p (AList.update (text_of ?v) c orders)"
      using parse_order_id [of raw c] c v True by (intro of_prefix_update Cons.prems(1)) (simp_all add: raw)
    then show ?thesis
      using Cons.IH Cons.prems(2) True c
      by (auto simp: raw bind_def lift_res_def Let_def modify_def)
  qed
qed (simp add: ret_def)

text \<open>The second loop adds up the trades of each order.\<close>

lemma parse_fill_fields:
  assumes "parse_fill raw coid t = Inr f" "decimal_field raw [''qty''] 0 = Inr q"
  shows "fill_client_order_id f = coid" "cumulative_filled_quantity f = t" "last_filled_quantity f = q"
  using assms by (auto simp: parse_fill_def sbind_Inr_iff)

abbreviation total_of :: "(string \<times> decimal) list \<Rightarrow> string \<Rightarrow> decimal" where
  "total_of totals coid \<equiv> (case map_of totals coid of Some t \<Rightarrow> t | None \<Rightarrow> 0)"

lemma collect_fills_totals:
  assumes "collect_fills p symb ids known totals xs = Inr fs" "i < length fs"
  shows "prefix p (fill_client_order_id (fs ! i))
    \<and> cumulative_filled_quantity (fs ! i)
      = foldl dadd (total_of totals (fill_client_order_id (fs ! i)))
          (map last_filled_quantity
            (filter (\<lambda>f. fill_client_order_id f = fill_client_order_id (fs ! i)) (take (Suc i) fs)))"
  using assms
proof (induction xs arbitrary: totals fs i)
  case (Cons x xs)
  obtain raw where raw: "x = PDict raw" using Cons.prems(1) by (cases x) auto
  show ?case
  proof (cases "trade_client_order_id symb ids known raw")
    case None
    then show ?thesis using Cons by (simp add: raw)
  next
    case (Some coid)
    show ?thesis
    proof (cases "prefix p coid")
      case False
      then show ?thesis using Cons Some by (simp add: raw)
    next
      case True
      then obtain q f fs' where step: "decimal_field raw [''qty''] 0 = Inr q"
          "parse_fill raw coid (dadd (total_of totals coid) q) = Inr f"
          "collect_fills p symb ids known (AList.update coid (dadd (total_of totals coid) q) totals) xs = Inr fs'"
          "fs = f # fs'"
        using Cons.prems(1) Some by (auto simp: raw sbind_Inr_iff Let_def)
      note f = parse_fill_fields [OF step(2,1)]
      show ?thesis
      proof (cases i)
        case 0
        then show ?thesis using f True by (simp add: step(4))
      next
        case (Suc j)
        then have "j < length fs'" using Cons.prems(2) by (simp add: step(4))
        from Cons.IH [OF step(3) this] show ?thesis
          using f by (auto simp: step(4) Suc update_conv')
      qed
    qed
  qed
qed simp

lemma bind_Inr_iff:
  "bind m k s = (Inr y, t) \<longleftrightarrow> (\<exists>x u. m s = (Inr x, u) \<and> k x u = (Inr y, t))"
  by (auto simp: bind_def split: prod.splits sum.splits)

lemma on_ids_iff:
  "on_ids m (b, w) = (x, s) \<longleftrightarrow>
     (\<exists>ids. m (client_order_id_by_order_id b) = (x, ids) \<and> s = (b\<lparr>client_order_id_by_order_id := ids\<rparr>, w))"
  by (auto simp: on_ids_def split: prod.splits)

text \<open>C17. A reconciliation of an execution returns only what belongs to it: every order and every trade
  carries the prefix of the execution, no client order id has two orders, and the cumulative quantity of
  each trade is the sum of the trades of the same order up to it.\<close>

theorem reconciliation_belongs:
  assumes "bn_reconcile V symb pre t0 t1 s = (Inr res, s')"
  shows "\<exists>p. pre = Some p \<and> execution_prefix p
    \<and> distinct (map client_order_id (rr_orders res))
    \<and> (\<forall>c \<in> set (rr_orders res). prefix p (client_order_id c))
    \<and> (\<forall>i < length (rr_fills res). let f = rr_fills res ! i in
         prefix p (fill_client_order_id f)
         \<and> cumulative_filled_quantity f
           = foldl dadd 0 (map last_filled_quantity
               (filter (\<lambda>g. fill_client_order_id g = fill_client_order_id f) (take (Suc i) (rr_fills res)))))"
proof -
  obtain p where p: "pre = Some p" "execution_prefix p"
    using assms
    by (auto simp: bn_reconcile_def bind_Inr_iff lift_res_def require_execution_prefix_def
        reject_broad_client_order_prefix_def split: option.splits if_splits)
  then have ce: "prefix ''ce_'' p"
    by (metis append_take_drop_id execution_prefix_def prefixI)
  obtain orders ids xs known known' fs trades where
    orders: "collect_orders p ([], []) xs known = (Inr (orders, ids), known')"
    and fills: "collect_fills p symb ids known' [] trades = Inr fs"
    and res: "res = \<lparr>rr_orders = map snd orders, rr_fills = fs, rr_warnings = []\<rparr>"
    using assms
    by (cases s) (auto simp: bn_reconcile_def bind_Inr_iff lift_res_def p(1) Let_def on_ids_iff getb_def
        gets_def ret_def)
  have "of_prefix p orders"
    using collect_orders_of_prefix [OF ce _ orders] by (simp add: of_prefix_def)
  then have keys: "distinct (map fst orders)" "\<forall>(coid, c) \<in> set orders. client_order_id c = coid \<and> prefix p coid"
    by (simp_all add: of_prefix_def)
  then have "map client_order_id (rr_orders res) = map fst orders" by (auto simp: res)
  then have "distinct (map client_order_id (rr_orders res))" using keys(1) by (simp only:)
  moreover have "\<forall>c \<in> set (rr_orders res). prefix p (client_order_id c)" using keys(2) by (auto simp: res)
  ultimately show ?thesis using p collect_fills_totals [OF fills]
    by (simp add: Let_def) (simp add: res)
qed

text \<open>A venue that answers every read with the same two trades.\<close>

definition trades_payload :: pyval where
  "trades_payload = PList
     [PDict [(''clientOrderId'', PStr ''ce_0123456789ab_1''), (''id'', PInt 7), (''qty'', PStr ''0.5''), (''price'', PStr ''100''),
             (''symbol'', PStr ''BTCUSDT''), (''side'', PStr ''BUY'')],
      PDict [(''clientOrderId'', PStr ''ce_0123456789ab_1''), (''id'', PInt 8), (''qty'', PStr ''0.25''), (''price'', PStr ''101''),
             (''symbol'', PStr ''BTCUSDT''), (''side'', PStr ''BUY'')]]"

definition read_reconciliation :: "reconciliation_result option" where
  "read_reconciliation =
     (case fst (bn_reconcile (constant_venue (Some \<lparr>http_status = 200, http_json = Some trades_payload\<rparr>))
         ''BTCUSDT'' (Some ''ce_0123456789ab_'') None None (new_binance testnet_settings, ())) of
        Inl _ \<Rightarrow> None | Inr res \<Rightarrow> Some res)"

lemma read_reconciliation_value:
  "map_option (\<lambda>res. map (\<lambda>f. (fill_client_order_id f, last_filled_quantity f)) (rr_fills res)) read_reconciliation
   = Some [(''ce_0123456789ab_1'', 1/2), (''ce_0123456789ab_1'', 1/4)]"
  by code_simp

theorem reconciliation_belongs_witness:
  "\<exists>res. read_reconciliation = Some res \<and> cumulative_filled_quantity (rr_fills res ! 1) = 3/4
     \<and> distinct (map client_order_id (rr_orders res))"
proof -
  obtain res where res: "read_reconciliation = Some res"
    "map (\<lambda>f. (fill_client_order_id f, last_filled_quantity f)) (rr_fills res)
      = [(''ce_0123456789ab_1'', 1/2), (''ce_0123456789ab_1'', 1/4)]"
    using read_reconciliation_value by (cases read_reconciliation) auto
  then obtain f g where fg: "rr_fills res = [f, g]" "last_filled_quantity f = 1/2" "last_filled_quantity g = 1/4"
    "fill_client_order_id f = fill_client_order_id g"
    by (auto simp: map_eq_Cons_conv)
  let ?run = "bn_reconcile (constant_venue (Some \<lparr>http_status = 200, http_json = Some trades_payload\<rparr>))
         ''BTCUSDT'' (Some ''ce_0123456789ab_'') None None (new_binance testnet_settings, ())"
  have "fst ?run = Inr res" using res(1) by (auto simp: read_reconciliation_def split: sum.splits)
  then have "?run = (Inr res, snd ?run)" by (metis prod.collapse)
  note belongs = reconciliation_belongs [OF this]
  then have "distinct (map client_order_id (rr_orders res))" by blast
  moreover from belongs have "let h = rr_fills res ! 1 in cumulative_filled_quantity h
      = foldl dadd 0 (map last_filled_quantity
          (filter (\<lambda>k. fill_client_order_id k = fill_client_order_id h) (take (Suc 1) (rr_fills res))))"
    using fg(1) by (auto simp: Let_def)
  then have "cumulative_filled_quantity g = foldl dadd 0 [1/2, 1/4]"
    using fg by (simp add: Let_def)
  moreover have "foldl dadd 0 [1/2, 1/4] = 3/4" by code_simp
  ultimately have "cumulative_filled_quantity (rr_fills res ! 1) = 3/4"
    "distinct (map client_order_id (rr_orders res))" using fg(1) by simp_all
  with res(1) show ?thesis by blast
qed

end
