(* ===== verification/Binance_System.thy ===== *)
theory Binance_System
  imports Binance_Laws Engine_Safety
begin

text \<open>
  The engine on the Binance adapter: a step is a client operation, an event of a stream, a
  synchronization of the time or of the listen key, or a change of the outside world. An observed
  venue logs the address of every request, so that statements about what is sent, whatever the
  exchange answers, are statements about the log.
\<close>

section \<open>The observed venue\<close>

definition observed :: "'w venue \<Rightarrow> ('w \<times> string list) venue" where
  "observed V =
     \<lparr>venue_send = (\<lambda>http_method url ps hs w.
        let (answer, w') = venue_send V http_method url ps hs (fst w) in (answer, w', snd w @ [url])),
      venue_utc = (\<lambda>w. let (t, w') = venue_utc V (fst w) in (t, w', snd w)),
      venue_monotonic = (\<lambda>w. let (t, w') = venue_monotonic V (fst w) in (t, w', snd w)),
      venue_hmac = venue_hmac V\<rparr>"

definition demo_host :: string where
  "demo_host = ''https://demo-fapi.binance.com''"

text \<open>The mainnet is not enabled, and no request has gone to its host.\<close>

definition off_mainnet :: "binance \<times> 'w \<times> string list \<Rightarrow> bool" where
  "off_mainnet s \<longleftrightarrow>
     \<not> can_trade_mainnet (bn_settings (fst s)) \<and> (\<forall>url \<in> set (snd (snd s)). prefix demo_host url)"

lemma off_mainnet_url: "off_mainnet (b, w) \<Longrightarrow> select_base_url (bn_settings b) = demo_host"
  by (simp add: off_mainnet_def select_base_url_def demo_host_def)

definition stays_off :: "binance \<times> 'w \<times> string list \<Rightarrow> binance \<times> 'w \<times> string list \<Rightarrow> bool" where
  "stays_off s t \<longleftrightarrow> (off_mainnet s \<longrightarrow> off_mainnet t)"

interpretation so: evolution stays_off
  by unfold_locales (auto simp: stays_off_def)

lemmas so_intros =
  so.ev_ret so.ev_throw so.ev_gets so.ev_lift_res so.ev_bind so.ev_try_else
  evolves_if evolves_case_option evolves_case_prod evolves_case_sum evolves_Let

lemma evolves_case_dict:
  "evolves R m \<Longrightarrow> (\<And>kvs. evolves R (f kvs)) \<Longrightarrow> evolves R (case v of PDict kvs \<Rightarrow> f kvs | _ \<Rightarrow> m)"
  by (cases v) auto

lemma so_getb: "evolves stays_off (getb f)"
  unfolding getb_def by (rule so.ev_gets)

lemma so_modb: "(\<And>b. bn_settings (f b) = bn_settings b) \<Longrightarrow> evolves stays_off (modb f)"
  by (simp add: evolves_def modb_def modify_def stays_off_def off_mainnet_def)

lemma so_on_ids: "evolves stays_off (on_ids m)"
  by (auto simp: evolves_def on_ids_def stays_off_def off_mainnet_def split: prod.split)

lemma so_clocks: "evolves stays_off (vcall (venue_utc (observed V)))"
  "evolves stays_off (vcall (venue_monotonic (observed V)))"
  by (auto simp: evolves_def vcall_def observed_def stays_off_def off_mainnet_def split: prod.split)

text \<open>A request to a host read from the settings.\<close>

lemma so_request_unless:
  fixes V :: "'w venue"
  assumes "\<And>x answer. evolves stays_off (k x answer)" and base: "\<And>b. base (f b) = select_base_url (bn_settings b)"
  shows "evolves stays_off (bind (getb f) (\<lambda>x. if refuse x then throw e else
    bind (vcall (venue_send (observed V) http_method (base x @ path) ps (hs x))) (k x)))"
  unfolding evolves_def
proof
  fix s :: "binance \<times> 'w \<times> string list"
  obtain b w where s: "s = (b, w)" by (cases s)
  obtain answer w' where sent: "venue_send (observed V) http_method (base (f b) @ path) ps (hs (f b)) w = (answer, w')"
    by (cases "venue_send (observed V) http_method (base (f b) @ path) ps (hs (f b)) w")
  have "stays_off (b, w) (b, w')"
    using sent off_mainnet_url [of b w]
    by (cases w) (auto simp: stays_off_def off_mainnet_def observed_def base demo_host_def split: prod.splits)
  moreover have "stays_off (b, w') (snd (k (f b) answer (b, w')))" using assms(1) by (rule evolvesD)
  ultimately have "stays_off (b, w) (snd (k (f b) answer (b, w')))" by (rule so.trans)
  then show "stays_off s (snd (bind (getb f) (\<lambda>x. if refuse x then throw e else
    bind (vcall (venue_send (observed V) http_method (base x @ path) ps (hs x))) (k x)) s))"
    using sent by (simp add: s bind_def getb_def gets_def vcall_def throw_def so.refl)
qed

lemmas so_request = so_request_unless [where refuse = "\<lambda>_. False", unfolded if_False]

lemma so_signed_request: "evolves stays_off (signed_request (observed V) http_method path params kind)"
  unfolding signed_request_def clock_wall_ms_def
  by (intro so.ev_bind [OF so_getb] so.ev_bind [OF so.ev_lift_res] so.ev_bind [OF so.ev_bind]
      so_clocks so.ev_ret so_request [where base = select_base_url]) (auto intro: so_intros)

lemma so_remember: "evolves stays_off (remember_order c)"
  unfolding remember_order_def by (rule so_on_ids)

lemma so_rules: "evolves stays_off (bn_get_symbol_rules (observed V) symb)"
  unfolding bn_get_symbol_rules_def
  by (intro so_request [where base = "\<lambda>x. x"]) (auto intro!: so_intros so_modb evolves_case_dict)

lemma so_operations:
  "evolves stays_off (bn_get_best_bid_ask (observed V) symb)"
  "evolves stays_off (bn_submit_limit_order (observed V) ord)"
  "evolves stays_off (bn_cancel_order (observed V) symb coid)"
  "evolves stays_off (bn_get_order (observed V) symb coid)"
  "evolves stays_off (bn_get_position (observed V) symb)"
  "evolves stays_off (bn_reconcile (observed V) symb pre t0 t1)"
  "evolves stays_off bn_health_check"
  unfolding bn_get_best_bid_ask_def bn_submit_limit_order_def bn_cancel_order_def bn_get_order_def
    bn_get_position_def bn_reconcile_def bn_health_check_def
  by (auto intro!: so_intros so_getb so_clocks so_rules so_signed_request so_remember so_on_ids split: exn.split)

section \<open>The exchange contract\<close>

interpretation binance_laws: exchange_laws "binance_adapter (observed V)" off_mainnet for V
proof unfold_locales
  fix w :: "binance \<times> 'a \<times> string list"
  assume off: "off_mainnet w"
  have kept: "off_mainnet (snd (m w))" if "evolves stays_off m" for m :: "('a \<times> string list, 'b) bin"
    using evolvesD [OF that, of w] off by (simp add: stays_off_def)
  show "off_mainnet (snd (get_symbol_rules (binance_adapter (observed V)) symb w))" for symb
    by (simp add: binance_adapter_def kept so_rules)
  show "off_mainnet (snd (get_best_bid_ask (binance_adapter (observed V)) symb w))" for symb
    by (simp add: binance_adapter_def kept so_operations)
  show "off_mainnet (snd (get_position (binance_adapter (observed V)) symb w))" for symb
    by (simp add: binance_adapter_def kept so_operations)
  show "off_mainnet (snd (cancel_order (binance_adapter (observed V)) symb coid w))" for symb coid
    by (simp add: binance_adapter_def kept so_operations)
  show "off_mainnet (snd (get_order_by_client_order_id (binance_adapter (observed V)) symb coid w))" for symb coid
    by (simp add: binance_adapter_def kept so_operations)
  show "off_mainnet (snd (reconcile_orders_and_fills (binance_adapter (observed V)) symb pre t0 t1 w))"
    for symb pre t0 t1
    by (simp add: binance_adapter_def kept so_operations)
  show "off_mainnet (snd (health_check_streams (binance_adapter (observed V)) w))"
    by (simp add: binance_adapter_def kept so_operations)
  show "off_mainnet (snd (clock_monotonic (binance_adapter (observed V)) w))"
    using off by (auto simp: binance_adapter_def observed_def off_mainnet_def split: prod.split)
qed

lemma binance_guard:
  assumes "rec_ok r"
  shows "order_guard (binance_adapter (observed V)) off_mainnet UNIV UNIV r"
proof unfold_locales
  show "rec_ok r" by (rule assms)
  show "off_mainnet (snd (submit_limit_order (binance_adapter (observed V)) ord w))"
    if "off_mainnet w" for ord w
    using that evolvesD [OF so_operations(2) [of V ord], of w]
    by (simp add: binance_adapter_def stays_off_def)
qed simp_all

section \<open>Steps\<close>

datatype stream_action =
    Market_Opened
  | Market_Message "pyval option"
  | Market_Closed
  | Market_Symbol string
  | User_Opened
  | User_Message "pyval option"
  | User_Closed
  | Synchronize_Time
  | Renew_Key string

fun stream_act :: "'w venue \<Rightarrow> stream_action \<Rightarrow> ('w, unit) bin" where
  "stream_act V Market_Opened = bind market_stream_opened (\<lambda>_. ret ())"
| "stream_act V (Market_Message m) = bind (market_stream_message V m) (\<lambda>_. ret ())"
| "stream_act V Market_Closed = market_stream_closed"
| "stream_act V (Market_Symbol symb) = set_market_stream_symbol symb"
| "stream_act V User_Opened = bind (user_stream_opened V) (\<lambda>_. ret ())"
| "stream_act V (User_Message m) = bind (user_stream_message m) (\<lambda>_. ret ())"
| "stream_act V User_Closed = user_stream_closed"
| "stream_act V Synchronize_Time = bind (synchronize_server_time V) (\<lambda>_. ret ())"
| "stream_act V (Renew_Key k) = renew_listen_key V k"

inductive binance_step ::
  "'w venue \<Rightarrow> records \<times> binance \<times> 'w \<times> string list \<Rightarrow> records \<times> binance \<times> 'w \<times> string list \<Rightarrow> bool"
  for V where
  client: "fresh_op (fst s) op \<Longrightarrow>
    binance_step V s (snd (perform (binance_adapter (observed V)) op s))"
| stream: "binance_step V (rs, w) (rs, snd (stream_act (observed V) a w))"
| outside: "binance_step V (rs, b, w, sent) (rs, b, w', sent)"

abbreviation binance_history ::
  "'w venue \<Rightarrow> records \<times> binance \<times> 'w \<times> string list \<Rightarrow> records \<times> binance \<times> 'w \<times> string list \<Rightarrow> bool" where
  "binance_history V \<equiv> (binance_step V)\<^sup>*\<^sup>*"

inductive_cases binance_stepE: "binance_step V s t"

lemma so_api_key: "evolves stays_off (api_key_request (observed V) http_method path)"
  unfolding api_key_request_def
  by (intro so_request_unless [where base = select_base_url])
    (auto intro!: so_intros evolves_case_dict)

lemma so_stream_act: "evolves stays_off (stream_act (observed V) a)"
proof (cases a)
  case Synchronize_Time
  have "evolves stays_off (synchronize_server_time (observed V))"
    unfolding synchronize_server_time_def clock_wall_ms_def
    by (intro so_request [where base = "\<lambda>x. x"])
      (auto intro!: so_intros so_modb so_clocks evolves_case_dict split: exn.split)
  then show ?thesis using Synchronize_Time by (auto intro: so_intros)
qed (auto simp: market_stream_opened_def market_stream_message_def market_stream_closed_def
    user_stream_opened_def user_stream_message_def user_stream_closed_def set_market_stream_symbol_def
    create_listen_key_def renew_listen_key_def Let_def
    intro!: so_intros so_getb so_modb so_clocks so_api_key split: exn.split)

lemma binance_step_off:
  assumes "binance_step V s t" "engine_ok (fst s)" "off_mainnet (snd s)"
  shows "engine_ok (fst t) \<and> off_mainnet (snd t)"
  using assms(1)
proof (cases rule: binance_step.cases)
  case (client op)
  then show ?thesis
    using assms(2,3) perform_evolves [of s op "binance_adapter (observed V)"]
      perform_guarded [OF binance_guard, of s V op]
    by (auto simp: engine_evolves_def)
next
  case (stream rs w a)
  then show ?thesis
    using assms(2,3) evolvesD [OF so_stream_act, of w V a] by (simp add: stays_off_def)
next
  case (outside rs b w sent w')
  then show ?thesis using assms(2,3) by (simp add: off_mainnet_def)
qed

lemma binance_history_off:
  "binance_history V s t \<Longrightarrow> engine_ok (fst s) \<Longrightarrow> off_mainnet (snd s)
    \<Longrightarrow> engine_ok (fst t) \<and> off_mainnet (snd t)"
  by (induction rule: rtranclp_induct) (auto dest: binance_step_off)

text \<open>C9. Unless the settings name the mainnet and allow trading on it, no request of the engine or of
  the streams ever goes to the mainnet host: in every history, whatever the exchange answers, every
  address requested is one of the test network.\<close>

theorem testnet_unless_allowed:
  assumes "\<not> (set_environment s = MAINNET \<and> allow_mainnet_trading s)"
    and "binance_history V ([], new_binance s, w, []) (rs, b, w', sent)"
  shows "\<forall>url \<in> set sent. prefix ''https://demo-fapi.binance.com'' url"
proof -
  have "off_mainnet (new_binance s, w, [])" using assms(1)
    by (simp add: off_mainnet_def new_binance_def can_trade_mainnet_def)
  then show ?thesis
    using binance_history_off [OF assms(2)] by (simp add: engine_ok_def off_mainnet_def demo_host_def)
qed

theorem testnet_unless_allowed_witness:
  "\<exists>rs b sent. binance_history (constant_venue None) ([], new_binance testnet_settings, (), []) (rs, b, (), sent)
     \<and> sent \<noteq> [] \<and> (\<forall>url \<in> set sent. prefix ''https://demo-fapi.binance.com'' url)"
proof -
  let ?s = "(new_binance testnet_settings, (), []) :: binance \<times> unit \<times> string list"
  let ?t = "snd (stream_act (observed (constant_venue None)) Synchronize_Time ?s)"
  have step: "binance_history (constant_venue None) ([], ?s) ([], ?t)"
    by (rule r_into_rtranclp, rule binance_step.stream)
  have "snd (snd ?t) \<noteq> []" by code_simp
  moreover have "\<not> (set_environment testnet_settings = MAINNET \<and> allow_mainnet_trading testnet_settings)"
    by (simp add: testnet_settings_def)
  moreover obtain b sent where t: "?t = (b, (), sent)" by (cases ?t) auto
  ultimately show ?thesis
    using testnet_unless_allowed [of testnet_settings "constant_venue None" "()" "[]" b "()" sent] step by auto
qed

end
