(* ===== verification/Runtime.thy ===== *)
theory Runtime
  imports Service Binance_Orders
begin

text \<open>
  The supervisor of \<^verbatim>\<open>src/api/runtime.py\<close>: one execution service per environment, the
  background loops that run executions, user events, the failures of listen keys, and the orderly
  stop. The adapters, clocks and credentials are a \<open>platform\<close> on a world \<open>'w\<close>. An operation is
  atomic here, as the code's lock makes creation and start; the tasks of \<^verbatim>\<open>asyncio\<close> are the
  set of executions that have a background loop, and one turn of a loop is an operation of its own.
\<close>

section \<open>State\<close>

record 'w platform =
  adapter_of :: "environment \<Rightarrow> 'w adapter"
  synchronize_adapter :: "environment \<Rightarrow> bool \<Rightarrow> credentials \<Rightarrow> 'w \<Rightarrow> (exn + int) \<times> 'w"
  wall_ms :: "environment \<Rightarrow> 'w \<Rightarrow> int \<times> 'w"
  advance_simulation :: "pyfloat \<Rightarrow> 'w \<Rightarrow> 'w"
  process_environment :: variables
  dotenv_file :: dotenv

record runtime =
  background_tick_interval :: pyfloat
  stream_keepalive_interval :: pyfloat
  stream_restart_delay :: pyfloat
  services :: "(environment \<times> records) list"
  execution_environments :: "(string \<times> environment) list"
  execution_tasks :: "string set"
  user_stream_started_ms :: "(environment \<times> int) list"
  runtime_errors :: "(string \<times> exn list) list"
  unavailable_environments :: "(environment \<times> string) list"
  is_started :: bool
  is_stopping :: bool

definition new_runtime :: "pyfloat \<Rightarrow> pyfloat \<Rightarrow> pyfloat \<Rightarrow> exn + runtime" where
  "new_runtime tick keepalive restart =
     (if tick \<le> 0 then Inl (ValueError ''background_tick_interval_seconds must be greater than 0'')
      else if keepalive \<le> 0
      then Inl (ValueError ''stream_keepalive_interval_seconds must be greater than 0'')
      else if restart \<le> 0 then Inl (ValueError ''stream_restart_delay_seconds must be greater than 0'')
      else Inr \<lparr>background_tick_interval = tick, stream_keepalive_interval = keepalive,
                stream_restart_delay = restart, services = [(SIMULATION, [])],
                execution_environments = [], execution_tasks = {}, user_stream_started_ms = [],
                runtime_errors = [], unavailable_environments = [], is_started = False,
                is_stopping = False\<rparr>)"

type_synonym ('w, 'a) rt = "(exn, runtime \<times> 'w, 'a) eff"

definition getrt :: "(runtime \<Rightarrow> 'a) \<Rightarrow> ('w, 'a) rt" where
  "getrt f = gets (\<lambda>s. f (fst s))"

definition modrt :: "(runtime \<Rightarrow> runtime) \<Rightarrow> ('w, unit) rt" where
  "modrt f = modify (\<lambda>s. (f (fst s), snd s))"

definition outside :: "('w \<Rightarrow> 'a \<times> 'w) \<Rightarrow> ('w, 'a) rt" where
  "outside op = (\<lambda>(r, w). let (x, w') = op w in (Inr x, r, w'))"

definition records_of :: "environment \<Rightarrow> runtime \<Rightarrow> records" where
  "records_of env r = (case map_of (services r) env of Some rs \<Rightarrow> rs | None \<Rightarrow> [])"

text \<open>An operation of the service of an environment.\<close>

definition on_service :: "environment \<Rightarrow> ('w, 'a) engine \<Rightarrow> ('w, 'a) rt" where
  "on_service env m = (\<lambda>(r, w).
     let (x, rs, w') = m (records_of env r, w)
     in (x, r\<lparr>services := AList.update env rs (services r)\<rparr>, w'))"

definition record_runtime_error :: "string \<Rightarrow> exn \<Rightarrow> ('w, unit) rt" where
  "record_runtime_error key e = modrt (\<lambda>r. r\<lparr>runtime_errors :=
     AList.update key ((case map_of (runtime_errors r) key of Some es \<Rightarrow> es | None \<Rightarrow> []) @ [e])
       (runtime_errors r)\<rparr>)"

section \<open>Executions and their environments\<close>

definition remember_execution :: "execution_record \<Rightarrow> ('w, unit) rt" where
  "remember_execution x = modrt (\<lambda>r. r\<lparr>execution_environments :=
     AList.update (rec_execution_id x) (req_environment (request x)) (execution_environments r)\<rparr>)"

definition schedule_background_loop :: "execution_record \<Rightarrow> ('w, unit) rt" where
  "schedule_background_loop x = modrt (\<lambda>r.
     if \<not> is_started r \<or> execution_status_is_terminal (status x) then r
     else r\<lparr>execution_tasks := insert (rec_execution_id x) (execution_tasks r)\<rparr>)"

text \<open>A cancelled task is discarded.\<close>

definition cancel_background_loop_if_terminal :: "execution_record \<Rightarrow> ('w, unit) rt" where
  "cancel_background_loop_if_terminal x = modrt (\<lambda>r.
     if \<not> execution_status_is_terminal (status x) then r
     else r\<lparr>execution_tasks := execution_tasks r - {rec_execution_id x}\<rparr>)"

definition mark_unavailable :: "environment \<Rightarrow> string \<Rightarrow> ('w, unit) rt" where
  "mark_unavailable env reason = modrt (\<lambda>r. r\<lparr>unavailable_environments :=
     AList.update env reason (unavailable_environments r)\<rparr>)"

definition register_service :: "environment \<Rightarrow> ('w, unit) rt" where
  "register_service env = modrt (\<lambda>r. r\<lparr>services := AList.update env [] (services r)\<rparr>)"

definition build_binance_service :: "'w platform \<Rightarrow> environment \<Rightarrow> ('w, unit) rt" where
  "build_binance_service P env =
     (let credentials = load_binance_usdm_credentials (process_environment P) (dotenv_file P);
          allow = (if env = MAINNET
            then load_allow_mainnet_trading (process_environment P) (dotenv_file P) else Inr False)
      in if \<not> is_configured credentials
         then throw (RuntimeConfigurationError
           (''Binance USDM credentials are required for '' @ environment_value env @ '' execution''))
         else bind (lift_res allow) (\<lambda>allow_mainnet.
           if env = MAINNET \<and> \<not> allow_mainnet
           then throw (RuntimeConfigurationError ''mainnet execution requires ALLOW_MAINNET_TRADING=true'')
           else bind (outside (synchronize_adapter P env allow_mainnet credentials)) (\<lambda>answer.
             case answer of
               Inl (ServerTimeSynchronizationFailure t) \<Rightarrow>
                 throw (RuntimeConfigurationError
                   (''Binance server-time synchronization failed: '' @ t))
             | Inl e \<Rightarrow> throw e
             | Inr _ \<Rightarrow> register_service env)))"

definition service_for_environment :: "'w platform \<Rightarrow> environment \<Rightarrow> ('w, unit) rt" where
  "service_for_environment P env =
     bind (getrt (\<lambda>r. map_of (services r) env \<noteq> None)) (\<lambda>known.
       if known then ret ()
       else if env \<in> {TESTNET, MAINNET} then build_binance_service P env
       else throw (RuntimeConfigurationError (environment_value env @ '' execution is not enabled'')))"

text \<open>The first service, in the order of their registration, that knows the execution.\<close>

definition search_services :: "string \<Rightarrow> runtime \<Rightarrow> environment option" where
  "search_services eid r = map_option fst (find (\<lambda>(_, rs). map_of rs eid \<noteq> None) (services r))"

definition service_for_execution :: "'w platform \<Rightarrow> string \<Rightarrow> ('w, environment) rt" where
  "service_for_execution P eid =
     bind (getrt (\<lambda>r. map_of (execution_environments r) eid)) (\<lambda>known. case known of
       Some env \<Rightarrow> andthen (service_for_environment P env) (ret env)
     | None \<Rightarrow>
         bind (getrt (search_services eid)) (\<lambda>found. case found of
           None \<Rightarrow> throw (UnknownExecution eid)
         | Some env \<Rightarrow>
             andthen (modrt (\<lambda>r. r\<lparr>execution_environments :=
                 AList.update eid env (execution_environments r)\<rparr>))
               (ret env)))"

section \<open>Records that report an unavailable venue\<close>

definition unavailable_reconciliation_final_reasons :: "string set" where
  "unavailable_reconciliation_final_reasons = {''RATE_LIMIT_BACKOFF'', ''VENUE_BAN_HARD_STOP''}"

definition record_returned_unavailable_record ::
  "bool \<Rightarrow> execution_record \<Rightarrow> ('w, string option) rt" where
  "record_returned_unavailable_record mark_environment x =
     (case final_reason x of
        None \<Rightarrow> ret None
      | Some reason \<Rightarrow>
          if reason \<notin> unavailable_reconciliation_final_reasons then ret None
          else
            andthen (remember_execution x)
            (andthen (cancel_background_loop_if_terminal x)
            (andthen
              (guarded (mark_environment \<or> reason = ''VENUE_BAN_HARD_STOP'')
                (mark_unavailable (req_environment (request x)) reason))
              (ret (Some reason)))))"

definition raise_for_returned_unavailable_record :: "execution_record \<Rightarrow> ('w, unit) rt" where
  "raise_for_returned_unavailable_record x =
     bind (record_returned_unavailable_record False x) (\<lambda>reason. case reason of
       None \<Rightarrow> ret ()
     | Some t \<Rightarrow> throw (RuntimeUnavailableError t))"

definition record_returned_unavailable_reconciliation :: "execution_record \<Rightarrow> ('w, bool) rt" where
  "record_returned_unavailable_reconciliation x =
     bind (record_returned_unavailable_record True x) (\<lambda>reason. case reason of
       None \<Rightarrow> ret False
     | Some t \<Rightarrow>
         andthen (record_runtime_error (rec_execution_id x) (RuntimeUnavailableError t)) (ret True))"

section \<open>Client operations\<close>

text \<open>An empty reason does not count.\<close>

definition unavailable_reason :: "environment \<Rightarrow> runtime \<Rightarrow> string option" where
  "unavailable_reason env r =
     (case map_of (unavailable_environments r) env of
        None \<Rightarrow> None
      | Some reason \<Rightarrow> if reason = [] then None else Some reason)"

definition creation_failed :: "environment \<Rightarrow> exn \<Rightarrow> ('w, execution_record) rt" where
  "creation_failed env e =
     (case e of
        VenueBanHardStop reason \<Rightarrow>
          andthen (mark_unavailable env reason) (throw (RuntimeUnavailableError reason))
      | _ \<Rightarrow> if is_exchange_rate_limited e then throw (RuntimeUnavailableError (exn_str e)) else throw e)"

definition rt_create_execution ::
  "'w platform \<Rightarrow> string \<Rightarrow> execution_request \<Rightarrow> ('w, execution_record) rt" where
  "rt_create_execution P hex req =
     (let env = req_environment req
      in bind (getrt is_stopping) (\<lambda>stopping.
         if stopping then throw (RuntimeConfigurationError ''runtime is stopping'')
         else bind (getrt (unavailable_reason env)) (\<lambda>reason. case reason of
           Some t \<Rightarrow> throw (RuntimeUnavailableError t)
         | None \<Rightarrow>
             andthen (service_for_environment P env)
             (bind (on_service env (active_execution_for env (req_symbol req))) (\<lambda>active. case active of
                Some x \<Rightarrow> throw (ActiveExecutionConflict
                  (''active execution already exists for '' @ environment_value env @ '' ''
                   @ req_symbol req @ '': '' @ rec_execution_id x))
              | None \<Rightarrow>
                  try_else (on_service env (create_execution (adapter_of P env) hex req))
                    (creation_failed env)
                    (\<lambda>x. andthen (remember_execution x)
                      (andthen (schedule_background_loop x) (ret x))))))))"

definition rt_get_execution :: "'w platform \<Rightarrow> string \<Rightarrow> ('w, execution_record) rt" where
  "rt_get_execution P eid =
     bind (service_for_execution P eid) (\<lambda>env.
     bind (on_service env (get_execution eid)) (\<lambda>x.
       andthen (remember_execution x) (ret x)))"

text \<open>The three operations that end in the same way.\<close>

definition supervised :: "('w, execution_record) rt \<Rightarrow> ('w, execution_record) rt" where
  "supervised m =
     bind m (\<lambda>x. andthen (raise_for_returned_unavailable_record x)
       (andthen (remember_execution x) (andthen (cancel_background_loop_if_terminal x) (ret x))))"

definition rt_cancel_execution :: "'w platform \<Rightarrow> string \<Rightarrow> ('w, execution_record) rt" where
  "rt_cancel_execution P eid =
     bind (service_for_execution P eid) (\<lambda>env.
       supervised (on_service env (cancel_execution (adapter_of P env) eid)))"

definition rt_run_once :: "'w platform \<Rightarrow> string \<Rightarrow> ('w, execution_record) rt" where
  "rt_run_once P eid =
     bind (service_for_execution P eid) (\<lambda>env.
       supervised (on_service env (run_once (adapter_of P env) eid)))"

definition rt_reconcile_execution ::
  "'w platform \<Rightarrow> string \<Rightarrow> int option \<Rightarrow> int option \<Rightarrow> ('w, execution_record) rt" where
  "rt_reconcile_execution P eid t0 t1 =
     bind (service_for_execution P eid) (\<lambda>env.
       supervised (on_service env (reconcile_execution (adapter_of P env) eid t0 t1)))"

section \<open>The background loop\<close>

text \<open>Sleeping advances the clock of the simulation only.\<close>

definition sleep_background_interval :: "'w platform \<Rightarrow> string \<Rightarrow> pyfloat \<Rightarrow> ('w, bool) rt" where
  "sleep_background_interval P eid seconds =
     bind (getrt (\<lambda>r. map_of (execution_environments r) eid)) (\<lambda>env.
       andthen
         (if env = Some SIMULATION then outside (\<lambda>w. ((), advance_simulation P seconds w)) else ret ())
         (ret True))"

definition background_failed :: "'w platform \<Rightarrow> string \<Rightarrow> exn \<Rightarrow> ('w, bool) rt" where
  "background_failed P eid e =
     andthen (record_runtime_error eid e)
       (bind (getrt stream_restart_delay) (\<lambda>restart.
        bind (getrt background_tick_interval) (\<lambda>tick.
          case e of
            UnknownExecution _ \<Rightarrow> ret False
          | VenueBanHardStop _ \<Rightarrow> ret False
          | RuntimeUnavailableError reason \<Rightarrow>
              if reason = ''RATE_LIMIT_BACKOFF'' then sleep_background_interval P eid restart else ret False
          | _ \<Rightarrow>
              if is_exchange_rate_limited e then sleep_background_interval P eid restart
              else
                andthen
                  (try_else (rt_reconcile_execution P eid None None) (record_runtime_error eid) (\<lambda>_. ret ()))
                  (sleep_background_interval P eid tick))))"

text \<open>One turn; false when the loop ends, and the task is discarded.\<close>

definition background_turn :: "'w platform \<Rightarrow> string \<Rightarrow> ('w, bool) rt" where
  "background_turn P eid =
     bind (getrt is_started) (\<lambda>started.
       if \<not> started then ret False
       else try_else (rt_run_once P eid) (background_failed P eid) (\<lambda>x.
         if execution_status_is_terminal (status x) then ret False
         else bind (getrt background_tick_interval) (sleep_background_interval P eid)))"

definition background_step :: "'w platform \<Rightarrow> string \<Rightarrow> ('w, unit) rt" where
  "background_step P eid =
     bind (background_turn P eid) (\<lambda>continues.
       if continues then ret ()
       else modrt (\<lambda>r. r\<lparr>execution_tasks := execution_tasks r - {eid}\<rparr>))"

section \<open>Start and stop\<close>

definition schedule_active :: "execution_record list \<Rightarrow> ('w, unit) rt" where
  "schedule_active xs =
     for_each xs (\<lambda>x. andthen (remember_execution x) (schedule_background_loop x))"

definition start_runtime :: "('w, unit) rt" where
  "start_runtime =
     bind (getrt (\<lambda>r. is_started r \<or> is_stopping r)) (\<lambda>busy. guarded (\<not> busy)
       (andthen (modrt (\<lambda>r. r\<lparr>is_started := True\<rparr>))
       (bind (getrt (\<lambda>r. map fst (services r))) (\<lambda>envs.
          for_each envs (\<lambda>env. bind (on_service env active_executions) schedule_active)))))"

definition cancel_and_reconcile :: "'w platform \<Rightarrow> environment \<Rightarrow> execution_record \<Rightarrow> ('w, unit) rt" where
  "cancel_and_reconcile P env x =
     (let eid = rec_execution_id x
      in try_else (on_service env (cancel_execution (adapter_of P env) eid))
           (record_runtime_error eid)
           (\<lambda>cancelled. andthen (remember_execution cancelled)
             (try_else (on_service env (reconcile_execution (adapter_of P env) eid None None))
               (record_runtime_error eid) remember_execution)))"

definition cancel_and_reconcile_active_executions :: "'w platform \<Rightarrow> ('w, unit) rt" where
  "cancel_and_reconcile_active_executions P =
     bind (getrt (\<lambda>r. map fst (services r))) (\<lambda>envs.
       for_each envs (\<lambda>env.
         try_else (on_service env active_executions)
           (record_runtime_error ''runtime.stop.active_executions'')
           (\<lambda>xs. for_each xs (cancel_and_reconcile P env))))"

text \<open>
  \<^verbatim>\<open>stop\<close> waits between its three parts, so other operations may come between them.
\<close>

definition begin_stop :: "('w, bool) rt" where
  "begin_stop =
     bind (getrt is_stopping) (\<lambda>stopping.
       if stopping then ret False
       else andthen (modrt (\<lambda>r. r\<lparr>is_stopping := True, is_started := False\<rparr>)) (ret True))"

definition finish_stop :: "('w, unit) rt" where
  "finish_stop = modrt (\<lambda>r. r\<lparr>execution_tasks := {}, user_stream_started_ms := [],
     is_started := False, is_stopping := False\<rparr>)"

section \<open>Reconciling an environment\<close>

definition user_event_reconciliation_lookback_ms :: int where
  "user_event_reconciliation_lookback_ms = 60000"

definition bounded_user_stream_start_ms :: "int option \<Rightarrow> int \<Rightarrow> int" where
  "bounded_user_stream_start_ms stream_started_ms end_time_ms =
     max (case stream_started_ms of Some t \<Rightarrow> t | None \<Rightarrow> 0)
       (end_time_ms - user_event_reconciliation_lookback_ms)"

definition reconcile_active_execution ::
  "'w platform \<Rightarrow> environment \<Rightarrow> int option \<Rightarrow> int option \<Rightarrow> execution_record \<Rightarrow> ('w, unit) rt" where
  "reconcile_active_execution P env t0 t1 x =
     try_else
       (bind (on_service env (reconcile_execution (adapter_of P env) (rec_execution_id x) t0 t1)) (\<lambda>reconciled.
        bind (record_returned_unavailable_reconciliation reconciled) (\<lambda>unavailable.
          guarded (\<not> unavailable)
            (andthen (remember_execution reconciled) (cancel_background_loop_if_terminal reconciled)))))
       (record_runtime_error (rec_execution_id x)) ret"

definition reconcile_active_executions_for_environment ::
  "'w platform \<Rightarrow> environment \<Rightarrow> int option \<Rightarrow> int option \<Rightarrow> ('w, unit) rt" where
  "reconcile_active_executions_for_environment P env t0 t1 =
     bind (getrt (\<lambda>r. map_of (services r) env \<noteq> None)) (\<lambda>known. guarded known
       (try_else (on_service env active_executions)
         (record_runtime_error (environment_value env @ ''.active_executions''))
         (\<lambda>xs. for_each xs (reconcile_active_execution P env t0 t1))))"

definition reconcile_stale_user_stream_window :: "'w platform \<Rightarrow> environment \<Rightarrow> ('w, unit) rt" where
  "reconcile_stale_user_stream_window P env =
     bind (outside (wall_ms P env)) (\<lambda>end_time_ms.
     bind (getrt (\<lambda>r. map_of (user_stream_started_ms r) env)) (\<lambda>started.
       reconcile_active_executions_for_environment P env
         (Some (bounded_user_stream_start_ms started end_time_ms)) (Some end_time_ms)))"

section \<open>User events\<close>

definition reconciliation_result_matches_prefix :: "reconciliation_result \<Rightarrow> string \<Rightarrow> bool" where
  "reconciliation_result_matches_prefix result p \<longleftrightarrow>
     list_ex (\<lambda>c. prefix p (client_order_id c)) (rr_orders result)
     \<or> list_ex (\<lambda>f. prefix p (fill_client_order_id f)) (rr_fills result)"

definition result_client_order_ids :: "reconciliation_result \<Rightarrow> string list" where
  "result_client_order_ids result =
     map client_order_id (rr_orders result) @ map fill_client_order_id (rr_fills result)"

text \<open>The known executions of the environment whose prefix an id has, read from the service.\<close>

fun known_candidates ::
  "environment \<Rightarrow> string list \<Rightarrow> (string \<times> environment) list \<Rightarrow> ('w, execution_record list) rt" where
  "known_candidates env coids [] = ret []"
| "known_candidates env coids ((eid, e) # known) =
     (if e \<noteq> env \<or> \<not> list_ex (prefix (make_client_order_prefix eid)) coids
      then known_candidates env coids known
      else try_else (on_service env (get_execution eid))
        (\<lambda>err. case err of
           UnknownExecution _ \<Rightarrow> known_candidates env coids known
         | _ \<Rightarrow> andthen (record_runtime_error eid err) (known_candidates env coids known))
        (\<lambda>x. bind (known_candidates env coids known) (\<lambda>xs. ret (x # xs))))"

definition add_unseen :: "execution_record list \<Rightarrow> execution_record list \<Rightarrow> execution_record list" where
  "add_unseen xs ys =
     foldl (\<lambda>acc y. if rec_execution_id y \<in> rec_execution_id ` set acc then acc else acc @ [y]) xs ys"

definition direct_user_event_candidates ::
  "environment \<Rightarrow> reconciliation_result \<Rightarrow> ('w, execution_record list \<times> bool) rt" where
  "direct_user_event_candidates env result =
     bind (getrt execution_environments) (\<lambda>known.
     bind (known_candidates env (result_client_order_ids result) known) (\<lambda>xs.
       try_else (on_service env active_executions)
         (\<lambda>e. andthen (record_runtime_error (environment_value env @ ''.active_executions'') e)
           (ret (xs, True)))
         (\<lambda>ys. ret (add_unseen xs ys, False))))"

text \<open>Applying the result to each candidate it matches: whether it was applied, and failed.\<close>

fun apply_to_candidates ::
  "'w platform \<Rightarrow> environment \<Rightarrow> reconciliation_result \<Rightarrow> execution_record list \<Rightarrow> ('w, bool \<times> bool) rt"
  where
  "apply_to_candidates P env result [] = ret (False, False)"
| "apply_to_candidates P env result (x # xs) =
     (if \<not> reconciliation_result_matches_prefix result (make_client_order_prefix (rec_execution_id x))
      then apply_to_candidates P env result xs
      else
        bind (try_else
            (bind (on_service env
               (apply_reconciliation_result (adapter_of P env) (rec_execution_id x) result)) (\<lambda>updated.
             andthen (remember_execution updated) (cancel_background_loop_if_terminal updated)))
            (\<lambda>e. andthen (record_runtime_error (rec_execution_id x) e) (ret (False, True)))
            (\<lambda>_. ret (True, False))) (\<lambda>(applied, failed).
        bind (apply_to_candidates P env result xs) (\<lambda>(rest_applied, rest_failed).
          ret (applied \<or> rest_applied, failed \<or> rest_failed))))"

definition apply_user_event_reconciliation :: "'w platform \<Rightarrow> environment \<Rightarrow> pyval \<Rightarrow> ('w, bool) rt" where
  "apply_user_event_reconciliation P env event =
     bind (getrt (\<lambda>r. map_of (services r) env \<noteq> None)) (\<lambda>known.
       if \<not> known \<or> env = SIMULATION then ret False
       else bind (lift_res (reconciliation_from_user_event event)) (\<lambda>parsed. case parsed of
         None \<Rightarrow> ret False
       | Some result \<Rightarrow>
           bind (direct_user_event_candidates env result) (\<lambda>(xs, lookup_failed).
           bind (apply_to_candidates P env result xs) (\<lambda>(applied, failed).
             ret (applied \<and> \<not> (lookup_failed \<or> failed))))))"

text \<open>The time of an event: the first of two keys with a value, or the time of the raw event.\<close>

definition event_time_value :: "pyval \<Rightarrow> (exn + int option)" where
  "event_time_value v =
     (case to_int v of
        Inr n \<Rightarrow> Inr (Some n)
      | Inl (TypeError t) \<Rightarrow> Inr None
      | Inl (ValueError t) \<Rightarrow> Inr None
      | Inl e \<Rightarrow> Inl e)"

definition extract_event_time_ms :: "pyval \<Rightarrow> exn + int option" where
  "extract_event_time_ms event =
     (case event of
        PDict kvs \<Rightarrow>
          if get_value kvs ''event_time_ms'' \<noteq> PNone then event_time_value (get_value kvs ''event_time_ms'')
          else if get_value kvs ''E'' \<noteq> PNone then event_time_value (get_value kvs ''E'')
          else (case get_value kvs ''raw'' of
              PDict raw \<Rightarrow>
                if get_value raw ''E'' = PNone then Inr None else event_time_value (get_value raw ''E'')
            | _ \<Rightarrow> Inr None)
      | _ \<Rightarrow> Inr None)"

definition reconcile_active_executions_for_user_event ::
  "'w platform \<Rightarrow> environment \<Rightarrow> pyval \<Rightarrow> ('w, unit) rt" where
  "reconcile_active_executions_for_user_event P env event =
     bind (apply_user_event_reconciliation P env event) (\<lambda>applied.
       if applied then ret ()
       else
         bind (lift_res (extract_event_time_ms event)) (\<lambda>extracted.
         bind (case extracted of None \<Rightarrow> outside (wall_ms P env) | Some t \<Rightarrow> ret t) (\<lambda>event_time_ms.
           reconcile_active_executions_for_environment P env
             (Some (max 0 (event_time_ms - user_event_reconciliation_lookback_ms)))
             (Some event_time_ms))))"

section \<open>Listen keys\<close>

definition listen_key_failure_code :: "exn \<Rightarrow> string" where
  "listen_key_failure_code e =
     (case e of
        StreamHealthFailure reason \<Rightarrow> takeWhile (\<lambda>c. c \<noteq> CHR '':'') reason
      | _ \<Rightarrow>
          (let message = exn_str e
           in case find (\<lambda>code. prefix code message)
                [''LISTEN_KEY_VENUE_BAN_HARD_STOP'', ''LISTEN_KEY_EXPIRED'',
                 ''LISTEN_KEY_RETRYABLE_FAILURE'', ''LISTEN_KEY_RATE_LIMIT_BACKOFF''] of
                Some code \<Rightarrow> code
              | None \<Rightarrow> takeWhile (\<lambda>c. c \<noteq> CHR '':'') message))"

definition is_listen_key_hard_stop :: "exn \<Rightarrow> bool" where
  "is_listen_key_hard_stop e \<longleftrightarrow> listen_key_failure_code e = ''LISTEN_KEY_VENUE_BAN_HARD_STOP''"

definition is_listen_key_invalidated :: "exn \<Rightarrow> bool" where
  "is_listen_key_invalidated e \<longleftrightarrow> listen_key_failure_code e = ''LISTEN_KEY_EXPIRED''"

definition is_listen_key_retryable :: "exn \<Rightarrow> bool" where
  "is_listen_key_retryable e \<longleftrightarrow>
     listen_key_failure_code e \<in> {''LISTEN_KEY_RETRYABLE_FAILURE'', ''LISTEN_KEY_RATE_LIMIT_BACKOFF''}"

definition is_listen_key_expired_user_event :: "pyval \<Rightarrow> bool" where
  "is_listen_key_expired_user_event event \<longleftrightarrow>
     (case event of
        PDict kvs \<Rightarrow>
          get_value kvs ''event_type'' = PStr ''listenKeyExpired''
          \<or> (case get_value kvs ''raw'' of
               PDict raw \<Rightarrow> get_value raw ''e'' = PStr ''listenKeyExpired'' | _ \<Rightarrow> False)
      | _ \<Rightarrow> False)"

definition listen_key_retry_delay_seconds :: "runtime \<Rightarrow> pyfloat" where
  "listen_key_retry_delay_seconds r = min (stream_restart_delay r) (stream_keepalive_interval r)"

text \<open>A listen key that failed for good makes the environment unavailable for new executions.\<close>

definition mark_listen_key_unavailable ::
  "'w platform \<Rightarrow> string \<Rightarrow> environment \<Rightarrow> exn \<Rightarrow> ('w, unit) rt" where
  "mark_listen_key_unavailable P key env e =
     andthen (mark_unavailable env (listen_key_failure_code e))
     (andthen (record_runtime_error (environment_value env @ key) e)
       (reconcile_stale_user_stream_window P env))"

definition max_listen_key_attempts :: nat where
  "max_listen_key_attempts = 3"

text \<open>A lost user stream of a running supervisor: what it may have missed is reconciled.\<close>

definition user_stream_lost :: "'w platform \<Rightarrow> environment \<Rightarrow> ('w, unit) rt" where
  "user_stream_lost P env =
     bind (getrt is_started) (\<lambda>started. guarded started (reconcile_stale_user_stream_window P env))"

text \<open>
  A user stream or a keepalive that raised: with the count of retryable failures so far, the count
  to go on with, or \<open>None\<close> when the loop ends.
\<close>

definition user_stream_failed ::
  "'w platform \<Rightarrow> environment \<Rightarrow> nat \<Rightarrow> exn \<Rightarrow> ('w, nat option) rt" where
  "user_stream_failed P env failures e =
     andthen (record_runtime_error (environment_value env @ ''.user_stream'') e)
       (if is_listen_key_hard_stop e
        then andthen (mark_listen_key_unavailable P ''.listen_key_hard_stop.unavailable'' env e) (ret None)
        else if is_listen_key_retryable e \<and> failures + 1 \<ge> max_listen_key_attempts
        then andthen (mark_listen_key_unavailable P ''.user_stream.unavailable'' env e) (ret None)
        else andthen (user_stream_lost P env)
          (ret (Some (if is_listen_key_retryable e then failures + 1 else 0))))"

definition keepalive_failed ::
  "'w platform \<Rightarrow> environment \<Rightarrow> nat \<Rightarrow> exn \<Rightarrow> ('w, nat option) rt" where
  "keepalive_failed P env failures e =
     andthen (record_runtime_error (environment_value env @ ''.listen_key_keepalive'') e)
       (if is_listen_key_hard_stop e
        then andthen (mark_listen_key_unavailable P ''.listen_key_hard_stop.unavailable'' env e) (ret None)
        else if is_listen_key_invalidated e
        then andthen (reconcile_stale_user_stream_window P env) (ret (Some failures))
        else if is_listen_key_retryable e
        then
          if failures + 1 \<ge> max_listen_key_attempts
          then andthen (mark_listen_key_unavailable P ''.listen_key_keepalive.unavailable'' env e) (ret None)
          else ret (Some (failures + 1))
        else ret (Some failures))"

text \<open>A user event of a running stream; true when the stream has to be opened again.\<close>

definition user_stream_event :: "'w platform \<Rightarrow> environment \<Rightarrow> pyval \<Rightarrow> ('w, bool) rt" where
  "user_stream_event P env event =
     (if is_listen_key_expired_user_event event
      then andthen (reconcile_stale_user_stream_window P env) (ret True)
      else andthen (reconcile_active_executions_for_user_event P env event) (ret False))"

text \<open>Opening a user stream notes the time from which a lost stream is reconciled.\<close>

definition user_stream_started :: "'w platform \<Rightarrow> environment \<Rightarrow> ('w, unit) rt" where
  "user_stream_started P env =
     bind (outside (wall_ms P env)) (\<lambda>t.
       modrt (\<lambda>r. r\<lparr>user_stream_started_ms := AList.update env t (user_stream_started_ms r)\<rparr>))"

end
