(* ===== verification/Runtime_Frame.thy ===== *)
theory Runtime_Frame
  imports Runtime Engine_History Samples
begin

text \<open>
  A relation between the states of the supervisor that its operations obey, other than the creation of an
  execution. The locale asks for it of the primitive steps: the clocks are read,
  the bookkeeping changes, an environment becomes unavailable, a service is registered, and a service
  performs an operation or lists its active executions.
\<close>

section \<open>The invariant of a service\<close>

definition active :: "execution_record \<Rightarrow> bool" where
  "active r \<longleftrightarrow> \<not> execution_status_is_terminal (status r)"

definition exclusive :: "environment \<Rightarrow> records \<Rightarrow> bool" where
  "exclusive env rs \<longleftrightarrow>
     engine_ok rs
     \<and> (\<forall>eid r. map_of rs eid = Some r \<longrightarrow> req_environment (request r) = env)
     \<and> (\<forall>i j r s. map_of rs i = Some r \<longrightarrow> map_of rs j = Some s \<longrightarrow> active r \<longrightarrow> active s
          \<longrightarrow> req_symbol (request r) = req_symbol (request s) \<longrightarrow> i = j)"

lemma exclusive_empty: "exclusive env []"
  by (simp add: exclusive_def engine_ok_def)

lemma evolved_record:
  assumes "record_evolves r r'"
  shows "request r' = request r" "rec_execution_id r' = rec_execution_id r" "active r' \<Longrightarrow> active r"
    "rec_ok r \<Longrightarrow> rec_ok r'"
  using assms execution_life.terminal_stays [of "status r" "status r'"]
  by (auto simp: record_evolves_def identity_def active_def simp del: execution_status_is_terminal.simps)

text \<open>An operation on one execution, and the creation of an execution when none is active.\<close>

lemma exclusive_update:
  assumes "exclusive env rs" "rec_ok r'" "rec_execution_id r' = eid" "req_environment (request r') = env"
    and "\<And>j s. j \<noteq> eid \<Longrightarrow> map_of rs j = Some s \<Longrightarrow> active s \<Longrightarrow> active r'
      \<Longrightarrow> req_symbol (request s) \<noteq> req_symbol (request r')"
  shows "exclusive env (AList.update eid r' rs)"
  using assms by (fastforce simp: exclusive_def engine_ok_def update_conv' distinct_update)

lemma exclusive_on_execution:
  assumes "evolves state_evolves m" "exclusive env rs"
  shows "exclusive env (fst (snd (on_execution eid m (rs, w))))"
proof (cases "map_of rs eid")
  case (Some r)
  obtain x r' w' where m: "m (r, w) = (x, r', w')" by (cases "m (r, w)") auto
  have ev: "record_evolves r r'" using evolvesD [OF assms(1), of "(r, w)"] m by simp
  have r: "rec_ok r" "rec_execution_id r = eid" "req_environment (request r) = env"
    using assms(2) Some by (simp_all add: exclusive_def engine_ok_def)
  have "exclusive env (AList.update eid r' rs)"
  proof (rule exclusive_update [OF assms(2)])
    show "req_symbol (request s) \<noteq> req_symbol (request r')"
      if "j \<noteq> eid" "map_of rs j = Some s" "active s" "active r'" for j s
      using assms(2) Some that evolved_record [OF ev] unfolding exclusive_def by metis
  qed (use r evolved_record [OF ev] in simp_all)
  then show ?thesis using Some m by (simp add: on_execution_def)
qed (simp add: on_execution_def assms(2))

lemma exclusive_operations:
  assumes "exclusive env rs"
  shows "exclusive env (fst (snd (get_execution eid (rs, w))))"
    and "exclusive env (fst (snd (cancel_execution A eid (rs, w))))"
    and "exclusive env (fst (snd (run_once A eid (rs, w))))"
    and "exclusive env (fst (snd (reconcile_execution A eid t0 t1 (rs, w))))"
    and "exclusive env (fst (snd (apply_reconciliation_result A eid result (rs, w))))"
  unfolding get_execution_def cancel_execution_def run_once_def reconcile_execution_def
    apply_reconciliation_result_def
  using assms
  by (auto intro!: exclusive_on_execution rev_cancel_record rev_run_once rev_reconcile_record
      rev_apply_result rev.ev_ret)

lemma started_exclusive:
  assumes "exclusive env rs" "eid \<notin> fst ` set rs" "req_environment req = env" "dec_ok required"
    and idle: "\<And>j s. map_of rs j = Some s \<Longrightarrow> active s \<Longrightarrow> req_symbol (request s) \<noteq> req_symbol req"
    and r: "r = new_execution_record eid req sd required pos raw dust"
  shows "exclusive env (fst (snd (andthen (add_record r) (on_execution eid (start_record A rules)) (rs, w))))"
proof -
  have id: "rec_execution_id r = eid" "request r = req" by (simp_all add: r new_execution_record_def)
  have look: "map_of (AList.update eid r rs) eid = Some r" by (simp add: update_conv')
  obtain x r' w' where m: "start_record A rules (r, w) = (x, r', w')"
    by (cases "start_record A rules (r, w)") auto
  have "started_ok r r'"
    using start_record_ok [OF r assms(4), where A = A and rules = rules and w = w]
    by (cases x) (simp_all add: wp_def m)
  then have ok: "rec_ok r'" "rec_execution_id r' = eid" "request r' = req"
    using id by (simp_all add: started_ok_def identity_def)
  have "exclusive env (AList.update eid r' rs)"
    using ok assms(3) idle by (intro exclusive_update [OF assms(1)]) auto
  moreover have "AList.update eid r' (AList.update eid r rs) = AList.update eid r' rs" by simp
  ultimately show ?thesis
    by (simp add: bind_def add_record_def modify_def on_execution_def id look m)
qed

lemma create_exclusive:
  assumes "exclusive env rs" "execution_id hex \<notin> fst ` set rs" "req_environment req = env"
    and "\<And>j s. map_of rs j = Some s \<Longrightarrow> active s \<Longrightarrow> req_symbol (request s) \<noteq> req_symbol req"
  shows "exclusive env (fst (snd (create_execution A hex req (rs, w))))"
proof -
  let ?Q = "\<lambda>_ s. exclusive env (fst s)"
  have start: "wp (andthen (add_record (new_execution_record (execution_id hex) req sd q pos raw dust))
      (on_execution (execution_id hex) (start_record A rules))) ?Q ?Q (rs, v)"
    if "dec_ok q" for sd q pos raw dust rules v
    using started_exclusive [OF assms(1-3) that assms(4) refl, where w = v and A = A and rules = rules
        and sd = sd and pos = pos and raw = raw and dust = dust]
    by (auto simp: wp_def split: prod.split sum.split)
  have "wp (create_execution A hex req) ?Q ?Q (rs, w)"
    unfolding create_execution_def wp_bind [of "ecall _"] wp_ecall
    by (auto simp: Let_def wp_bind [of "if _ then _ else _"] wp_bind [of "ecall _"] wp_ecall
        wp_bind [of "lift_res _"] wp_lift_res wp_ret start floor_to_step_ok assms(1)
        split: prod.split sum.split)
  then show ?thesis by (simp add: wp_def split: prod.splits sum.splits)
qed

text \<open>Queries leave a service as it is.\<close>

lemma collect_active_same: "fst (snd (collect_active eids s)) = fst s"
proof -
  have same: "evolution (\<lambda>s t :: records \<times> 'a. fst t = fst s)" by unfold_locales auto
  have get: "evolves (\<lambda>s t :: records \<times> 'a. fst t = fst s) (get_execution eid)" for eid
    by (auto simp: evolves_def get_execution_result split: option.split)
  have "evolves (\<lambda>s t :: records \<times> 'a. fst t = fst s) (collect_active eids)"
    by (induction eids)
      (auto intro!: evolution.ev_ret [OF same] evolution.ev_bind [OF same] get)
  from evolvesD [OF this, of s] show ?thesis .
qed

lemma active_executions_same: "fst (snd (active_executions s)) = fst s"
  by (simp add: active_executions_def bind_def gets_def collect_active_same)

lemma evolves_case_unknown:
  "evolves R m \<Longrightarrow> evolves R n \<Longrightarrow> evolves R (case e of UnknownExecution _ \<Rightarrow> m | _ \<Rightarrow> n)"
  by (cases e) auto

lemma wp_outside: "wp (outside op) Q E (r, w) = Q (fst (op w)) (r, snd (op w))"
  by (simp add: wp_def outside_def split: prod.split)

text \<open>What building a service does: nothing, a synchronization, or that and a registration.\<close>

lemma build_effect:
  assumes "Q (r, w)" "\<And>allow c. Q (r, snd (synchronize_adapter P env allow c w))"
    and "\<And>allow c. Q (r\<lparr>services := AList.update env [] (services r)\<rparr>, snd (synchronize_adapter P env allow c w))"
  shows "Q (snd (build_binance_service P env (r, w)))"
proof -
  have answer: "wp (case answer of Inl (ServerTimeSynchronizationFailure t) \<Rightarrow> throw (f t)
        | Inl e \<Rightarrow> throw e | Inr _ \<Rightarrow> register_service env) (\<lambda>_. Q) (\<lambda>_. Q) (r, w')"
    if "Q (r, w')" "Q (r\<lparr>services := AList.update env [] (services r)\<rparr>, w')"
    for answer :: "exn + int" and f w'
  proof (cases answer)
    case (Inl e)
    then show ?thesis using that by (cases e) (simp_all add: wp_throw)
  qed (use that in \<open>simp add: register_service_def modrt_def wp_modify\<close>)
  have case_if: "(b \<Longrightarrow> A) \<Longrightarrow> (\<not> b \<Longrightarrow> B) \<Longrightarrow> if b then A else B" for b A B by simp
  have pick: "(\<And>e. A e) \<Longrightarrow> (\<And>x. B x) \<Longrightarrow> case y of Inl e \<Rightarrow> A e | Inr x \<Rightarrow> B x"
    for A :: "exn \<Rightarrow> bool" and B :: "bool \<Rightarrow> bool" and y by (cases y) auto
  have "wp (build_binance_service P env) (\<lambda>_. Q) (\<lambda>_. Q) (r, w)"
    unfolding build_binance_service_def Let_def wp_if wp_throw wp_bind wp_lift_res
    by (intro pick case_if assms(1)) (simp only: wp_outside, intro answer assms(2,3))
  then show ?thesis by (simp add: wp_def split: prod.splits sum.splits)
qed

section \<open>The frame\<close>

named_theorems runtime_intro

locale runtime_frame = evolution R
  for R :: "runtime \<times> 'w \<Rightarrow> runtime \<times> 'w \<Rightarrow> bool" +
  fixes P :: "'w platform"
  assumes clock_read: "R (r, w) (r, snd (wall_ms P env w))"
    and simulation_advanced: "R (r, w) (r, advance_simulation P seconds w)"
    and clock_synchronized: "R (r, w) (r, snd (synchronize_adapter P env allow credentials w))"
    and books_change: "services r' = services r \<Longrightarrow> unavailable_environments r' = unavailable_environments r
      \<Longrightarrow> R (r, w) (r', w)"
    and becomes_unavailable: "reason \<noteq> [] \<Longrightarrow> R (r, w) (r\<lparr>unavailable_environments :=
        AList.update env reason (unavailable_environments r)\<rparr>, w)"
    and service_registered: "map_of (services r) env = None
      \<Longrightarrow> R (r, w) (r\<lparr>services := AList.update env [] (services r)\<rparr>, w)"
    and service_performs: "(\<And>hex req. op \<noteq> Create hex req)
      \<Longrightarrow> evolves R (on_service env (perform (adapter_of P env) op))"
    and service_answers: "evolves R (on_service env active_executions)"
begin

lemmas [runtime_intro] =
  ev_ret ev_throw ev_gets ev_lift_res ev_bind ev_try_else ev_guarded ev_for_each
  evolves_if evolves_case_option evolves_case_prod evolves_case_sum evolves_Let

lemma rf_getrt [runtime_intro]: "evolves R (getrt f)"
  unfolding getrt_def by (rule ev_gets)

lemma rf_modrt:
  "(\<And>r. services (f r) = services r \<and> unavailable_environments (f r) = unavailable_environments r)
    \<Longrightarrow> evolves R (modrt f)"
  by (auto simp: evolves_def modrt_def modify_def intro: books_change)

lemma rf_outside [runtime_intro]:
  "evolves R (outside (wall_ms P env))"
  "evolves R (outside (\<lambda>w. ((), advance_simulation P seconds w)))"
  by (auto simp: evolves_def outside_def intro: simulation_advanced split: prod.split)
    (metis clock_read snd_conv)

lemma rf_mark [runtime_intro]: "reason \<noteq> [] \<Longrightarrow> evolves R (mark_unavailable env reason)"
  by (auto simp: evolves_def mark_unavailable_def modrt_def modify_def intro: becomes_unavailable)

text \<open>The bookkeeping of the supervisor never touches the records.\<close>

lemma rf_bookkeeping [runtime_intro]:
  "evolves R (remember_execution x)"
  "evolves R (schedule_background_loop x)"
  "evolves R (cancel_background_loop_if_terminal x)"
  "evolves R (record_runtime_error key e)"
  unfolding remember_execution_def schedule_background_loop_def cancel_background_loop_if_terminal_def
    record_runtime_error_def
  by (rule rf_modrt, simp)+

lemma rf_service_for [runtime_intro]:
  "evolves R (service_for_environment P env)"
  "evolves R (service_for_execution P eid)"
proof -
  have "R (r, w) (snd (service_for_environment P env (r, w)))" for env r w
  proof (cases "map_of (services r) env")
    case None
    have same: "R (r, w) (r, w)" by (rule refl)
    have reg: "R (r, w) (r\<lparr>services := AList.update env [] (services r)\<rparr>, snd (synchronize_adapter P env a c w))" for a c
      by (rule trans [OF clock_synchronized service_registered [OF None]])
    show ?thesis
      using build_effect [of "R (r, w)", OF same clock_synchronized reg] same
      by (simp add: service_for_environment_def bind_def getrt_def gets_def None throw_def)
  qed (simp add: service_for_environment_def bind_def getrt_def gets_def ret_def refl)
  then show "evolves R (service_for_environment P env)" for env by (simp add: evolves_def)
  then show "evolves R (service_for_execution P eid)"
    unfolding service_for_execution_def by (intro runtime_intro rf_modrt) simp_all
qed

lemma rf_service_operations [runtime_intro]:
  "evolves R (on_service env (get_execution eid))"
  "evolves R (on_service env (cancel_execution (adapter_of P env) eid))"
  "evolves R (on_service env (run_once (adapter_of P env) eid))"
  "evolves R (on_service env (reconcile_execution (adapter_of P env) eid t0 t1))"
  "evolves R (on_service env (apply_reconciliation_result (adapter_of P env) eid result))"
  "evolves R (on_service env active_executions)"
  using service_performs [of "Get eid" env] service_performs [of "Cancel eid" env]
    service_performs [of "Run_Once eid" env] service_performs [of "Reconcile eid t0 t1" env]
    service_performs [of "Apply_Result eid result" env] service_answers
  by simp_all

lemma rf_returned [runtime_intro]: "evolves R (record_returned_unavailable_record mark x)"
  unfolding record_returned_unavailable_record_def
  by (intro runtime_intro) (auto simp: unavailable_reconciliation_final_reasons_def)

lemma rf_supervised [runtime_intro]:
  "evolves R m \<Longrightarrow> evolves R (supervised m)"
  "evolves R (record_returned_unavailable_reconciliation x)"
  unfolding supervised_def raise_for_returned_unavailable_record_def
    record_returned_unavailable_reconciliation_def
  by (intro runtime_intro; assumption)+

lemma rf_client [runtime_intro]:
  "evolves R (rt_get_execution P eid)"
  "evolves R (rt_cancel_execution P eid)"
  "evolves R (rt_run_once P eid)"
  "evolves R (rt_reconcile_execution P eid t0 t1)"
  unfolding rt_get_execution_def rt_cancel_execution_def rt_run_once_def rt_reconcile_execution_def
  by (intro runtime_intro)+

lemma rf_background [runtime_intro]: "evolves R (background_step P eid)"
proof -
  have sleep: "evolves R (sleep_background_interval P eid seconds)" for seconds
    unfolding sleep_background_interval_def by (intro runtime_intro)
  have "evolves R (background_failed P eid e)" for e
    unfolding background_failed_def
    by (intro runtime_intro) (cases e; simp only: exn.case; intro runtime_intro sleep)
  then show ?thesis
    unfolding background_step_def background_turn_def by (intro runtime_intro rf_modrt sleep) simp_all
qed

lemma rf_lifecycle [runtime_intro]:
  "evolves R start_runtime"
  "evolves R begin_stop"
  "evolves R (cancel_and_reconcile_active_executions P)"
  "evolves R finish_stop"
  unfolding start_runtime_def schedule_active_def begin_stop_def finish_stop_def
    cancel_and_reconcile_active_executions_def cancel_and_reconcile_def Let_def
  by (intro runtime_intro rf_modrt; simp)+

lemma rf_reconcile [runtime_intro]:
  "evolves R (reconcile_active_executions_for_environment P env t0 t1)"
  "evolves R (reconcile_stale_user_stream_window P env)"
  unfolding reconcile_active_executions_for_environment_def reconcile_active_execution_def
    reconcile_stale_user_stream_window_def
  by (intro runtime_intro)+

lemma rf_known_candidates [runtime_intro]: "evolves R (known_candidates env coids known)"
proof (induction known)
  case (Cons k known)
  obtain eid e where k: "k = (eid, e)" by (cases k)
  show ?case unfolding k known_candidates.simps by (intro runtime_intro evolves_case_unknown Cons)
qed (simp add: ev_ret)

lemma rf_apply_to_candidates [runtime_intro]: "evolves R (apply_to_candidates P env result xs)"
proof (induction xs)
  case (Cons x xs)
  then show ?case unfolding apply_to_candidates.simps by (intro runtime_intro)
qed (simp add: ev_ret)

lemma rf_user_event [runtime_intro]: "evolves R (user_stream_event P env event)"
  unfolding user_stream_event_def reconcile_active_executions_for_user_event_def
    apply_user_event_reconciliation_def direct_user_event_candidates_def
  by (intro runtime_intro)

lemma rf_listen_key_unavailable:
  "is_listen_key_hard_stop e \<or> is_listen_key_retryable e
    \<Longrightarrow> evolves R (mark_listen_key_unavailable P key env e)"
  unfolding mark_listen_key_unavailable_def
  by (intro runtime_intro) (auto simp: is_listen_key_hard_stop_def is_listen_key_retryable_def)

lemma rf_listen_keys [runtime_intro]:
  "evolves R (user_stream_failed P env failures e)"
  "evolves R (keepalive_failed P env failures e)"
  "evolves R (user_stream_started P env)"
  "evolves R (user_stream_lost P env)"
  unfolding user_stream_failed_def keepalive_failed_def user_stream_lost_def user_stream_started_def
  by (intro runtime_intro rf_modrt rf_listen_key_unavailable; simp)+

end

end
