(* ===== verification/Runtime_Laws.thy ===== *)
theory Runtime_Laws
  imports Runtime_Frame
begin

text \<open>
  What the supervisor keeps: whatever clients, background loops, streams and the exchange do, an
  environment never has two active executions of the same symbol.
\<close>

section \<open>The invariant of the supervisor\<close>

definition runtime_ok :: "runtime \<Rightarrow> bool" where
  "runtime_ok r \<longleftrightarrow> (\<forall>env rs. map_of (services r) env = Some rs \<longrightarrow> exclusive env rs)"

definition runtime_kept :: "runtime \<times> 'w \<Rightarrow> runtime \<times> 'w \<Rightarrow> bool" where
  "runtime_kept s t \<longleftrightarrow> (runtime_ok (fst s) \<longrightarrow> runtime_ok (fst t))"

lemma records_exclusive: "runtime_ok r \<Longrightarrow> exclusive env (records_of env r)"
  by (simp add: runtime_ok_def records_of_def exclusive_empty split: option.split)

lemma kept_outside:
  "runtime_kept (r, w) (r, w')"
  "services r' = services r \<Longrightarrow> runtime_kept (r, w) (r', w)"
  "runtime_kept (r, w) (r\<lparr>services := AList.update env [] (services r)\<rparr>, w)"
  by (simp_all add: runtime_kept_def runtime_ok_def update_conv' exclusive_empty)

lemma service_kept:
  assumes "\<And>rs w. exclusive env rs \<Longrightarrow> exclusive env (fst (snd (m (rs, w))))"
  shows "evolves runtime_kept (on_service env m)"
  unfolding evolves_def
proof
  fix s :: "runtime \<times> 'a"
  obtain r w where s: "s = (r, w)" by (cases s)
  obtain x rs w' where m: "m (records_of env r, w) = (x, rs, w')" by (cases "m (records_of env r, w)")
  have "exclusive env rs" if "runtime_ok r"
    using assms [OF records_exclusive [OF that], of w] m by simp
  then show "runtime_kept s (snd (on_service env m s))"
    by (auto simp: runtime_kept_def s on_service_def m runtime_ok_def update_conv')
qed

interpretation rk: runtime_frame runtime_kept P for P :: "'w platform"
proof (rule runtime_frame.intro)
  show "evolution (runtime_kept :: runtime \<times> 'w \<Rightarrow> _)"
    by unfold_locales (simp_all add: runtime_kept_def)
  show "runtime_frame_axioms runtime_kept P"
  proof (rule runtime_frame_axioms.intro)
    show "evolves runtime_kept (on_service env (perform (adapter_of P env) op))"
      if other: "\<And>hex req. op \<noteq> Create hex req" for op env
    proof (cases op)
      case (Create hex req)
      with other show ?thesis by blast
    qed (simp_all add: service_kept exclusive_operations)
    show "evolves runtime_kept (on_service env (active_executions :: ('w, _) engine))" for env
      by (rule service_kept) (simp add: active_executions_same)
  qed (rule kept_outside | simp add: kept_outside)+
qed

lemma rk_mark: "evolves runtime_kept (mark_unavailable env reason)"
  by (simp add: evolves_def mark_unavailable_def modrt_def modify_def runtime_kept_def runtime_ok_def)

section \<open>Creating an execution\<close>

text \<open>Registering a service adds no record; the id of a new execution is unknown to every service.\<close>

definition adds_no_record :: "runtime \<times> 'w \<Rightarrow> runtime \<times> 'w \<Rightarrow> bool" where
  "adds_no_record s t \<longleftrightarrow> (\<forall>env. map_of (services (fst t)) env = map_of (services (fst s)) env
     \<or> map_of (services (fst t)) env = Some [])"

interpretation nr: evolution adds_no_record
  by unfold_locales (auto simp: adds_no_record_def, metis)

definition fresh_id :: "string \<Rightarrow> runtime \<Rightarrow> bool" where
  "fresh_id hex r \<longleftrightarrow> (\<forall>env. execution_id hex \<notin> fst ` set (records_of env r))"

lemma adds_no_record_keeps:
  assumes "adds_no_record s t"
  shows "runtime_ok (fst s) \<Longrightarrow> runtime_ok (fst t)" "fresh_id hex (fst s) \<Longrightarrow> fresh_id hex (fst t)"
proof -
  have t: "map_of (services (fst t)) env = map_of (services (fst s)) env
      \<or> map_of (services (fst t)) env = Some []" for env
    using assms by (simp add: adds_no_record_def)
  show "runtime_ok (fst s) \<Longrightarrow> runtime_ok (fst t)"
    unfolding runtime_ok_def using t exclusive_empty by (metis option.inject)
  have "records_of env (fst t) = records_of env (fst s) \<or> records_of env (fst t) = []" for env
    using t [of env] by (auto simp: records_of_def)
  then show "fresh_id hex (fst s) \<Longrightarrow> fresh_id hex (fst t)"
    unfolding fresh_id_def by (metis empty_iff image_is_empty list.set(1))
qed

lemma nr_service_for_environment: "evolves adds_no_record (service_for_environment P env)"
proof -
  have out: "evolves adds_no_record (outside op)" for op :: "'a \<Rightarrow> 'b \<times> 'a"
    by (auto simp: evolves_def outside_def adds_no_record_def split: prod.split)
  have reg: "evolves adds_no_record (register_service env)"
    by (simp add: evolves_def register_service_def modrt_def modify_def adds_no_record_def update_conv')
  show ?thesis
    unfolding service_for_environment_def build_binance_service_def getrt_def Let_def
    by (intro nr.ev_ret nr.ev_throw nr.ev_gets nr.ev_lift_res nr.ev_bind evolves_if evolves_case_sum out reg)
      (auto intro: nr.ev_throw reg split: exn.split)
qed

text \<open>The check for an active execution reads the service that the creation then changes.\<close>

lemma records_of_update [simp]:
  "records_of e (r\<lparr>services := AList.update env rs (services r)\<rparr>) =
    (if e = env then rs else records_of e r)"
  by (simp add: records_of_def update_conv')

lemma active_execution_for_run:
  assumes "exclusive env (records_of env r)"
  shows "\<exists>x. on_service env (active_execution_for env symb) (r, w) =
      (Inr x, r\<lparr>services := AList.update env (records_of env r) (services r)\<rparr>, w)
    \<and> (x = None \<longrightarrow> (\<forall>j s. map_of (records_of env r) j = Some s \<longrightarrow> active s \<longrightarrow> req_symbol (request s) \<noteq> symb))"
proof -
  let ?rs = "records_of env r"
  have d: "distinct (map fst ?rs)" using assms by (simp add: exclusive_def engine_ok_def)
  let ?found = "find (\<lambda>r. req_environment (request r) = env \<and> req_symbol (request r) = symb)
    (filter (\<lambda>r. \<not> execution_status_is_terminal (status r)) (map snd ?rs))"
  have run: "on_service env (active_execution_for env symb) (r, w) =
      (Inr ?found, r\<lparr>services := AList.update env ?rs (services r)\<rparr>, w)"
    by (simp add: on_service_def active_execution_for_def bind_def active_executions_result [OF d] ret_def)
  have "req_symbol (request s) \<noteq> symb"
    if "?found = None" "map_of ?rs j = Some s" "active s" for j s
  proof -
    have "s \<in> set (map snd ?rs)" using that(2) by (force dest: map_of_SomeD)
    moreover have "req_environment (request s) = env" using assms that(2) by (simp add: exclusive_def)
    ultimately show ?thesis
      using that by (auto simp: find_None_iff active_def simp del: execution_status_is_terminal.simps)
  qed
  with run show ?thesis by blast
qed

text \<open>
  What the creation of an execution keeps: \<open>I\<close> holds until the engine is asked for it, and then \<open>Q\<close>, which
  does not read the books of the supervisor.
\<close>

locale creation =
  fixes P :: "'w platform" and hex :: string and req :: execution_request
    and I Q :: "runtime \<times> 'w \<Rightarrow> bool"
  assumes ready: "I s \<Longrightarrow> Q s"
    and consistent: "I s \<Longrightarrow> runtime_ok (fst s)"
    and registers: "I s \<Longrightarrow> I (snd (service_for_environment P (req_environment req) s))"
    and asked: "I (r, w) \<Longrightarrow> I (r\<lparr>services := AList.update env (records_of env r) (services r)\<rparr>, w)"
    and created: "I (r, w)
      \<Longrightarrow> (\<And>j s. map_of (records_of (req_environment req) r) j = Some s \<Longrightarrow> active s
            \<Longrightarrow> req_symbol (request s) \<noteq> req_symbol req)
      \<Longrightarrow> create_execution (adapter_of P (req_environment req)) hex req
            (records_of (req_environment req) r, w) = (x, rs, w')
      \<Longrightarrow> Q (r\<lparr>services := AList.update (req_environment req) rs (services r)\<rparr>, w')"
    and books: "services r' = services r \<Longrightarrow> Q (r, w) \<Longrightarrow> Q (r', w)"
begin

abbreviation stays :: "('w, 'a) rt \<Rightarrow> runtime \<times> 'w \<Rightarrow> bool" where
  "stays m s \<equiv> wp m (\<lambda>_. Q) (\<lambda>_. Q) s"

lemma stays_modrt: "(\<And>r. services (f r) = services r) \<Longrightarrow> Q s \<Longrightarrow> stays (modrt f) s"
  using books [of "f (fst s)" "fst s" "snd s"] by (simp add: modrt_def wp_modify)

lemma stays_then: "stays m s \<Longrightarrow> (\<And>x t. Q t \<Longrightarrow> stays (k x) t) \<Longrightarrow> stays (bind m k) s"
  unfolding wp_bind by (erule wp_mono)

lemma creation_settles:
  assumes "Q s"
  shows "stays (creation_failed env e) s"
    and "stays (andthen (remember_execution y) (andthen (schedule_background_loop y) (ret y))) s"
proof -
  have mark: "stays (andthen (mark_unavailable env t) (throw e')) s" for t e'
    unfolding mark_unavailable_def using assms by (intro stays_then stays_modrt) (simp_all add: wp_throw)
  show "stays (creation_failed env e) s"
    unfolding creation_failed_def using assms mark by (cases e) (simp_all add: wp_throw)
  show "stays (andthen (remember_execution y) (andthen (schedule_background_loop y) (ret y))) s"
    unfolding remember_execution_def schedule_background_loop_def
    using assms by (intro stays_then stays_modrt) (simp_all add: wp_ret)
qed

lemma create_keeps:
  assumes "I s"
  shows "Q (snd (rt_create_execution P hex req s))"
proof -
  let ?env = "req_environment req"
  let ?create = "\<lambda>x. case x of
      Some x \<Rightarrow> throw (ActiveExecutionConflict
        (''active execution already exists for '' @ environment_value ?env @ '' ''
         @ req_symbol req @ '': '' @ rec_execution_id x))
    | None \<Rightarrow> try_else (on_service ?env (create_execution (adapter_of P ?env) hex req))
        (creation_failed ?env)
        (\<lambda>x. andthen (remember_execution x) (andthen (schedule_background_loop x) (ret x)))"
  have rest: "stays (bind (on_service ?env (active_execution_for ?env (req_symbol req))) ?create) (q, v)"
    if I: "I (q, v)" for q v
  proof -
    have ex: "exclusive ?env (records_of ?env q)" using consistent [OF I] by (simp add: records_exclusive)
    let ?q = "q\<lparr>services := AList.update ?env (records_of ?env q) (services q)\<rparr>"
    obtain x where x: "on_service ?env (active_execution_for ?env (req_symbol req)) (q, v) = (Inr x, ?q, v)"
      "x = None \<Longrightarrow> map_of (records_of ?env q) j = Some s \<Longrightarrow> active s \<Longrightarrow> req_symbol (request s) \<noteq> req_symbol req"
      for j s
      using active_execution_for_run [OF ex, of "req_symbol req" v] by blast
    have I': "I (?q, v)" by (rule asked [OF I])
    have "stays (?create x) (?q, v)"
    proof (cases x)
      case None
      obtain y rs v' where m: "create_execution (adapter_of P ?env) hex req (records_of ?env ?q, v) = (y, rs, v')"
        by (cases "create_execution (adapter_of P ?env) hex req (records_of ?env ?q, v)")
      have "Q (?q\<lparr>services := AList.update ?env rs (services ?q)\<rparr>, v')"
        by (rule created [OF I' _ m]) (simp add: x(2) [OF None])
      then show ?thesis
        unfolding None option.case wp_try_else wp_def [of "on_service ?env _"]
        using m creation_settles by (auto simp: on_service_def split: sum.split)
    qed (simp add: wp_throw ready [OF I'])
    then show ?thesis by (simp add: wp_bind wp_def [of "on_service _ _"] x(1))
  qed
  have "wp (service_for_environment P ?env) (\<lambda>_. I) (\<lambda>_. Q) s"
    using registers [OF assms] ready by (auto simp: wp_def split: prod.split sum.split)
  then have "stays (andthen (service_for_environment P ?env)
      (bind (on_service ?env (active_execution_for ?env (req_symbol req))) ?create)) s"
    unfolding wp_bind [of "service_for_environment P ?env"] by (rule wp_mono) (use rest in \<open>auto simp: split_paired_all\<close>)
  then have "stays (rt_create_execution P hex req) s"
    using ready [OF assms]
    by (cases "is_stopping (fst s)"; cases "unavailable_reason ?env (fst s)")
      (simp_all only: rt_create_execution_def Let_def getrt_def wp_bind [of "gets _"] wp_gets wp_throw
        if_True if_False option.case simp_thms)
  then show ?thesis by (simp add: wp_def split: prod.splits sum.splits)
qed

end

interpretation ok: creation P hex req "\<lambda>s. runtime_ok (fst s) \<and> fresh_id hex (fst s)" "\<lambda>s. runtime_ok (fst s)"
  for P :: "'w platform" and hex req
proof unfold_locales
  fix s :: "runtime \<times> 'w"
  assume "runtime_ok (fst s) \<and> fresh_id hex (fst s)"
  then show "runtime_ok (fst (snd (service_for_environment P (req_environment req) s)))
      \<and> fresh_id hex (fst (snd (service_for_environment P (req_environment req) s)))"
    using adds_no_record_keeps [OF evolvesD [OF nr_service_for_environment [of P "req_environment req"], of s]] by simp
next
  fix r rs env x and w w' :: 'w
  assume I: "runtime_ok (fst (r, w)) \<and> fresh_id hex (fst (r, w))"
  then show "runtime_ok (fst (r\<lparr>services := AList.update env (records_of env r) (services r)\<rparr>, w))
      \<and> fresh_id hex (fst (r\<lparr>services := AList.update env (records_of env r) (services r)\<rparr>, w))"
    using records_exclusive [of r env] by (simp add: runtime_ok_def update_conv' fresh_id_def)
  assume idle: "\<And>j s. map_of (records_of (req_environment req) r) j = Some s \<Longrightarrow> active s
      \<Longrightarrow> req_symbol (request s) \<noteq> req_symbol req"
    and m: "create_execution (adapter_of P (req_environment req)) hex req
      (records_of (req_environment req) r, w) = (x, rs, w')"
  have "exclusive (req_environment req) (fst (snd (create_execution (adapter_of P (req_environment req)) hex req
      (records_of (req_environment req) r, w))))"
    using I records_exclusive [of r "req_environment req"]
    by (intro create_exclusive [OF _ _ refl idle]) (simp_all add: fresh_id_def)
  then have "exclusive (req_environment req) rs" by (simp add: m)
  then show "runtime_ok (fst (r\<lparr>services := AList.update (req_environment req) rs (services r)\<rparr>, w'))"
    using I by (simp add: runtime_ok_def update_conv')
qed (simp_all add: runtime_ok_def)

lemma create_kept:
  assumes "runtime_ok r" "fresh_id hex r"
  shows "runtime_ok (fst (snd (rt_create_execution P hex req (r, w))))"
  using ok.create_keeps [of "(r, w)" hex P req] assms by simp

section \<open>Histories\<close>

text \<open>
  What happens to the supervisor: calls of clients, turns of background loops, its start, the parts
  of its stop, and what its streams bring. Between any two of these the world may change by itself.
\<close>

datatype runtime_op =
    Client_Create string execution_request
  | Client_Get string
  | Client_Cancel string
  | Client_Run_Once string
  | Client_Reconcile string "int option" "int option"
  | Background_Step string
  | Start_Runtime
  | Begin_Stop
  | Stop_Active
  | Finish_Stop
  | Stream_Started environment
  | Stream_Event environment pyval
  | Stream_Failed environment nat exn
  | Keepalive_Failed environment nat exn

definition discard :: "('w, 'a) rt \<Rightarrow> ('w, unit) rt" where
  "discard m = bind m (\<lambda>_. ret ())"

lemma discard_state [simp]: "snd (discard m s) = snd (m s)"
  by (simp add: discard_def bind_def ret_def split: prod.split sum.split)

lemma rk_result: "evolves runtime_kept m \<Longrightarrow> runtime_ok (fst s) \<Longrightarrow> runtime_ok (fst (snd (m s)))"
  using evolvesD [of runtime_kept m s] by (simp add: runtime_kept_def)

fun runtime_act :: "'w platform \<Rightarrow> runtime_op \<Rightarrow> ('w, unit) rt" where
  "runtime_act P (Client_Create hex req) = discard (rt_create_execution P hex req)"
| "runtime_act P (Client_Get eid) = discard (rt_get_execution P eid)"
| "runtime_act P (Client_Cancel eid) = discard (rt_cancel_execution P eid)"
| "runtime_act P (Client_Run_Once eid) = discard (rt_run_once P eid)"
| "runtime_act P (Client_Reconcile eid t0 t1) = discard (rt_reconcile_execution P eid t0 t1)"
| "runtime_act P (Background_Step eid) = background_step P eid"
| "runtime_act P Start_Runtime = start_runtime"
| "runtime_act P Begin_Stop = discard begin_stop"
| "runtime_act P Stop_Active = cancel_and_reconcile_active_executions P"
| "runtime_act P Finish_Stop = finish_stop"
| "runtime_act P (Stream_Started env) = user_stream_started P env"
| "runtime_act P (Stream_Event env event) = discard (user_stream_event P env event)"
| "runtime_act P (Stream_Failed env n e) = discard (user_stream_failed P env n e)"
| "runtime_act P (Keepalive_Failed env n e) = discard (keepalive_failed P env n e)"

fun fresh_runtime_op :: "runtime \<Rightarrow> runtime_op \<Rightarrow> bool" where
  "fresh_runtime_op r (Client_Create hex _) = fresh_id hex r"
| "fresh_runtime_op r _ = True"

inductive runtime_step :: "'w platform \<Rightarrow> runtime \<times> 'w \<Rightarrow> runtime \<times> 'w \<Rightarrow> bool" for P where
  act: "fresh_runtime_op (fst s) op \<Longrightarrow> runtime_step P s (snd (runtime_act P op s))"
| outside: "runtime_step P (r, w) (r, w')"

abbreviation runtime_history :: "'w platform \<Rightarrow> runtime \<times> 'w \<Rightarrow> runtime \<times> 'w \<Rightarrow> bool" where
  "runtime_history P \<equiv> (runtime_step P)\<^sup>*\<^sup>*"

lemma runtime_act_kept:
  assumes "fresh_runtime_op (fst s) op" "runtime_ok (fst s)"
  shows "runtime_ok (fst (snd (runtime_act P op s)))"
proof (cases op)
  case (Client_Create hex req)
  then show ?thesis using assms create_kept [of "fst s" hex P req "snd s"] by simp
qed (use assms(2) in \<open>auto simp: runtime_kept_def intro!: rk_result runtime_intro\<close>)

lemma runtime_invariant: "runtime_history P s t \<Longrightarrow> runtime_ok (fst s) \<Longrightarrow> runtime_ok (fst t)"
  by (induction rule: rtranclp_induct) (auto elim!: runtime_step.cases simp: runtime_act_kept)

lemma new_runtime_ok: "new_runtime tick keepalive restart = Inr r \<Longrightarrow> runtime_ok r"
  by (auto simp: new_runtime_def runtime_ok_def exclusive_empty split: if_splits)

section \<open>One active execution\<close>

text \<open>
  C6. In every state the supervisor can reach from its construction, by calls of clients, turns of
  background loops, events and failures of its streams, its start and its stop, in any order and
  whatever the exchange answers, an environment has at most one execution of a symbol that has not
  ended. The random part of an execution id is assumed not to repeat.
\<close>

theorem at_most_one_active:
  assumes "new_runtime tick keepalive restart = Inr r" "runtime_history P (r, w) s"
    and "map_of (records_of env (fst s)) i = Some x" "map_of (records_of env (fst s)) j = Some y"
    and "active x" "active y" "req_symbol (request x) = req_symbol (request y)"
  shows "i = j"
  using records_exclusive [OF runtime_invariant [OF assms(2)], of env] new_runtime_ok [OF assms(1)]
    assms(3-7) unfolding exclusive_def by (metis fst_conv)

definition steady_platform :: "unit platform" where
  "steady_platform =
     \<lparr>adapter_of = (\<lambda>_. steady_exchange),
      synchronize_adapter = (\<lambda>_ _ _ w. (Inr 0, w)),
      wall_ms = (\<lambda>_ w. (0, w)), advance_simulation = (\<lambda>_ w. w),
      process_environment = [], dotenv_file = []\<rparr>"

definition steady_runtime :: runtime where
  "steady_runtime = \<lparr>background_tick_interval = 1, stream_keepalive_interval = 1,
      stream_restart_delay = 1, services = [(SIMULATION, [])], execution_environments = [],
      execution_tasks = {}, user_stream_started_ms = [], runtime_errors = [],
      unavailable_environments = [], is_started = False, is_stopping = False\<rparr>"

definition created_once :: "runtime \<times> unit" where
  "created_once = snd (runtime_act steady_platform (Client_Create ''0123456789abcdef'' sample_request)
     (steady_runtime, ()))"

lemma created_once_active:
  "\<exists>x. map_of (records_of SIMULATION (fst created_once)) ''exec_0123456789abcdef'' = Some x
     \<and> active x \<and> req_symbol (request x) = ''BTCUSDT''"
proof -
  have "(case map_of (records_of SIMULATION (fst created_once)) ''exec_0123456789abcdef'' of
      None \<Rightarrow> False | Some x \<Rightarrow> active x \<and> req_symbol (request x) = ''BTCUSDT'')"
    by code_simp
  then show ?thesis by (simp split: option.splits)
qed

lemma created_once_history: "runtime_history steady_platform (steady_runtime, ()) created_once"
proof -
  have "fresh_runtime_op (fst (steady_runtime, ())) (Client_Create ''0123456789abcdef'' sample_request)"
    by (simp add: fresh_id_def steady_runtime_def records_of_def)
  then show ?thesis unfolding created_once_def by (intro r_into_rtranclp runtime_step.act)
qed

lemma at_most_one_active_witness:
  "runtime_history steady_platform (steady_runtime, ()) created_once
   \<and> \<not> (\<exists>j y. j \<noteq> ''exec_0123456789abcdef''
        \<and> map_of (records_of SIMULATION (fst created_once)) j = Some y \<and> active y
        \<and> req_symbol (request y) = ''BTCUSDT'')"
proof
  show h: "runtime_history steady_platform (steady_runtime, ()) created_once"
    by (rule created_once_history)
  obtain x where x: "map_of (records_of SIMULATION (fst created_once)) ''exec_0123456789abcdef'' = Some x"
    "active x" "req_symbol (request x) = ''BTCUSDT''"
    using created_once_active by blast
  have new: "new_runtime 1 1 1 = Inr steady_runtime" by (simp add: new_runtime_def steady_runtime_def)
  show "\<not> (\<exists>j y. j \<noteq> ''exec_0123456789abcdef''
        \<and> map_of (records_of SIMULATION (fst created_once)) j = Some y \<and> active y
        \<and> req_symbol (request y) = ''BTCUSDT'')"
    using at_most_one_active [OF new h _ x(1) _ x(2)] x(3) by metis
qed

end
