(* ===== verification/Schemas.thy ===== *)
theory Schemas
  imports Samples Config Decimal_Text
begin

text \<open>
  \<^verbatim>\<open>src/api/schemas.py\<close>: the validation of the body of a request to create an execution, and
  the response for an execution record. What pydantic itself makes of a field before the code's
  validator sees it (an enumeration member, an integer, a text, or the message why it cannot) is an
  argument: the fields of a body hold either. A response is the value that is sent as JSON. The text
  \<^verbatim>\<open>str\<close> gives a decimal is the argument \<open>txt\<close>, since the exponent a \<^verbatim>\<open>Decimal\<close> carries
  is not part of its value.
\<close>

section \<open>Decimal texts\<close>

text \<open>\<^verbatim>\<open>^[+-]?(?:\d+(?:\.\d*)?|\.\d+)$\<close>, matched against the whole text.\<close>

definition decimal_string_re :: "string \<Rightarrow> bool" where
  "decimal_string_re s \<longleftrightarrow>
     (let u = snd (take_sign s); whole = takeWhile digit u
      in case dropWhile digit u of
           [] \<Rightarrow> whole \<noteq> []
         | c # cs \<Rightarrow> c = CHR ''.'' \<and> list_all digit cs \<and> (whole \<noteq> [] \<or> cs \<noteq> []))"

definition parse_decimal_string :: "pyval \<Rightarrow> string + decimal" where
  "parse_decimal_string v =
     (case v of
        PStr s \<Rightarrow>
          if \<not> decimal_string_re s then Inl ''decimal fields must be plain decimal strings''
          else (case decimal_text s of
              None \<Rightarrow> Inl ''invalid decimal string''
            | Some x \<Rightarrow> Inr x)
      | _ \<Rightarrow> Inl ''decimal fields must be JSON strings'')"

section \<open>Validation\<close>

text \<open>An error of pydantic: the field it is about and the message.\<close>

type_synonym errors = "(string \<times> string) list"

definition at_field :: "string \<Rightarrow> string + 'a \<Rightarrow> errors + 'a" where
  "at_field loc r = (case r of Inl t \<Rightarrow> Inl [(loc, t)] | Inr x \<Rightarrow> Inr x)"

text \<open>A field that is absent has its default, which no validator checks.\<close>

definition optional :: "'a \<Rightarrow> string \<Rightarrow> (string + 'b) option \<Rightarrow> ('b \<Rightarrow> string + 'a) \<Rightarrow> errors + 'a" where
  "optional d loc field check =
     (case field of None \<Rightarrow> Inr d | Some given \<Rightarrow> at_field loc (sbind given check))"

definition required :: "string \<Rightarrow> (string + 'b) option \<Rightarrow> ('b \<Rightarrow> string + 'a) \<Rightarrow> errors + 'a" where
  "required loc field check =
     (case field of
        None \<Rightarrow> Inl [(loc, ''Field required'')]
      | Some given \<Rightarrow> at_field loc (sbind given check))"

text \<open>All fields are checked, and the errors of all of them are reported, in their order.\<close>

definition also_field :: "errors + ('a \<Rightarrow> 'b) \<Rightarrow> errors + 'a \<Rightarrow> errors + 'b" where
  "also_field f x =
     (case (f, x) of
        (Inr g, Inr a) \<Rightarrow> Inr (g a)
      | (Inl es, Inr _) \<Rightarrow> Inl es
      | (Inr _, Inl es) \<Rightarrow> Inl es
      | (Inl es, Inl es') \<Rightarrow> Inl (es @ es'))"

definition no_extra :: "string list \<Rightarrow> errors + 'a \<Rightarrow> errors + 'a" where
  "no_extra names r =
     (let es = map (\<lambda>n. (n, ''Extra inputs are not permitted'')) names
      in case r of
           Inl es' \<Rightarrow> Inl (es' @ es)
         | Inr x \<Rightarrow> if es = [] then Inr x else Inl es)"

lemma also_field_Inr: "also_field f x = Inr y \<longleftrightarrow> (\<exists>g a. f = Inr g \<and> x = Inr a \<and> y = g a)"
  by (auto simp: also_field_def split: sum.splits)

lemma no_extra_Inr: "no_extra names r = Inr y \<longleftrightarrow> names = [] \<and> r = Inr y"
  by (auto simp: no_extra_def Let_def split: sum.splits if_splits)

lemma required_Inr: "required loc field check = Inr y \<longleftrightarrow> (\<exists>a. field = Some (Inr a) \<and> check a = Inr y)"
  by (auto simp: required_def at_field_def sbind_def split: option.splits sum.splits)

lemma optional_Inr:
  "optional d loc field check = Inr y \<longleftrightarrow>
     field = None \<and> y = d \<or> (\<exists>a. field = Some (Inr a) \<and> check a = Inr y)"
  by (auto simp: optional_def at_field_def sbind_def split: option.splits sum.splits)

record parameters_body =
  body_reprice_threshold_bps :: "pyval option"
  body_minimum_reprice_interval_ms :: "(string + int) option"
  body_number_of_slices :: "(string + int) option"
  body_child_order_timeout_seconds :: "(string + int) option"
  body_max_post_only_reject_retries :: "(string + int) option"
  body_repricing_mode :: "(string + repricing_mode) option"
  body_extra_parameters :: "string list"

record create_body =
  body_environment :: "(string + environment) option"
  body_symbol :: "(string + string) option"
  body_algorithm :: "(string + algorithm) option"
  body_target_position :: "pyval option"
  body_target_price_lower :: "pyval option"
  body_target_price_upper :: "pyval option"
  body_target_duration_seconds :: "(string + int) option"
  body_deadline_policy :: "(string + deadline_policy) option"
  body_parameters :: "(string + parameters_body) option"
  body_extra_fields :: "string list"

definition validate_reprice_threshold_bps :: "pyval \<Rightarrow> string + decimal" where
  "validate_reprice_threshold_bps v =
     sbind (parse_decimal_string v) (\<lambda>parsed.
       if parsed < 0 then Inl ''reprice_threshold_bps must be greater than or equal to 0'' else Inr parsed)"

definition validate_minimum_reprice_interval_ms :: "int \<Rightarrow> string + int" where
  "validate_minimum_reprice_interval_ms n =
     (if n < 0 then Inl ''minimum_reprice_interval_ms must be greater than or equal to 0'' else Inr n)"

definition validate_number_of_slices :: "int \<Rightarrow> string + int" where
  "validate_number_of_slices n =
     (if n \<le> 0 then Inl ''number_of_slices must be greater than 0'' else Inr n)"

definition validate_child_order_timeout_seconds :: "int \<Rightarrow> string + int" where
  "validate_child_order_timeout_seconds n =
     (if n \<le> 0 then Inl ''child_order_timeout_seconds must be greater than 0'' else Inr n)"

definition validate_max_post_only_reject_retries :: "int \<Rightarrow> string + int" where
  "validate_max_post_only_reject_retries n =
     (if n \<le> 0 then Inl ''max_post_only_reject_retries must be greater than 0'' else Inr n)"

definition validate_symbol :: "string \<Rightarrow> string + string" where
  "validate_symbol s =
     (let symb = upper s in if symb \<noteq> ''BTCUSDT'' then Inl ''only BTCUSDT is supported'' else Inr symb)"

definition validate_target_duration_seconds :: "int \<Rightarrow> string + int" where
  "validate_target_duration_seconds n =
     (if n \<le> 0 then Inl ''target_duration_seconds must be greater than 0'' else Inr n)"

text \<open>A validator with \<^verbatim>\<open>mode="before"\<close> gets the value as it was sent.\<close>

abbreviation raw :: "'a option \<Rightarrow> (string + 'a) option" where
  "raw field \<equiv> map_option Inr field"

text \<open>The schema objects hold the fields of the domain objects, to which they are copied.\<close>

definition parameters_to_domain ::
  "decimal \<Rightarrow> int \<Rightarrow> int \<Rightarrow> int \<Rightarrow> int \<Rightarrow> repricing_mode \<Rightarrow> execution_parameters" where
  "parameters_to_domain threshold interval slices timeout retries mode =
     \<lparr>reprice_threshold_bps = threshold, minimum_reprice_interval_ms = interval,
      number_of_slices = slices, child_order_timeout_seconds = timeout,
      max_post_only_reject_retries = retries, repricing_mode = mode\<rparr>"

definition validate_parameters :: "parameters_body \<Rightarrow> errors + execution_parameters" where
  "validate_parameters b =
     no_extra (body_extra_parameters b)
       (also_field (also_field (also_field (also_field (also_field (also_field
         (Inr parameters_to_domain)
         (optional 2 ''reprice_threshold_bps'' (raw (body_reprice_threshold_bps b))
            validate_reprice_threshold_bps))
         (optional 500 ''minimum_reprice_interval_ms'' (body_minimum_reprice_interval_ms b)
            validate_minimum_reprice_interval_ms))
         (optional 10 ''number_of_slices'' (body_number_of_slices b) validate_number_of_slices))
         (optional 20 ''child_order_timeout_seconds'' (body_child_order_timeout_seconds b)
            validate_child_order_timeout_seconds))
         (optional 3 ''max_post_only_reject_retries'' (body_max_post_only_reject_retries b)
            validate_max_post_only_reject_retries))
         (optional ADVERSE_ONLY ''repricing_mode'' (body_repricing_mode b) Inr))"

definition parameters_field :: "(string + parameters_body) option \<Rightarrow> errors + execution_parameters" where
  "parameters_field field =
     (case field of
        None \<Rightarrow> Inr default_parameters
      | Some (Inl t) \<Rightarrow> Inl [(''parameters'', t)]
      | Some (Inr b) \<Rightarrow>
          (case validate_parameters b of
             Inl es \<Rightarrow> Inl (map (\<lambda>(loc, t). (''parameters.'' @ loc, t)) es)
           | Inr p \<Rightarrow> Inr p))"

definition to_domain ::
  "environment \<Rightarrow> string \<Rightarrow> algorithm \<Rightarrow> decimal \<Rightarrow> decimal \<Rightarrow> decimal \<Rightarrow> int \<Rightarrow> deadline_policy
   \<Rightarrow> execution_parameters \<Rightarrow> execution_request" where
  "to_domain env symb algo target lower_price upper_price duration policy params =
     \<lparr>req_environment = env, req_symbol = symb, req_algorithm = algo, target_position = target,
      target_price_lower = lower_price, target_price_upper = upper_price,
      target_duration_seconds = duration, req_deadline_policy = policy, parameters = params\<rparr>"

definition validate_price_range :: "execution_request \<Rightarrow> errors + execution_request" where
  "validate_price_range req =
     at_field [] (
       if target_price_lower req \<le> 0 then Inl ''target_price_lower must be greater than 0''
       else if target_price_upper req \<le> 0 then Inl ''target_price_upper must be greater than 0''
       else if target_price_lower req > target_price_upper req
       then Inl ''target_price_lower must be less than or equal to target_price_upper''
       else Inr req)"

definition validate_create :: "create_body \<Rightarrow> errors + execution_request" where
  "validate_create b =
     sbind
       (no_extra (body_extra_fields b)
         (also_field (also_field (also_field (also_field (also_field (also_field (also_field (also_field
           (also_field (Inr to_domain)
           (required ''environment'' (body_environment b) Inr))
           (required ''symbol'' (body_symbol b) validate_symbol))
           (required ''algorithm'' (body_algorithm b) Inr))
           (required ''target_position'' (raw (body_target_position b)) parse_decimal_string))
           (required ''target_price_lower'' (raw (body_target_price_lower b)) parse_decimal_string))
           (required ''target_price_upper'' (raw (body_target_price_upper b)) parse_decimal_string))
           (required ''target_duration_seconds'' (body_target_duration_seconds b)
              validate_target_duration_seconds))
           (required ''deadline_policy'' (body_deadline_policy b) Inr))
           (parameters_field (body_parameters b))))
       validate_price_range"

section \<open>The response\<close>

fun algorithm_value :: "algorithm \<Rightarrow> string" where
  "algorithm_value CHASE = ''CHASE''"
| "algorithm_value TWAP = ''TWAP''"

fun deadline_policy_value :: "deadline_policy \<Rightarrow> string" where
  "deadline_policy_value CANCEL_REMAINDER = ''CANCEL_REMAINDER''"
| "deadline_policy_value AGGRESSIVE_WITHIN_RANGE = ''AGGRESSIVE_WITHIN_RANGE''"

fun repricing_mode_value :: "repricing_mode \<Rightarrow> string" where
  "repricing_mode_value ADVERSE_ONLY = ''ADVERSE_ONLY''"
| "repricing_mode_value TWO_SIDED = ''TWO_SIDED''"

definition text_or_none :: "string option \<Rightarrow> pyval" where
  "text_or_none v = (case v of None \<Rightarrow> PNone | Some t \<Rightarrow> PStr t)"

definition unfilled_quantity :: "execution_record \<Rightarrow> decimal" where
  "unfilled_quantity r =
     (let remaining = dsub (required_quantity r) (confirmed r)
      in if remaining > 0 then remaining else 0)"

definition started_monotonic_text :: "(decimal \<Rightarrow> string) \<Rightarrow> execution_record \<Rightarrow> pyval" where
  "started_monotonic_text txt r =
     (case rec_tracker r of None \<Rightarrow> PNone | Some _ \<Rightarrow> PStr (txt (started_monotonic r)))"

definition json_safe_row :: "(decimal \<Rightarrow> string) \<Rightarrow> slice_row \<Rightarrow> pyval" where
  "json_safe_row txt row = PDict
     [(''execution_id'', PStr (row_execution_id row)), (''slice_index'', PInt (slice_index row)),
      (''slice_start_seconds'', PStr (txt (slice_start_seconds row))),
      (''slice_end_seconds'', PStr (txt (slice_end_seconds row))),
      (''planned_cumulative_quantity'', PStr (txt (planned_cumulative_quantity row))),
      (''planned_slice_quantity'', PStr (txt (planned_slice_quantity row))),
      (''submitted_quantity'', PStr (txt (row_submitted_quantity row))),
      (''open_quantity'', PStr (txt (row_open_quantity row))),
      (''filled_quantity'', PStr (txt (row_filled_quantity row))),
      (''cancelled_quantity'', PStr (txt (row_cancelled_quantity row))),
      (''unfilled_quantity'', PStr (txt (row_unfilled_quantity row))),
      (''schedule_deficit'', PStr (txt (row_schedule_deficit row))),
      (''child_order_ids'', PList (map PStr (row_child_order_ids row))),
      (''client_order_ids'', PList (map PStr (row_client_order_ids row)))]"

definition json_safe :: "(decimal \<Rightarrow> string) \<Rightarrow> metric_value \<Rightarrow> pyval" where
  "json_safe txt v =
     (case v of
        MStr s \<Rightarrow> PStr s
      | MInt n \<Rightarrow> PInt n
      | MDec d \<Rightarrow> PStr (txt d)
      | MSide sd \<Rightarrow> PStr (side_value sd)
      | MRows rows \<Rightarrow> PList (map (json_safe_row txt) rows))"

definition child_order_response :: "(decimal \<Rightarrow> string) \<Rightarrow> child_order \<Rightarrow> pyval" where
  "child_order_response txt c = PDict
     [(''child_order_id'', PStr (child_order_id c)),
      (''client_order_id'', PStr (client_order_id c)),
      (''status'', PStr (child_status_value (child_status c))),
      (''side'', PStr (side_value (child_side c))),
      (''submitted_quantity'', PStr (txt (submitted_quantity c))),
      (''filled_quantity'', PStr (txt (child_filled c))),
      (''remaining_quantity'', PStr (txt (remaining_quantity c))),
      (''price'', PStr (txt (child_price c))),
      (''terminal_reason'', text_or_none (terminal_reason c))]"

definition parameters_response :: "(decimal \<Rightarrow> string) \<Rightarrow> execution_parameters \<Rightarrow> pyval" where
  "parameters_response txt p = PDict
     [(''reprice_threshold_bps'', PStr (txt (reprice_threshold_bps p))),
      (''minimum_reprice_interval_ms'', PInt (minimum_reprice_interval_ms p)),
      (''number_of_slices'', PInt (number_of_slices p)),
      (''child_order_timeout_seconds'', PInt (child_order_timeout_seconds p)),
      (''max_post_only_reject_retries'', PInt (max_post_only_reject_retries p)),
      (''repricing_mode'', PStr (repricing_mode_value (repricing_mode p)))]"

definition request_response :: "(decimal \<Rightarrow> string) \<Rightarrow> execution_record \<Rightarrow> pyval" where
  "request_response txt r =
     (let req = request r
      in PDict
        [(''environment'', PStr (environment_value (req_environment req))),
         (''symbol'', PStr (req_symbol req)),
         (''algorithm'', PStr (algorithm_value (req_algorithm req))),
         (''target_position'', PStr (txt (target_position req))),
         (''target_price_lower'', PStr (txt (target_price_lower req))),
         (''target_price_upper'', PStr (txt (target_price_upper req))),
         (''target_duration_seconds'', PInt (target_duration_seconds req)),
         (''deadline_policy'', PStr (deadline_policy_value (req_deadline_policy req))),
         (''parameters'', parameters_response txt (parameters req))])"

definition execution_response :: "(decimal \<Rightarrow> string) \<Rightarrow> execution_record \<Rightarrow> pyval" where
  "execution_response txt r =
     (let exposure = exposure_of r
      in PDict
        [(''execution_id'', PStr (rec_execution_id r)),
         (''status'', PStr (execution_status_value (status r))),
         (''final_reason'', text_or_none (final_reason r)),
         (''side'', PStr (side_value (rec_side r))),
         (''raw_required_quantity'', PStr (txt (raw_required_quantity r))),
         (''required_quantity'', PStr (txt (required_quantity r))),
         (''target_dust_quantity'', PStr (txt (target_dust_quantity r))),
         (''unfilled_quantity'', PStr (txt (unfilled_quantity r))),
         (''initial_position'', PStr (txt (pos_position (initial_position r)))),
         (''confirmed_filled_quantity'', PStr (txt (confirmed_filled_quantity exposure))),
         (''live_open_quantity'', PStr (txt (live_open_quantity exposure))),
         (''pending_submit_quantity'', PStr (txt (pending_submit_quantity exposure))),
         (''pending_cancel_quantity'', PStr (txt (pending_cancel_quantity exposure))),
         (''unknown_order_quantity'', PStr (txt (unknown_order_quantity exposure))),
         (''reserved_exposure'', PStr (txt (reserved_exposure exposure))),
         (''child_orders'', PList (map (child_order_response txt) (child_orders r))),
         (''request'', request_response txt r),
         (''summary_final_status'', (case summary r of
            None \<Rightarrow> PNone | Some s \<Rightarrow> PStr (execution_status_value (summary_final_status s)))),
         (''summary_final_reason'', (case summary r of
            None \<Rightarrow> PNone | Some s \<Rightarrow> PStr (summary_final_reason s))),
         (''summary_metrics'', (case summary r of
            None \<Rightarrow> PNone
          | Some s \<Rightarrow> PDict (map (\<lambda>(k, v). (k, json_safe txt v)) (summary_metrics s)))),
         (''started_monotonic'', started_monotonic_text txt r),
         (''last_reprice_monotonic'', (case last_reprice_monotonic r of
            None \<Rightarrow> PNone | Some t \<Rightarrow> PStr (txt t)))])"

section \<open>What is accepted\<close>

lemma parse_decimal_string_Inr:
  "parse_decimal_string v = Inr x \<longleftrightarrow> (\<exists>s. v = PStr s \<and> decimal_string_re s \<and> decimal_text s = Some x)"
  by (auto simp: parse_decimal_string_def split: pyval.splits option.splits)

lemmas validators = validate_reprice_threshold_bps_def validate_minimum_reprice_interval_ms_def
  validate_number_of_slices_def validate_child_order_timeout_seconds_def
  validate_max_post_only_reject_retries_def validate_symbol_def validate_target_duration_seconds_def

definition parameters_valid :: "execution_parameters \<Rightarrow> bool" where
  "parameters_valid p \<longleftrightarrow>
     0 \<le> reprice_threshold_bps p \<and> 0 \<le> minimum_reprice_interval_ms p \<and> 0 < number_of_slices p
     \<and> 0 < child_order_timeout_seconds p \<and> 0 < max_post_only_reject_retries p"

definition request_valid :: "execution_request \<Rightarrow> bool" where
  "request_valid req \<longleftrightarrow>
     req_symbol req = ''BTCUSDT'' \<and> 0 < target_price_lower req
     \<and> target_price_lower req \<le> target_price_upper req \<and> 0 < target_duration_seconds req
     \<and> parameters_valid (parameters req)"

lemma validate_parameters_valid: "validate_parameters b = Inr p \<Longrightarrow> parameters_valid p"
  by (auto simp: validate_parameters_def no_extra_Inr also_field_Inr optional_Inr validators
      parameters_valid_def parameters_to_domain_def sbind_Inr_iff split: if_splits)

lemma parameters_field_valid: "parameters_field field = Inr p \<Longrightarrow> parameters_valid p"
  by (auto simp: parameters_field_def parameters_valid_def default_parameters_def
      dest: validate_parameters_valid split: option.splits sum.splits)

text \<open>A body that is accepted field by field.\<close>

lemma validate_price_range_Inr:
  "validate_price_range req = Inr req' \<longleftrightarrow>
     req' = req \<and> 0 < target_price_lower req \<and> target_price_lower req \<le> target_price_upper req"
  by (auto simp: validate_price_range_def at_field_def)

lemma validate_create_Inr:
  "validate_create b = Inr req \<longleftrightarrow>
     body_extra_fields b = []
     \<and> required ''environment'' (body_environment b) Inr = Inr (req_environment req)
     \<and> required ''symbol'' (body_symbol b) validate_symbol = Inr (req_symbol req)
     \<and> required ''algorithm'' (body_algorithm b) Inr = Inr (req_algorithm req)
     \<and> required ''target_position'' (raw (body_target_position b)) parse_decimal_string
         = Inr (target_position req)
     \<and> required ''target_price_lower'' (raw (body_target_price_lower b)) parse_decimal_string
         = Inr (target_price_lower req)
     \<and> required ''target_price_upper'' (raw (body_target_price_upper b)) parse_decimal_string
         = Inr (target_price_upper req)
     \<and> required ''target_duration_seconds'' (body_target_duration_seconds b)
         validate_target_duration_seconds = Inr (target_duration_seconds req)
     \<and> required ''deadline_policy'' (body_deadline_policy b) Inr = Inr (req_deadline_policy req)
     \<and> parameters_field (body_parameters b) = Inr (parameters req)
     \<and> 0 < target_price_lower req \<and> target_price_lower req \<le> target_price_upper req"
  unfolding validate_create_def sbind_Inr_iff no_extra_Inr also_field_Inr validate_price_range_Inr
  by (cases req) (auto simp: to_domain_def)

lemma raw_decimal:
  "required loc (raw field) parse_decimal_string = Inr x \<longleftrightarrow>
     (\<exists>s. field = Some (PStr s) \<and> decimal_string_re s \<and> decimal_text s = Some x)"
  by (auto simp: required_Inr parse_decimal_string_Inr)

text \<open>
  C20. A request that the API accepts is one the engine can execute: the supported symbol, a positive
  price range in order, a positive duration and parameters in their ranges, and its three decimals
  are the exact values of the plain decimal texts that were sent.
\<close>

theorem accepted_request_valid:
  assumes "validate_create b = Inr req"
  shows "request_valid req
    \<and> (\<exists>p l u. body_target_position b = Some (PStr p) \<and> decimal_text p = Some (target_position req)
      \<and> body_target_price_lower b = Some (PStr l) \<and> decimal_text l = Some (target_price_lower req)
      \<and> body_target_price_upper b = Some (PStr u) \<and> decimal_text u = Some (target_price_upper req)
      \<and> list_all decimal_string_re [p, l, u] \<and> body_extra_fields b = [])"
proof -
  note accepted = assms [unfolded validate_create_Inr raw_decimal]
  have "req_symbol req = ''BTCUSDT''" "0 < target_duration_seconds req"
    using accepted by (auto simp: required_Inr validators Let_def split: if_splits)
  moreover have "parameters_valid (parameters req)" using accepted parameters_field_valid by blast
  ultimately show ?thesis using accepted by (auto simp: request_valid_def)
qed

section \<open>What is sent back is accepted\<close>

definition sample_body :: create_body where
  "sample_body = \<lparr>body_environment = Some (Inr SIMULATION), body_symbol = Some (Inr ''btcusdt''),
     body_algorithm = Some (Inr CHASE), body_target_position = Some (PStr ''-.25''),
     body_target_price_lower = Some (PStr ''90.''), body_target_price_upper = Some (PStr ''+110.5''),
     body_target_duration_seconds = Some (Inr 60), body_deadline_policy = Some (Inr CANCEL_REMAINDER),
     body_parameters = None, body_extra_fields = []\<rparr>"

lemma accepted_request_valid_witness:
  "\<exists>req. validate_create sample_body = Inr req \<and> request_valid req \<and> target_position req = -1/4"
proof -
  have "(case validate_create sample_body of Inr req \<Rightarrow> target_position req = -1/4 | Inl _ \<Rightarrow> False)"
    by code_simp
  then obtain req where req: "validate_create sample_body = Inr req" "target_position req = -1/4"
    by (cases "validate_create sample_body") auto
  then show ?thesis using accepted_request_valid [OF req(1)] by blast
qed

section \<open>What is sent back is accepted\<close>



lemma take_sign_digit: "digit c \<Longrightarrow> take_sign (c # cs) = (False, c # cs)"
  using digit_not [of c] by (simp add: take_sign_def)




end
