(* ===== verification/App.thy ===== *)
theory App
  imports Runtime_Laws Schemas
begin

text \<open>
  The endpoints of \<^verbatim>\<open>src/api/app.py\<close> on the supervisor: what they answer with, and the errors
  they turn into an HTTP status. An error that no endpoint names is passed on to the framework.
\<close>

section \<open>Endpoints\<close>

text \<open>An answer is the status and detail of an error, or the response for the record.\<close>

type_synonym 'w endpoint = "('w, int \<times> string + pyval) rt"

definition answer :: "(decimal \<Rightarrow> string) \<Rightarrow> execution_record \<Rightarrow> 'w endpoint" where
  "answer txt r = ret (Inr (execution_response txt r))"

definition api_create_execution ::
  "'w platform \<Rightarrow> (decimal \<Rightarrow> string) \<Rightarrow> string \<Rightarrow> execution_request \<Rightarrow> 'w endpoint" where
  "api_create_execution P txt hex req =
     try_else (rt_create_execution P hex req)
       (\<lambda>e. case e of
            ActiveExecutionConflict _ \<Rightarrow> ret (Inl (409, exn_str e))
          | RuntimeConfigurationError _ \<Rightarrow> ret (Inl (503, exn_str e))
          | RuntimeUnavailableError _ \<Rightarrow> ret (Inl (503, exn_str e))
          | _ \<Rightarrow> throw e)
       (answer txt)"

definition get_or_404 :: "(decimal \<Rightarrow> string) \<Rightarrow> ('w, execution_record) rt \<Rightarrow> 'w endpoint" where
  "get_or_404 txt operation =
     try_else operation
       (\<lambda>e. case e of
            UnknownExecution _ \<Rightarrow> ret (Inl (404, ''execution not found''))
          | RuntimeUnavailableError _ \<Rightarrow> ret (Inl (503, exn_str e))
          | VenueBanHardStop _ \<Rightarrow> ret (Inl (503, exn_str e))
          | _ \<Rightarrow> throw e)
       (answer txt)"

definition api_get_execution :: "'w platform \<Rightarrow> (decimal \<Rightarrow> string) \<Rightarrow> string \<Rightarrow> 'w endpoint" where
  "api_get_execution P txt eid = get_or_404 txt (rt_get_execution P eid)"

definition api_cancel_execution :: "'w platform \<Rightarrow> (decimal \<Rightarrow> string) \<Rightarrow> string \<Rightarrow> 'w endpoint" where
  "api_cancel_execution P txt eid = get_or_404 txt (rt_cancel_execution P eid)"

definition api_run_once :: "'w platform \<Rightarrow> (decimal \<Rightarrow> string) \<Rightarrow> string \<Rightarrow> 'w endpoint" where
  "api_run_once P txt eid = get_or_404 txt (rt_run_once P eid)"

definition api_reconcile_execution :: "'w platform \<Rightarrow> (decimal \<Rightarrow> string) \<Rightarrow> string \<Rightarrow> 'w endpoint" where
  "api_reconcile_execution P txt eid = get_or_404 txt (rt_reconcile_execution P eid None None)"

section \<open>Unknown executions\<close>

definition unknown_to :: "runtime \<Rightarrow> string \<Rightarrow> bool" where
  "unknown_to r eid \<longleftrightarrow> map_of (execution_environments r) eid = None
     \<and> (\<forall>(env, rs) \<in> set (services r). map_of rs eid = None)"

lemma service_for_unknown:
  assumes "unknown_to r eid"
  shows "service_for_execution P eid (r, w) = (Inl (UnknownExecution eid), r, w)"
proof -
  have "search_services eid r = None"
    using assms by (auto simp: search_services_def unknown_to_def find_None_iff)
  then show ?thesis
    using assms by (simp add: service_for_execution_def bind_def getrt_def gets_def throw_def unknown_to_def)
qed

text \<open>
  C25. An id no service knows is answered by the four endpoints of an execution with the status 404,
  and nothing changes: no state of the supervisor and nothing at the exchange.
\<close>

theorem unknown_is_404:
  assumes "unknown_to r eid"
  shows "\<forall>e \<in> {api_get_execution P txt eid, api_cancel_execution P txt eid, api_run_once P txt eid,
      api_reconcile_execution P txt eid}.
    e (r, w) = (Inr (Inl (404, ''execution not found'')), r, w)"
  using service_for_unknown [OF assms, of P w]
  by (simp add: api_get_execution_def api_cancel_execution_def api_run_once_def
      api_reconcile_execution_def get_or_404_def rt_get_execution_def rt_cancel_execution_def
      rt_run_once_def rt_reconcile_execution_def try_else_def bind_def ret_def)

lemma unknown_is_404_witness:
  "api_cancel_execution steady_platform plain_string ''exec_9'' (steady_runtime, ())
   = (Inr (Inl (404, ''execution not found'')), steady_runtime, ())"
  using unknown_is_404 [of steady_runtime "''exec_9''" steady_platform plain_string "()"]
  by (simp add: unknown_to_def steady_runtime_def)

section \<open>Conflicts\<close>

lemma find_unique:
  assumes "x \<in> set xs" "P x" "\<And>y. y \<in> set xs \<Longrightarrow> P y \<Longrightarrow> y = x"
  shows "find P xs = Some x"
proof -
  have "find P xs \<noteq> None" using assms(1,2) by (auto simp: find_None_iff)
  then obtain y where y: "find P xs = Some y" by blast
  then have "y \<in> set xs \<and> P y" by (auto simp: find_Some_iff)
  with assms(3) y show ?thesis by simp
qed

lemma active_execution_found:
  assumes "exclusive env rs" "map_of rs eid = Some x" "active x"
  shows "active_execution_for env (req_symbol (request x)) (rs, w) = (Inr (Some x), rs, w)"
proof -
  have ok: "distinct (map fst rs)" "\<And>i r. map_of rs i = Some r \<Longrightarrow> req_environment (request r) = env"
    using assms(1) by (simp_all add: exclusive_def engine_ok_def)
  let ?P = "\<lambda>r. req_environment (request r) = env \<and> req_symbol (request r) = req_symbol (request x)"
  let ?xs = "filter (\<lambda>r. \<not> execution_status_is_terminal (status r)) (map snd rs)"
  have "x \<in> set (map snd rs)" using map_of_SomeD [OF assms(2)] by force
  then have x: "x \<in> set ?xs" "?P x"
    using assms(3) ok(2) [OF assms(2)] by (simp_all add: active_def del: execution_status_is_terminal.simps)
  have unique: "y = x" if y: "y \<in> set ?xs" "?P y" for y
  proof -
    obtain i where i: "map_of rs i = Some y" "active y"
      using y(1) ok(1) by (auto simp: active_def simp del: execution_status_is_terminal.simps)
    with assms(1-3) y(2) have "i = eid" unfolding exclusive_def by metis
    with i assms(2) show ?thesis by simp
  qed
  have "find ?P ?xs = Some x" by (rule find_unique [where P = ?P, OF x unique])
  then show ?thesis
    by (simp add: active_execution_for_def bind_def active_executions_result [OF ok(1)] ret_def)
qed

text \<open>
  C24. While an environment has an active execution of a symbol, a request to create another one is
  answered with the status 409 naming the active one; the records of the service stay as they are and
  nothing reaches the exchange.
\<close>

theorem conflict_is_409:
  assumes "runtime_ok r" "\<not> is_stopping r"
    and "unavailable_reason (req_environment req) r = None"
    and "map_of (services r) (req_environment req) = Some rs"
    and "map_of rs eid = Some x" "active x" "req_symbol (request x) = req_symbol req"
  shows "api_create_execution P txt hex req (r, w) =
    (Inr (Inl (409, ''active execution already exists for '' @ environment_value (req_environment req)
        @ '' '' @ req_symbol req @ '': '' @ eid)), r, w)"
proof -
  let ?env = "req_environment req"
  have ex: "exclusive ?env rs" using assms(1,4) by (simp add: runtime_ok_def)
  then have id: "rec_execution_id x = eid" using assms(5) by (simp add: exclusive_def engine_ok_def)
  have "records_of ?env r = rs" using assms(4) by (simp add: records_of_def)
  then have find: "on_service ?env (active_execution_for ?env (req_symbol req)) (r, w) = (Inr (Some x), r, w)"
    using active_execution_found [OF ex assms(5,6), of w] assms(4,7)
    by (simp add: on_service_def update_triv)
  have "service_for_environment P ?env (r, w) = (Inr (), r, w)"
    using assms(4) by (simp add: service_for_environment_def bind_def getrt_def gets_def ret_def)
  then have "rt_create_execution P hex req (r, w) =
      (Inl (ActiveExecutionConflict (''active execution already exists for '' @ environment_value ?env
        @ '' '' @ req_symbol req @ '': '' @ eid)), r, w)"
    using assms(2,3)
    by (simp add: rt_create_execution_def Let_def bind_def getrt_def gets_def find throw_def id)
  then show ?thesis by (simp add: api_create_execution_def try_else_def ret_def)
qed

lemma conflict_is_409_witness:
  "fst (api_create_execution steady_platform plain_string ''f123456789abcdef'' sample_request created_once)
   = Inr (Inl (409, ''active execution already exists for simulation BTCUSDT: exec_0123456789abcdef''))"
proof -
  obtain x where x: "map_of (records_of SIMULATION (fst created_once)) ''exec_0123456789abcdef'' = Some x"
    "active x" "req_symbol (request x) = ''BTCUSDT''"
    using created_once_active by blast
  obtain rs where rs: "map_of (services (fst created_once)) SIMULATION = Some rs"
      "map_of rs ''exec_0123456789abcdef'' = Some x"
    using x(1) by (auto simp: records_of_def split: option.splits)
  have "\<not> is_stopping (fst created_once)
      \<and> unavailable_reason SIMULATION (fst created_once) = None"
    by code_simp
  moreover have "runtime_ok (fst created_once)"
    using runtime_invariant [OF created_once_history] new_runtime_ok [of 1 1 1]
    by (simp add: new_runtime_def steady_runtime_def)
  moreover have "req_environment sample_request = SIMULATION" "req_symbol sample_request = ''BTCUSDT''"
    by (simp_all add: sample_request_def)
  moreover have "(fst created_once, ()) = created_once" by (simp add: prod_eq_iff)
  ultimately show ?thesis
    using conflict_is_409 [of "fst created_once" sample_request rs "''exec_0123456789abcdef''" x
        steady_platform plain_string "''f123456789abcdef''" "snd created_once"] rs x
    by simp
qed

end
