(* ===== verification/Endings.thy ===== *)
theory Endings
  imports Samples
begin

text \<open>
  When an execution acts and how it ends: nothing happens to an execution that has ended or is backing
  off, a deadline ends a running execution only when nothing is reserved, and a cancelled execution
  never submits again.
\<close>

section \<open>Executions at rest\<close>

lemma unless_ended_run: "ended r \<Longrightarrow> unless_ended m (r, w) = (Inr (), r, w)"
  by (simp add: unless_ended_def bind_def getr_def gets_def guarded_def ret_def)

lemma not_ended_run: "\<not> ended r \<Longrightarrow> unless_ended m (r, w) = m (r, w)"
  by (simp add: unless_ended_def bind_def getr_def gets_def guarded_def)

lemma bind_getr_run: "bind (getr f) k (r, w) = k (f r) (r, w)"
  by (simp add: bind_def getr_def gets_def)

lemma bind_run: "m s = (Inr x, t) \<Longrightarrow> bind m k s = k x t"
  by (simp add: bind_def)




text \<open>An execution id that is not known is refused by every operation on an execution, without any
  effect on the engine or the exchange.\<close>

theorem unknown_execution_refused:
  assumes "map_of rs eid = None"
    and "op \<in> {Run_Once eid, Cancel eid, Get eid, Reconcile eid t0 t1, Apply_Result eid result}"
  shows "perform A op (rs, w) = (Inl (UnknownExecution eid), rs, w)"
  using assms
  by (auto simp: run_once_def cancel_execution_def get_execution_def reconcile_execution_def
    apply_reconciliation_result_def on_execution_def)

theorem unknown_execution_refused_witness:
  "perform steady_exchange (Run_Once ''f'') ([(''e'', running_record)], ())
    = (Inl (UnknownExecution ''f''), [(''e'', running_record)], ())"
  using unknown_execution_refused [of "[(''e'', running_record)]" "''f''" "Run_Once ''f''"] by simp

section \<open>Backing off\<close>

definition backing_off :: "execution_record \<Rightarrow> execution_record" where
  "backing_off r = increment_metric ''rate_limit_backoff_blocks'' (set_final_reason rate_limit_backoff r)"

lemma backoff_run:
  assumes "rate_limited_until_monotonic r = Some u"
  shows "rate_limit_backoff_blocks A (r, w) =
    (if float_decimal (fst (clock_monotonic A w)) < u
     then (Inr True, backing_off r, snd (clock_monotonic A w))
     else (Inr False, clear_reason {rate_limit_backoff} (r\<lparr>rate_limited_until_monotonic := None\<rparr>),
           snd (clock_monotonic A w)))"
  using assms
  by (simp add: rate_limit_backoff_blocks_def bind_def getr_def gets_def now_decimal_def call_def
      Let_def modr_def modify_def ret_def backing_off_def)

text \<open>C19. While a rate limit lasts, running or reconciling an execution reads the clock and nothing else
  of the exchange, keeps its status, orders and fills, and counts the blocked attempt.\<close>

theorem rate_limit_blocks:
  assumes "map_of rs eid = Some r" "\<not> execution_status_is_terminal (status r)"
    and "rate_limited_until_monotonic r = Some u" "float_decimal (fst (clock_monotonic A w)) < u"
  shows "\<exists>r'. run_once A eid (rs, w) = (Inr r', AList.update eid r' rs, snd (clock_monotonic A w))
    \<and> reconcile_execution A eid t0 t1 (rs, w) = (Inr r', AList.update eid r' rs, snd (clock_monotonic A w))
    \<and> status r' = status r \<and> child_orders r' = child_orders r \<and> rec_tracker r' = rec_tracker r
    \<and> final_reason r' = Some ''RATE_LIMIT_BACKOFF''
    \<and> metric_count r' ''rate_limit_backoff_blocks'' = metric_count r ''rate_limit_backoff_blocks'' + 1"
proof -
  have blocked: "rate_limit_backoff_blocks A (r, w) = (Inr True, backing_off r, snd (clock_monotonic A w))"
    using backoff_run [OF assms(3), of A w] assms(4) by simp
  have "run_once_record A (r, w) = (Inr (), backing_off r, snd (clock_monotonic A w))"
    "reconcile_record A t0 t1 (r, w) = (Inr (), backing_off r, snd (clock_monotonic A w))"
    using blocked assms(2)
    by (simp_all add: run_once_record_def reconcile_record_def not_ended_run ended_def bind_def
        guarded_def ret_def)
  then show ?thesis
    using assms(1)
    by (intro exI [of _ "backing_off r"])
      (simp add: run_once_def reconcile_execution_def on_execution_def backing_off_def
        increment_metric_def set_final_reason_def metric_count_def update_conv')
qed

theorem rate_limit_blocks_witness:
  "\<exists>r'. run_once steady_exchange ''e''
      ([(''e'', running_record\<lparr>rate_limited_until_monotonic := Some 5\<rparr>)], ())
      = (Inr r', AList.update ''e'' r' [(''e'', running_record\<lparr>rate_limited_until_monotonic := Some 5\<rparr>)], ())
    \<and> final_reason r' = Some ''RATE_LIMIT_BACKOFF''"
proof -
  have "float_decimal (fst (clock_monotonic steady_exchange ())) < 5" by code_simp
  then show ?thesis
    using rate_limit_blocks [of "[(''e'', running_record\<lparr>rate_limited_until_monotonic := Some 5\<rparr>)]" "''e''"
        "running_record\<lparr>rate_limited_until_monotonic := Some 5\<rparr>" 5 steady_exchange "()"]
    by (auto simp: running_record_def)
qed

section \<open>Deadlines\<close>

lemma conclude_run:
  assumes "target \<in> execution_transitions (status r)"
  shows "conclude A target reason (r, w) =
    (let t = float_decimal (fst (clock_monotonic A w));
         r1 = r\<lparr>status := target, final_reason := reason (final_reason r), completed_monotonic := Some t\<rparr>
     in (Inr (), r1\<lparr>summary := Some (summary_at t r1)\<rparr>, snd (clock_monotonic A w)))"
  using assms
  by (simp add: conclude_def bind_def getr_def gets_def set_execution_status_def lift_res_def modr_def
      modify_def now_decimal_def call_def Let_def write_summary_def summary_of_def ret_def
      transition_execution_def del: transition_execution_Inr)

text \<open>At a deadline a running execution with nothing reserved ends, partially completed when
  something was filled and expired otherwise, with the given reason, the current time and a summary of
  that ending; one with an open reservation, or no longer running, is left as it is.\<close>

theorem deadline_ends_clear_execution:
  "terminalize_deadline A reason (r, w) =
    (if status r = RUNNING \<and> reserved r \<le> 0 then
       let t = float_decimal (fst (clock_monotonic A w));
           r1 = r\<lparr>status := (if 0 < confirmed r then PARTIALLY_COMPLETED else EXPIRED),
                  final_reason := Some reason, completed_monotonic := Some t\<rparr>
       in (Inr (), r1\<lparr>summary := Some
             \<lparr>summary_execution_id = rec_execution_id r, summary_final_status = status r1,
              summary_final_reason = reason, summary_metrics = summary_metrics_at t r1\<rparr>\<rparr>,
           snd (clock_monotonic A w))
     else (Inr (), r, w))"
proof (cases "status r \<noteq> RUNNING \<or> 0 < reserved r")
  case True
  then show ?thesis by (auto simp: terminalize_deadline_def bind_def getr_def gets_def ret_def)
next
  case False
  then have "partial_or EXPIRED r \<in> execution_transitions (status r)" by (simp add: partial_or_def)
  with False show ?thesis
    by (simp add: terminalize_deadline_def bind_def getr_def gets_def conclude_run Let_def partial_or_def
        summary_at_def)
qed

section \<open>After a cancellation\<close>

lemma left_running:
  assumes "s \<notin> {CREATED, VALIDATING, RUNNING}" "execution_path s t"
  shows "t \<notin> {CREATED, VALIDATING, RUNNING}"
  using assms(2,1)
proof (induction rule: rtranclp_induct)
  case (step u v)
  then show ?case by (cases u) (auto simp: execution_step_simps)
qed

lemma backoff_cases:
  obtains b r' where "rate_limit_backoff_blocks A (r, w) = (Inr b, r', w)" "status r' = status r"
  | b r' where "rate_limit_backoff_blocks A (r, w) = (Inr b, r', snd (clock_monotonic A w))"
      "status r' = status r"
proof (cases "rate_limited_until_monotonic r")
  case None
  then have "rate_limit_backoff_blocks A (r, w) = (Inr False, r, w)"
    by (simp add: rate_limit_backoff_blocks_def bind_def getr_def gets_def ret_def)
  then show ?thesis by (rule that(1)) simp
next
  case (Some u)
  then show ?thesis
    using that(2) backoff_run [OF Some, of A w]
    by (auto simp: backing_off_def increment_metric_def set_final_reason_def clear_reason_def split: if_splits option.splits)
qed

text \<open>A cancellation takes the execution out of running before anything else happens.\<close>

lemma cancelled_leaves:
  assumes "status r \<noteq> CREATED" "status r \<noteq> VALIDATING"
  shows "status (fst (snd (cancel_record A (r, w)))) \<notin> {CREATED, VALIDATING, RUNNING}"
proof (cases "ended r")
  case True
  then show ?thesis
    by (cases "status r") (simp_all add: cancel_record_def unless_ended_run ended_def)
next
  case False
  then have s: "status r = RUNNING \<or> status r = CANCELLING"
    using assms by (cases "status r") (auto simp: ended_def)
  let ?tail = "bind (rate_limit_backoff_blocks A) (\<lambda>blocked. guarded (\<not> blocked)
            (andthen (reconcile A None None True)
            (bind (cancel_active_children A) (\<lambda>_.
               unless_ended
                 (andthen (reconcile A None None True)
                   (complete_or A (terminalize_manual_cancel_if_clear A)))))))"
  let ?head = "bind (getr status) (\<lambda>s. guarded (s \<noteq> CANCELLING)
            (andthen (set_execution_status CANCELLING) (modr (set_final_reason cancel_requested))))"
  define r1 where "r1 = (if status r = RUNNING
      then r\<lparr>status := CANCELLING, final_reason := Some cancel_requested\<rparr> else r)"
  have r1: "status r1 = CANCELLING" "?head (r, w) = (Inr (), r1, w)"
    using s
    by (auto simp: r1_def bind_def getr_def gets_def guarded_def ret_def
        set_execution_status_def lift_res_def modr_def modify_def transition_execution_def
        set_final_reason_def simp del: transition_execution_Inr)
  have cancel: "cancel_record A (r, w) = ?tail (r1, w)"
    unfolding cancel_record_def not_ended_run [OF False] by (rule bind_run [of ?head, OF r1(2)])
  have "evolves state_evolves ?tail" by (intro evolve_intro)
  from evolvesD [OF this, of "(r1, w)"]
  have "execution_path CANCELLING (status (fst (snd (cancel_record A (r, w)))))"
    unfolding cancel record_evolves_def fst_conv r1(1) by blast
  then show ?thesis by (rule left_running [of CANCELLING, rotated]) simp
qed

context exchange_laws
begin

lemma cancelling_run_quiet:
  assumes "status r \<noteq> CREATED" "status r \<noteq> VALIDATING" "status r \<noteq> RUNNING" "J w"
  shows "J (snd (snd (run_once_record A (r, w))))"
proof (cases "ended r")
  case True
  then show ?thesis using assms by (simp add: run_once_record_def unless_ended_run)
next
  case False
  then have s: "status r = CANCELLING" using assms by (cases "status r") (auto simp: ended_def)
  have quiet: "evolves (world_kept J)
      (andthen (refresh_order_states_exact A) (terminalize_manual_cancel_if_clear A))"
    by (intro kept_intro)
  obtain b r' w' where gate: "rate_limit_backoff_blocks A (r, w) = (Inr b, r', w')"
      "status r' = CANCELLING" "J w'"
    using backoff_cases [of A r w] keeps_clock [OF assms(4)] s assms(4) by metis
  show ?thesis
    using gate False evolvesD [OF quiet, of "(r', w')"]
    by (auto simp: run_once_record_def not_ended_run bind_def [of "rate_limit_backoff_blocks A"]
        guarded_def ret_def world_kept_def bind_getr_run)
qed

end

text \<open>C10. A cancellation is final for the exchange: once \<^verbatim>\<open>cancel_execution\<close> has been called on an
  execution that runs, is being cancelled or has ended, no later run of it submits an order, whatever
  operations and events come in between and whatever the exchange answers.\<close>

theorem no_order_after_cancel:
  assumes "map_of rs eid = Some r" "status r \<noteq> CREATED" "status r \<noteq> VALIDATING"
    and "engine_history (recording A) (snd (cancel_execution (recording A) eid (rs, w))) (rs', w', sent)"
  shows "snd (snd (snd (run_once (recording A) eid (rs', w', sent)))) = sent"
proof -
  obtain x r1 w1 where c: "cancel_record (recording A) (r, w) = (x, r1, w1)"
    by (cases "cancel_record (recording A) (r, w)") auto
  have s1: "status r1 \<notin> {CREATED, VALIDATING, RUNNING}"
    using cancelled_leaves [of r "recording A" w] assms(2,3) c by simp
  have "map_of (fst (snd (cancel_execution (recording A) eid (rs, w)))) eid = Some r1"
    using assms(1) c by (simp add: cancel_execution_def on_execution_def update_conv')
  then obtain r' where r': "map_of rs' eid = Some r'" "record_evolves r1 r'"
    using history_record [OF assms(4)] by auto
  have "execution_path (status r1) (status r')" using r'(2) by (simp add: record_evolves_def)
  with s1 have "status r' \<notin> {CREATED, VALIDATING, RUNNING}" by (rule left_running)
  then show ?thesis
    using exchange_laws.cancelling_run_quiet [OF recording_quiet [of A sent], of r' "(w', sent)"] r'(1)
    by (simp add: run_once_def on_execution_world)
qed

theorem no_order_after_cancel_witness:
  "snd (snd (snd (run_once (recording steady_exchange) ''exec_0123456789abcdef''
     (snd (cancel_execution (recording steady_exchange) ''exec_0123456789abcdef''
        ([(''exec_0123456789abcdef'', running_record)], (), [])))))) = []"
proof -
  let ?s = "snd (cancel_execution (recording steady_exchange) ''exec_0123456789abcdef''
        ([(''exec_0123456789abcdef'', running_record)], (), []))"
  have "snd (snd ?s) = []"
    using evolvesD [OF exchange_laws.ek_quiet_operations(2) [OF recording_quiet [of steady_exchange "[]"]]]
    by (simp add: engine_kept_def)
  then obtain rs' w' where s: "?s = (rs', w', [])" by (cases ?s) auto
  show ?thesis
    using no_order_after_cancel [of "[(''exec_0123456789abcdef'', running_record)]" "''exec_0123456789abcdef''"
        running_record steady_exchange "((), [])" rs' w' "[]"] s
    by (simp add: running_record_def)
qed

end
