(* ===== verification/Logging.thy ===== *)
theory Logging
  imports Payload Models "HOL-Library.List_Lexorder" "HOL-Library.AList"
begin

text \<open>
  \<^verbatim>\<open>src/observability/logging.py\<close>: log records without secrets. A value is one of those the
  records hold; enumerations, times and paths carry the text the library gives them. The text of a
  decimal, \<^verbatim>\<open>format(value, "f")\<close>, is the argument \<open>fixed\<close>, since the trailing zeros a
  \<^verbatim>\<open>Decimal\<close> carries are not part of its value. Keys are texts.
\<close>

section \<open>Log values\<close>

datatype log_value =
    Log_None
  | Log_Bool bool
  | Log_Int int
  | Log_Float string
  | Log_Str string
  | Log_Decimal decimal
  | Log_Enum string
  | Log_Datetime string
  | Log_Path string
  | Log_Mapping "(string \<times> log_value) list"
  | Log_List "log_value list"

definition sensitive_key_concepts :: "string list" where
  "sensitive_key_concepts =
     [''apikey'', ''mbxapikey'', ''secret'', ''signature'', ''listenkey'', ''rawauthenticatedrequest'',
      ''authenticatedrequest'', ''signedrequest'', ''signedpayload'', ''signedparams'']"

definition sensitive_container_prefixes :: "string list" where
  "sensitive_container_prefixes = [''raw'', ''authenticated'', ''signed'']"

definition sensitive_container_targets :: "string list" where
  "sensitive_container_targets = [''request'', ''payload'', ''params'']"

definition normalized_key :: "string \<Rightarrow> string" where
  "normalized_key key = filter (\<lambda>c. c \<notin> {CHR ''_'', CHR ''-'', CHR '' ''}) (lower key)"

definition is_sensitive_key :: "string \<Rightarrow> bool" where
  "is_sensitive_key key \<longleftrightarrow>
     (let normalized = normalized_key key
      in list_ex (\<lambda>concept. sublist concept normalized) sensitive_key_concepts
         \<or> (list_ex (\<lambda>p. prefix p normalized) sensitive_container_prefixes
            \<and> list_ex (\<lambda>target. sublist target normalized) sensitive_container_targets))"

fun to_jsonable :: "(decimal \<Rightarrow> string) \<Rightarrow> log_value \<Rightarrow> pyval" where
  "to_jsonable fixed Log_None = PNone"
| "to_jsonable fixed (Log_Bool b) = PBool b"
| "to_jsonable fixed (Log_Int n) = PInt n"
| "to_jsonable fixed (Log_Float t) = PFloat t"
| "to_jsonable fixed (Log_Str t) = PStr t"
| "to_jsonable fixed (Log_Decimal d) = PStr (fixed d)"
| "to_jsonable fixed (Log_Enum t) = PStr t"
| "to_jsonable fixed (Log_Datetime t) = PStr t"
| "to_jsonable fixed (Log_Path t) = PStr t"
| "to_jsonable fixed (Log_Mapping kvs) = PDict (map (\<lambda>(k, v). (k, to_jsonable fixed v)) kvs)"
| "to_jsonable fixed (Log_List vs) = PList (map (to_jsonable fixed) vs)"

text \<open>
  \<^verbatim>\<open>_sanitize_value\<close> and \<^verbatim>\<open>sanitize_log_payload\<close> call each other; the recursion is
  on the former, and the latter is what it does with a mapping.
\<close>

fun sanitize_value :: "(decimal \<Rightarrow> string) \<Rightarrow> log_value \<Rightarrow> pyval" where
  "sanitize_value fixed (Log_Mapping kvs) =
     PDict (map (\<lambda>(key, v). (key, sanitize_value fixed v))
       (filter (\<lambda>(key, _). \<not> is_sensitive_key key) kvs))"
| "sanitize_value fixed (Log_List vs) = PList (map (sanitize_value fixed) vs)"
| "sanitize_value fixed v = to_jsonable fixed v"

definition sanitize_log_payload :: "(decimal \<Rightarrow> string) \<Rightarrow> (string \<times> log_value) list \<Rightarrow> (string \<times> pyval) list" where
  "sanitize_log_payload fixed payload =
     map (\<lambda>(key, v). (key, sanitize_value fixed v)) (filter (\<lambda>(key, _). \<not> is_sensitive_key key) payload)"

lemma sanitize_mapping: "sanitize_value fixed (Log_Mapping kvs) = PDict (sanitize_log_payload fixed kvs)"
  by (simp add: sanitize_log_payload_def)

section \<open>Evidence files\<close>

text \<open>
  What \<^verbatim>\<open>src/observability/artifacts.py\<close> writes for an execution: the files by name, with the
  values that are written to them. The text of a value, \<^verbatim>\<open>json.dumps\<close>, is the argument
  \<open>dumps\<close>.
\<close>

datatype artifact =
    Json_File pyval
  | Jsonl_File "pyval list"
  | Csv_File "string list" "(string \<times> pyval) list list"

definition write_json :: "(decimal \<Rightarrow> string) \<Rightarrow> log_value \<Rightarrow> artifact" where
  "write_json fixed payload =
     (case payload of
        Log_Mapping kvs \<Rightarrow> Json_File (PDict (sanitize_log_payload fixed kvs))
      | _ \<Rightarrow> Json_File (case map_of (sanitize_log_payload fixed [(''payload'', payload)]) ''payload'' of
          None \<Rightarrow> PNone | Some v \<Rightarrow> v))"

definition csv_value :: "(pyval \<Rightarrow> string) \<Rightarrow> pyval \<Rightarrow> pyval" where
  "csv_value dumps v =
     (case v of PDict _ \<Rightarrow> PStr (dumps v) | PList _ \<Rightarrow> PStr (dumps v) | _ \<Rightarrow> v)"

definition csv_row :: "(pyval \<Rightarrow> string) \<Rightarrow> (string \<times> pyval) list \<Rightarrow> (string \<times> pyval) list" where
  "csv_row dumps row = map (\<lambda>(key, v). (key, csv_value dumps v)) row"

definition write_csv ::
  "(decimal \<Rightarrow> string) \<Rightarrow> (pyval \<Rightarrow> string) \<Rightarrow> (string \<times> log_value) list list \<Rightarrow> artifact" where
  "write_csv fixed dumps rows =
     (let written = map (\<lambda>row. csv_row dumps (sanitize_log_payload fixed row)) rows
      in Csv_File (sort (remdups (map fst (concat written)))) written)"

definition reserved_artifact_filenames :: "string set" where
  "reserved_artifact_filenames =
     {''request_snapshot.json'', ''execution_log.jsonl'', ''execution_summary.json'', ''child_orders.csv'',
      ''fills.csv'', ''timeline.csv'', ''twap_slice_ledger.csv''}"

definition artifact_char :: "char \<Rightarrow> bool" where
  "artifact_char c \<longleftrightarrow>
     (CHR ''A'' \<le> c \<and> c \<le> CHR ''Z'') \<or> (CHR ''a'' \<le> c \<and> c \<le> CHR ''z'') \<or> digit c
     \<or> c \<in> {CHR ''.'', CHR ''_'', CHR ''-''}"

text \<open>
  \<^verbatim>\<open>Path(name).suffix\<close>: from the last point on, unless the point begins or ends the name; the
  names that matter hold no separator and are not \<^verbatim>\<open>.\<close> or \<^verbatim>\<open>..\<close>, which have no name.
\<close>

definition path_suffix :: "string \<Rightarrow> string" where
  "path_suffix name =
     (let tail = rev (takeWhile (\<lambda>c. c \<noteq> CHR ''.'') (rev name))
      in if CHR ''.'' \<in> set name \<and> tail \<noteq> [] \<and> length tail + 1 < length name
         then CHR ''.'' # tail else [])"

definition extra_artifact_path :: "string \<Rightarrow> string \<Rightarrow> exn + string" where
  "extra_artifact_path filename extension =
     (if filename = [] \<or> filename \<in> {''.'', ''..''} \<or> CHR ''/'' \<in> set filename \<or> CHR 0x5C \<in> set filename
         \<or> path_suffix filename \<noteq> extension \<or> filename \<in> reserved_artifact_filenames
         \<or> \<not> list_all artifact_char filename
      then Inl (ValueError (''invalid extra artifact filename: '' @ repr_text filename))
      else Inr filename)"

text \<open>An invalid name of an extra file stops the writing: the files before it are there.\<close>

type_synonym files = "(string \<times> artifact) list"

fun write_extra ::
  "string \<Rightarrow> ('a \<Rightarrow> artifact) \<Rightarrow> (string \<times> 'a) list \<Rightarrow> files \<Rightarrow> (exn + unit) \<times> files" where
  "write_extra extension written [] files = (Inr (), files)"
| "write_extra extension written ((filename, payload) # extras) files =
     (case extra_artifact_path filename extension of
        Inl e \<Rightarrow> (Inl e, files)
      | Inr name \<Rightarrow> write_extra extension written extras (AList.update name (written payload) files))"

type_synonym log_row = "(string \<times> log_value) list"

definition standard_files ::
  "(decimal \<Rightarrow> string) \<Rightarrow> (pyval \<Rightarrow> string) \<Rightarrow> log_row \<Rightarrow> log_row list \<Rightarrow> log_row \<Rightarrow> log_row list
   \<Rightarrow> log_row list \<Rightarrow> log_row list \<Rightarrow> log_row list \<Rightarrow> files" where
  "standard_files fixed dumps request_snapshot log_events summary_row child_rows fills timeline slices =
     [(''request_snapshot.json'', write_json fixed (Log_Mapping request_snapshot)),
      (''execution_log.jsonl'',
         Jsonl_File (map (\<lambda>event. PDict (sanitize_log_payload fixed event)) log_events)),
      (''execution_summary.json'', write_json fixed (Log_Mapping summary_row)),
      (''child_orders.csv'', write_csv fixed dumps child_rows),
      (''fills.csv'', write_csv fixed dumps fills),
      (''timeline.csv'', write_csv fixed dumps timeline),
      (''twap_slice_ledger.csv'', write_csv fixed dumps slices)]"

definition write_execution_artifacts ::
  "(decimal \<Rightarrow> string) \<Rightarrow> (pyval \<Rightarrow> string) \<Rightarrow> log_row \<Rightarrow> log_row list \<Rightarrow> log_row \<Rightarrow> log_row list
   \<Rightarrow> log_row list \<Rightarrow> log_row list \<Rightarrow> log_row list \<Rightarrow> (string \<times> log_value) list
   \<Rightarrow> (string \<times> log_row list) list \<Rightarrow> (exn + unit) \<times> files" where
  "write_execution_artifacts fixed dumps request_snapshot log_events summary_row child_rows fills timeline
     slices extra_json extra_csv =
     (case write_extra ''.json'' (write_json fixed) extra_json
         (standard_files fixed dumps request_snapshot log_events summary_row child_rows fills timeline slices) of
        (Inl e, files) \<Rightarrow> (Inl e, files)
      | (Inr _, files) \<Rightarrow> write_extra ''.csv'' (write_csv fixed dumps) extra_csv files)"

section \<open>No secret is written\<close>

fun all_keys :: "pyval \<Rightarrow> string set" where
  "all_keys (PDict kvs) = fst ` set kvs \<union> (\<Union>v \<in> snd ` set kvs. all_keys v)"
| "all_keys (PList vs) = (\<Union>v \<in> set vs. all_keys v)"
| "all_keys _ = {}"

lemma sanitized_keys: "map fst (sanitize_log_payload fixed kvs) = filter (\<lambda>k. \<not> is_sensitive_key k) (map fst kvs)"
  by (induction kvs) (auto simp: sanitize_log_payload_def)

lemma sanitize_all_keys: "all_keys (sanitize_value fixed v) \<inter> Collect is_sensitive_key = {}"
  by (induction fixed v rule: sanitize_value.induct) (auto, blast+)

lemma sanitize_payload_keys: "all_keys (PDict (sanitize_log_payload fixed kvs)) \<inter> Collect is_sensitive_key = {}"
  using sanitize_all_keys [of fixed "Log_Mapping kvs"] by (simp only: sanitize_mapping)


fun artifact_keys :: "artifact \<Rightarrow> string set" where
  "artifact_keys (Json_File v) = all_keys v"
| "artifact_keys (Jsonl_File vs) = all_keys (PList vs)"
| "artifact_keys (Csv_File columns rows) = set columns \<union> fst ` set (concat rows)"

definition clean :: "artifact \<Rightarrow> bool" where
  "clean a \<longleftrightarrow> artifact_keys a \<inter> Collect is_sensitive_key = {}"

lemma clean_json: "clean (write_json fixed payload)"
proof -
  have key: "\<not> is_sensitive_key ''payload''" by code_simp
  then have "sanitize_log_payload fixed [(''payload'', payload)] = [(''payload'', sanitize_value fixed payload)]"
    by (simp add: sanitize_log_payload_def)
  then show ?thesis
    using sanitize_all_keys [of fixed payload]
    by (cases payload) (simp_all add: clean_def write_json_def sanitize_mapping del: all_keys.simps sanitize_value.simps)
qed

lemma clean_csv: "clean (write_csv fixed dumps rows)"
proof -
  have "fst ` set (concat (map (\<lambda>row. csv_row dumps (sanitize_log_payload fixed row)) rows))
      \<inter> Collect is_sensitive_key = {}"
    using sanitized_keys [of fixed, THEN arg_cong [where f = set]]
    by (force simp: csv_row_def)
  then show ?thesis by (simp add: clean_def write_csv_def Let_def)
qed

lemma clean_log: "clean (Jsonl_File (map (\<lambda>event. PDict (sanitize_log_payload fixed event)) events))"
  using sanitize_payload_keys by (fastforce simp: clean_def simp del: all_keys.simps(1))

text \<open>The extra files come after the standard ones and never replace them.\<close>

lemma update_after: "k \<notin> fst ` set xs \<Longrightarrow> AList.update k v (xs @ ys) = xs @ AList.update k v ys"
  by (induction xs) auto

lemma update_all: "list_all (P \<circ> snd) xs \<Longrightarrow> P v \<Longrightarrow> list_all (P \<circ> snd) (AList.update k v xs)"
  by (induction xs) auto

lemma write_extra_after:
  assumes "fst ` set standard = reserved_artifact_filenames" "\<And>payload. clean (written payload)"
    and "list_all (clean \<circ> snd) extra_files"
  shows "\<exists>extra_files'. snd (write_extra extension written extras (standard @ extra_files)) = standard @ extra_files'
    \<and> list_all (clean \<circ> snd) extra_files'"
  using assms(3)
proof (induction extras arbitrary: extra_files)
  case (Cons x extras)
  obtain filename payload where x: "x = (filename, payload)" by (cases x)
  show ?case
  proof (cases "extra_artifact_path filename extension")
    case (Inr name)
    then have "name \<notin> fst ` set standard"
      using assms(1) by (simp add: extra_artifact_path_def split: if_splits)
    moreover have "list_all (clean \<circ> snd) (AList.update name (written payload) extra_files)"
      using Cons.prems assms(2) by (rule update_all)
    ultimately show ?thesis
      using Cons.IH [of "AList.update name (written payload) extra_files"] Inr
      by (simp add: x update_after comp_def)
  qed (use Cons.prems x in auto)
qed auto

lemma files_clean:
  assumes "standard = standard_files fixed dumps req events summary_row child_rows fills timeline slices"
    and "files = snd (write_execution_artifacts fixed dumps req events summary_row child_rows fills timeline
      slices extra_json extra_csv)"
  shows "take 7 files = standard \<and> (\<Union>a \<in> snd ` set files. artifact_keys a) \<inter> Collect is_sensitive_key = {}"
proof -
  have names: "fst ` set standard = reserved_artifact_filenames" "length standard = 7"
    by (auto simp: assms(1) standard_files_def reserved_artifact_filenames_def)
  have ok: "list_all (clean \<circ> snd) standard"
    by (simp add: assms(1) standard_files_def clean_json clean_csv clean_log)
  obtain extra_files where extras: "snd (write_extra ''.json'' (write_json fixed) extra_json (standard @ [])) = standard @ extra_files"
    "list_all (clean \<circ> snd) extra_files"
    using write_extra_after [where written = "write_json fixed", OF names(1) clean_json, of "[]" "''.json''" extra_json]
    by auto
  obtain result where run: "write_extra ''.json'' (write_json fixed) extra_json standard = (result, standard @ extra_files)"
    using extras(1) by (cases "write_extra ''.json'' (write_json fixed) extra_json standard") simp
  obtain extra_files' where "files = standard @ extra_files'" "list_all (clean \<circ> snd) extra_files'"
  proof (cases result)
    case (Inl e)
    then show ?thesis
      using that [of extra_files] extras(2) run by (simp add: assms(2) write_execution_artifacts_def flip: assms(1))
  next
    case (Inr u)
    then show ?thesis
      using that run write_extra_after [where written = "write_csv fixed dumps" and extension = "''.csv''"
          and extras = extra_csv, OF names(1) clean_csv extras(2)]
      by (auto simp: assms(2) write_execution_artifacts_def simp flip: assms(1))
  qed
  then show ?thesis using names(2) ok by (fastforce simp: list_all_iff clean_def)
qed

text \<open>
  No file that is written for an execution has a key or a column that names a secret, and the
  seven standard files are always there, first and as written: an extra file cannot replace one.
\<close>

theorem artifacts_clean:
  "let standard = standard_files fixed dumps req events summary_row child_rows fills timeline slices;
       files = snd (write_execution_artifacts fixed dumps req events summary_row child_rows fills timeline
         slices extra_json extra_csv)
   in take 7 files = standard \<and> (\<Union>a \<in> snd ` set files. artifact_keys a) \<inter> Collect is_sensitive_key = {}"
  unfolding Let_def by (rule files_clean [OF refl refl])

end
