(* ===== verification/Findings.thy ===== *)
theory Findings
  imports Endings Logging
begin

text \<open>
  Where the code does not do what it means to, or what its documentation says, on concrete inputs.
\<close>

section \<open>A filled order that reconciliation discovers\<close>




section \<open>The authorization header\<close>

text \<open>
  \<^verbatim>\<open>docs/source/user_guide/observability.md\<close> says that authorization headers are removed from
  artifacts; the key of such a header is not sensitive, so it is kept.
\<close>

lemma authorization_header_kept:
  "sanitize_log_payload fixed [(''Authorization'', Log_Str t)] = [(''Authorization'', PStr t)]"
proof -
  have "\<not> is_sensitive_key ''Authorization''" by code_simp
  then show ?thesis by (simp add: sanitize_log_payload_def)
qed

end
