(* ===== verification/Evidence.thy ===== *)
theory Evidence
  imports Payload
begin

text \<open>
  \<^verbatim>\<open>scripts/sanitize_testnet_evidence.py\<close>: the account updates of the exchange are cut out of
  recorded evidence, and what is left is searched for the keys of private account data. The files
  are in \<open>Evidence_Files\<close>.
\<close>

section \<open>Redaction\<close>

definition private_account_keys :: "string set" where
  "private_account_keys = {''cw'', ''wb'', ''bep'', ''ep'', ''iw'', ''ma'', ''mt'', ''pa'', ''ps'', ''up''}"

text \<open>The tests for the two kinds of event, which differ in the name only.\<close>

definition is_event :: "string \<Rightarrow> (string \<times> pyval) list \<Rightarrow> bool" where
  "is_event name kvs \<longleftrightarrow>
     map_of kvs ''event_type'' = Some (PStr name) \<or> map_of kvs ''e'' = Some (PStr name)
     \<or> (case map_of kvs ''raw'' of
          Some (PDict raw) \<Rightarrow> map_of raw ''e'' = Some (PStr name)
        | _ \<Rightarrow> False)"

definition is_account_update_event :: "(string \<times> pyval) list \<Rightarrow> bool" where
  "is_account_update_event kvs = is_event ''ACCOUNT_UPDATE'' kvs"

definition is_order_trade_update_event :: "(string \<times> pyval) list \<Rightarrow> bool" where
  "is_order_trade_update_event kvs = is_event ''ORDER_TRADE_UPDATE'' kvs"

definition kept_time :: "(string \<times> pyval) list \<Rightarrow> string \<Rightarrow> string \<Rightarrow> (string \<times> pyval) list" where
  "kept_time kvs key raw_key =
     (case map_of kvs key of
        Some v \<Rightarrow> [(key, v)]
      | None \<Rightarrow>
          (case map_of kvs ''raw'' of
             Some (PDict raw) \<Rightarrow> (case map_of raw raw_key of Some v \<Rightarrow> [(key, v)] | None \<Rightarrow> [])
           | _ \<Rightarrow> []))"

definition redacted_account_update :: "(string \<times> pyval) list \<Rightarrow> pyval" where
  "redacted_account_update kvs = PDict
     ([(''event_type'', PStr ''ACCOUNT_UPDATE''),
       (''raw'', PDict [(''e'', PStr ''ACCOUNT_UPDATE''), (''redacted'', PBool True)])]
      @ kept_time kvs ''event_time_ms'' ''E'' @ kept_time kvs ''transaction_time_ms'' ''T'')"

fun sanitize_json_value :: "pyval \<Rightarrow> pyval" where
  "sanitize_json_value (PDict kvs) =
     (if is_account_update_event kvs then redacted_account_update kvs
      else PDict (map (\<lambda>(k, v). (k, sanitize_json_value v)) kvs))"
| "sanitize_json_value (PList vs) = PList (map sanitize_json_value vs)"
| "sanitize_json_value v = v"

section \<open>The search for private keys\<close>

lemma enumerated_size [termination_simp]:
  "(i, v) \<in> set (enumerate n vs) \<Longrightarrow> size v < Suc (size_list size vs)"
  by (auto simp: in_set_enumerate_eq less_Suc_eq_le intro!: size_list_estimation')

fun private_key_paths :: "pyval \<Rightarrow> string \<Rightarrow> bool \<Rightarrow> bool \<Rightarrow> string list" where
  "private_key_paths (PDict kvs) path in_raw in_order =
     concat (map (\<lambda>(key, child).
       (let child_path = path @ ''.'' @ key;
            child_in_raw = (key = ''raw''
              \<and> (case child of PDict raw \<Rightarrow> map_of raw ''e'' = Some (PStr ''ORDER_TRADE_UPDATE'') | _ \<Rightarrow> False)
              \<and> is_order_trade_update_event kvs);
            child_in_order = (in_order \<or> key = ''o'' \<and> in_raw)
        in (if key \<in> private_account_keys \<and> \<not> in_order then [child_path] else [])
           @ private_key_paths child child_path child_in_raw child_in_order)) kvs)"
| "private_key_paths (PList vs) path in_raw in_order =
     concat (map (\<lambda>(i, child).
       private_key_paths child (path @ ''['' @ int_digits (int i) @ '']'') in_raw in_order)
       (enumerate 0 vs))"
| "private_key_paths v path in_raw in_order = []"

section \<open>What the redaction leaves\<close>

text \<open>Every account update in a value, at any depth.\<close>

fun account_updates :: "pyval \<Rightarrow> pyval set" where
  "account_updates (PDict kvs) =
     (if is_account_update_event kvs then {PDict kvs} else (\<Union>v \<in> snd ` set kvs. account_updates v))"
| "account_updates (PList vs) = (\<Union>v \<in> set vs. account_updates v)"
| "account_updates v = {}"

definition redacted_form :: "pyval \<Rightarrow> bool" where
  "redacted_form v \<longleftrightarrow> (\<exists>times. set (map fst times) \<subseteq> {''event_time_ms'', ''transaction_time_ms''}
     \<and> v = PDict ([(''event_type'', PStr ''ACCOUNT_UPDATE''),
         (''raw'', PDict [(''e'', PStr ''ACCOUNT_UPDATE''), (''redacted'', PBool True)])] @ times))"

lemma map_of_sanitized: "map_of (map (\<lambda>(k, v). (k, f v)) kvs) k = map_option f (map_of kvs k)"
  by (induction kvs) auto

lemma sanitized_string: "sanitize_json_value v = PStr s \<longleftrightarrow> v = PStr s"
  by (cases v) (auto simp: redacted_account_update_def)

text \<open>Sanitizing the values of a dictionary makes no account update of it.\<close>

lemma sanitized_no_event:
  assumes "\<not> is_account_update_event kvs"
  shows "\<not> is_account_update_event (map (\<lambda>(k, v). (k, sanitize_json_value v)) kvs)"
proof -
  have "map_of raw ''e'' \<noteq> Some (PStr ''ACCOUNT_UPDATE'')"
    if "map_of kvs ''raw'' = Some v" "sanitize_json_value v = PDict raw" for v raw
  proof (cases v)
    case (PDict inner)
    show ?thesis
    proof (cases "is_account_update_event inner")
      case True
      then show ?thesis using that(2) PDict by (auto simp: redacted_account_update_def kept_time_def split: option.splits pyval.splits)
    next
      case False
      then show ?thesis
        using that assms PDict
        by (auto simp: map_of_sanitized is_account_update_event_def is_event_def sanitized_string)
    qed
  qed (use that in auto)
  then show ?thesis
    using assms
    by (auto simp: is_account_update_event_def is_event_def map_of_sanitized sanitized_string split: option.splits pyval.splits)
qed

lemma kept_time_cases:
  "kept_time kvs key raw_key = [] \<or> (\<exists>v. kept_time kvs key raw_key = [(key, v)])"
  by (auto simp: kept_time_def split: option.splits pyval.splits)

lemma redacted_fixed:
  assumes "a = [] \<or> a = [(''event_time_ms'', v)]" "b = [] \<or> b = [(''transaction_time_ms'', w)]"
    and "kvs = [(''event_type'', PStr ''ACCOUNT_UPDATE''),
       (''raw'', PDict [(''e'', PStr ''ACCOUNT_UPDATE''), (''redacted'', PBool True)])] @ a @ b"
  shows "is_account_update_event kvs \<and> redacted_account_update kvs = PDict kvs"
  using assms by (elim disjE) (simp_all add: is_account_update_event_def is_event_def
      redacted_account_update_def kept_time_def)

lemma redacted_shape:
  obtains kvs' where "redacted_account_update kvs = PDict kvs'" "is_account_update_event kvs'"
    "redacted_account_update kvs' = PDict kvs'"
proof -
  let ?a = "kept_time kvs ''event_time_ms'' ''E''" and ?b = "kept_time kvs ''transaction_time_ms'' ''T''"
  obtain v w where "?a = [] \<or> ?a = [(''event_time_ms'', v)]" "?b = [] \<or> ?b = [(''transaction_time_ms'', w)]"
    by (metis kept_time_cases)
  from redacted_fixed [OF this refl] show thesis
    using that unfolding redacted_account_update_def [of kvs] by blast
qed

lemma redacted_again: "sanitize_json_value (redacted_account_update kvs) = redacted_account_update kvs"
  by (rule redacted_shape [of kvs]) simp

lemma redacted_updates: "account_updates (redacted_account_update kvs) = {redacted_account_update kvs}"
  by (rule redacted_shape [of kvs]) simp

lemma redacted_is_form: "redacted_form (redacted_account_update kvs)"
  unfolding redacted_form_def redacted_account_update_def
  by (intro exI [of _ "kept_time kvs ''event_time_ms'' ''E'' @ kept_time kvs ''transaction_time_ms'' ''T''"])
    (auto simp: kept_time_def split: option.splits pyval.splits)

text \<open>
  C37. Sanitizing evidence leaves, at any depth, no account update but in the redacted form, with its
  times at most; and sanitizing it again changes nothing.
\<close>

theorem sanitized_evidence:
  "account_updates (sanitize_json_value v) \<subseteq> Collect redacted_form
   \<and> sanitize_json_value (sanitize_json_value v) = sanitize_json_value v"
proof
  show "account_updates (sanitize_json_value v) \<subseteq> Collect redacted_form"
  proof (induction v rule: sanitize_json_value.induct)
    case (1 kvs)
    show ?case
    proof (cases "is_account_update_event kvs")
      case True
      then show ?thesis using redacted_is_form [of kvs] by (simp add: redacted_updates)
    next
      case False
      then show ?thesis using 1 sanitized_no_event [OF False] by fastforce
    qed
  qed auto
  show "sanitize_json_value (sanitize_json_value v) = sanitize_json_value v"
  proof (induction v rule: sanitize_json_value.induct)
    case (1 kvs)
    show ?case
    proof (cases "is_account_update_event kvs")
      case True
      then show ?thesis by (simp add: redacted_again)
    next
      case False
      then show ?thesis using 1 sanitized_no_event [OF False] by auto
    qed
  qed auto
qed

end
