(* ===== verification/Evidence_Files.thy ===== *)
theory Evidence_Files
  imports Evidence Effects "HOL-Library.AList"
begin

text \<open>
  The rest of \<^verbatim>\<open>scripts/sanitize_testnet_evidence.py\<close>: the two files of an evidence directory
  are rewritten and then validated. A disk maps a path to the text of the file. What \<^verbatim>\<open>json\<close>
  and the reader and writer of \<^verbatim>\<open>csv\<close> make of a text is a parameter, the \<open>codec\<close>; the
  dictionaries \<^verbatim>\<open>csv\<close> makes of rows are modelled.
\<close>

section \<open>Texts\<close>

record codec =
  json_read :: "string \<Rightarrow> string + pyval"
  json_sorted_text :: "pyval \<Rightarrow> string"
  csv_read :: "string \<Rightarrow> string list list \<times> string option"
  csv_text :: "string list list \<Rightarrow> string"

fun after_return :: "string \<Rightarrow> string" where
  "after_return [] = []"
| "after_return (c # cs) = (if c = CHR 0x0A then cs else c # cs)"

lemma after_return_length [termination_simp]: "length (after_return cs) < Suc (length cs)"
  by (cases cs) auto

text \<open>A file that is read as text has its line ends replaced.\<close>

fun universal_newlines :: "string \<Rightarrow> string" where
  "universal_newlines [] = []"
| "universal_newlines (c # cs) =
     (if c = CHR 0x0D
      then CHR 0x0A # universal_newlines (after_return cs)
      else c # universal_newlines cs)"

definition line_end :: "char \<Rightarrow> bool" where
  "line_end c \<longleftrightarrow> c \<in> {CHR 0x0A, CHR 0x0B, CHR 0x0C, CHR 0x0D, CHR 0x1C, CHR 0x1D, CHR 0x1E, CHR 0x85}"

fun lines_from :: "string \<Rightarrow> string \<Rightarrow> string list" where
  "lines_from line [] = (if line = [] then [] else [line])"
| "lines_from line (c # cs) =
     (if c = CHR 0x0D
      then line # lines_from [] (after_return cs)
      else if line_end c then line # lines_from [] cs
      else lines_from (line @ [c]) cs)"

definition splitlines :: "string \<Rightarrow> string list" where
  "splitlines t = lines_from [] t"

fun join_lines :: "string list \<Rightarrow> string" where
  "join_lines [] = []"
| "join_lines [l] = l"
| "join_lines (l # m # ls) = l @ CHR 0x0A # join_lines (m # ls)"

section \<open>Errors\<close>

datatype evidence_exn =
    JSON_Decode_Error string
  | Csv_Error string
  | Value_Error string
  | Attribute_Error string
  | Private_Account_Key_Error string

fun evidence_exn_text :: "evidence_exn \<Rightarrow> string" where
  "evidence_exn_text (JSON_Decode_Error t) = t"
| "evidence_exn_text (Csv_Error t) = t"
| "evidence_exn_text (Value_Error t) = t"
| "evidence_exn_text (Attribute_Error t) = t"
| "evidence_exn_text (Private_Account_Key_Error t) = t"

fun is_value_error :: "evidence_exn \<Rightarrow> bool" where
  "is_value_error (JSON_Decode_Error _) = True"
| "is_value_error (Value_Error _) = True"
| "is_value_error _ = False"

type_synonym disk = "string \<rightharpoonup> string"
type_synonym 'a script = "(evidence_exn, disk, 'a) eff"

definition loads :: "codec \<Rightarrow> string \<Rightarrow> evidence_exn + pyval" where
  "loads c t = (case json_read c t of Inl m \<Rightarrow> Inl (JSON_Decode_Error m) | Inr v \<Rightarrow> Inr v)"

definition keys_remain :: "string list \<Rightarrow> evidence_exn" where
  "keys_remain paths = Private_Account_Key_Error (''private account keys remain in '' @ commas paths)"

section \<open>The log\<close>

definition sanitized_line :: "codec \<Rightarrow> string \<Rightarrow> evidence_exn + string" where
  "sanitized_line c line =
     (if strip_text line = [] then Inr line
      else sbind (loads c line) (\<lambda>v. Inr (json_sorted_text c (sanitize_json_value v))))"

definition sanitize_jsonl :: "codec \<Rightarrow> string \<Rightarrow> unit script" where
  "sanitize_jsonl c path =
     bind (gets (\<lambda>d. d path)) (\<lambda>content.
       case content of
         None \<Rightarrow> ret ()
       | Some raw \<Rightarrow>
           bind (lift_res (smap (sanitized_line c) (splitlines (universal_newlines raw)))) (\<lambda>rewritten.
             modify (\<lambda>d. d(path \<mapsto> join_lines rewritten @ (if rewritten \<noteq> [] then [CHR 0x0A] else [])))))"

definition validate_line :: "codec \<Rightarrow> string \<Rightarrow> nat \<times> string \<Rightarrow> unit script" where
  "validate_line c path = (\<lambda>(line_number, line).
     guarded (strip_text line \<noteq> [])
       (bind (lift_res (loads c line)) (\<lambda>v.
          let paths = private_key_paths v (path @ '':'' @ int_digits (int line_number)) False False
          in guarded (paths \<noteq> []) (throw (keys_remain paths)))))"

definition validate_jsonl :: "codec \<Rightarrow> string \<Rightarrow> unit script" where
  "validate_jsonl c path =
     bind (gets (\<lambda>d. d path)) (\<lambda>content.
       case content of
         None \<Rightarrow> ret ()
       | Some raw \<Rightarrow> for_each (enumerate 1 (splitlines (universal_newlines raw))) (validate_line c path))"

section \<open>The timeline\<close>

text \<open>
  \<^verbatim>\<open>csv.DictReader\<close>: the first row names the columns, empty rows are skipped, a row that is
  too short has \<open>Missing\<close> values, and what is too much of one is a list under the key None.
\<close>

datatype cell = Missing | Cell string | Surplus "string list"

type_synonym timeline_row = "(string option \<times> cell) list"

definition dict_row :: "string list \<Rightarrow> string list \<Rightarrow> timeline_row" where
  "dict_row fieldnames row =
     fold (\<lambda>(k, v). AList.update k v)
       (zip (map Some fieldnames) (map Cell row @ replicate (length fieldnames - length row) Missing)
        @ (if length fieldnames < length row then [(None, Surplus (drop (length fieldnames) row))] else [])) []"

fun dict_reader :: "string list list \<Rightarrow> (string list \<times> timeline_row list) option" where
  "dict_reader [] = None"
| "dict_reader (fieldnames # rows) =
     Some (fieldnames, map (dict_row fieldnames) (filter (\<lambda>row. row \<noteq> []) rows))"

text \<open>\<^verbatim>\<open>csv.DictWriter\<close>, for rows without surplus values.\<close>

definition written_row :: "string list \<Rightarrow> timeline_row \<Rightarrow> string list" where
  "written_row fieldnames row =
     map (\<lambda>f. case map_of row (Some f) of Some (Cell t) \<Rightarrow> t | _ \<Rightarrow> []) fieldnames"

definition no_strip :: "string \<Rightarrow> string" where
  "no_strip type_name = CHR 0x27 # type_name @ CHR 0x27 # '' object has no attribute '' @ CHR 0x27 # ''strip'' @ [CHR 0x27]"

fun loads_json_cell :: "codec \<Rightarrow> cell \<Rightarrow> evidence_exn + pyval" where
  "loads_json_cell c (Cell t) =
     (let stripped = strip_text t
      in if stripped = [] \<or> hd stripped \<notin> set ''[{'' then Inl (Value_Error ''not a JSON cell'')
         else loads c stripped)"
| "loads_json_cell c (Surplus ts) = Inl (Attribute_Error (no_strip ''list''))"
| "loads_json_cell c Missing = Inl (Attribute_Error (no_strip ''NoneType''))"

definition sanitized_cell :: "codec \<Rightarrow> string option \<times> cell \<Rightarrow> evidence_exn + (string option \<times> cell)" where
  "sanitized_cell c = (\<lambda>(key, v).
     if v = Missing then Inr (key, v)
     else case loads_json_cell c v of
            Inl e \<Rightarrow> if is_value_error e then Inr (key, v) else Inl e
          | Inr parsed \<Rightarrow> Inr (key, Cell (json_sorted_text c (sanitize_json_value parsed))))"

definition sanitize_timeline_csv :: "codec \<Rightarrow> string \<Rightarrow> unit script" where
  "sanitize_timeline_csv c path =
     bind (gets (\<lambda>d. d path)) (\<lambda>content.
       case content of
         None \<Rightarrow> ret ()
       | Some raw \<Rightarrow>
           (let (read, failure) = csv_read c raw
            in case failure of
                 Some m \<Rightarrow> throw (Csv_Error m)
               | None \<Rightarrow>
                   (case dict_reader read of
                      None \<Rightarrow> ret ()
                    | Some (fieldnames, rows) \<Rightarrow>
                        bind (lift_res (smap (smap (sanitized_cell c)) rows)) (\<lambda>rows'.
                          modify (\<lambda>d. d(path \<mapsto>
                            csv_text c (fieldnames # map (written_row fieldnames) rows')))))))"

definition column_text :: "string option \<Rightarrow> string" where
  "column_text key = (case key of Some name \<Rightarrow> name | None \<Rightarrow> ''None'')"

definition validate_cell :: "codec \<Rightarrow> string \<Rightarrow> nat \<Rightarrow> string option \<times> cell \<Rightarrow> unit script" where
  "validate_cell c path row_number = (\<lambda>(column, v).
     guarded (v \<noteq> Missing)
       (case loads_json_cell c v of
          Inl e \<Rightarrow> guarded (\<not> is_value_error e) (throw e)
        | Inr parsed \<Rightarrow>
            (let paths = private_key_paths parsed
                   (path @ '':'' @ int_digits (int row_number) @ ''.'' @ column_text column) False False
             in guarded (paths \<noteq> []) (throw (keys_remain paths)))))"

definition validate_timeline_csv :: "codec \<Rightarrow> string \<Rightarrow> unit script" where
  "validate_timeline_csv c path =
     bind (gets (\<lambda>d. d path)) (\<lambda>content.
       case content of
         None \<Rightarrow> ret ()
       | Some raw \<Rightarrow>
           (let (read, failure) = csv_read c raw;
                rows = (case dict_reader read of None \<Rightarrow> [] | Some (_, rows) \<Rightarrow> rows)
            in andthen (for_each (enumerate 2 rows) (\<lambda>(n, row). for_each row (validate_cell c path n)))
                 (case failure of None \<Rightarrow> ret () | Some m \<Rightarrow> throw (Csv_Error m))))"

section \<open>The script\<close>

text \<open>A directory is the text of its \<^verbatim>\<open>Path\<close>.\<close>

definition path_join :: "string \<Rightarrow> string \<Rightarrow> string" where
  "path_join dir name = (if dir = ''.'' then name else if dir = ''/'' then dir @ name else dir @ ''/'' @ name)"

definition log_path :: "string \<Rightarrow> string" where
  "log_path dir = path_join dir ''execution_log.jsonl''"

definition timeline_path :: "string \<Rightarrow> string" where
  "timeline_path dir = path_join dir ''timeline.csv''"

definition sanitize_evidence_dir :: "codec \<Rightarrow> string \<Rightarrow> unit script" where
  "sanitize_evidence_dir c dir =
     andthen (sanitize_jsonl c (log_path dir))
     (andthen (sanitize_timeline_csv c (timeline_path dir))
     (andthen (validate_jsonl c (log_path dir))
       (validate_timeline_csv c (timeline_path dir))))"

datatype script_end = Exit int | Uncaught evidence_exn

fun caught :: "evidence_exn \<Rightarrow> bool" where
  "caught (JSON_Decode_Error _) = True"
| "caught (Csv_Error _) = True"
| "caught (Private_Account_Key_Error _) = True"
| "caught _ = False"

text \<open>How the script ends, what it prints, and the disk it leaves.\<close>

fun sanitize_main :: "codec \<Rightarrow> string list \<Rightarrow> disk \<Rightarrow> script_end \<times> string list \<times> disk" where
  "sanitize_main c [] d = (Exit 0, [], d)"
| "sanitize_main c (dir # dirs) d =
     (case sanitize_evidence_dir c dir d of
        (Inr _, d') \<Rightarrow>
          (let (x, printed, d'') = sanitize_main c dirs d' in (x, (''sanitized '' @ dir) # printed, d''))
      | (Inl e, d') \<Rightarrow>
          if caught e then (Exit 1, [''error: '' @ evidence_exn_text e], d') else (Uncaught e, [], d'))"

section \<open>What the script leaves behind\<close>

definition clean_jsonl :: "codec \<Rightarrow> string \<Rightarrow> disk \<Rightarrow> bool" where
  "clean_jsonl c path d \<longleftrightarrow> (\<forall>raw. d path = Some raw \<longrightarrow>
     (\<forall>(n, line) \<in> set (enumerate 1 (splitlines (universal_newlines raw))). strip_text line \<noteq> [] \<longrightarrow>
        (\<exists>v. json_read c line = Inr v
           \<and> private_key_paths v (path @ '':'' @ int_digits (int n)) False False = [])))"

definition clean_cell :: "codec \<Rightarrow> string \<Rightarrow> nat \<Rightarrow> string option \<times> cell \<Rightarrow> bool" where
  "clean_cell c path n = (\<lambda>(column, v). \<forall>parsed. loads_json_cell c v = Inr parsed \<longrightarrow>
     private_key_paths parsed (path @ '':'' @ int_digits (int n) @ ''.'' @ column_text column) False False = [])"

definition clean_timeline :: "codec \<Rightarrow> string \<Rightarrow> disk \<Rightarrow> bool" where
  "clean_timeline c path d \<longleftrightarrow> (\<forall>raw. d path = Some raw \<longrightarrow>
     (\<exists>read. csv_read c raw = (read, None) \<and> (\<forall>fieldnames rows. dict_reader read = Some (fieldnames, rows) \<longrightarrow>
        (\<forall>(n, row) \<in> set (enumerate 2 rows). \<forall>entry \<in> set row. clean_cell c path n entry))))"

lemma for_each_reads:
  assumes "\<And>x. x \<in> set xs \<Longrightarrow> wp (f x) (\<lambda>_ t. t = d \<and> P x) (\<lambda>_ t. t = d) d"
  shows "wp (for_each xs f) (\<lambda>_ t. t = d \<and> (\<forall>x \<in> set xs. P x)) (\<lambda>_ t. t = d) d"
  using assms
proof (induction xs)
  case Nil
  then show ?case by (simp add: wp_ret)
next
  case (Cons x xs)
  from Cons.prems have first: "wp (f x) (\<lambda>_ t. t = d \<and> P x) (\<lambda>_ t. t = d) d" by simp
  from Cons have rest: "wp (for_each xs f) (\<lambda>_ t. t = d \<and> (\<forall>x \<in> set xs. P x)) (\<lambda>_ t. t = d) d" by simp
  show ?case
    by (simp only: for_each.simps wp_bind, rule wp_mono [OF first]) (auto intro: wp_mono [OF rest])
qed

lemma validated_log:
  "wp (validate_jsonl c path) (\<lambda>_ t. t = d \<and> clean_jsonl c path d) (\<lambda>_ t. t = d) d"
proof (cases "d path")
  case None
  then show ?thesis by (simp add: validate_jsonl_def wp_simp clean_jsonl_def)
next
  case (Some raw)
  have line: "wp (validate_line c path x)
      (\<lambda>_ t. t = d \<and> (case x of (n, line) \<Rightarrow> strip_text line \<noteq> [] \<longrightarrow>
         (\<exists>v. json_read c line = Inr v
            \<and> private_key_paths v (path @ '':'' @ int_digits (int n)) False False = [])))
      (\<lambda>_ t. t = d) d" for x
    by (cases x) (auto simp: validate_line_def wp_simp loads_def Let_def split: sum.splits)
  show ?thesis
    using Some for_each_reads [OF line, of "enumerate 1 (splitlines (universal_newlines raw))"]
    by (simp add: validate_jsonl_def wp_simp clean_jsonl_def)
qed

lemma validated_timeline:
  "wp (validate_timeline_csv c path) (\<lambda>_ t. t = d \<and> clean_timeline c path d) (\<lambda>_ t. t = d) d"
proof (cases "d path")
  case None
  then show ?thesis by (simp add: validate_timeline_csv_def wp_simp clean_timeline_def)
next
  case (Some raw)
  obtain read failure where read: "csv_read c raw = (read, failure)" by fastforce
  let ?rows = "case dict_reader read of None \<Rightarrow> [] | Some (_, rows) \<Rightarrow> rows"
  have cell: "wp (validate_cell c path n x) (\<lambda>_ t. t = d \<and> clean_cell c path n x) (\<lambda>_ t. t = d) d" for n x
    by (cases x; cases "snd x") (auto simp: validate_cell_def clean_cell_def wp_simp Let_def split: sum.splits)
  have row: "wp (case x of (n, row) \<Rightarrow> for_each row (validate_cell c path n))
      (\<lambda>_ t. t = d \<and> (case x of (n, row) \<Rightarrow> \<forall>entry \<in> set row. clean_cell c path n entry)) (\<lambda>_ t. t = d) d" for x
    by (cases x) (auto intro!: for_each_reads cell)
  have body: "wp (for_each (enumerate 2 ?rows) (\<lambda>(n, row). for_each row (validate_cell c path n)))
      (\<lambda>_ t. t = d \<and> (\<forall>(n, row) \<in> set (enumerate 2 ?rows). \<forall>entry \<in> set row. clean_cell c path n entry))
      (\<lambda>_ t. t = d) d"
    using for_each_reads [OF row, of "enumerate 2 ?rows"] by (simp add: case_prod_beta')
  have "wp (andthen (for_each (enumerate 2 ?rows) (\<lambda>(n, row). for_each row (validate_cell c path n)))
        (case failure of None \<Rightarrow> ret () | Some m \<Rightarrow> throw (Csv_Error m)))
      (\<lambda>_ t. t = d \<and> clean_timeline c path d) (\<lambda>_ t. t = d) d"
    unfolding wp_bind
    by (rule wp_mono [OF body])
      (cases failure, auto simp: wp_simp clean_timeline_def Some read)
  then show ?thesis using Some read by (simp add: validate_timeline_csv_def wp_simp)
qed

lemma path_last: "last (log_path dir) = CHR ''l''" "last (timeline_path dir) = CHR ''v''"
  by (simp_all add: log_path_def timeline_path_def path_join_def)

definition others_kept :: "string set \<Rightarrow> disk \<Rightarrow> disk \<Rightarrow> bool" where
  "others_kept ps d d' \<longleftrightarrow> (\<forall>p. p \<notin> ps \<longrightarrow> d' p = d p)"

interpretation disk: evolution "others_kept ps" for ps
  by unfold_locales (auto simp: others_kept_def)

lemma script_writes:
  "evolves (others_kept {path}) (sanitize_jsonl c path)"
  "evolves (others_kept {path}) (sanitize_timeline_csv c path)"
  by (auto simp: sanitize_jsonl_def sanitize_timeline_csv_def others_kept_def
      intro!: evolve_intro disk.ev_modify)

text \<open>
  A directory that is sanitized without an error is clean; other files, and nothing but the two files of
  the directory in any case, are left alone.
\<close>

lemma evidence_dir_validated:
  "wp (sanitize_evidence_dir c dir)
     (\<lambda>_ t. others_kept {log_path dir, timeline_path dir} d t
        \<and> clean_jsonl c (log_path dir) t \<and> clean_timeline c (timeline_path dir) t)
     (\<lambda>_ t. others_kept {log_path dir, timeline_path dir} d t) d"
proof -
  let ?R = "others_kept {log_path dir, timeline_path dir}"
  have writes: "evolves ?R (sanitize_jsonl c (log_path dir))"
    "evolves ?R (sanitize_timeline_csv c (timeline_path dir))"
    by (rule evolves_mono [OF script_writes(1)], simp add: others_kept_def)
      (rule evolves_mono [OF script_writes(2)], simp add: others_kept_def)
  have check: "wp (andthen (validate_jsonl c (log_path dir)) (validate_timeline_csv c (timeline_path dir)))
      (\<lambda>_ t. t = s \<and> clean_jsonl c (log_path dir) t \<and> clean_timeline c (timeline_path dir) t)
      (\<lambda>_ t. t = s) s" for s
    unfolding wp_bind
    by (rule wp_mono [OF validated_log]) (auto intro: wp_mono [OF validated_timeline])
  show ?thesis
    unfolding sanitize_evidence_dir_def wp_bind [of "sanitize_jsonl _ _"] wp_bind [of "sanitize_timeline_csv _ _"]
    by (rule wp_evolves [OF writes(1)], rule wp_evolves [OF writes(2)], rule wp_mono [OF check])
      (auto simp: others_kept_def)
qed

lemma kept_clean:
  assumes "others_kept {log_path dir, timeline_path dir} d d'"
    and "clean_jsonl c (log_path dir) d'" "clean_timeline c (timeline_path dir) d'"
  shows "clean_jsonl c (log_path x) d \<Longrightarrow> clean_jsonl c (log_path x) d'"
    and "clean_timeline c (timeline_path x) d \<Longrightarrow> clean_timeline c (timeline_path x) d'"
proof -
  have ne: "log_path x \<noteq> timeline_path y" for x y
    using path_last(1) [of x] path_last(2) [of y] by auto
  show "clean_jsonl c (log_path x) d'" if "clean_jsonl c (log_path x) d"
    using assms that ne [of x dir] by (cases "log_path x = log_path dir") (auto simp: others_kept_def clean_jsonl_def)
  show "clean_timeline c (timeline_path x) d'" if "clean_timeline c (timeline_path x) d"
    using assms that ne [of dir x]
    by (cases "timeline_path x = timeline_path dir") (auto simp: others_kept_def clean_timeline_def)
qed

text \<open>If the script exits with 0, the evidence in every directory it was given is clean.\<close>

lemma exit_zero_clean_from:
  assumes "sanitize_main c dirs d = (Exit 0, printed, d')"
  shows "(\<forall>dir \<in> set dirs. clean_jsonl c (log_path dir) d' \<and> clean_timeline c (timeline_path dir) d')
    \<and> (\<forall>x. clean_jsonl c (log_path x) d \<longrightarrow> clean_jsonl c (log_path x) d')
    \<and> (\<forall>x. clean_timeline c (timeline_path x) d \<longrightarrow> clean_timeline c (timeline_path x) d')
    \<and> printed = map ((@) ''sanitized '') dirs"
  using assms
proof (induction dirs arbitrary: d printed)
  case Nil
  then show ?case by simp
next
  case (Cons dir dirs)
  then obtain e where step: "sanitize_evidence_dir c dir d = (Inr (), e)"
      and rest: "sanitize_main c dirs e = (Exit 0, tl printed, d')" "printed = (''sanitized '' @ dir) # tl printed"
    by (auto split: prod.splits sum.splits if_splits)
  from wp_result [OF evidence_dir_validated step]
  have kept: "others_kept {log_path dir, timeline_path dir} d e"
      and clean: "clean_jsonl c (log_path dir) e" "clean_timeline c (timeline_path dir) e" by auto
  have "printed = map ((@) ''sanitized '') (dir # dirs)" using Cons.IH [OF rest(1)] rest(2) by simp
  then show ?case using Cons.IH [OF rest(1)] kept_clean [OF kept clean] clean by auto
qed

lemma exit_zero_clean:
  assumes "sanitize_main c dirs d = (Exit 0, printed, d')" "dir \<in> set dirs"
  shows "clean_jsonl c (log_path dir) d'" "clean_timeline c (timeline_path dir) d'"
  using exit_zero_clean_from [OF assms(1)] assms(2) by auto

end
