(* ===== verification/Sim_Demo.thy ===== *)
theory Sim_Demo
  imports System Schemas Logging
begin

text \<open>
  \<^verbatim>\<open>scripts/_sim_demo_common.py\<close>: what the demonstrations on the simulator share, a stack
  with a seeded market and a request, and the rows they write down of an execution; and the four
  demonstrations \<^verbatim>\<open>scripts/run_sim_*.py\<close>, less what they print. A row holds the values as they
  are; the writer of the files turns them into texts.
\<close>

section \<open>The stack\<close>

definition demo_symbol :: string where
  "demo_symbol = ''BTCUSDT''"

definition default_bid :: decimal where
  "default_bid = 50000"

definition default_ask :: decimal where
  "default_ask = 50001"

text \<open>The simulator of the stack starts its clock at zero; the service has no executions.\<close>

definition make_simulator_stack :: "decimal \<Rightarrow> records \<times> simulator" where
  "make_simulator_stack position = ([], new_simulator 0 position)"

definition seed_market :: "decimal \<Rightarrow> decimal \<Rightarrow> unit sim" where
  "seed_market bid ask =
     bind (gets sim_clock) (\<lambda>now.
       push_market_data demo_symbol bid ask (Some (dtrunc (fmul now 1000))))"

definition make_request ::
  "algorithm \<Rightarrow> decimal \<Rightarrow> decimal \<Rightarrow> decimal \<Rightarrow> int \<Rightarrow> execution_parameters option \<Rightarrow> execution_request" where
  "make_request a target lo hi duration params =
     \<lparr>req_environment = SIMULATION, req_symbol = demo_symbol, req_algorithm = a, target_position = target,
      target_price_lower = lo, target_price_upper = hi, target_duration_seconds = duration,
      req_deadline_policy = CANCEL_REMAINDER,
      parameters = (case params of None \<Rightarrow> default_parameters | Some p \<Rightarrow> p)\<rparr>"

section \<open>Rows\<close>

definition log_text_or_empty :: "string option \<Rightarrow> log_value" where
  "log_text_or_empty v = Log_Str (case v of None \<Rightarrow> [] | Some t \<Rightarrow> t)"

definition log_int_or_none :: "int option \<Rightarrow> log_value" where
  "log_int_or_none v = (case v of None \<Rightarrow> Log_None | Some n \<Rightarrow> Log_Int n)"

definition request_snapshot :: "execution_record \<Rightarrow> log_row" where
  "request_snapshot r =
     (let req = request r; p = parameters req
      in [(''execution_id'', Log_Str (rec_execution_id r)),
          (''environment'', Log_Enum (environment_value (req_environment req))),
          (''symbol'', Log_Str (req_symbol req)),
          (''algorithm'', Log_Enum (algorithm_value (req_algorithm req))),
          (''side'', Log_Enum (side_value (rec_side r))),
          (''target_position'', Log_Decimal (target_position req)),
          (''target_price_range'', Log_Mapping
            [(''lower'', Log_Decimal (target_price_lower req)), (''upper'', Log_Decimal (target_price_upper req))]),
          (''duration_seconds'', Log_Int (target_duration_seconds req)),
          (''deadline_policy'', Log_Enum (deadline_policy_value (req_deadline_policy req))),
          (''parameters'', Log_Mapping
            [(''reprice_threshold_bps'', Log_Decimal (reprice_threshold_bps p)),
             (''minimum_reprice_interval_ms'', Log_Int (minimum_reprice_interval_ms p)),
             (''number_of_slices'', Log_Int (number_of_slices p)),
             (''child_order_timeout_seconds'', Log_Int (child_order_timeout_seconds p)),
             (''repricing_mode'', Log_Enum (repricing_mode_value (repricing_mode p)))])])"

definition exposure_snapshot :: "execution_record \<Rightarrow> log_row" where
  "exposure_snapshot r =
     (let x = exposure_of r
      in [(''confirmed_filled_quantity'', Log_Decimal (confirmed_filled_quantity x)),
          (''live_open_quantity'', Log_Decimal (live_open_quantity x)),
          (''pending_submit_quantity'', Log_Decimal (pending_submit_quantity x)),
          (''pending_cancel_quantity'', Log_Decimal (pending_cancel_quantity x)),
          (''unknown_order_quantity'', Log_Decimal (unknown_order_quantity x)),
          (''reserved_exposure'', Log_Decimal (reserved_exposure x))])"

definition log_slice_row :: "slice_row \<Rightarrow> log_row" where
  "log_slice_row row =
     [(''execution_id'', Log_Str (row_execution_id row)), (''slice_index'', Log_Int (slice_index row)),
      (''slice_start_seconds'', Log_Decimal (slice_start_seconds row)),
      (''slice_end_seconds'', Log_Decimal (slice_end_seconds row)),
      (''planned_cumulative_quantity'', Log_Decimal (planned_cumulative_quantity row)),
      (''planned_slice_quantity'', Log_Decimal (planned_slice_quantity row)),
      (''submitted_quantity'', Log_Decimal (row_submitted_quantity row)),
      (''open_quantity'', Log_Decimal (row_open_quantity row)),
      (''filled_quantity'', Log_Decimal (row_filled_quantity row)),
      (''cancelled_quantity'', Log_Decimal (row_cancelled_quantity row)),
      (''unfilled_quantity'', Log_Decimal (row_unfilled_quantity row)),
      (''schedule_deficit'', Log_Decimal (row_schedule_deficit row)),
      (''child_order_ids'', Log_List (map Log_Str (row_child_order_ids row))),
      (''client_order_ids'', Log_List (map Log_Str (row_client_order_ids row)))]"

fun log_metric :: "metric_value \<Rightarrow> log_value" where
  "log_metric (MStr t) = Log_Str t"
| "log_metric (MInt n) = Log_Int n"
| "log_metric (MDec d) = Log_Decimal d"
| "log_metric (MSide sd) = Log_Enum (side_value sd)"
| "log_metric (MRows rows) = Log_List (map (\<lambda>row. Log_Mapping (log_slice_row row)) rows)"

definition demo_client_order_ids :: "execution_record \<Rightarrow> string list" where
  "demo_client_order_ids r = map client_order_id (child_orders r)"

definition summary_snapshot :: "execution_record \<Rightarrow> log_row" where
  "summary_snapshot r =
     [(''execution_id'', Log_Str (rec_execution_id r)),
      (''final_status'', Log_Enum (execution_status_value (status r))),
      (''final_reason'', log_text_or_empty (final_reason r)),
      (''required_quantity'', Log_Decimal (required_quantity r)),
      (''side'', Log_Enum (side_value (rec_side r))),
      (''exposure'', Log_Mapping (exposure_snapshot r)),
      (''child_order_count'', Log_Int (int (length (child_orders r)))),
      (''client_order_ids'', Log_List (map Log_Str (demo_client_order_ids r)))]
     @ (case summary r of
          None \<Rightarrow> []
        | Some s \<Rightarrow> [(''metrics'', Log_Mapping (map (\<lambda>(k, v). (k, log_metric v)) (summary_metrics s)))])"

definition child_order_rows :: "child_order list \<Rightarrow> log_row list" where
  "child_order_rows children =
     map (\<lambda>c. [(''child_order_id'', Log_Str (child_order_id c)), (''client_order_id'', Log_Str (client_order_id c)),
       (''exchange_order_id'', log_text_or_empty (exchange_order_id c)),
       (''status'', Log_Enum (child_status_value (child_status c))),
       (''submitted_quantity'', Log_Decimal (submitted_quantity c)),
       (''filled_quantity'', Log_Decimal (child_filled c)),
       (''remaining_quantity'', Log_Decimal (remaining_quantity c)),
       (''price'', Log_Decimal (child_price c)),
       (''terminal_reason'', log_text_or_empty (terminal_reason c))]) children"

definition fill_rows :: "fill list \<Rightarrow> log_row list" where
  "fill_rows fills =
     map (\<lambda>f. [(''client_order_id'', Log_Str (fill_client_order_id f)),
       (''trade_id'', log_text_or_empty (fill_trade_id f)),
       (''cumulative_filled_quantity'', Log_Decimal (cumulative_filled_quantity f)),
       (''last_filled_quantity'', Log_Decimal (last_filled_quantity f)),
       (''last_fill_price'', Log_Decimal (last_fill_price f)),
       (''event_time_ms'', log_int_or_none (fill_event_time_ms f)),
       (''transaction_time_ms'', log_int_or_none (fill_transaction_time_ms f))]) fills"

text \<open>\<^verbatim>\<open>payload.update(news)\<close>\<close>

definition updated_with :: "log_row \<Rightarrow> log_row \<Rightarrow> log_row" where
  "updated_with news payload = foldl (\<lambda>row (k, v). AList.update k v row) payload news"

definition log_event ::
  "pyfloat \<Rightarrow> string \<Rightarrow> execution_record \<Rightarrow> string \<Rightarrow> child_order option \<Rightarrow> log_row \<Rightarrow> log_row" where
  "log_event now utc r event child extra =
     updated_with extra
       (updated_with
         (case child of
            None \<Rightarrow> []
          | Some c \<Rightarrow>
              [(''child_order_id'', Log_Str (child_order_id c)), (''client_order_id'', Log_Str (client_order_id c)),
               (''child_status'', Log_Enum (child_status_value (child_status c))),
               (''submitted_quantity'', Log_Decimal (submitted_quantity c)),
               (''filled_quantity'', Log_Decimal (child_filled c)),
               (''remaining_quantity'', Log_Decimal (remaining_quantity c)),
               (''price'', Log_Decimal (child_price c))])
         [(''event'', Log_Str event), (''execution_id'', Log_Str (rec_execution_id r)),
          (''status'', Log_Enum (execution_status_value (status r))),
          (''monotonic_time'', Log_Decimal (float_decimal now)),
          (''utc_timestamp'', Log_Datetime utc),
          (''required_quantity'', Log_Decimal (required_quantity r)),
          (''final_reason'', log_text_or_empty (final_reason r)),
          (''exposure'', Log_Mapping (exposure_snapshot r))])"

definition timeline_rows :: "log_row list \<Rightarrow> log_row list" where
  "timeline_rows events = map (AList.delete ''exposure'') events"

definition write_artifacts ::
  "(decimal \<Rightarrow> string) \<Rightarrow> (pyval \<Rightarrow> string) \<Rightarrow> execution_record \<Rightarrow> log_row list \<Rightarrow> fill list
   \<Rightarrow> (string \<times> log_value) list \<Rightarrow> (exn + unit) \<times> files" where
  "write_artifacts fixed dumps r events fills extra_json =
     (let slices = (case summary r of
            None \<Rightarrow> []
          | Some s \<Rightarrow> (case map_of (summary_metrics s) ''twap_slice_ledger'' of
              Some (MRows rows) \<Rightarrow> map log_slice_row rows | _ \<Rightarrow> []))
      in write_execution_artifacts fixed dumps (request_snapshot r) events (summary_snapshot r)
           (child_order_rows (child_orders r)) (fill_rows fills) (timeline_rows events) slices extra_json [])"

section \<open>The demonstrations\<close>

text \<open>
  A demonstration runs the service on the simulator. It gives the execution it ends with, the events it
  logged, the fills of the simulator and the extra files; the text of a time is an argument.
\<close>

type_synonym 'a demo = "(simulator, 'a) engine"

type_synonym outcome = "execution_record \<times> log_row list \<times> fill list \<times> (string \<times> log_value) list"

definition demo_log ::
  "(pyfloat \<Rightarrow> string) \<Rightarrow> execution_record \<Rightarrow> string \<Rightarrow> child_order option \<Rightarrow> log_row \<Rightarrow> log_row demo" where
  "demo_log utc r event child extra =
     bind (gets (\<lambda>s. sim_clock (snd s))) (\<lambda>now. ret (log_event now (utc now) r event child extra))"

text \<open>\<^verbatim>\<open>execution.child_orders[-1]\<close>\<close>

definition last_child :: "execution_record \<Rightarrow> child_order demo" where
  "last_child r =
     (if child_orders r = [] then throw (OtherError ''list index out of range'')
      else ret (last (child_orders r)))"

definition demo_end :: "(pyfloat \<Rightarrow> string) \<Rightarrow> execution_record \<Rightarrow> log_row list \<Rightarrow> (string \<times> log_value) list \<Rightarrow> outcome demo" where
  "demo_end utc r events extra =
     bind (demo_log utc r ''result_summary'' None (summary_snapshot r)) (\<lambda>e.
     bind (gets (\<lambda>s. sim_fills (snd s))) (\<lambda>fills. ret (r, events @ [e], fills, extra)))"

definition started_demo :: "string \<Rightarrow> execution_request \<Rightarrow> (execution_record \<Rightarrow> outcome demo) \<Rightarrow> outcome demo" where
  "started_demo hex req demo =
     andthen (ecall (seed_market default_bid default_ask))
       (bind (create_execution sim_adapter hex req) demo)"

definition demo_request :: "algorithm \<Rightarrow> execution_request" where
  "demo_request a = make_request a (1 / 100) 49000 51000 100 None"

definition chase_demo :: "(pyfloat \<Rightarrow> string) \<Rightarrow> execution_record \<Rightarrow> outcome demo" where
  "chase_demo utc created =
     (let eid = rec_execution_id created
      in bind (demo_log utc created ''execution_created'' None []) (\<lambda>e1.
         bind (run_once sim_adapter eid) (\<lambda>running.
         bind (last_child running) (\<lambda>child.
         bind (demo_log utc running ''chase_order_submitted'' (Some child) []) (\<lambda>e2.
         bind (ecall (push_fill (client_order_id child) (remaining_quantity child) (child_price child))) (\<lambda>f.
         bind (demo_log utc running ''simulator_fill'' (Some child)
           [(''trade_id'', (case fill_trade_id f of None \<Rightarrow> Log_None | Some t \<Rightarrow> Log_Str t))]) (\<lambda>e3.
         bind (reconcile_execution sim_adapter eid None None) (\<lambda>reconciled.
         bind (last_child reconciled) (\<lambda>filled.
         bind (demo_log utc reconciled ''filled_reconciled'' (Some filled) []) (\<lambda>e4.
         bind (run_once sim_adapter eid) (\<lambda>ended.
           demo_end utc ended [e1, e2, e3, e4] [])))))))))))"

definition create_timeout_demo :: "(pyfloat \<Rightarrow> string) \<Rightarrow> execution_record \<Rightarrow> outcome demo" where
  "create_timeout_demo utc created =
     (let eid = rec_execution_id created; armed = make_client_order_prefix eid
      in andthen (ecall (script_create_timeout armed))
         (bind (demo_log utc created ''execution_created'' None [(''armed_prefix'', Log_Str armed)]) (\<lambda>e1.
         bind (run_once sim_adapter eid) (\<lambda>unknown.
         bind (last_child unknown) (\<lambda>c2.
         bind (demo_log utc unknown ''create_timeout_unknown'' (Some c2) []) (\<lambda>e2.
         bind (run_once sim_adapter eid) (\<lambda>before.
         bind (last_child before) (\<lambda>c3.
         bind (demo_log utc before ''run_before_reconcile_no_new_client_order_id'' (Some c3) []) (\<lambda>e3.
         bind (reconcile_execution sim_adapter eid None None) (\<lambda>reconciled.
         bind (last_child reconciled) (\<lambda>recovered.
         bind (demo_log utc reconciled ''reconciled_original_open'' (Some recovered) []) (\<lambda>e4.
         bind (ecall (push_fill (client_order_id recovered) (submitted_quantity recovered)
           (child_price recovered))) (\<lambda>_.
         bind (reconcile_execution sim_adapter eid None None) (\<lambda>completed.
         bind (last_child completed) (\<lambda>c5.
         bind (demo_log utc completed ''recovered_child_filled_terminal'' (Some c5) []) (\<lambda>e5.
           demo_end utc completed [e1, e2, e3, e4, e5]
             [(''execution_snapshot.json'', Log_Mapping (summary_snapshot reconciled))]))))))))))))))))"

definition cancel_race_demo :: "(pyfloat \<Rightarrow> string) \<Rightarrow> execution_record \<Rightarrow> outcome demo" where
  "cancel_race_demo utc created =
     (let eid = rec_execution_id created; armed = make_client_order_prefix eid
      in andthen (ecall (script_fill_during_cancel armed (4 / 1000)))
         (bind (demo_log utc created ''execution_created'' None [(''armed_prefix'', Log_Str armed)]) (\<lambda>e1.
         bind (run_once sim_adapter eid) (\<lambda>running.
         bind (last_child running) (\<lambda>c2.
         bind (demo_log utc running ''initial_child_submitted'' (Some c2) []) (\<lambda>e2.
         andthen (ecall (advance_clock (fl (6 / 10))))
         (andthen (ecall (seed_market 50030 50031))
         (bind (run_once sim_adapter eid) (\<lambda>repriced.
         bind (last_child repriced) (\<lambda>replacement.
         bind (demo_log utc repriced ''cancel_fill_race_repriced'' (Some replacement)
           [(''filled_during_cancel_quantity'', Log_Decimal (4 / 1000))]) (\<lambda>e3.
         bind (ecall (push_fill (client_order_id replacement) (submitted_quantity replacement)
           (child_price replacement))) (\<lambda>_.
         bind (reconcile_execution sim_adapter eid None None) (\<lambda>ended.
         bind (last_child ended) (\<lambda>c4.
         bind (demo_log utc ended ''replacement_child_filled_terminal'' (Some c4) []) (\<lambda>e4.
           demo_end utc ended [e1, e2, e3, e4]
             [(''execution_snapshot.json'', Log_Mapping (summary_snapshot repriced))])))))))))))))))"

definition twap_demo_request :: execution_request where
  "twap_demo_request =
     (make_request TWAP (1 / 100) 49000 51000 100 (Some (default_parameters\<lparr>number_of_slices := 5\<rparr>)))
       \<lparr>req_deadline_policy := AGGRESSIVE_WITHIN_RANGE\<rparr>"

definition open_children :: "execution_record \<Rightarrow> child_order list" where
  "open_children r = filter (\<lambda>c. child_status c \<in> {OPEN, PARTIALLY_FILLED}) (child_orders r)"

primrec twap_ticks ::
  "nat \<Rightarrow> (pyfloat \<Rightarrow> string) \<Rightarrow> execution_record \<Rightarrow> log_row list \<Rightarrow> (execution_record \<times> log_row list) demo" where
  "twap_ticks 0 utc execution events = ret (execution, events)"
| "twap_ticks (Suc ticks) utc execution events =
     (let eid = rec_execution_id execution
      in if execution_status_is_terminal (status execution) then ret (execution, events)
         else
           andthen (ecall (advance_clock 20))
           (andthen (ecall (seed_market default_bid default_ask))
           (bind (run_once sim_adapter eid) (\<lambda>running.
              if open_children running = [] then twap_ticks ticks utc running events
              else
                let child = last (open_children running)
                in bind (demo_log utc running ''twap_order_submitted'' (Some child) []) (\<lambda>e1.
                   bind (ecall (push_fill (client_order_id child) (remaining_quantity child) (child_price child))) (\<lambda>f.
                   bind (demo_log utc running ''simulator_fill'' (Some child)
                     [(''trade_id'', (case fill_trade_id f of None \<Rightarrow> Log_None | Some t \<Rightarrow> Log_Str t))]) (\<lambda>e2.
                   bind (reconcile_execution sim_adapter eid None None) (\<lambda>reconciled.
                   bind (last_child reconciled) (\<lambda>c.
                   bind (demo_log utc reconciled ''filled_reconciled'' (Some c) []) (\<lambda>e3.
                     twap_ticks ticks utc reconciled (events @ [e1, e2, e3])))))))))))"

definition twap_demo :: "(pyfloat \<Rightarrow> string) \<Rightarrow> execution_record \<Rightarrow> outcome demo" where
  "twap_demo utc created =
     bind (demo_log utc created ''execution_created'' None
       [(''schedule'', Log_Str ''absolute-time TWAP target over 100 seconds in 5 slices'')]) (\<lambda>e1.
     bind (twap_ticks 7 utc created [e1]) (\<lambda>(execution, events).
       if \<not> execution_status_is_terminal (status execution)
       then throw (OtherError (''TWAP demo did not complete within 7 ticks; status=''
         @ execution_status_value (status execution) @ '' child_order_count=''
         @ int_digits (int (length (child_orders execution)))))
       else bind (run_once sim_adapter (rec_execution_id execution)) (\<lambda>ended. demo_end utc ended events [])))"

definition demo_artifacts ::
  "(decimal \<Rightarrow> string) \<Rightarrow> (pyval \<Rightarrow> string) \<Rightarrow> outcome \<Rightarrow> (exn + unit) \<times> files" where
  "demo_artifacts fixed dumps result =
     (case result of (r, events, fills, extra) \<Rightarrow> write_artifacts fixed dumps r events fills extra)"

section \<open>A demonstration is a history of the system\<close>

definition along :: "records \<times> simulator \<Rightarrow> records \<times> simulator \<Rightarrow> bool" where
  "along s t \<longleftrightarrow> system_history s t"

interpretation al: evolution along
  by unfold_locales (auto simp: along_def)

lemma along_control:
  assumes "\<And>w. \<exists>c. snd (op w) = snd (act c w)"
  shows "evolves along (ecall op)"
  unfolding evolves_def along_def
proof
  fix s :: "records \<times> simulator"
  obtain rs w where s: "s = (rs, w)" by (cases s)
  obtain c where "snd (op w) = snd (act c w)" using assms by blast
  then have "snd (ecall op s) = (rs, snd (act c w))" by (auto simp: s ecall_def split: prod.split)
  then show "system_history s (snd (ecall op s))"
    using system_step.control [of rs w c] by (simp add: s r_into_rtranclp)
qed

lemma along_client:
  assumes "\<And>hex req. op \<noteq> Create hex req"
  shows "evolves along (perform sim_adapter op)"
proof -
  have "fresh_op rs op" for rs using assms by (cases op) auto
  then show ?thesis by (auto simp: evolves_def along_def intro: r_into_rtranclp system_step.client)
qed

lemma along_operations:
  "evolves along (run_once sim_adapter eid)"
  "evolves along (reconcile_execution sim_adapter eid t0 t1)"
  using along_client [of "Run_Once eid"] along_client [of "Reconcile eid t0 t1"] by simp_all

lemma seed_market_act: "\<exists>c. snd (seed_market bid ask w) = snd (act c w)"
  by (rule exI [of _ "Push_Market demo_symbol bid ask (Some (dtrunc (fmul (sim_clock w) 1000)))"])
    (simp add: seed_market_def bind_def gets_def)

lemma along_controls:
  "evolves along (ecall (seed_market bid ask))"
  "evolves along (ecall (push_fill coid q p))"
  "evolves along (ecall (script_create_timeout x))"
  "evolves along (ecall (script_fill_during_cancel x q))"
  "evolves along (ecall (advance_clock t))"
proof -
  have "snd (push_fill coid q p w) = snd (act (Push_Fill coid q p) w)" for w
    by (simp add: bind_def ret_def split: prod.split sum.split)
  then show "evolves along (ecall (push_fill coid q p))" by (intro along_control) blast
  show "evolves along (ecall (seed_market bid ask))" by (rule along_control) (rule seed_market_act)
  show "evolves along (ecall (script_create_timeout x))" "evolves along (ecall (script_fill_during_cancel x q))"
    "evolves along (ecall (advance_clock t))"
    by (rule along_control, metis act.simps)+
qed

lemmas along_intros = al.ev_bind al.ev_ret al.ev_throw al.ev_gets along_operations along_controls evolves_if
  evolves_case_prod

lemma along_log: "evolves along (demo_log utc r event child extra)"
  unfolding demo_log_def by (intro along_intros)

lemma along_last: "evolves along (last_child r)"
  unfolding last_child_def by (intro along_intros)

lemma along_end: "evolves along (demo_end utc r events extra)"
  unfolding demo_end_def by (intro along_intros along_log)

lemma along_ticks: "evolves along (twap_ticks ticks utc execution events)"
proof (induction ticks arbitrary: execution events)
  case (Suc ticks)
  show ?case
    unfolding twap_ticks.simps Let_def by (intro along_intros along_log along_last Suc)
qed (simp add: al.ev_ret)

lemma along_demos:
  "evolves along (chase_demo utc created)" "evolves along (create_timeout_demo utc created)"
  "evolves along (cancel_race_demo utc created)" "evolves along (twap_demo utc created)"
  unfolding chase_demo_def create_timeout_demo_def cancel_race_demo_def twap_demo_def Let_def
  by (intro along_intros along_log along_last along_end along_ticks)+

lemma started_demo_history:
  assumes "\<And>r. evolves along (demo r)"
  shows "system_history ([], w) (snd (started_demo hex req demo ([], w)))"
proof -
  let ?seed = "ecall (seed_market default_bid default_ask) :: unit demo"
  obtain x w1 where seed: "?seed ([], w) = (x, [], w1)"
    by (cases "seed_market default_bid default_ask w") (simp add: ecall_def)
  have one: "system_history ([], w) ([], w1)"
    using evolvesD [OF along_controls(1) [of default_bid default_ask], of "([], w)"] seed by (simp add: along_def)
  obtain y t where create: "create_execution sim_adapter hex req ([], w1) = (y, t)"
    by (cases "create_execution sim_adapter hex req ([], w1)")
  have two: "system_history ([], w1) t"
    using system_step.client [of "([], w1)" "Create hex req"] create by (simp add: r_into_rtranclp)
  have three: "system_history t (snd (demo r t))" for r
    using evolvesD [OF assms, of t] by (simp add: along_def)
  have "system_history ([], w) (snd (bind (create_execution sim_adapter hex req) demo ([], w1)))"
    using one two three by (cases y) (auto simp: bind_def create intro: rtranclp_trans)
  then show ?thesis
    using seed one by (cases x) (auto simp: started_demo_def bind_def)
qed

text \<open>
  The four demonstrations take the engine and the simulator along a history of the system from an
  empty service, so that every invariant of the system holds where they end.
\<close>

theorem demos_are_histories:
  "system_history (make_simulator_stack position)
     (snd (started_demo hex (demo_request CHASE) (chase_demo utc) (make_simulator_stack position)))
   \<and> system_history (make_simulator_stack position)
     (snd (started_demo hex (demo_request CHASE) (create_timeout_demo utc) (make_simulator_stack position)))
   \<and> system_history (make_simulator_stack position)
     (snd (started_demo hex (demo_request CHASE) (cancel_race_demo utc) (make_simulator_stack position)))
   \<and> system_history (make_simulator_stack position)
     (snd (started_demo hex twap_demo_request (twap_demo utc) (make_simulator_stack position)))"
  unfolding make_simulator_stack_def by (intro conjI started_demo_history along_demos)

end
