(* ===== verification/Testnet_Evidence.thy ===== *)
theory Testnet_Evidence
  imports Engine_Record Schemas Logging
begin

text \<open>
  The evidence of a run on the test network: the manifest \<^verbatim>\<open>scripts/testnet_runner.py\<close> writes,
  and the check \<^verbatim>\<open>scripts/verify_submission.py\<close> makes of it. An event is a dictionary, the
  manifest a value as it is written. Finding and reading the files is left out: the check gets what
  it read of each.
\<close>

section \<open>Accepted orders\<close>

definition order_client_id :: "child_order \<Rightarrow> string option" where
  "order_client_id c = (if client_order_id c = [] then None else Some (client_order_id c))"

definition shown_exchange_order_id :: "child_order \<Rightarrow> string option" where
  "shown_exchange_order_id c =
     (case exchange_order_id c of
        None \<Rightarrow> None
      | Some value \<Rightarrow> let t = strip_text value in if t = [] then None else Some t)"

text \<open>\<^verbatim>\<open>s.rsplit(".", 1)[-1]\<close>\<close>

definition after_last_point :: "string \<Rightarrow> string" where
  "after_last_point s = rev (takeWhile (\<lambda>c. c \<noteq> CHR ''.'') (rev s))"

definition status_token :: "string \<Rightarrow> string" where
  "status_token s =
     map (\<lambda>c. if c = CHR ''-'' \<or> c = CHR '' '' then CHR ''_'' else c) (upper (strip_text s))"

text \<open>The text, value and name of a status of the code are one text.\<close>

definition status_tokens :: "string \<Rightarrow> string set" where
  "status_tokens s =
     (let token = status_token s
      in if token = [] then {} else {token, after_last_point token})"

definition accepted_exchange_order_status_tokens :: "string set" where
  "accepted_exchange_order_status_tokens =
     {''OPEN'', ''NEW'', ''PARTIALLY_FILLED'', ''FILLED'', ''CANCELLED'', ''CANCELED'', ''EXPIRED'',
      ''EXPIRED_IN_MATCH''}"

definition has_accepted_exchange_order_status :: "child_order \<Rightarrow> bool" where
  "has_accepted_exchange_order_status c \<longleftrightarrow>
     (status_tokens (child_status_value (child_status c))
       \<union> (case raw_status c of None \<Rightarrow> {} | Some t \<Rightarrow> status_tokens t))
     \<inter> accepted_exchange_order_status_tokens \<noteq> {}"

definition has_accepted_exchange_order_evidence :: "child_order list \<Rightarrow> bool" where
  "has_accepted_exchange_order_evidence orders \<longleftrightarrow>
     list_ex (\<lambda>c. shown_exchange_order_id c \<noteq> None \<and> has_accepted_exchange_order_status c) orders"

definition unique_strings :: "string option list \<Rightarrow> string list" where
  "unique_strings values =
     foldl (\<lambda>seen v. case v of None \<Rightarrow> seen | Some t \<Rightarrow> if t \<in> set seen then seen else seen @ [t]) [] values"

section \<open>Events\<close>

text \<open>The times of an event, which only the files show, are the values that are written for them.\<close>

type_synonym event = "(string \<times> pyval) list"

definition has_event :: "event list \<Rightarrow> string \<Rightarrow> bool" where
  "has_event events name \<longleftrightarrow> list_ex (\<lambda>event. map_of event ''event'' = Some (PStr name)) events"

definition value_or_none :: "event \<Rightarrow> string \<Rightarrow> pyval" where
  "value_or_none kvs key = (case map_of kvs key of None \<Rightarrow> PNone | Some v \<Rightarrow> v)"

definition mapping_or :: "pyval \<Rightarrow> event \<Rightarrow> event" where
  "mapping_or v kvs = (case v of PDict inner \<Rightarrow> inner | _ \<Rightarrow> kvs)"

definition private_order_event_client_order_id :: "event \<Rightarrow> string option" where
  "private_order_event_client_order_id raw_event =
     (let own = (if truthy (value_or_none raw_event ''c'') then Some (text_of (value_or_none raw_event ''c'')) else None)
      in case value_or_none raw_event ''o'' of
           PDict order_payload \<Rightarrow>
             if truthy (value_or_none order_payload ''c'')
             then Some (text_of (value_or_none order_payload ''c'')) else own
         | _ \<Rightarrow> own)"

definition is_execution_matching_private_order_event :: "event \<Rightarrow> string \<Rightarrow> bool" where
  "is_execution_matching_private_order_event event p \<longleftrightarrow>
     map_of event ''event'' = Some (PStr ''user_stream_event'')
     \<and> (let payload = mapping_or (value_or_none event ''user_event'') event;
            raw_event = mapping_or (value_or_none payload ''raw'') payload;
            event_type = (if truthy (value_or_none payload ''event_type'')
              then value_or_none payload ''event_type'' else value_or_none raw_event ''e'')
        in event_type = PStr ''ORDER_TRADE_UPDATE''
           \<and> (case private_order_event_client_order_id raw_event of None \<Rightarrow> False | Some coid \<Rightarrow> prefix p coid))"

definition has_execution_matching_private_order_event :: "event list \<Rightarrow> string \<Rightarrow> bool" where
  "has_execution_matching_private_order_event events eid \<longleftrightarrow>
     eid \<noteq> [] \<and> list_ex (\<lambda>event.
       is_execution_matching_private_order_event event (make_client_order_prefix eid)) events"

text \<open>A user event as it goes into the artifacts: of an account update only the times.\<close>

definition artifact_user_event :: "pyval \<Rightarrow> pyval" where
  "artifact_user_event payload =
     (case payload of
        PDict kvs \<Rightarrow>
          if map_of kvs ''event_type'' \<noteq> Some (PStr ''ACCOUNT_UPDATE'') then payload
          else PDict ([(''event_type'', PStr ''ACCOUNT_UPDATE''),
               (''raw'', PDict [(''e'', PStr ''ACCOUNT_UPDATE''), (''redacted'', PBool True)])]
            @ concat (map (\<lambda>key. case map_of kvs key of None \<Rightarrow> [] | Some v \<Rightarrow> [(key, v)])
                [''event_time_ms'', ''transaction_time_ms'']))
      | _ \<Rightarrow> payload)"

section \<open>What an event says\<close>

definition exposure_value :: "(decimal \<Rightarrow> string) \<Rightarrow> exposure \<Rightarrow> pyval" where
  "exposure_value txt x = PDict
     [(''confirmed_filled_quantity'', PStr (txt (confirmed_filled_quantity x))),
      (''live_open_quantity'', PStr (txt (live_open_quantity x))),
      (''pending_submit_quantity'', PStr (txt (pending_submit_quantity x))),
      (''pending_cancel_quantity'', PStr (txt (pending_cancel_quantity x))),
      (''unknown_order_quantity'', PStr (txt (unknown_order_quantity x)))]"

definition record_summary :: "(decimal \<Rightarrow> string) \<Rightarrow> execution_record \<Rightarrow> pyval" where
  "record_summary txt r = PDict
     ([(''execution_id'', PStr (rec_execution_id r)),
       (''status'', PStr (execution_status_value (status r))),
       (''final_reason'', text_or_none (final_reason r)),
       (''exposure'', exposure_value txt (exposure_of r)),
       (''child_order_count'', PInt (int (length (child_orders r))))]
      @ (case summary r of
           None \<Rightarrow> []
         | Some s \<Rightarrow> [(''metrics'', PDict (map (\<lambda>(k, v). (k, json_safe txt v)) (summary_metrics s)))]))"

definition symbol_rules_payload :: "(decimal \<Rightarrow> string) \<Rightarrow> string \<Rightarrow> symbol_rules \<Rightarrow> (string \<times> int) list \<Rightarrow> pyval" where
  "symbol_rules_payload txt symb rules limits = PDict
     [(''symbol'', PStr symb),
      (''rules'', PDict
        [(''symbol'', PStr (rules_symbol rules)),
         (''tick_size'', PStr (txt (tick_size rules))),
         (''quantity_step'', PStr (txt (quantity_step rules))),
         (''min_quantity'', PStr (txt (min_quantity rules))),
         (''min_notional'', PStr (txt (min_notional rules))),
         (''status'', PStr (rules_status rules)),
         (''supported_time_in_force'',
           PList (map PStr (sorted_list_of_set (supported_time_in_force rules))))]),
      (''rate_limits'', PDict (map (\<lambda>(k, n). (k, PInt n)) limits))]"

text \<open>The keys of the payload come after those of the event, and replace one of the same name.\<close>

definition runtime_event :: "string \<Rightarrow> string \<Rightarrow> event \<Rightarrow> string \<Rightarrow> event" where
  "runtime_event utc monotonic payload name =
     foldl (\<lambda>event (k, v). AList.update k v event)
       [(''event'', PStr name), (''utc_timestamp'', PStr utc), (''monotonic_time'', PStr monotonic)] payload"

section \<open>The manifest\<close>

definition missing_evidence_warning :: string where
  "missing_evidence_warning = ''missing_accepted_exchange_order_evidence''"

definition text_list :: "string list \<Rightarrow> log_value" where
  "text_list ts = Log_List (map Log_Str ts)"

definition count :: "'a list \<Rightarrow> log_value" where
  "count xs = Log_Int (int (length xs))"

definition rate_limits_payload :: "(string \<times> int) list \<Rightarrow> log_value" where
  "rate_limits_payload limits = Log_Mapping (map (\<lambda>(k, n). (k, Log_Int n)) limits)"

definition manifest_warnings :: "bool \<Rightarrow> string list \<Rightarrow> string list" where
  "manifest_warnings accepted warnings =
     (if \<not> accepted \<and> missing_evidence_warning \<notin> set warnings
      then warnings @ [missing_evidence_warning] else warnings)"

definition evidence_manifest ::
  "execution_request \<Rightarrow> execution_record \<Rightarrow> reconciliation_result \<Rightarrow> event list \<Rightarrow> (string \<times> int) list \<Rightarrow> log_row" where
  "evidence_manifest req r reconciliation events limits =
     (let reconciled = rr_orders reconciliation; orders = child_orders r @ reconciled;
          client_order_ids = unique_strings (map order_client_id orders
            @ map (\<lambda>f. Some (fill_client_order_id f)) (rr_fills reconciliation));
          exchange_order_ids = unique_strings (map shown_exchange_order_id orders);
          reconciled_ids = unique_strings (map shown_exchange_order_id reconciled);
          accepted = has_accepted_exchange_order_evidence orders
      in [(''execution_id'', Log_Str (rec_execution_id r)),
          (''environment'', Log_Str (environment_value (req_environment req))),
          (''symbol'', Log_Str (req_symbol req)),
          (''algorithm'', Log_Str (algorithm_value (req_algorithm req))),
          (''final_status'', Log_Str (execution_status_value (status r))),
          (''reconciled_order_count'', count reconciled),
          (''reconciled_fill_count'', count (rr_fills reconciliation)),
          (''client_order_ids'', text_list client_order_ids),
          (''exchange_order_ids'', text_list exchange_order_ids),
          (''exchange_order_id_count'', count exchange_order_ids),
          (''reconciled_exchange_order_id_count'', count reconciled_ids),
          (''exchange_order_evidence_status'', Log_Str (if reconciled_ids \<noteq> []
            then ''reconciled_exchange_order_ids_observed'' else ''no_reconciled_exchange_order_ids'')),
          (''accepted_exchange_order_evidence'', Log_Bool accepted),
          (''has_private_user_stream_events'', Log_Bool (has_event events ''user_stream_event'')),
          (''has_execution_matching_private_order_event'',
            Log_Bool (has_execution_matching_private_order_event events (rec_execution_id r))),
          (''has_user_stream_applied_events'', Log_Bool (has_event events ''user_stream_applied'')),
          (''warnings'', text_list (manifest_warnings accepted (rr_warnings reconciliation))),
          (''final_reconciliation_counts'', Log_Mapping [(''order_count'', count reconciled),
            (''fill_count'', count (rr_fills reconciliation)),
            (''warning_count'', count (rr_warnings reconciliation))]),
          (''rate_limits'', rate_limits_payload limits)])"

end
