(* ===== verification/Verify_Submission.thy ===== *)
theory Verify_Submission
  imports Testnet_Evidence
begin

text \<open>
  \<^verbatim>\<open>scripts/verify_submission.py\<close>: the gate before a submission. The commands it runs, the
  wheels it finds and the members of a wheel belong to the \<open>host\<close>; so do the report and the manifests,
  each with what reading it gave. Printing is the list of the lines written.
\<close>

section \<open>Evidence manifests\<close>

datatype manifest_read = Unreadable string | Content pyval

datatype bypass = MISSING_FINAL_REPORT | MISSING_TESTNET_EVIDENCE

record verification_issue =
  issue_message :: string
  bypass_kind :: "bypass option"

definition is_bypassable :: "verification_issue \<Rightarrow> bool" where
  "is_bypassable issue \<longleftrightarrow> bypass_kind issue \<noteq> None"

definition normalized_manifest_value :: "pyval \<Rightarrow> string" where
  "normalized_manifest_value v =
     after_last_point (lower (strip_text (if truthy v then text_of v else [])))"

fun names_an_order :: "pyval \<Rightarrow> bool" where
  "names_an_order (PStr t) = (strip_text t \<noteq> [])"
| "names_an_order _ = False"

definition is_accepted_exchange_order_manifest :: "(string \<times> pyval) list \<Rightarrow> bool" where
  "is_accepted_exchange_order_manifest payload =
     (if normalized_manifest_value (get_value payload ''environment'') \<noteq> ''testnet'' then False
      else if get_value payload ''accepted_exchange_order_evidence'' \<noteq> PBool True then False
      else case get_value payload ''exchange_order_ids'' of
             PList ids \<Rightarrow> list_ex names_an_order ids
           | _ \<Rightarrow> False)"

definition required_evidence_algorithms :: "string list" where
  "required_evidence_algorithms = [''CHASE'', ''TWAP'']"

definition no_manifests :: verification_issue where
  "no_manifests = \<lparr>issue_message = ''missing accepted Testnet evidence: no reports/evidence/testnet/**/''
       @ ''evidence_manifest.json files found'', bypass_kind = Some MISSING_TESTNET_EVIDENCE\<rparr>"

definition missing_algorithm :: "string \<Rightarrow> verification_issue" where
  "missing_algorithm a =
     \<lparr>issue_message = ''missing accepted Testnet evidence: '' @ a @ '' manifest must have ''
        @ ''environment=testnet, accepted_exchange_order_evidence=true, and a non-empty ''
        @ ''exchange_order_ids entry'',
      bypass_kind = Some MISSING_TESTNET_EVIDENCE\<rparr>"

definition invalid_manifest :: "string \<Rightarrow> string \<Rightarrow> verification_issue" where
  "invalid_manifest path why =
     \<lparr>issue_message = ''invalid Testnet evidence manifest: '' @ path @ '' ('' @ why @ '')'',
      bypass_kind = None\<rparr>"

text \<open>
  The loop over the manifests, with the paths of the accepted ones by algorithm and the issues of the
  invalid ones.
\<close>

fun check_manifest ::
  "string \<times> manifest_read \<Rightarrow> (string \<times> string list) list \<times> verification_issue list
   \<Rightarrow> (string \<times> string list) list \<times> verification_issue list" where
  "check_manifest (path, Unreadable why) (accepted, invalid) =
     (accepted, invalid @ [invalid_manifest path why])"
| "check_manifest (path, Content (PDict payload)) (accepted, invalid) =
     (let a = upper (normalized_manifest_value (get_value payload ''algorithm''))
      in case map_of accepted a of
           None \<Rightarrow> (accepted, invalid)
         | Some paths \<Rightarrow>
             if is_accepted_exchange_order_manifest payload
             then (AList.update a (paths @ [path]) accepted, invalid)
             else (accepted, invalid))"
| "check_manifest (path, Content _) (accepted, invalid) =
     (accepted, invalid @ [invalid_manifest path ''manifest is not an object''])"

definition testnet_evidence_failures :: "(string \<times> manifest_read) list \<Rightarrow> verification_issue list" where
  "testnet_evidence_failures manifests =
     (if manifests = [] then [no_manifests]
      else let (accepted, invalid) =
                 fold check_manifest manifests (map (\<lambda>a. (a, [])) required_evidence_algorithms, [])
           in map (\<lambda>(a, _). missing_algorithm a) (filter (\<lambda>(_, paths). paths = []) accepted) @ invalid)"

definition final_report_failure :: "bool \<Rightarrow> verification_issue option" where
  "final_report_failure report_is_file =
     (if report_is_file then None
      else Some \<lparr>issue_message = ''missing final report: reports/latex/report.pdf is required'',
                 bypass_kind = Some MISSING_FINAL_REPORT\<rparr>)"

section \<open>Commands\<close>

record host =
  exit_status :: "string list \<Rightarrow> int"
  dist_directory :: string
  built_wheels :: "string list"
  wheel_members :: "string \<Rightarrow> string list"
  interpreter :: string
  repository_root :: string
  report_is_file :: bool
  manifests :: "(string \<times> manifest_read) list"

record verify_args =
  allow_missing_final_report :: bool
  allow_missing_testnet_evidence :: bool
  include_live_integration :: bool

datatype line = Out string | Err string

datatype gate_exn = CalledProcessError int "string list" | VerificationFailure string

type_synonym 'a gate = "(gate_exn, line list, 'a) eff"

definition emit :: "line \<Rightarrow> 'a gate \<Rightarrow> 'a gate" where
  "emit l m = andthen (modify (\<lambda>ls. ls @ [l])) m"

text \<open>\<^verbatim>\<open>shlex.join\<close>\<close>

definition shell_safe :: "char \<Rightarrow> bool" where
  "shell_safe c \<longleftrightarrow>
     (CHR ''A'' \<le> c \<and> c \<le> CHR ''Z'') \<or> (CHR ''a'' \<le> c \<and> c \<le> CHR ''z'') \<or> digit c
     \<or> c \<in> set ''_@%+=:,./-''"

definition shell_quote :: "string \<Rightarrow> string" where
  "shell_quote s =
     (if s \<noteq> [] \<and> list_all shell_safe s then s
      else CHR 0x27 # concat (map (\<lambda>c. if c = CHR 0x27
             then [CHR 0x27, CHR 0x22, CHR 0x27, CHR 0x22, CHR 0x27] else [c]) s) @ [CHR 0x27])"

fun shell_join :: "string list \<Rightarrow> string" where
  "shell_join [] = []"
| "shell_join [s] = shell_quote s"
| "shell_join (s # t # us) = shell_quote s @ '' '' @ shell_join (t # us)"

definition check_call :: "host \<Rightarrow> string list \<Rightarrow> unit gate" where
  "check_call h cmd =
     (let code = exit_status h cmd
      in if code \<noteq> 0 then throw (CalledProcessError code cmd) else ret ())"

definition run_command :: "host \<Rightarrow> string list \<Rightarrow> unit gate" where
  "run_command h cmd = emit (Out (''+ '' @ shell_join cmd)) (check_call h cmd)"

definition non_live_test_command :: "string list" where
  "non_live_test_command = [''uv'', ''run'', ''pytest'', ''-q'', ''tests/unit'', ''tests/simulation'']"

definition live_integration_test_command :: "string list" where
  "live_integration_test_command = [''uv'', ''run'', ''pytest'', ''-q'', ''tests/integration'']"

definition lint_command :: "string list" where
  "lint_command = [''uv'', ''run'', ''ruff'', ''check'', ''.'']"

definition build_command :: "host \<Rightarrow> string list" where
  "build_command h =
     [''uv'', ''run'', ''python'', ''-m'', ''build'', ''--no-isolation'', ''--wheel'', ''--outdir'', dist_directory h]"

definition build_wheel :: "host \<Rightarrow> string gate" where
  "build_wheel h =
     andthen (run_command h (build_command h))
       (let wheels = sort (built_wheels h)
        in case wheels of
             [wheel] \<Rightarrow> ret wheel
           | _ \<Rightarrow> throw (VerificationFailure (''expected one built wheel in '' @ dist_directory h
               @ '', found '' @ int_digits (int (length wheels)))))"

text \<open>The script that the new interpreter runs, with its indentation removed.\<close>

definition import_check :: string where
  "import_check = concat (map (\<lambda>l. CHR 0x0A # l)
     [''import importlib'',
      ''import sys'',
      ''from pathlib import Path'',
      [],
      ''wheel_path = Path(sys.argv[1]).resolve()'',
      ''repo_root = Path(sys.argv[2]).resolve()'',
      ''repo_src = repo_root / \"src\"'',
      [],
      ''sys.path[:] = ['',
      ''    str(wheel_path),'',
      ''    *['',
      ''        entry'',
      ''        for entry in sys.path'',
      ''        if entry'',
      ''        and Path(entry).resolve() not in {repo_root, repo_src}'',
      ''        and entry != str(wheel_path)'',
      ''    ],'',
      '']'',
      [],
      ''for module_name in (\"config\", \"api.runtime\"):'',
      ''    module = importlib.import_module(module_name)'',
      ''    module_file = str(getattr(module, \"__file__\", \"\"))'',
      ''    if not module_file.startswith(str(wheel_path)):'',
      ''        raise SystemExit(f\"{module_name} imported from {module_file}\")'',
      []])"

definition import_command :: "host \<Rightarrow> string \<Rightarrow> string list" where
  "import_command h wheel = [interpreter h, ''-c'', import_check, wheel, repository_root h]"

definition required_members :: "string list" where
  "required_members = [''api/runtime.py'', ''config.py'']"

definition verify_wheel :: "host \<Rightarrow> string \<Rightarrow> unit gate" where
  "verify_wheel h wheel =
     (let missing = filter (\<lambda>m. m \<notin> set (wheel_members h wheel)) required_members
      in if missing \<noteq> []
         then throw (VerificationFailure (''wheel is missing required importable files: '' @ commas missing))
         else emit (Out (''+ '' @ shell_join [interpreter h, ''-c'', ''<wheel import check>'', wheel]))
           (check_call h (import_command h wheel)))"

section \<open>The gate\<close>

fun issue_is_bypassed :: "verification_issue \<Rightarrow> verify_args \<Rightarrow> bool" where
  "issue_is_bypassed issue args =
     (if bypass_kind issue = Some MISSING_FINAL_REPORT then allow_missing_final_report args
      else if bypass_kind issue = Some MISSING_TESTNET_EVIDENCE then allow_missing_testnet_evidence args
      else False)"

definition build_and_test :: "verify_args \<Rightarrow> host \<Rightarrow> unit gate" where
  "build_and_test args h =
     andthen (run_command h non_live_test_command)
     (andthen (guarded (include_live_integration args) (run_command h live_integration_test_command))
     (andthen (run_command h lint_command)
     (bind (build_wheel h) (verify_wheel h))))"

definition warning_line :: "string \<Rightarrow> line" where
  "warning_line t = Err (''WARNING: '' @ t)"

definition error_line :: "string \<Rightarrow> line" where
  "error_line t = Err (''ERROR: '' @ t)"

definition found_issues :: "host \<Rightarrow> verification_issue list" where
  "found_issues h =
     (case final_report_failure (report_is_file h) of None \<Rightarrow> [] | Some issue \<Rightarrow> [issue])
     @ testnet_evidence_failures (manifests h)"

text \<open>The exit status and the lines written.\<close>

definition gate_issues :: "verify_args \<Rightarrow> host \<Rightarrow> line list \<Rightarrow> int \<times> line list" where
  "gate_issues args h ls =
     (let issues = found_issues h;
          bypassed = filter (\<lambda>i. issue_is_bypassed i args) issues;
          strict = filter (\<lambda>i. \<not> issue_is_bypassed i args) issues;
          warned = ls @ map (\<lambda>i. warning_line (issue_message i)) bypassed
      in if strict \<noteq> [] then (1, warned @ map (\<lambda>i. error_line (issue_message i)) strict)
         else (0, warned @ [Out ''submission_verification=ok'']))"

definition verify_main :: "verify_args \<Rightarrow> host \<Rightarrow> int \<times> line list" where
  "verify_main args h =
     (case build_and_test args h [] of
        (Inl (CalledProcessError code cmd), ls) \<Rightarrow>
          (code, ls @ [error_line (''command failed with exit code '' @ int_digits code @ '': '' @ shell_join cmd)])
      | (Inl (VerificationFailure t), ls) \<Rightarrow> (1, ls @ [error_line t])
      | (Inr _, ls) \<Rightarrow> gate_issues args h ls)"

section \<open>What passes the gate\<close>

definition is_object :: "manifest_read \<Rightarrow> bool" where
  "is_object m \<longleftrightarrow> (case m of Content (PDict _) \<Rightarrow> True | _ \<Rightarrow> False)"

definition supports :: "string \<Rightarrow> manifest_read \<Rightarrow> bool" where
  "supports a m \<longleftrightarrow> (case m of
     Content (PDict payload) \<Rightarrow>
       upper (normalized_manifest_value (get_value payload ''algorithm'')) = a
       \<and> is_accepted_exchange_order_manifest payload
   | _ \<Rightarrow> False)"

lemma check_manifest_effect:
  assumes "check_manifest (path, m) (accepted, invalid) = (accepted', invalid')"
  shows "map fst accepted' = map fst accepted"
    and "map_of accepted' a = map_option (\<lambda>ps. ps @ (if supports a m then [path] else [])) (map_of accepted a)"
    and "\<exists>more_issues. invalid' = invalid @ more_issues \<and> (more_issues = [] \<longleftrightarrow> is_object m)
      \<and> (\<forall>i \<in> set more_issues. bypass_kind i = None)"
proof -
  have keys: "map fst (AList.update k v xs) = map fst xs" if "map_of xs k = Some u" for k v u and xs :: "(string \<times> string list) list"
    using that by (induction xs) auto
  consider (unreadable) why where "m = Unreadable why" | (object) payload where "m = Content (PDict payload)"
    | (other) v where "m = Content v" "\<not> is_mapping v"
  proof (cases m)
    case (Content v)
    with that show thesis by (cases v) auto
  qed (use that in blast)
  then have "map fst accepted' = map fst accepted
    \<and> map_of accepted' a = map_option (\<lambda>ps. ps @ (if supports a m then [path] else [])) (map_of accepted a)
    \<and> (\<exists>more_issues. invalid' = invalid @ more_issues \<and> (more_issues = [] \<longleftrightarrow> is_object m)
      \<and> (\<forall>i \<in> set more_issues. bypass_kind i = None))"
  proof cases
    case unreadable
    then show ?thesis
      using assms by (auto simp: supports_def is_object_def invalid_manifest_def option.map_ident)
  next
    case object
    then show ?thesis
      using assms by (auto simp: supports_def is_object_def update_conv' keys option.map_ident Let_def
          split: option.splits if_splits)
  next
    case other
    then show ?thesis
      using assms by (cases v) (auto simp: supports_def is_object_def invalid_manifest_def option.map_ident)
  qed
  then show "map fst accepted' = map fst accepted"
    "map_of accepted' a = map_option (\<lambda>ps. ps @ (if supports a m then [path] else [])) (map_of accepted a)"
    "\<exists>more_issues. invalid' = invalid @ more_issues \<and> (more_issues = [] \<longleftrightarrow> is_object m)
      \<and> (\<forall>i \<in> set more_issues. bypass_kind i = None)"
    by blast+
qed

lemma check_manifests_effect:
  assumes "fold check_manifest ms (accepted, invalid) = (accepted', invalid')"
  shows "map fst accepted' = map fst accepted
    \<and> map_of accepted' a = map_option (\<lambda>ps. ps @ map fst (filter (\<lambda>(_, m). supports a m) ms)) (map_of accepted a)
    \<and> (\<exists>more_issues. invalid' = invalid @ more_issues \<and> (more_issues = [] \<longleftrightarrow> list_all (is_object \<circ> snd) ms)
      \<and> (\<forall>i \<in> set more_issues. bypass_kind i = None))"
  using assms
proof (induction ms arbitrary: accepted invalid)
  case Nil
  then show ?case by (simp add: option.map_ident)
next
  case (Cons x ms)
  obtain path m where x: "x = (path, m)" by (cases x)
  obtain accepted1 invalid1 where step: "check_manifest (path, m) (accepted, invalid) = (accepted1, invalid1)"
    by (cases "check_manifest (path, m) (accepted, invalid)")
  note first = check_manifest_effect [OF step]
  from first(3) obtain i1 where i1: "invalid1 = invalid @ i1" "i1 = [] \<longleftrightarrow> is_object m"
    "\<forall>i \<in> set i1. bypass_kind i = None" by blast
  have tail: "fold check_manifest ms (accepted1, invalid1) = (accepted', invalid')"
    using Cons.prems step x by simp
  note rest = Cons.IH [OF tail]
  from rest obtain i2 where i2: "invalid' = invalid1 @ i2" "i2 = [] \<longleftrightarrow> list_all (is_object \<circ> snd) ms"
    "\<forall>i \<in> set i2. bypass_kind i = None" by blast
  have "invalid' = invalid @ (i1 @ i2)" "i1 @ i2 = [] \<longleftrightarrow> list_all (is_object \<circ> snd) (x # ms)"
    "\<forall>i \<in> set (i1 @ i2). bypass_kind i = None"
    using i1 i2 x by auto
  moreover have "map fst accepted' = map fst accepted"
    using rest first(1) by simp
  moreover have "map_of accepted' a
      = map_option (\<lambda>ps. ps @ map fst (filter (\<lambda>(_, m). supports a m) (x # ms))) (map_of accepted a)"
    using rest first(2) [of a] x by (simp add: option.map_comp comp_def)
  ultimately show ?case by blast
qed

definition evidence_for :: "(string \<times> manifest_read) list \<Rightarrow> string \<Rightarrow> bool" where
  "evidence_for ms a \<longleftrightarrow> list_ex (\<lambda>(_, m). supports a m) ms"

lemma testnet_failures:
  "\<exists>bypassable invalid. testnet_evidence_failures ms = bypassable @ invalid
    \<and> (bypassable = [] \<longleftrightarrow> list_all (evidence_for ms) required_evidence_algorithms)
    \<and> (\<forall>i \<in> set bypassable. bypass_kind i = Some MISSING_TESTNET_EVIDENCE)
    \<and> (invalid = [] \<longleftrightarrow> list_all (is_object \<circ> snd) ms) \<and> (\<forall>i \<in> set invalid. bypass_kind i = None)"
proof (cases "ms = []")
  case True
  then show ?thesis
    by (intro exI [of _ "[no_manifests]"] exI [of _ "[]"])
      (simp add: testnet_evidence_failures_def no_manifests_def evidence_for_def required_evidence_algorithms_def)
next
  case False
  let ?start = "map (\<lambda>a. (a, [] :: string list)) required_evidence_algorithms"
  obtain accepted invalid where run: "fold check_manifest ms (?start, []) = (accepted, invalid)"
    by (cases "fold check_manifest ms (?start, [])")
  note effect = check_manifests_effect [OF run]
  have "map fst accepted = [''CHASE'', ''TWAP'']"
    using effect by (simp add: required_evidence_algorithms_def)
  then obtain chase twap where accepted: "accepted = [(''CHASE'', chase), (''TWAP'', twap)]"
    by (auto simp: map_eq_Cons_conv)
  have "chase = map fst (filter (\<lambda>(_, m). supports ''CHASE'' m) ms)"
    using effect [of "''CHASE''"] accepted by (simp add: required_evidence_algorithms_def)
  moreover have "twap = map fst (filter (\<lambda>(_, m). supports ''TWAP'' m) ms)"
    using effect [of "''TWAP''"] accepted by (simp add: required_evidence_algorithms_def)
  ultimately have found: "chase = [] \<longleftrightarrow> \<not> evidence_for ms ''CHASE''" "twap = [] \<longleftrightarrow> \<not> evidence_for ms ''TWAP''"
    by (auto simp: evidence_for_def filter_empty_conv list_ex_iff)
  let ?bypassable = "map (\<lambda>(a, _). missing_algorithm a) (filter (\<lambda>(_, paths). paths = []) accepted)"
  have "testnet_evidence_failures ms = ?bypassable @ invalid"
    using False run by (simp add: testnet_evidence_failures_def)
  moreover have "?bypassable = [] \<longleftrightarrow> list_all (evidence_for ms) required_evidence_algorithms"
    using found accepted by (simp add: required_evidence_algorithms_def)
  moreover have "\<forall>i \<in> set ?bypassable. bypass_kind i = Some MISSING_TESTNET_EVIDENCE"
    by (auto simp: missing_algorithm_def)
  ultimately show ?thesis using effect by (metis append_Nil)
qed

definition evidence_accepted :: "bool \<Rightarrow> (string \<times> manifest_read) list \<Rightarrow> bool" where
  "evidence_accepted excused ms \<longleftrightarrow>
     list_all (is_object \<circ> snd) ms \<and> (excused \<or> list_all (evidence_for ms) required_evidence_algorithms)"

definition commands_pass :: "verify_args \<Rightarrow> host \<Rightarrow> bool" where
  "commands_pass args h \<longleftrightarrow>
     exit_status h non_live_test_command = 0
     \<and> (include_live_integration args \<longrightarrow> exit_status h live_integration_test_command = 0)
     \<and> exit_status h lint_command = 0 \<and> exit_status h (build_command h) = 0
     \<and> (\<exists>wheel. built_wheels h = [wheel] \<and> set required_members \<subseteq> set (wheel_members h wheel)
          \<and> exit_status h (import_command h wheel) = 0)"

lemma wp_emit: "wp (emit l m) Q E ls = wp m Q E (ls @ [l])"
  by (simp add: emit_def wp_simp)

lemma wp_check_call: "wp (check_call h cmd) Q E ls
  = (if exit_status h cmd = 0 then Q () ls else E (CalledProcessError (exit_status h cmd) cmd) ls)"
  by (simp add: check_call_def wp_simp Let_def)

lemma wp_run_command: "wp (run_command h cmd) Q E ls
  = (if exit_status h cmd = 0 then Q () (ls @ [Out (''+ '' @ shell_join cmd)])
     else E (CalledProcessError (exit_status h cmd) cmd) (ls @ [Out (''+ '' @ shell_join cmd)]))"
  by (simp add: run_command_def wp_emit wp_check_call)

lemma one_wheel: "sort (ws :: string list) = [w] \<longleftrightarrow> ws = [w]"
proof
  assume sorted: "sort ws = [w]"
  then have "length ws = 1" by (metis length_sort length_Cons list.size(3) One_nat_def)
  then obtain v where "ws = [v]" by (auto simp: length_Suc_conv)
  with sorted show "ws = [w]" by simp
qed simp

lemma wp_build_wheel:
  "wp (build_wheel h) Q E ls =
    (let ls' = ls @ [Out (''+ '' @ shell_join (build_command h))]
     in if exit_status h (build_command h) \<noteq> 0
        then E (CalledProcessError (exit_status h (build_command h)) (build_command h)) ls'
        else case sort (built_wheels h) of
               [wheel] \<Rightarrow> Q wheel ls'
             | _ \<Rightarrow> E (VerificationFailure (''expected one built wheel in '' @ dist_directory h
                 @ '', found '' @ int_digits (int (length (built_wheels h))))) ls')"
proof -
  obtain ws where ws: "sort (built_wheels h) = ws" by blast
  then have "length ws = length (built_wheels h)" by auto
  then show ?thesis
    unfolding build_wheel_def ws
    by (cases ws rule: remdups_adj.cases) (simp_all add: wp_bind wp_run_command wp_ret wp_throw Let_def)
qed

lemma wp_verify_wheel:
  "(set required_members \<subseteq> set (wheel_members h wheel) \<Longrightarrow> exit_status h (import_command h wheel) = 0
     \<Longrightarrow> \<forall>ls'. Q () ls')
   \<Longrightarrow> (\<not> (set required_members \<subseteq> set (wheel_members h wheel) \<and> exit_status h (import_command h wheel) = 0)
     \<Longrightarrow> \<forall>e ls'. (\<forall>code cmd. e = CalledProcessError code cmd \<longrightarrow> code \<noteq> 0) \<longrightarrow> E e ls')
   \<Longrightarrow> wp (verify_wheel h wheel) Q E ls"
  by (auto simp: verify_wheel_def wp_emit wp_check_call wp_throw filter_empty_conv subset_iff)

lemma build_and_test_result:
  "wp (build_and_test args h) (\<lambda>_ _. commands_pass args h)
     (\<lambda>e _. \<not> commands_pass args h \<and> (\<forall>code cmd. e = CalledProcessError code cmd \<longrightarrow> code \<noteq> 0)) ls"
proof (cases "\<exists>wheel. sort (built_wheels h) = [wheel]")
  case True
  then obtain wheel where wheel: "sort (built_wheels h) = [wheel]" "built_wheels h = [wheel]"
    by (auto simp: one_wheel)
  show ?thesis
    unfolding build_and_test_def
    by (auto simp: wp_simp wp_run_command wp_build_wheel Let_def wheel commands_pass_def intro!: wp_verify_wheel)
next
  case False
  then have "\<not> commands_pass args h" by (auto simp: commands_pass_def)
  then show ?thesis
    unfolding build_and_test_def
    using False by (auto simp: wp_simp wp_run_command wp_build_wheel Let_def split: list.split)
qed

lemma strict_issues:
  "filter (\<lambda>i. \<not> issue_is_bypassed i args) (found_issues h) = []
   \<longleftrightarrow> (report_is_file h \<or> allow_missing_final_report args)
     \<and> evidence_accepted (allow_missing_testnet_evidence args) (manifests h)"
proof -
  obtain bypassable invalid where split: "testnet_evidence_failures (manifests h) = bypassable @ invalid"
    and facts: "bypassable = [] \<longleftrightarrow> list_all (evidence_for (manifests h)) required_evidence_algorithms"
      "\<forall>i \<in> set bypassable. bypass_kind i = Some MISSING_TESTNET_EVIDENCE"
      "invalid = [] \<longleftrightarrow> list_all (is_object \<circ> snd) (manifests h)" "\<forall>i \<in> set invalid. bypass_kind i = None"
    using testnet_failures [of "manifests h"] by blast
  have "filter (\<lambda>i. \<not> issue_is_bypassed i args) bypassable = []
      \<longleftrightarrow> bypassable = [] \<or> allow_missing_testnet_evidence args"
    using facts(2) by (auto simp: filter_empty_conv intro: last_in_set)
  moreover have "filter (\<lambda>i. \<not> issue_is_bypassed i args) invalid = [] \<longleftrightarrow> invalid = []"
    using facts(4) by (auto simp: filter_empty_conv intro: last_in_set)
  moreover have "filter (\<lambda>i. \<not> issue_is_bypassed i args)
      (case final_report_failure (report_is_file h) of None \<Rightarrow> [] | Some issue \<Rightarrow> [issue]) = []
      \<longleftrightarrow> report_is_file h \<or> allow_missing_final_report args"
    by (simp add: final_report_failure_def)
  ultimately show ?thesis
    unfolding found_issues_def split filter_append append_is_Nil_conv evidence_accepted_def
    using facts(1,3) by blast
qed

text \<open>
  C38. The gate exits with 0 exactly when every command succeeds, one wheel was built that holds the
  required files and can be imported, the report is there or excused, and the evidence is accepted:
  each manifest is a readable object, and Chase and TWAP each have one from the test network that
  names an accepted exchange order, unless this is excused. An unreadable manifest is never excused.
\<close>

theorem submission_gate_exact:
  "fst (verify_main args h) = 0
   \<longleftrightarrow> commands_pass args h \<and> (report_is_file h \<or> allow_missing_final_report args)
     \<and> evidence_accepted (allow_missing_testnet_evidence args) (manifests h)"
proof -
  obtain result ls where run: "build_and_test args h [] = (result, ls)"
    by (cases "build_and_test args h []")
  show ?thesis
  proof (cases result)
    case (Inl e)
    then have "\<not> commands_pass args h" "\<forall>code cmd. e = CalledProcessError code cmd \<longrightarrow> code \<noteq> 0"
      using wp_error [OF build_and_test_result run [unfolded Inl]] by blast+
    then show ?thesis using run Inl by (cases e) (simp_all add: verify_main_def)
  next
    case (Inr u)
    then have "commands_pass args h"
      using wp_result [OF build_and_test_result run [unfolded Inr]] by blast
    then show ?thesis
      using run Inr strict_issues [of args h]
      by (simp add: verify_main_def gate_issues_def Let_def del: issue_is_bypassed.simps)
  qed
qed

section \<open>The manifest of a run\<close>

lemma dropWhile_rev_again:
  "dropWhile P (rev (dropWhile P (rev (dropWhile P s)))) = rev (dropWhile P (rev (dropWhile P s)))"
proof (cases "dropWhile P s")
  case (Cons c cs)
  then have "\<not> P c" by (metis hd_dropWhile list.sel(1) list.distinct(1))
  then show ?thesis unfolding Cons by (simp add: dropWhile_append3)
next
  case Nil
  show ?thesis unfolding Nil by simp
qed

lemma strip_text_again: "strip_text (strip_text s) = strip_text s"
  unfolding strip_text_def
  by (simp add: dropWhile_rev_again)

lemma in_unique_strings: "t \<in> set (unique_strings vs) \<longleftrightarrow> Some t \<in> set vs"
proof -
  have "t \<in> set (foldl (\<lambda>seen v. case v of None \<Rightarrow> seen | Some t \<Rightarrow> if t \<in> set seen then seen else seen @ [t]) seen vs)
      \<longleftrightarrow> t \<in> set seen \<or> Some t \<in> set vs" for seen
    by (induction vs arbitrary: seen) (auto split: option.split)
  then show ?thesis by (simp add: unique_strings_def)
qed

lemma sanitized_lookup:
  "\<not> is_sensitive_key k \<Longrightarrow>
   map_of (sanitize_log_payload fixed kvs) k = map_option (sanitize_value fixed) (map_of kvs k)"
  by (induction kvs) (auto simp: sanitize_log_payload_def)

lemma manifest_keys:
  "\<not> is_sensitive_key ''environment''" "\<not> is_sensitive_key ''algorithm''"
  "\<not> is_sensitive_key ''accepted_exchange_order_evidence''" "\<not> is_sensitive_key ''exchange_order_ids''"
  by code_simp+

lemma shown_id_named:
  assumes "has_accepted_exchange_order_evidence orders"
  shows "list_ex names_an_order (map PStr (unique_strings (map shown_exchange_order_id orders)))"
proof -
  obtain c t where c: "c \<in> set orders" "shown_exchange_order_id c = Some t"
    using assms by (auto simp: has_accepted_exchange_order_evidence_def list_ex_iff)
  then have "strip_text t \<noteq> []"
    by (auto simp: shown_exchange_order_id_def Let_def strip_text_again split: option.splits if_splits)
  moreover have "t \<in> set (unique_strings (map shown_exchange_order_id orders))"
    using c by (force simp: in_unique_strings)
  ultimately show ?thesis by (auto simp: list_ex_iff)
qed

lemma environment_named: "normalized_manifest_value (PStr (environment_value env)) = ''testnet'' \<longleftrightarrow> env = TESTNET"
  by (induction env) code_simp+

lemma algorithm_named: "upper (normalized_manifest_value (PStr (algorithm_value a))) = algorithm_value a"
  by (induction a) code_simp+

lemma manifest_values:
  assumes "manifest = sanitize_log_payload fixed (evidence_manifest req r rc events limits)"
    and "orders = child_orders r @ rr_orders rc"
  shows "get_value manifest ''environment'' = PStr (environment_value (req_environment req))"
    "get_value manifest ''algorithm'' = PStr (algorithm_value (req_algorithm req))"
    "get_value manifest ''accepted_exchange_order_evidence''
      = PBool (has_accepted_exchange_order_evidence orders)"
    "get_value manifest ''exchange_order_ids''
      = PList (map PStr (unique_strings (map shown_exchange_order_id orders)))"
  unfolding assms get_or_def
  by (simp_all add: sanitized_lookup manifest_keys evidence_manifest_def Let_def text_list_def comp_def)

text \<open>
  C30. The manifest a run on the exchange writes supports an algorithm at the gate exactly when that
  is the algorithm of the run, the run was on the test network, and some order of the execution, in
  its record or found in the final reconciliation, has an order id of the exchange and a status that
  the exchange only gives an order it accepted.
\<close>

theorem manifest_verified:
  "(case write_json fixed (Log_Mapping (evidence_manifest req r rc events limits)) of
      Json_File written \<Rightarrow> supports a (Content written) | _ \<Rightarrow> False)
   \<longleftrightarrow> a = algorithm_value (req_algorithm req) \<and> req_environment req = TESTNET
     \<and> has_accepted_exchange_order_evidence (child_orders r @ rr_orders rc)"
proof -
  note vals = manifest_values [OF refl refl, of fixed req r rc events limits]
  have "is_accepted_exchange_order_manifest (sanitize_log_payload fixed (evidence_manifest req r rc events limits))
      \<longleftrightarrow> req_environment req = TESTNET \<and> has_accepted_exchange_order_evidence (child_orders r @ rr_orders rc)"
    using shown_id_named [of "child_orders r @ rr_orders rc"]
    by (simp add: is_accepted_exchange_order_manifest_def vals environment_named)
  then show ?thesis
    by (auto simp: write_json_def supports_def vals algorithm_named)
qed

end
