(* ===== verification/Testnet_Runner.thy ===== *)
theory Testnet_Runner
  imports Testnet_Evidence Service Binance_Orders
begin

text \<open>
  \<^verbatim>\<open>scripts/testnet_runner.py\<close>: one execution on the test network from the command line. What
  surrounds the runner (the exchange, the clocks, sleeping, the streams and the directory of artifacts)
  is a record of operations on a world \<open>'w\<close>. The two stream tasks are states of the runner: a task ends
  when the world says so, and the user events that have arrived are handled while the runner sleeps.
  \<^verbatim>\<open>argparse\<close> itself and the texts printed at the end are left out.
\<close>

section \<open>State\<close>

datatype stop =
    System_Exit string
  | Hard_Stop string
  | Raised exn

datatype task_end = Was_Cancelled | Returned "string option" | Failed stop

datatype task = No_Task | Running | Ended task_end

record runner =
  run_events :: "event list"
  active_execution_id :: "string option"
  stream_started :: "int option"
  reconnect_attempts :: "int option"
  market_task :: task
  user_task :: task

record 'w surroundings =
  stage :: "'w adapter"
  wall_clock_ms :: "'w \<Rightarrow> int \<times> 'w"
  utc_now :: "'w \<Rightarrow> string \<times> 'w"
  loop_time :: "'w \<Rightarrow> pyfloat \<times> 'w"
  sleep :: "pyfloat \<Rightarrow> 'w \<Rightarrow> 'w"
  synchronize_server_time :: "'w \<Rightarrow> (exn + int) \<times> 'w"
  open_market_stream :: "pyfloat \<Rightarrow> 'w \<Rightarrow> (exn + pyval) \<times> 'w"
  open_user_stream :: "pyfloat \<Rightarrow> 'w \<Rightarrow> (stop + unit) \<times> 'w"
  user_stream_news :: "'w \<Rightarrow> (pyval list \<times> task_end option) \<times> 'w"
  market_stream_news :: "'w \<Rightarrow> task_end option \<times> 'w"
  new_execution_hex :: "'w \<Rightarrow> string \<times> 'w"
  rate_limits :: "'w \<Rightarrow> (string \<times> int) list"
  set_market_stream_symbol :: "string \<Rightarrow> 'w \<Rightarrow> 'w"
  decimal_as_text :: "decimal \<Rightarrow> string"
  float_as_text :: "pyfloat \<Rightarrow> string"

record run_args =
  arg_symbol :: string
  confirm_send_orders :: bool
  arg_target_position :: "string option"
  arg_target_price_lower :: "string option"
  arg_target_price_upper :: "string option"
  duration_seconds :: int
  arg_number_of_slices :: int
  max_runtime_seconds :: pyfloat
  poll_interval_seconds :: pyfloat
  market_timeout_seconds :: pyfloat

type_synonym ('w, 'a) run = "(stop, runner \<times> records \<times> 'w, 'a) eff"

definition getrun :: "(runner \<Rightarrow> 'a) \<Rightarrow> ('w, 'a) run" where
  "getrun f = gets (\<lambda>s. f (fst s))"

definition modrun :: "(runner \<Rightarrow> runner) \<Rightarrow> ('w, unit) run" where
  "modrun f = modify (\<lambda>s. (f (fst s), snd s))"

definition raised :: "exn + 'a \<Rightarrow> stop + 'a" where
  "raised x = (case x of Inl e \<Rightarrow> Inl (Raised e) | Inr v \<Rightarrow> Inr v)"

text \<open>An operation of the service, and one of the world.\<close>

definition served :: "('w, 'a) engine \<Rightarrow> ('w, 'a) run" where
  "served m = (\<lambda>(r, s). let (x, t) = m s in (raised x, r, t))"

definition asked :: "('w \<Rightarrow> (stop + 'a) \<times> 'w) \<Rightarrow> ('w, 'a) run" where
  "asked op = (\<lambda>(r, rs, w). let (x, w') = op w in (x, r, rs, w'))"

definition sensed :: "('w \<Rightarrow> 'a \<times> 'w) \<Rightarrow> ('w, 'a) run" where
  "sensed op = asked (\<lambda>w. let (x, w') = op w in (Inr x, w'))"

definition requested :: "('w \<Rightarrow> (exn + 'a) \<times> 'w) \<Rightarrow> ('w, 'a) run" where
  "requested op = asked (\<lambda>w. let (x, w') = op w in (raised x, w'))"

definition record_event :: "'w surroundings \<Rightarrow> string \<Rightarrow> event \<Rightarrow> ('w, unit) run" where
  "record_event S name payload =
     bind (sensed (utc_now S)) (\<lambda>utc.
     bind (sensed (clock_monotonic (stage S))) (\<lambda>now.
       modrun (\<lambda>r. r\<lparr>run_events := run_events r
         @ [runtime_event utc (decimal_as_text S (float_decimal now)) payload name]\<rparr>)))"

definition execution_payload :: "'w surroundings \<Rightarrow> execution_record \<Rightarrow> event" where
  "execution_payload S r = [(''execution'', record_summary (decimal_as_text S) r)]"

section \<open>Command line values\<close>

definition normalize_symbol :: "string \<Rightarrow> stop + string" where
  "normalize_symbol symb =
     (let normalized = upper (strip_text symb)
      in if normalized = [] then Inl (System_Exit ''--symbol must not be empty.'') else Inr normalized)"

definition required_decimal :: "string option \<Rightarrow> string \<Rightarrow> stop + decimal" where
  "required_decimal v label =
     (case v of
        None \<Rightarrow> Inl (System_Exit (label @ '' is required and must be an explicit Decimal value.''))
      | Some t \<Rightarrow> (case to_decimal t of
          Inr x \<Rightarrow> Inr x
        | Inl _ \<Rightarrow> Inl (System_Exit (label @ '' must be a valid Decimal value.''))))"

text \<open>The check of the maximal runtime that follows the parsing; \<open>None\<close> is the usage error.\<close>

definition checked_runtime :: "pyfloat option \<Rightarrow> int \<Rightarrow> pyfloat option" where
  "checked_runtime max_runtime duration =
     (case max_runtime of
        None \<Rightarrow> Some (fl (of_int (duration + 10)))
      | Some t \<Rightarrow> if t < of_int duration then None else Some t)"

section \<open>Texts of failures\<close>

definition rate_limit_code :: string where
  "rate_limit_code = ''RATE_LIMIT_BACKOFF''"

definition venue_ban_code :: string where
  "venue_ban_code = ''VENUE_BAN_HARD_STOP''"

text \<open>\<^verbatim>\<open>s.split()\<close>\<close>

fun words :: "string \<Rightarrow> string list" where
  "words [] = []"
| "words (c # cs) =
     (if blank c then words cs
      else case cs of
             [] \<Rightarrow> [[c]]
           | d # _ \<Rightarrow> if blank d then [c] # words cs
                      else (case words cs of w # ws \<Rightarrow> (c # w) # ws | [] \<Rightarrow> [[c]]))"

fun join_blank :: "string list \<Rightarrow> string" where
  "join_blank [] = []"
| "join_blank [w] = w"
| "join_blank (w # v # vs) = w @ '' '' @ join_blank (v # vs)"

definition word_char :: "char \<Rightarrow> bool" where
  "word_char c \<longleftrightarrow>
     (CHR ''A'' \<le> c \<and> c \<le> CHR ''Z'') \<or> (CHR ''a'' \<le> c \<and> c \<le> CHR ''z'') \<or> digit c \<or> c = CHR ''_''"

text \<open>The names that the pattern for a sensitive value knows, in lower case.\<close>

definition sensitive_names :: "string list" where
  "sensitive_names =
     [''api-key'', ''api_key'', ''api key'', ''apikey'', ''secret'', ''signature'', ''token'']"

text \<open>
  A match at the start of a text, after a word boundary: the length of the name, if an equals sign
  and at least one character that is not blank follow it.
\<close>

definition sensitive_match :: "string \<Rightarrow> nat option" where
  "sensitive_match s =
     map_option length (find (\<lambda>name. prefix (name @ ''='') (lower s)
       \<and> (case drop (length name + 1) s of [] \<Rightarrow> False | c # _ \<Rightarrow> \<not> blank c)) sensitive_names)"

lemma sensitive_matchD:
  assumes "sensitive_match s = Some n"
  obtains name where "name \<in> set sensitive_names" "n = length name" "prefix (name @ ''='') (lower s)"
    "drop (Suc n) s \<noteq> []" "\<not> blank (hd (drop (Suc n) s))"
proof -
  obtain name where "find (\<lambda>name. prefix (name @ ''='') (lower s)
       \<and> (case drop (length name + 1) s of [] \<Rightarrow> False | c # _ \<Rightarrow> \<not> blank c)) sensitive_names = Some name"
    "n = length name"
    using assms unfolding sensitive_match_def by blast
  moreover from this have "name \<in> set sensitive_names" "prefix (name @ ''='') (lower s)"
      "case drop (length name + 1) s of [] \<Rightarrow> False | c # _ \<Rightarrow> \<not> blank c"
    by (auto simp: find_Some_iff)
  ultimately show thesis by (intro that) (auto split: list.splits)
qed

lemma sensitive_match_bound: "sensitive_match s = Some n \<Longrightarrow> n < length s"
  by (erule sensitive_matchD) (metis Suc_lessD drop_eq_Nil linorder_not_less)

text \<open>The substitution, with the character before the text.\<close>

function redact :: "char option \<Rightarrow> string \<Rightarrow> string" where
  "redact before s =
     (case s of
        [] \<Rightarrow> []
      | c # cs \<Rightarrow>
          (case (if (case before of Some b \<Rightarrow> word_char b | None \<Rightarrow> False) then None else sensitive_match s) of
             None \<Rightarrow> c # redact (Some c) cs
           | Some n \<Rightarrow>
               (let rest = drop (Suc n) s; secret = takeWhile (\<lambda>c. \<not> blank c) rest
                in take n s @ ''=[redacted]'' @ redact (Some (last secret)) (drop (length secret) rest))))"
  by pat_completeness auto
termination
  by (relation "measure (\<lambda>(before, s). length s)") (auto dest: sensitive_match_bound)

declare redact.simps [simp del]

definition sanitized_reason_max_chars :: nat where
  "sanitized_reason_max_chars = 200"

definition sanitize_exchange_reason :: "exn \<Rightarrow> string" where
  "sanitize_exchange_reason e =
     (let reason = (if exn_str e = [] then rate_limit_code else exn_str e);
          redacted = redact None (join_blank (words reason));
          short = (if length redacted > sanitized_reason_max_chars
            then take sanitized_reason_max_chars redacted @ ''...'' else redacted)
      in if short = [] then rate_limit_code else short)"

text \<open>
  The first word before the first colon of the text; a text without one has no first word, and taking
  it raises \<^verbatim>\<open>IndexError\<close>.
\<close>

definition listen_key_stream_failure_code :: "exn \<Rightarrow> exn + string" where
  "listen_key_stream_failure_code e =
     (let before_colon = takeWhile (\<lambda>c. c \<noteq> CHR '':'')
            (case e of StreamHealthFailure reason \<Rightarrow> reason | _ \<Rightarrow> exn_str e)
      in case words before_colon of
           [] \<Rightarrow> Inl (OtherError ''list index out of range'')
         | w # _ \<Rightarrow> Inr w)"

definition is_retryable_listen_key_stream_failure :: "exn \<Rightarrow> exn + bool" where
  "is_retryable_listen_key_stream_failure e =
     sbind (listen_key_stream_failure_code e) (\<lambda>code.
       Inr (code \<in> {''LISTEN_KEY_RATE_LIMIT_BACKOFF'', ''LISTEN_KEY_RETRYABLE_FAILURE''}))"

definition is_listen_key_venue_ban_hard_stop :: "exn \<Rightarrow> exn + bool" where
  "is_listen_key_venue_ban_hard_stop e =
     sbind (listen_key_stream_failure_code e) (\<lambda>code. Inr (code = ''LISTEN_KEY_VENUE_BAN_HARD_STOP''))"

definition is_listen_key_expired_event :: "pyval \<Rightarrow> bool" where
  "is_listen_key_expired_event event =
     (case event of
        PDict kvs \<Rightarrow>
          if get_value kvs ''event_type'' = PStr ''listenKeyExpired''
             \<or> get_value kvs ''e'' = PStr ''listenKeyExpired'' then True
          else (case get_value kvs ''raw'' of
                  PDict inner \<Rightarrow> get_value inner ''e'' = PStr ''listenKeyExpired''
                | _ \<Rightarrow> False)
      | _ \<Rightarrow> False)"

section \<open>Reconciling after a lost stream\<close>

definition bounded_start_ms :: "int option \<Rightarrow> int option \<Rightarrow> int option" where
  "bounded_start_ms started end_time =
     (case end_time of
        None \<Rightarrow> started
      | Some t \<Rightarrow> Some (max (case started of Some u \<Rightarrow> u | None \<Rightarrow> 0) (t - 60000)))"

definition number_or_none :: "int option \<Rightarrow> pyval" where
  "number_or_none v = (case v of None \<Rightarrow> PNone | Some n \<Rightarrow> PInt n)"

definition reconciliation_window :: "int option \<Rightarrow> int option \<Rightarrow> event" where
  "reconciliation_window start_time end_time =
     [(''reconciliation_window'', PDict
        [(''start_time_ms'', number_or_none start_time), (''end_time_ms'', number_or_none end_time)])]"

definition runner_wall_ms :: "'w surroundings \<Rightarrow> ('w, int option) run" where
  "runner_wall_ms S = bind (sensed (wall_clock_ms S)) (\<lambda>t. ret (Some t))"

definition reconcile_execution_for_user_stream_recovery ::
  "'w surroundings \<Rightarrow> string \<Rightarrow> int option \<Rightarrow> int option \<Rightarrow> string \<Rightarrow> ('w, execution_record) run" where
  "reconcile_execution_for_user_stream_recovery S eid start_time end_time failure_event =
     (let hard_stop = (\<lambda>reason.
            andthen (record_event S failure_event
                (reconciliation_window start_time end_time @ [(''reason'', PStr reason)]))
              (throw (Hard_Stop reason)))
      in try_else (served (reconcile_execution (stage S) eid start_time end_time))
           (\<lambda>e. case e of
              Raised (VenueBanHardStop t) \<Rightarrow> hard_stop (sanitize_exchange_reason (VenueBanHardStop t))
            | Raised (ExchangeRateLimited t) \<Rightarrow> hard_stop (sanitize_exchange_reason (ExchangeRateLimited t))
            | _ \<Rightarrow> throw e)
           (\<lambda>updated. case final_reason updated of
              None \<Rightarrow> ret updated
            | Some reason \<Rightarrow>
                if reason \<in> {rate_limit_code, venue_ban_code} then hard_stop reason else ret updated))"

definition reconcile_user_stream_disconnect :: "'w surroundings \<Rightarrow> ('w, bool) run" where
  "reconcile_user_stream_disconnect S =
     bind (getrun active_execution_id) (\<lambda>active. case active of
       None \<Rightarrow> ret False
     | Some eid \<Rightarrow>
         bind (runner_wall_ms S) (\<lambda>end_time.
         bind (getrun stream_started) (\<lambda>started.
           let start_time = bounded_start_ms started end_time
           in try_else
                (reconcile_execution_for_user_stream_recovery S eid start_time end_time
                  ''user_stream_disconnect_reconciliation_failed'')
                (\<lambda>e. case e of Hard_Stop reason \<Rightarrow> throw (System_Exit reason) | _ \<Rightarrow> throw e)
                (\<lambda>updated. andthen
                  (record_event S ''user_stream_disconnect_reconciled''
                    (reconciliation_window start_time end_time @ execution_payload S updated))
                  (ret True)))))"

section \<open>The user stream\<close>

definition reconciliation_result_matches_execution :: "string \<Rightarrow> reconciliation_result \<Rightarrow> bool" where
  "reconciliation_result_matches_execution eid result \<longleftrightarrow>
     list_ex (\<lambda>c. prefix (make_client_order_prefix eid) (client_order_id c)) (rr_orders result)
     \<or> list_ex (\<lambda>f. prefix (make_client_order_prefix eid) (fill_client_order_id f)) (rr_fills result)"

definition user_stream_listen_key_expired :: string where
  "user_stream_listen_key_expired = ''listen_key_expired''"

text \<open>One event of the stream: what the task returns when it ends the stream.\<close>

definition pump_event :: "'w surroundings \<Rightarrow> pyval \<Rightarrow> ('w, string option) run" where
  "pump_event S event =
     andthen (record_event S ''user_stream_event'' [(''user_event'', artifact_user_event event)])
     (bind (getrun active_execution_id) (\<lambda>active.
        if is_listen_key_expired_event event
        then andthen
          (case active of
             None \<Rightarrow> ret ()
           | Some eid \<Rightarrow>
               bind (runner_wall_ms S) (\<lambda>end_time.
               bind (getrun stream_started) (\<lambda>started.
                 let start_time = bounded_start_ms started end_time
                 in bind (reconcile_execution_for_user_stream_recovery S eid start_time end_time
                      ''user_stream_listen_key_expired_reconciliation_failed'') (\<lambda>updated.
                    record_event S ''user_stream_listen_key_expired_reconciled''
                      (reconciliation_window start_time end_time @ execution_payload S updated)))))
          (ret (Some user_stream_listen_key_expired))
        else andthen (modrun (\<lambda>r. r\<lparr>reconnect_attempts := Some 0\<rparr>))
          (case active of
             None \<Rightarrow> ret None
           | Some eid \<Rightarrow>
               bind (lift_res (raised (reconciliation_from_user_event event))) (\<lambda>parsed. case parsed of
                 None \<Rightarrow> ret None
               | Some result \<Rightarrow>
                   if \<not> reconciliation_result_matches_execution eid result then ret None
                   else bind (served (apply_reconciliation_result (stage S) eid result)) (\<lambda>updated.
                     andthen (record_event S ''user_stream_applied'' (execution_payload S updated)) (ret None))))))"

fun pump_events :: "'w surroundings \<Rightarrow> pyval list \<Rightarrow> ('w, string option) run" where
  "pump_events S [] = ret None"
| "pump_events S (event # events) =
     bind (pump_event S event) (\<lambda>end_value. case end_value of
       Some v \<Rightarrow> ret (Some v)
     | None \<Rightarrow> pump_events S events)"

definition set_user_task :: "task \<Rightarrow> ('w, unit) run" where
  "set_user_task t = modrun (\<lambda>r. r\<lparr>user_task := t\<rparr>)"

text \<open>Sleeping lets the two stream tasks run.\<close>

definition sleep_with_streams :: "'w surroundings \<Rightarrow> pyfloat \<Rightarrow> ('w, unit) run" where
  "sleep_with_streams S seconds =
     andthen (sensed (\<lambda>w. ((), sleep S seconds w)))
     (andthen
       (bind (getrun user_task) (\<lambda>t. guarded (t = Running)
          (bind (sensed (user_stream_news S)) (\<lambda>(events, ending).
             try_else (pump_events S events)
               (\<lambda>e. set_user_task (Ended (Failed e)))
               (\<lambda>end_value. case end_value of
                  Some v \<Rightarrow> set_user_task (Ended (Returned (Some v)))
                | None \<Rightarrow> (case ending of None \<Rightarrow> ret () | Some t \<Rightarrow> set_user_task (Ended t)))))))
       (bind (getrun market_task) (\<lambda>t. guarded (t = Running)
          (bind (sensed (market_stream_news S)) (\<lambda>ending. case ending of
             None \<Rightarrow> ret ()
           | Some t \<Rightarrow> modrun (\<lambda>r. r\<lparr>market_task := Ended t\<rparr>))))))"

definition start_user_stream_once :: "'w surroundings \<Rightarrow> pyfloat \<Rightarrow> ('w, unit) run" where
  "start_user_stream_once S timeout =
     bind (runner_wall_ms S) (\<lambda>started.
     andthen (guarded (started \<noteq> None) (modrun (\<lambda>r. r\<lparr>stream_started := started\<rparr>)))
     (andthen (asked (open_user_stream S timeout))
       (set_user_task Running)))"

definition user_stream_max_attempts :: int where
  "user_stream_max_attempts = 3"

definition user_stream_backoff_seconds :: pyfloat where
  "user_stream_backoff_seconds = fl (1 / 10)"

text \<open>The retries of an attempt that failed with an exception.\<close>

primrec start_user_stream_attempts :: "'w surroundings \<Rightarrow> pyfloat \<Rightarrow> int list \<Rightarrow> ('w, unit) run" where
  "start_user_stream_attempts S timeout [] =
     throw (Raised (OtherError ''unreachable user stream retry loop''))"
| "start_user_stream_attempts S timeout (attempt # attempts) =
     try_else (start_user_stream_once S timeout)
       (\<lambda>e. case e of
          Hard_Stop reason \<Rightarrow> throw (System_Exit reason)
        | System_Exit t \<Rightarrow> throw (System_Exit t)
        | Raised x \<Rightarrow>
            bind (lift_res (raised (is_listen_key_venue_ban_hard_stop x))) (\<lambda>banned.
              let reason = sanitize_exchange_reason x
              in if banned
                 then andthen (record_event S ''user_stream_venue_ban_hard_stop'' [(''reason'', PStr reason)])
                   (throw (System_Exit reason))
                 else bind (lift_res (raised (is_retryable_listen_key_stream_failure x))) (\<lambda>retryable.
                   if \<not> retryable then throw e
                   else andthen (record_event S ''user_stream_retryable_failure''
                       [(''reason'', PStr reason), (''attempt'', PInt attempt),
                        (''max_attempts'', PInt user_stream_max_attempts)])
                     (if attempt \<ge> user_stream_max_attempts then throw (System_Exit reason)
                      else andthen (sleep_with_streams S user_stream_backoff_seconds)
                        (start_user_stream_attempts S timeout attempts)))))
       ret"

definition start_user_stream :: "'w surroundings \<Rightarrow> pyfloat \<Rightarrow> ('w, unit) run" where
  "start_user_stream S timeout = start_user_stream_attempts S timeout [1..user_stream_max_attempts]"

section \<open>Stream tasks that ended\<close>

fun raise_if_stream_task_failed :: "task \<Rightarrow> ('w, unit) run" where
  "raise_if_stream_task_failed (Ended Was_Cancelled) =
     throw (Raised (OtherError ''stream task was cancelled unexpectedly''))"
| "raise_if_stream_task_failed (Ended (Failed e)) = throw e"
| "raise_if_stream_task_failed (Ended (Returned _)) =
     throw (Raised (OtherError ''stream task exited unexpectedly''))"
| "raise_if_stream_task_failed _ = ret ()"

definition recover_retryable_user_stream_failure ::
  "'w surroundings \<Rightarrow> exn \<Rightarrow> pyfloat \<Rightarrow> ('w, unit) run" where
  "recover_retryable_user_stream_failure S e timeout =
     bind (reconcile_user_stream_disconnect S) (\<lambda>_.
     bind (getrun reconnect_attempts) (\<lambda>attempts.
       let attempt = (case attempts of None \<Rightarrow> 0 | Some n \<Rightarrow> n) + 1;
           reason = sanitize_exchange_reason e
       in andthen (modrun (\<lambda>r. r\<lparr>reconnect_attempts := Some attempt\<rparr>))
          (andthen (record_event S ''user_stream_retryable_reconnect''
             [(''reason'', PStr reason), (''attempt'', PInt attempt),
              (''max_attempts'', PInt user_stream_max_attempts),
              (''backoff_seconds'', PFloat (float_as_text S user_stream_backoff_seconds))])
          (if attempt \<ge> user_stream_max_attempts then throw (System_Exit reason)
           else andthen (sleep_with_streams S user_stream_backoff_seconds) (start_user_stream S timeout)))))"

definition recover_or_raise_stream_task_failure :: "'w surroundings \<Rightarrow> pyfloat \<Rightarrow> ('w, unit) run" where
  "recover_or_raise_stream_task_failure S timeout =
     bind (getrun market_task) (\<lambda>market.
     andthen (raise_if_stream_task_failed market)
     (bind (getrun user_task) (\<lambda>user.
        case user of
          No_Task \<Rightarrow> ret ()
        | Running \<Rightarrow> ret ()
        | Ended Was_Cancelled \<Rightarrow> raise_if_stream_task_failed user
        | Ended (Failed (Hard_Stop reason)) \<Rightarrow> throw (System_Exit reason)
        | Ended (Failed (System_Exit t)) \<Rightarrow> throw (System_Exit t)
        | Ended (Failed (Raised e)) \<Rightarrow>
            bind (lift_res (raised (is_listen_key_venue_ban_hard_stop e))) (\<lambda>banned.
              if banned
              then bind (reconcile_user_stream_disconnect S) (\<lambda>_.
                andthen (record_event S ''user_stream_venue_ban_hard_stop''
                    [(''reason'', PStr (sanitize_exchange_reason e))])
                  (throw (System_Exit (sanitize_exchange_reason e))))
              else bind (lift_res (raised (is_retryable_listen_key_stream_failure e))) (\<lambda>retryable.
                if \<not> retryable then throw (Raised e)
                else recover_retryable_user_stream_failure S e timeout))
        | Ended (Returned v) \<Rightarrow>
            if v = Some user_stream_listen_key_expired then start_user_stream S timeout
            else bind (reconcile_user_stream_disconnect S) (\<lambda>reconciled.
              if reconciled then start_user_stream S timeout else raise_if_stream_task_failed user))))"

section \<open>Backing off from rate limits\<close>

definition fdiv :: "pyfloat \<Rightarrow> pyfloat \<Rightarrow> pyfloat" where
  "fdiv x y = fl (x / y)"

definition tolerance :: pyfloat where
  "tolerance = fl (1 / 10 ^ 9)"

definition min_backoff_seconds :: pyfloat where
  "min_backoff_seconds = fl (1 / 10)"

definition max_backoff_budget_seconds :: pyfloat where
  "max_backoff_budget_seconds = 5"

definition backoff_seconds_of :: "run_args \<Rightarrow> pyfloat" where
  "backoff_seconds_of args = max (poll_interval_seconds args) min_backoff_seconds"

definition backoff_budget_of :: "run_args \<Rightarrow> pyfloat" where
  "backoff_budget_of args = min (max (max_runtime_seconds args) 0) max_backoff_budget_seconds"

definition max_backoffs_of :: "run_args \<Rightarrow> int" where
  "max_backoffs_of args =
     max 0 \<lfloor>fdiv (fadd (backoff_budget_of args) tolerance) (backoff_seconds_of args)\<rfloor>"

text \<open>
  What both loops do with an exception: a ban ends the run, a rate limit counts as a backoff or, when
  these are used up, ends the run, and anything else is raised.
\<close>

definition backoff_or_stop ::
  "'w surroundings \<Rightarrow> run_args \<Rightarrow> string \<Rightarrow> pyfloat \<Rightarrow> int \<Rightarrow> ('w, 'a) run \<Rightarrow> stop \<Rightarrow> ('w, 'a) run" where
  "backoff_or_stop S args phase deadline backoff_count again e =
     (case e of
        Raised (VenueBanHardStop t) \<Rightarrow>
          let reason = sanitize_exchange_reason (VenueBanHardStop t)
          in andthen (record_event S (phase @ ''_venue_ban_hard_stop'') [(''reason'', PStr reason)])
               (throw (System_Exit reason))
      | Raised (ExchangeRateLimited t) \<Rightarrow>
          let reason = sanitize_exchange_reason (ExchangeRateLimited t); seconds = backoff_seconds_of args
          in andthen (record_event S (phase @ ''_rate_limit_backoff'')
               [(''reason'', PStr reason),
                (''backoff_seconds'', PFloat (float_as_text S seconds))])
             (if backoff_count \<ge> max_backoffs_of args then throw (System_Exit reason)
              else bind (sensed (loop_time S)) (\<lambda>now.
                if fadd now seconds > fadd deadline tolerance then throw (System_Exit reason)
                else andthen (sleep_with_streams S seconds) again))
      | _ \<Rightarrow> throw e)"

text \<open>
  A loop tests the count again before it goes on, which shows that it ends; the test never holds
  there, since \<open>backoff_or_stop\<close> has raised in that case.
\<close>

function create_execution_loop ::
  "'w surroundings \<Rightarrow> run_args \<Rightarrow> execution_request \<Rightarrow> pyfloat \<Rightarrow> int \<Rightarrow> ('w, execution_record) run" where
  "create_execution_loop S args req deadline backoff_count =
     andthen (recover_or_raise_stream_task_failure S (market_timeout_seconds args))
     (bind (sensed (new_execution_hex S)) (\<lambda>hex.
        try_else (served (create_execution (stage S) hex req))
          (backoff_or_stop S args ''precreate'' deadline backoff_count
            (if backoff_count \<ge> max_backoffs_of args then throw (System_Exit [])
             else create_execution_loop S args req deadline (backoff_count + 1)))
          ret))"
  by pat_completeness auto
termination
  by (relation "measure (\<lambda>(S, args, req, deadline, backoff_count). nat (max_backoffs_of args - backoff_count))")
    auto

declare create_execution_loop.simps [simp del]

definition create_execution_with_rate_limit_backoff ::
  "'w surroundings \<Rightarrow> run_args \<Rightarrow> execution_request \<Rightarrow> ('w, execution_record) run" where
  "create_execution_with_rate_limit_backoff S args req =
     bind (sensed (loop_time S)) (\<lambda>now.
       create_execution_loop S args req (fadd now (backoff_budget_of args)) 0)"

function reconcile_loop ::
  "'w surroundings \<Rightarrow> run_args \<Rightarrow> string \<Rightarrow> string option \<Rightarrow> pyfloat \<Rightarrow> int \<Rightarrow> ('w, reconciliation_result) run" where
  "reconcile_loop S args symb client_order_prefix deadline backoff_count =
     try_else (requested (reconcile_orders_and_fills (stage S) symb client_order_prefix None None))
       (backoff_or_stop S args ''post_run_reconciliation'' deadline backoff_count
         (if backoff_count \<ge> max_backoffs_of args then throw (System_Exit [])
          else reconcile_loop S args symb client_order_prefix deadline (backoff_count + 1)))
       ret"
  by pat_completeness auto
termination
  by (relation "measure (\<lambda>(S, args, symb, p, deadline, backoff_count). nat (max_backoffs_of args - backoff_count))")
    auto

declare reconcile_loop.simps [simp del]

definition reconcile_orders_and_fills_with_rate_limit_backoff ::
  "'w surroundings \<Rightarrow> run_args \<Rightarrow> string \<Rightarrow> string option \<Rightarrow> ('w, reconciliation_result) run" where
  "reconcile_orders_and_fills_with_rate_limit_backoff S args symb client_order_prefix =
     bind (sensed (loop_time S)) (\<lambda>now.
       reconcile_loop S args symb client_order_prefix (fadd now (backoff_budget_of args)) 0)"

section \<open>The artifacts\<close>

fun log_value_of :: "pyval \<Rightarrow> log_value" where
  "log_value_of PNone = Log_None"
| "log_value_of (PBool b) = Log_Bool b"
| "log_value_of (PInt n) = Log_Int n"
| "log_value_of (PFloat t) = Log_Float t"
| "log_value_of (PStr t) = Log_Str t"
| "log_value_of (PList vs) = Log_List (map log_value_of vs)"
| "log_value_of (PDict kvs) = Log_Mapping (map (\<lambda>(k, v). (k, log_value_of v)) kvs)"

definition log_row_of :: "(string \<times> pyval) list \<Rightarrow> log_row" where
  "log_row_of kvs = map (\<lambda>(k, v). (k, log_value_of v)) kvs"

definition child_fields :: "(decimal \<Rightarrow> string) \<Rightarrow> child_order \<Rightarrow> (string \<times> pyval) list" where
  "child_fields txt c =
     [(''child_order_id'', PStr (child_order_id c)), (''client_order_id'', PStr (client_order_id c)),
      (''symbol'', PStr (child_symbol c)), (''side'', PStr (side_value (child_side c))),
      (''submitted_quantity'', PStr (txt (submitted_quantity c))), (''price'', PStr (txt (child_price c))),
      (''status'', PStr (child_status_value (child_status c))),
      (''confirmed_filled_quantity'', PStr (txt (child_filled c))),
      (''exchange_order_id'', text_or_none (exchange_order_id c)),
      (''raw_status'', text_or_none (raw_status c)),
      (''terminal_reason'', text_or_none (terminal_reason c))]"

definition fill_fields :: "(decimal \<Rightarrow> string) \<Rightarrow> fill \<Rightarrow> (string \<times> pyval) list" where
  "fill_fields txt f =
     [(''client_order_id'', PStr (fill_client_order_id f)), (''trade_id'', text_or_none (fill_trade_id f)),
      (''cumulative_filled_quantity'', PStr (txt (cumulative_filled_quantity f))),
      (''last_filled_quantity'', PStr (txt (last_filled_quantity f))),
      (''last_fill_price'', PStr (txt (last_fill_price f))),
      (''event_time_ms'', number_or_none (fill_event_time_ms f)),
      (''transaction_time_ms'', number_or_none (fill_transaction_time_ms f)),
      (''is_maker'', (case is_maker f of None \<Rightarrow> PNone | Some b \<Rightarrow> PBool b))]"

definition request_fields :: "(decimal \<Rightarrow> string) \<Rightarrow> execution_request \<Rightarrow> (string \<times> pyval) list" where
  "request_fields txt req =
     [(''environment'', PStr (environment_value (req_environment req))),
      (''symbol'', PStr (req_symbol req)),
      (''algorithm'', PStr (algorithm_value (req_algorithm req))),
      (''target_position'', PStr (txt (target_position req))),
      (''target_price_lower'', PStr (txt (target_price_lower req))),
      (''target_price_upper'', PStr (txt (target_price_upper req))),
      (''target_duration_seconds'', PInt (target_duration_seconds req)),
      (''deadline_policy'', PStr (deadline_policy_value (req_deadline_policy req))),
      (''parameters'', parameters_response txt (parameters req))]"

definition run_twap_slice_ledger :: "(decimal \<Rightarrow> string) \<Rightarrow> execution_record \<Rightarrow> (string \<times> pyval) list list" where
  "run_twap_slice_ledger txt r =
     (case summary r of
        None \<Rightarrow> []
      | Some s \<Rightarrow>
          (case map_of (summary_metrics s) ''twap_slice_ledger'' of
             Some (MRows rows) \<Rightarrow>
               map (\<lambda>row. case json_safe_row txt row of PDict kvs \<Rightarrow> kvs | _ \<Rightarrow> []) rows
           | _ \<Rightarrow> []))"

definition fields :: "pyval \<Rightarrow> log_row" where
  "fields v = (case v of PDict kvs \<Rightarrow> log_row_of kvs | _ \<Rightarrow> [])"

definition run_artifacts ::
  "(decimal \<Rightarrow> string) \<Rightarrow> (pyval \<Rightarrow> string) \<Rightarrow> execution_request \<Rightarrow> execution_record \<Rightarrow> reconciliation_result
   \<Rightarrow> event list \<Rightarrow> pyval \<Rightarrow> (string \<times> int) list \<Rightarrow> (exn + unit) \<times> files" where
  "run_artifacts txt dumps req r reconciliation events rules_payload limits =
     write_execution_artifacts txt dumps (log_row_of (request_fields txt req))
       (map log_row_of events) (fields (record_summary txt r))
       (map (\<lambda>c. log_row_of (child_fields txt c)) (child_orders r))
       (map (\<lambda>f. log_row_of (fill_fields txt f)) (rr_fills reconciliation))
       (map log_row_of events)
       (map log_row_of (run_twap_slice_ledger txt r))
       [(''symbol_rules.json'', log_value_of rules_payload),
        (''evidence_manifest.json'', Log_Mapping (evidence_manifest req r reconciliation events limits))]
       [(''reconciliation_orders.csv'',
         map (\<lambda>c. log_row_of (child_fields txt c)) (rr_orders reconciliation))]"

section \<open>The run\<close>

text \<open>The loop of turns, at most \<open>fuel\<close> of them; \<open>None\<close> when more would follow.\<close>

fun run_turns ::
  "nat \<Rightarrow> 'w surroundings \<Rightarrow> run_args \<Rightarrow> string \<Rightarrow> pyfloat \<Rightarrow> execution_record \<Rightarrow> ('w, execution_record option) run"
  where
  "run_turns 0 S args eid deadline latest = ret None"
| "run_turns (Suc fuel) S args eid deadline latest =
     (let recover = recover_or_raise_stream_task_failure S (market_timeout_seconds args)
      in bind (sensed (clock_monotonic (stage S))) (\<lambda>now.
         if \<not> (now < deadline \<and> \<not> execution_status_is_terminal (status latest)) then ret (Some latest)
         else andthen recover
           (bind (served (run_once (stage S) eid)) (\<lambda>updated.
            andthen recover
            (andthen (record_event S ''run_once'' (execution_payload S updated))
            (if execution_status_is_terminal (status updated) then ret (Some updated)
             else andthen (sleep_with_streams S (poll_interval_seconds args))
               (andthen recover (run_turns fuel S args eid deadline updated))))))))"

text \<open>An execution that has not ended by then is cancelled and reconciled.\<close>

definition cancel_unended :: "'w surroundings \<Rightarrow> run_args \<Rightarrow> string \<Rightarrow> execution_record \<Rightarrow> ('w, execution_record) run" where
  "cancel_unended S args eid latest =
     (if execution_status_is_terminal (status latest) then ret latest
      else andthen (recover_or_raise_stream_task_failure S (market_timeout_seconds args))
        (bind (served (cancel_execution (stage S) eid)) (\<lambda>cancelled.
         andthen (record_event S ''cancel_requested'' (execution_payload S cancelled))
         (bind (served (reconcile_execution (stage S) eid None None)) (\<lambda>reconciled.
          andthen (record_event S ''final_reconcile'' (execution_payload S reconciled))
          (ret reconciled))))))"

definition finish_run ::
  "'w surroundings \<Rightarrow> (pyval \<Rightarrow> string) \<Rightarrow> run_args \<Rightarrow> execution_request \<Rightarrow> pyval \<Rightarrow> string \<Rightarrow> ('w, files) run" where
  "finish_run S dumps args req rules_payload eid =
     bind (reconcile_orders_and_fills_with_rate_limit_backoff S args (req_symbol req)
        (Some (make_client_order_prefix eid))) (\<lambda>reconciliation.
     andthen (record_event S ''post_run_reconciliation''
       [(''order_count'', PInt (int (length (rr_orders reconciliation)))),
        (''fill_count'', PInt (int (length (rr_fills reconciliation)))),
        (''warnings'', PList (map PStr (rr_warnings reconciliation)))])
     (bind (served (apply_reconciliation_result (stage S) eid reconciliation)) (\<lambda>latest.
      andthen (record_event S ''post_run_reconciliation_applied'' (execution_payload S latest))
      (if final_reason latest = Some rate_limit_code
       then throw (System_Exit (''Final reconciliation did not refresh execution state after ''
         @ ''post-run reconciliation; refusing to write stale artifacts.''))
       else bind (getrun run_events) (\<lambda>events.
         bind (sensed (\<lambda>w. (rate_limits S w, w))) (\<lambda>limits.
           case run_artifacts (decimal_as_text S) dumps req latest reconciliation events rules_payload limits of
             (Inl e, _) \<Rightarrow> throw (Raised e)
           | (Inr _, files) \<Rightarrow> ret files))))))"

definition run_request :: "algorithm \<Rightarrow> run_args \<Rightarrow> string \<Rightarrow> decimal \<Rightarrow> decimal \<Rightarrow> decimal \<Rightarrow> execution_request" where
  "run_request a args symb target lo hi =
     \<lparr>req_environment = TESTNET, req_symbol = symb, req_algorithm = a, target_position = target,
      target_price_lower = lo, target_price_upper = hi,
      target_duration_seconds = duration_seconds args, req_deadline_policy = AGGRESSIVE_WITHIN_RANGE,
      parameters = default_parameters\<lparr>number_of_slices := arg_number_of_slices args\<rparr>\<rparr>"

text \<open>The body of \<^verbatim>\<open>try\<close>: \<open>None\<close> when the fuel of the loop does not suffice.\<close>

definition run_body ::
  "nat \<Rightarrow> 'w surroundings \<Rightarrow> (pyval \<Rightarrow> string) \<Rightarrow> run_args \<Rightarrow> execution_request \<Rightarrow> ('w, files option) run" where
  "run_body fuel S dumps args req =
     bind (requested (open_market_stream S (market_timeout_seconds args))) (\<lambda>snapshot.
     andthen (modrun (\<lambda>r. r\<lparr>market_task := Running\<rparr>))
     (andthen (record_event S ''market_snapshot'' [(''snapshot'', snapshot)])
     (bind (requested (get_symbol_rules (stage S) (req_symbol req))) (\<lambda>rules.
      bind (sensed (\<lambda>w. (rate_limits S w, w))) (\<lambda>limits.
        let rules_payload = symbol_rules_payload (decimal_as_text S) (req_symbol req) rules limits
        in andthen (record_event S ''symbol_rules_loaded'' [(''symbol_rules'', rules_payload)])
          (andthen (start_user_stream S (market_timeout_seconds args))
          (bind (create_execution_with_rate_limit_backoff S args req) (\<lambda>execution.
             let eid = rec_execution_id execution
             in andthen (modrun (\<lambda>r. r\<lparr>active_execution_id := Some eid\<rparr>))
               (andthen (record_event S ''execution_created'' (execution_payload S execution))
               (bind (sensed (clock_monotonic (stage S))) (\<lambda>now.
                bind (run_turns fuel S args eid (fadd now (max_runtime_seconds args)) execution) (\<lambda>ended.
                  case ended of
                    None \<Rightarrow> ret None
                  | Some latest \<Rightarrow>
                      andthen (bind (cancel_unended S args eid latest) (\<lambda>_. ret ()))
                        (bind (finish_run S dumps args req rules_payload eid) (\<lambda>files. ret (Some files)))))))))))))))"

text \<open>\<^verbatim>\<open>finally\<close>: the stream tasks are stopped however the body ends.\<close>

definition with_streams_stopped :: "('w, 'a) run \<Rightarrow> ('w, 'a) run" where
  "with_streams_stopped m = (\<lambda>s. let (x, r, t) = m s in (x, r\<lparr>user_task := No_Task, market_task := No_Task\<rparr>, t))"

definition run_testnet ::
  "nat \<Rightarrow> 'w surroundings \<Rightarrow> (pyval \<Rightarrow> string) \<Rightarrow> algorithm \<Rightarrow> run_args \<Rightarrow> credentials \<Rightarrow> ('w, files option) run" where
  "run_testnet fuel S dumps a args credentials =
     (if \<not> is_configured credentials
      then throw (System_Exit (''Missing BINANCE_USDM_API_KEY or BINANCE_USDM_API_SECRET. ''
        @ ''This script never falls back to simulation.''))
      else if \<not> confirm_send_orders args
      then throw (System_Exit ''Refusing to send Binance testnet orders without --confirm-send-orders.'')
      else
        bind (lift_res (required_decimal (arg_target_position args) ''--target-position'')) (\<lambda>target.
        bind (lift_res (required_decimal (arg_target_price_lower args) ''--target-price-lower'')) (\<lambda>lo.
        bind (lift_res (required_decimal (arg_target_price_upper args) ''--target-price-upper'')) (\<lambda>hi.
        bind (lift_res (normalize_symbol (arg_symbol args))) (\<lambda>symb.
          andthen (sensed (\<lambda>w. ((), set_market_stream_symbol S symb w)))
          (bind (try_else (requested (synchronize_server_time S))
              (\<lambda>e. case e of
                 Raised (ServerTimeSynchronizationFailure t) \<Rightarrow>
                   throw (System_Exit (''Binance server-time synchronization failed: '' @ t))
               | _ \<Rightarrow> throw e) ret) (\<lambda>offset.
           andthen (record_event S ''server_time_synchronized'' [(''server_time_offset_ms'', PInt offset)])
             (with_streams_stopped (run_body fuel S dumps args (run_request a args symb target lo hi))))))))))"

definition new_runner :: runner where
  "new_runner = \<lparr>run_events = [], active_execution_id = None, stream_started = None, reconnect_attempts = None,
     market_task = No_Task, user_task = No_Task\<rparr>"

end
