(* ===== verification/Testnet_Frame.thy ===== *)
theory Testnet_Frame
  imports Testnet_Runner Engine_History
begin

text \<open>
  A relation that the steps of the runner obey, other than those that create an execution or back off
  from a rate limit. The locale asks for it of the primitive steps (changing the state of the runner,
  writing an event down, asking the clock, sleeping, hearing of the streams, and an operation of the
  service) and gives it for everything the runner makes of them.
\<close>

named_theorems frame_intro

definition limit_event_names :: "string list" where
  "limit_event_names = [''precreate_rate_limit_backoff'', ''post_run_reconciliation_rate_limit_backoff'']"

locale stream_frame = evolution R
  for R :: "runner \<times> records \<times> 'w \<Rightarrow> runner \<times> records \<times> 'w \<Rightarrow> bool" +
  fixes S :: "'w surroundings"
  assumes fr_modrun [frame_intro]:
      "(\<And>r. run_events (f r) = run_events r) \<Longrightarrow> evolves R (modrun f)"
    and fr_record [frame_intro]:
      "name \<notin> set limit_event_names \<Longrightarrow> ''event'' \<notin> fst ` set payload \<Longrightarrow> evolves R (record_event S name payload)"
    and fr_clock [frame_intro]: "evolves R (sensed (clock_monotonic (stage S)))"
    and fr_wall [frame_intro]: "evolves R (sensed (wall_clock_ms S))"
    and fr_sleep [frame_intro]: "evolves R (sensed (\<lambda>w. ((), sleep S seconds w)))"
    and fr_user_news [frame_intro]: "evolves R (sensed (user_stream_news S))"
    and fr_market_news [frame_intro]: "evolves R (sensed (market_stream_news S))"
    and fr_open [frame_intro]: "evolves R (asked (open_user_stream S timeout))"
    and fr_perform: "(\<And>hex req. op \<noteq> Create hex req) \<Longrightarrow> evolves R (served (perform (stage S) op))"
begin

lemmas [frame_intro] = ev_ret ev_throw ev_gets ev_lift_res ev_bind ev_try_else ev_guarded
  evolves_if evolves_case_option evolves_case_prod evolves_case_sum evolves_Let

lemma fr_getrun [frame_intro]: "evolves R (getrun f)"
  unfolding getrun_def by (rule ev_gets)

lemma fr_operations [frame_intro]:
  "evolves R (served (run_once (stage S) eid))"
  "evolves R (served (cancel_execution (stage S) eid))"
  "evolves R (served (reconcile_execution (stage S) eid t0 t1))"
  "evolves R (served (apply_reconciliation_result (stage S) eid result))"
  using fr_perform [of "Run_Once eid"] fr_perform [of "Cancel eid"] fr_perform [of "Reconcile eid t0 t1"]
    fr_perform [of "Apply_Result eid result"] by simp_all

lemma fr_wall_ms [frame_intro]: "evolves R (runner_wall_ms S)"
  unfolding runner_wall_ms_def by (intro frame_intro)

lemma fr_set_user_task [frame_intro]: "evolves R (set_user_task t)"
  unfolding set_user_task_def by (intro frame_intro) simp

lemma fr_reconciliation [frame_intro]:
  assumes "failure_event \<notin> set limit_event_names"
  shows "evolves R (reconcile_execution_for_user_stream_recovery S eid t0 t1 failure_event)"
proof -
  have stop: "evolves R (andthen (record_event S failure_event
        (reconciliation_window t0 t1 @ [(''reason'', PStr reason)])) (throw (Hard_Stop reason)))" for reason
    using assms by (intro frame_intro) (auto simp: reconciliation_window_def)
  show ?thesis
    unfolding reconcile_execution_for_user_stream_recovery_def Let_def
    by (intro ev_try_else fr_operations evolves_case_option evolves_if ev_ret)
      (auto split: stop.split exn.split intro: stop ev_throw)
qed

lemma fr_disconnect [frame_intro]: "evolves R (reconcile_user_stream_disconnect S)"
  unfolding reconcile_user_stream_disconnect_def
  by (intro frame_intro)
    (auto simp: limit_event_names_def reconciliation_window_def execution_payload_def split: stop.split intro: ev_throw)

lemma fr_pump_event [frame_intro]: "evolves R (pump_event S event)"
  unfolding pump_event_def
  by (intro frame_intro) (simp_all add: limit_event_names_def reconciliation_window_def execution_payload_def)

lemma fr_pump_events [frame_intro]: "evolves R (pump_events S events)"
  by (induction events) (auto intro!: frame_intro)

lemma fr_sleep_with_streams [frame_intro]: "evolves R (sleep_with_streams S seconds)"
  unfolding sleep_with_streams_def by (intro frame_intro) simp_all

lemma fr_start_once [frame_intro]: "evolves R (start_user_stream_once S timeout)"
  unfolding start_user_stream_once_def by (intro frame_intro) simp_all

lemma fr_start [frame_intro]: "evolves R (start_user_stream S timeout)"
proof -
  have "evolves R (start_user_stream_attempts S timeout attempts)" for attempts
  proof (induction attempts)
    case (Cons attempt attempts)
    have "evolves R (case e of
        Hard_Stop reason \<Rightarrow> throw (System_Exit reason)
      | System_Exit t \<Rightarrow> throw (System_Exit t)
      | Raised x \<Rightarrow> f x)" if "\<And>x. evolves R (f x)" for e and f :: "exn \<Rightarrow> ('w, unit) run"
      using that by (cases e) (auto intro: ev_throw)
    note handler = this
    show ?case
      unfolding start_user_stream_attempts.simps
      by (intro ev_try_else handler frame_intro Cons.IH) (simp_all add: limit_event_names_def)
  qed (simp add: ev_throw)
  then show ?thesis by (simp add: start_user_stream_def)
qed

lemma fr_raise [frame_intro]: "evolves R (raise_if_stream_task_failed t)"
  by (cases t rule: raise_if_stream_task_failed.cases) (simp_all add: ev_ret ev_throw)

lemma fr_retryable [frame_intro]: "evolves R (recover_retryable_user_stream_failure S e timeout)"
  unfolding recover_retryable_user_stream_failure_def
  by (intro frame_intro) (simp_all add: limit_event_names_def)

lemma fr_recover [frame_intro]: "evolves R (recover_or_raise_stream_task_failure S timeout)"
proof -
  have banned: "evolves R (bind (lift_res (raised (is_listen_key_venue_ban_hard_stop e))) (\<lambda>banned.
      if banned
      then bind (reconcile_user_stream_disconnect S) (\<lambda>_.
        andthen (record_event S ''user_stream_venue_ban_hard_stop'' [(''reason'', PStr (sanitize_exchange_reason e))])
          (throw (System_Exit (sanitize_exchange_reason e))))
      else bind (lift_res (raised (is_retryable_listen_key_stream_failure e))) (\<lambda>retryable.
        if \<not> retryable then throw (Raised e) else recover_retryable_user_stream_failure S e timeout)))" for e
    by (intro frame_intro) (simp_all add: limit_event_names_def)
  show ?thesis
    unfolding recover_or_raise_stream_task_failure_def
    by (intro ev_bind frame_intro fr_raise)
      (auto split: task.split task_end.split stop.split intro!: banned frame_intro)
qed

lemma fr_turns [frame_intro]: "evolves R (run_turns fuel S args eid deadline latest)"
proof (induction fuel arbitrary: latest)
  case (Suc fuel)
  show ?case
    unfolding run_turns.simps Let_def
    by (intro frame_intro Suc) (simp_all add: limit_event_names_def execution_payload_def)
qed (simp add: frame_intro)

lemma fr_cancel [frame_intro]: "evolves R (cancel_unended S args eid latest)"
  unfolding cancel_unended_def
  by (intro frame_intro) (simp_all add: limit_event_names_def execution_payload_def)

end

end
