(* ===== verification/Testnet_History.thy ===== *)
theory Testnet_History
  imports Testnet_Frame Samples
begin

text \<open>
  What the runner does to the engine and how long it goes on. From the creation of its execution on, it
  only calls client operations, so that whatever holds of every history of the engine holds of a run.
  Its loop ends on a clock that moves: after as many turns as the runtime holds sleeps.
\<close>

section \<open>A run is a history of the engine\<close>















section \<open>The loop ends\<close>

text \<open>
  A clock that moves: reading it gives the time of the world, no operation turns it back, and sleeping
  for at least \<open>step\<close> moves it by that much.
\<close>

definition time_flows :: "'w surroundings \<Rightarrow> ('w \<Rightarrow> rat) \<Rightarrow> rat \<Rightarrow> bool" where
  "time_flows S time step \<longleftrightarrow>
     (\<forall>w. fst (clock_monotonic (stage S) w) = time w
        \<and> time w \<le> time (snd (clock_monotonic (stage S) w)) \<and> time w \<le> time (snd (utc_now S w))
        \<and> time w \<le> time (snd (wall_clock_ms S w)) \<and> time w \<le> time (snd (user_stream_news S w))
        \<and> time w \<le> time (snd (market_stream_news S w))
        \<and> (\<forall>t. time w \<le> time (snd (open_user_stream S t w)) \<and> time w \<le> time (sleep S t w)
             \<and> (step \<le> t \<longrightarrow> time w + step \<le> time (sleep S t w))))
     \<and> (\<forall>r \<tau>. rec_ok r \<longrightarrow> order_guard (stage S) (\<lambda>w. \<tau> \<le> time w) UNIV UNIV r)"

definition moves_on :: "('w \<Rightarrow> rat) \<Rightarrow> runner \<times> records \<times> 'w \<Rightarrow> runner \<times> records \<times> 'w \<Rightarrow> bool" where
  "moves_on time s t \<longleftrightarrow>
     (engine_ok (fst (snd s)) \<longrightarrow> engine_ok (fst (snd t)) \<and> time (snd (snd s)) \<le> time (snd (snd t)))"

interpretation mo: evolution "moves_on time" for time
  by unfold_locales (auto simp: moves_on_def)

lemma moves_asked: "(\<And>w. time w \<le> time (snd (op w))) \<Longrightarrow> evolves (moves_on time) (asked op)"
  by (simp add: evolves_def moves_on_def asked_def split: prod.split) (metis snd_conv)

lemma moves_sensed: "(\<And>w. time w \<le> time (snd (op w))) \<Longrightarrow> evolves (moves_on time) (sensed op)"
  unfolding sensed_def by (rule moves_asked) (simp split: prod.split, metis snd_conv)

lemma moves_modrun: "evolves (moves_on time) (modrun f)"
  by (simp add: evolves_def moves_on_def modrun_def modify_def)

lemma moves_perform:
  fixes S :: "'w surroundings"
  assumes "time_flows S time step" "\<And>hex req. op \<noteq> Create hex req"
  shows "evolves (moves_on time) (served (perform (stage S) op))"
  unfolding evolves_def
proof
  fix s :: "runner \<times> records \<times> 'w"
  obtain r rs w where s: "s = (r, rs, w)" by (cases s)
  have fresh: "fresh_op (fst (rs, w)) op" using assms(2) by (cases op) auto
  have "moves_on time (r, rs, w) (r, snd (perform (stage S) op (rs, w)))"
    unfolding moves_on_def fst_conv snd_conv
  proof
    assume ok: "engine_ok rs"
    have "engine_ok (fst (snd (perform (stage S) op (rs, w))))"
      using perform_evolves [OF fresh, of "stage S"] ok by (simp add: engine_evolves_def)
    moreover have "time w \<le> time (snd (snd (perform (stage S) op (rs, w))))"
      using perform_guarded [of "stage S" "\<lambda>v. time w \<le> time v" UNIV UNIV "(rs, w)" op] assms(1) ok
      by (simp add: time_flows_def)
    ultimately show "engine_ok (fst (snd (perform (stage S) op (rs, w))))
      \<and> time w \<le> time (snd (snd (perform (stage S) op (rs, w))))" ..
  qed
  then show "moves_on time s (snd (served (perform (stage S) op) s))"
    by (auto simp: s served_def split: prod.split)
qed

lemma moves_frame:
  assumes "time_flows S time step"
  shows "stream_frame (moves_on time) S"
proof -
  have record_event: "evolves (moves_on time) (record_event S name payload)" for name payload
    unfolding record_event_def using assms
    by (intro mo.ev_bind moves_sensed moves_modrun) (simp_all add: time_flows_def)
  show ?thesis
    using assms
    by unfold_locales
      (auto simp: time_flows_def intro: record_event moves_modrun moves_perform [OF assms]
        intro!: moves_sensed moves_asked)
qed

definition ready :: "('w \<Rightarrow> rat) \<Rightarrow> rat \<Rightarrow> runner \<times> records \<times> 'w \<Rightarrow> bool" where
  "ready time \<tau> s \<longleftrightarrow> engine_ok (fst (snd s)) \<and> \<tau> \<le> time (snd (snd s))"

lemma wp_moves:
  assumes "evolves (moves_on time) m" "ready time \<tau> s" "\<And>x t. ready time \<tau> t \<Longrightarrow> Q x t"
  shows "wp m Q (\<lambda>_ _. True) s"
  using assms by (intro wp_evolves [OF assms(1)]) (auto simp: moves_on_def ready_def)

lemma wp_after: "m s = (Inr x, t) \<Longrightarrow> wp (k x) Q E t \<Longrightarrow> wp (bind m k) Q E s"
  by (simp add: wp_def bind_def)

lemma wp_sleep:
  assumes flows: "time_flows S time step" and long: "step \<le> seconds" and ready: "ready time \<tau> s"
    and Q: "\<And>x t. ready time (\<tau> + step) t \<Longrightarrow> Q x t"
  shows "wp (sleep_with_streams S seconds) Q (\<lambda>_ _. True) s"
proof -
  note frame = moves_frame [OF flows]
  obtain r rs w where s: "s = (r, rs, w)" by (cases s)
  have "time w + step \<le> time (sleep S seconds w)" using flows long by (simp add: time_flows_def)
  then have slept: "ready time (\<tau> + step) (r, rs, sleep S seconds w)" using ready by (simp add: s ready_def)
  have rest: "evolves (moves_on time) (andthen
       (bind (getrun user_task) (\<lambda>t. guarded (t = Running)
          (bind (sensed (user_stream_news S)) (\<lambda>(events, ending).
             try_else (pump_events S events)
               (\<lambda>e. set_user_task (Ended (Failed e)))
               (\<lambda>end_value. case end_value of
                  Some v \<Rightarrow> set_user_task (Ended (Returned (Some v)))
                | None \<Rightarrow> (case ending of None \<Rightarrow> ret () | Some t \<Rightarrow> set_user_task (Ended t)))))))
       (bind (getrun market_task) (\<lambda>t. guarded (t = Running)
          (bind (sensed (market_stream_news S)) (\<lambda>ending. case ending of
             None \<Rightarrow> ret ()
           | Some t \<Rightarrow> modrun (\<lambda>r. r\<lparr>market_task := Ended t\<rparr>))))))"
    unfolding getrun_def
    by (intro mo.ev_bind mo.ev_gets mo.ev_guarded mo.ev_try_else mo.ev_ret evolves_case_prod evolves_case_option
        moves_modrun stream_frame.fr_user_news [OF frame] stream_frame.fr_market_news [OF frame]
        stream_frame.fr_pump_events [OF frame] stream_frame.fr_set_user_task [OF frame])
  have sleeping: "sensed (\<lambda>w. ((), sleep S seconds w)) s = (Inr (), r, rs, sleep S seconds w)"
    by (simp add: s sensed_def asked_def)
  show ?thesis
    unfolding sleep_with_streams_def
    by (rule wp_after, rule sleeping) (rule wp_moves [OF rest slept], rule Q)
qed

text \<open>The parts of a turn: what follows is reached with the clock where the turn had it, or one sleep later.\<close>

abbreviation ends :: "('w, 'a option) run \<Rightarrow> runner \<times> records \<times> 'w \<Rightarrow> bool" where
  "ends m s \<equiv> wp m (\<lambda>x _. x \<noteq> None) (\<lambda>_ _. True) s"

lemma ends_past_deadline:
  assumes flows: "time_flows S time step" and ready: "ready time deadline s"
  shows "ends (run_turns (Suc n) S args eid deadline latest) s"
proof -
  obtain r rs w where s: "s = (r, rs, w)" by (cases s)
  obtain now w' where clock: "clock_monotonic (stage S) w = (now, w')"
    by (cases "clock_monotonic (stage S) w")
  then have "now = time w" using flows by (metis fst_conv time_flows_def)
  then have late: "\<not> now < deadline" using ready by (simp add: s ready_def not_less)
  have reading: "sensed (clock_monotonic (stage S)) s = (Inr now, r, rs, w')"
    by (simp add: s sensed_def asked_def clock)
  show ?thesis
    unfolding run_turns.simps(2) Let_def
    by (rule wp_after, rule reading) (simp add: late wp_ret)
qed

lemma ends_unless: "ends m s \<Longrightarrow> ends (if over then ret (Some latest) else m) s"
  by (simp add: wp_ret)

lemma ends_with_sleep:
  assumes flows: "time_flows S time step" and poll: "step \<le> seconds" and ready: "ready time \<tau> s"
    and again: "\<And>t. ready time (\<tau> + step) t \<Longrightarrow> ends again t"
  shows "ends (if over then ret (Some updated) else andthen (sleep_with_streams S seconds) again) s"
  by (rule ends_unless, subst wp_bind, rule wp_sleep [OF flows poll ready], rule again)

lemma ends_with_run:
  assumes flows: "time_flows S time step" and ready: "ready time \<tau> s"
    and rest: "\<And>updated t. ready time \<tau> t \<Longrightarrow> ends (rest updated) t"
  shows "ends (andthen (recover_or_raise_stream_task_failure S timeout) (bind (served (run_once (stage S) eid)) (\<lambda>updated.
     andthen (recover_or_raise_stream_task_failure S timeout)
       (andthen (record_event S ''run_once'' (execution_payload S updated)) (rest updated))))) s"
proof -
  note frame = moves_frame [OF flows]
  note recover = stream_frame.fr_recover [OF frame]
  note run = stream_frame.fr_operations(1) [OF frame]
  have event: "evolves (moves_on time) (record_event S ''run_once'' (execution_payload S x))" for x
    by (rule stream_frame.fr_record [OF frame]) (simp_all add: limit_event_names_def execution_payload_def)
  show ?thesis
    by (subst wp_bind, rule wp_moves [OF recover ready], subst wp_bind, rule wp_moves [OF run], assumption,
        subst wp_bind, rule wp_moves [OF recover], assumption, subst wp_bind, rule wp_moves [OF event], assumption,
        rule rest)
qed

lemma ends_with_turn:
  assumes flows: "time_flows S time step" and poll: "step \<le> poll_interval_seconds args" and ready: "ready time \<tau> s"
    and again: "\<And>updated t. ready time (\<tau> + step) t \<Longrightarrow> ends (run_turns n S args eid deadline updated) t"
  shows "ends (run_turns (Suc n) S args eid deadline latest) s"
proof -
  note frame = moves_frame [OF flows]
  have turn: "ends (andthen (recover_or_raise_stream_task_failure S timeout) (run_turns n S args eid deadline updated)) t"
    if "ready time (\<tau> + step) t" for timeout updated t
    by (subst wp_bind, rule wp_moves [OF stream_frame.fr_recover [OF frame] that], rule again)
  show ?thesis
    unfolding run_turns.simps(2) Let_def
    by (subst wp_bind, rule wp_moves [OF stream_frame.fr_clock [OF frame] ready], rule ends_unless,
        rule ends_with_run [OF flows], assumption, rule ends_with_sleep [OF flows poll], assumption, rule turn)
qed

lemma turns_end:
  assumes flows: "time_flows S time step" and poll: "step \<le> poll_interval_seconds args"
    and ready: "ready time (deadline - of_nat n * step) s"
  shows "ends (run_turns (Suc n) S args eid deadline latest) s"
  using ready
proof (induction n arbitrary: latest s)
  case 0
  then show ?case by (intro ends_past_deadline [OF flows]) simp
next
  case (Suc n)
  have slept: "deadline - of_nat (Suc n) * step + step = deadline - of_nat n * step" by (simp add: algebra_simps)
  show ?case
    by (rule ends_with_turn [OF flows poll Suc.prems], rule Suc.IH) (simp only: slept)
qed

text \<open>
  C27. On a clock that moves, the loop of turns ends: with one turn more than there are sleeps of the
  polling interval until the deadline, the fuel of the loop is never used up, whatever the exchange and
  the streams do.
\<close>

theorem run_turns_end:
  assumes flows: "time_flows S time step" and poll: "step \<le> poll_interval_seconds args" and ok: "engine_ok rs"
    and fuel: "deadline \<le> time w + of_nat n * step"
  shows "fst (run_turns (Suc n) S args eid deadline latest (r, rs, w)) \<noteq> Inr None"
proof -
  have "ready time (deadline - of_nat n * step) (r, rs, w)"
    using ok fuel by (simp add: ready_def algebra_simps)
  from turns_end [OF flows poll this, of eid latest] show ?thesis
    by (auto simp: wp_def simp del: run_turns.simps split: prod.splits sum.splits)
qed

text \<open>An exchange whose world is the time.\<close>

definition ticking_exchange :: "rat adapter" where
  "ticking_exchange =
     \<lparr>get_symbol_rules = (\<lambda>symb w. (Inr steady_rules, w)),
      get_position = (\<lambda>symb w. (Inr \<lparr>pos_symbol = symb, pos_position = 0, pos_update_time_ms = None\<rparr>, w)),
      get_best_bid_ask = (\<lambda>symb w. (Inr steady_market, w)),
      submit_limit_order = (\<lambda>ord w.
        (Inr ((new_child_order (or_child_order_id ord) (or_client_order_id ord) (or_symbol ord)
                (or_side ord) (or_quantity ord) (or_price ord))\<lparr>child_status := OPEN\<rparr>), w)),
      cancel_order = (\<lambda>symb coid w. (Inl (KeyError coid), w)),
      get_order_by_client_order_id = (\<lambda>symb coid w. (Inr None, w)),
      reconcile_orders_and_fills = (\<lambda>symb pre t0 t1 w.
        (Inr \<lparr>rr_orders = [], rr_fills = [], rr_warnings = []\<rparr>, w)),
      health_check_streams = (\<lambda>w. (Inr True, w)),
      clock_monotonic = (\<lambda>w. (w, w))\<rparr>"

definition ticking_stage :: "rat surroundings" where
  "ticking_stage =
     \<lparr>stage = ticking_exchange, wall_clock_ms = (\<lambda>w. (\<lfloor>1000 * w\<rfloor>, w)), utc_now = (\<lambda>w. (''2026-01-01'', w)),
      loop_time = (\<lambda>w. (w, w)), sleep = (\<lambda>t w. w + max 0 t), synchronize_server_time = (\<lambda>w. (Inr 0, w)),
      open_market_stream = (\<lambda>t w. (Inr PNone, w)), open_user_stream = (\<lambda>t w. (Inr (), w)),
      user_stream_news = (\<lambda>w. (([], None), w)), market_stream_news = (\<lambda>w. (None, w)),
      new_execution_hex = (\<lambda>w. (''0123456789abcdef'', w)), rate_limits = (\<lambda>w. []),
      set_market_stream_symbol = (\<lambda>symb w. w), decimal_as_text = plain_string,
      float_as_text = plain_string \<circ> float_decimal\<rparr>"

definition sample_args :: run_args where
  "sample_args = \<lparr>arg_symbol = ''BTCUSDT'', confirm_send_orders = True, arg_target_position = Some ''3'',
     arg_target_price_lower = Some ''90'', arg_target_price_upper = Some ''110'', duration_seconds = 60,
     arg_number_of_slices = 5, max_runtime_seconds = 70, poll_interval_seconds = 1, market_timeout_seconds = 10\<rparr>"

lemma ticking_flows: "time_flows ticking_stage (\<lambda>w. w) 1"
proof -
  have "order_guard ticking_exchange (\<lambda>w. \<tau> \<le> w) UNIV UNIV r" if "rec_ok r" for r \<tau>
    by unfold_locales (simp_all add: ticking_exchange_def that)
  then show ?thesis by (simp add: time_flows_def ticking_stage_def) (simp add: ticking_exchange_def)
qed

lemma run_turns_end_witness:
  "fst (run_turns (Suc 70) ticking_stage sample_args ''exec_0123456789abcdef'' 70 running_record
     (new_runner, [(''exec_0123456789abcdef'', running_record)], 0)) \<noteq> Inr None"
proof (rule run_turns_end [OF ticking_flows])
  show "1 \<le> poll_interval_seconds sample_args" by (simp add: sample_args_def)
  show "engine_ok [(''exec_0123456789abcdef'', running_record)]"
    using running_record_ok by (simp add: engine_ok_def running_record_def new_execution_record_def)
qed simp

end
