(* ===== verification/Testnet_Laws.thy ===== *)
theory Testnet_Laws
  imports Testnet_History
begin

text \<open>
  What the runner of the test network promises: what it refuses before it reaches the exchange, how
  often it asks an exchange that limits it, and what the reasons it writes down can show. The last
  section is a failure of the user stream that it reports as another one.
\<close>

section \<open>Reasons\<close>





















section \<open>How often a limited exchange is asked\<close>

definition limit_events :: "runner \<Rightarrow> nat" where
  "limit_events r = length (filter (\<lambda>e. \<exists>name \<in> set limit_event_names. map_of e ''event'' = Some (PStr name)) (run_events r))"


definition no_limit_event :: "runner \<times> 's \<Rightarrow> runner \<times> 's \<Rightarrow> bool" where
  "no_limit_event s t \<longleftrightarrow> limit_events (fst t) \<le> limit_events (fst s)"






lemma runtime_event_name: "''event'' \<notin> fst ` set payload \<Longrightarrow> map_of (runtime_event utc now payload name) ''event'' = Some (PStr name)"
proof -
  have "''event'' \<notin> fst ` set payload \<Longrightarrow>
    map_of (foldl (\<lambda>event (k, v). AList.update k v event) start payload) ''event'' = map_of start ''event''"
    for start :: event
    by (induction payload arbitrary: start) (auto simp: update_conv')
  then show "''event'' \<notin> fst ` set payload \<Longrightarrow> map_of (runtime_event utc now payload name) ''event'' = Some (PStr name)"
    by (simp add: runtime_event_def)
qed

lemma limit_events_append:
  "limit_events (r\<lparr>run_events := run_events r @ [e]\<rparr>)
   = limit_events r + (if \<exists>name \<in> set limit_event_names. map_of e ''event'' = Some (PStr name) then 1 else 0)"
  by (simp add: limit_events_def)

interpretation le: stream_frame no_limit_event S for S
proof
  show "evolves no_limit_event (record_event S name payload)"
    if "name \<notin> set limit_event_names" "''event'' \<notin> fst ` set payload" for S :: "'w surroundings" and name payload
    using that
    by (simp add: record_event_def sensed_def asked_def bind_def modrun_def modify_def evolves_def no_limit_event_def
        limit_events_append runtime_event_name split: prod.split)
qed (auto simp: no_limit_event_def evolves_def modrun_def modify_def limit_events_def sensed_def asked_def
    served_def split: prod.split)














section \<open>What is refused before anything is sent\<close>

text \<open>
  Without both credentials, the confirmation, three valid decimals and a symbol, the runner exits
  with a message and has done nothing: no request was sent, no stream opened, no clock read.
\<close>

theorem refused_untouched:
  "(\<exists>t. run_testnet fuel S dumps a args credentials s = (Inl (System_Exit t), s))
   \<or> is_configured credentials \<and> confirm_send_orders args
     \<and> (\<exists>target lo hi symb. required_decimal (arg_target_position args) ''--target-position'' = Inr target
         \<and> required_decimal (arg_target_price_lower args) ''--target-price-lower'' = Inr lo
         \<and> required_decimal (arg_target_price_upper args) ''--target-price-upper'' = Inr hi
         \<and> normalize_symbol (arg_symbol args) = Inr symb)"
proof -
  have exits: "required_decimal v label = Inl e \<Longrightarrow> \<exists>t. e = System_Exit t" for v label e
    by (auto simp: required_decimal_def split: option.splits sum.splits)
  have exits_symbol: "normalize_symbol v = Inl e \<Longrightarrow> \<exists>t. e = System_Exit t" for v e
    by (auto simp: normalize_symbol_def Let_def split: if_splits)
  show ?thesis
  proof (cases "is_configured credentials \<and> confirm_send_orders args")
    case True
    show ?thesis
      using True exits exits_symbol
      by (cases "required_decimal (arg_target_position args) ''--target-position''";
          cases "required_decimal (arg_target_price_lower args) ''--target-price-lower''";
          cases "required_decimal (arg_target_price_upper args) ''--target-price-upper''";
          cases "normalize_symbol (arg_symbol args)")
        (simp_all add: run_testnet_def bind_def lift_res_def)
  qed (auto simp: run_testnet_def throw_def)
qed

section \<open>A silent failure of the user stream\<close>

text \<open>
  C39. An exception without a text, such as the \<^verbatim>\<open>TimeoutError\<close> of a user stream that does not
  become healthy in time, is not reported as such: taking the first word of its empty text raises
  \<^verbatim>\<open>IndexError\<close> inside the handler, and this is what the start of the stream raises.
\<close>

theorem silent_stream_failure:
  assumes "start_user_stream_once S timeout s = (Inl (Raised (OtherError [])), t)"
  shows "start_user_stream S timeout s = (Inl (Raised (OtherError ''list index out of range'')), t)"
proof -
  have "[1..user_stream_max_attempts] = [1, 2, 3]" by code_simp
  then show ?thesis
    using assms
    by (simp add: start_user_stream_def try_else_def bind_def lift_res_def raised_def
        is_listen_key_venue_ban_hard_stop_def listen_key_stream_failure_code_def)
qed

definition silent_stage :: "rat surroundings" where
  "silent_stage = ticking_stage\<lparr>open_user_stream := (\<lambda>t w. (Inl (Raised (OtherError [])), w))\<rparr>"

lemma silent_stream_failure_witness:
  "start_user_stream silent_stage 10 (new_runner, [], 1)
   = (Inl (Raised (OtherError ''list index out of range'')),
      new_runner\<lparr>stream_started := Some 1000\<rparr>, [], 1)"
proof (rule silent_stream_failure)
  show "start_user_stream_once silent_stage 10 (new_runner, [], 1)
    = (Inl (Raised (OtherError [])), new_runner\<lparr>stream_started := Some 1000\<rparr>, [], 1)"
    by (simp add: start_user_stream_once_def runner_wall_ms_def sensed_def asked_def bind_def ret_def
        guarded_def modrun_def modify_def silent_stage_def ticking_stage_def)
qed

end
