(* ===== verification/Streams.thy ===== *)
theory Streams
  imports Runtime_Laws
begin

text \<open>
  The stream tasks of the supervisor (\<^verbatim>\<open>src/api/runtime.py\<close>): for every environment but the
  simulation a supervisor of the market stream, one of the user stream and a keepalive of its listen key.
  A task is what its loop carries from one turn to the next; its turns, split where it waits for the
  exchange, are operations that come in any order. A task that has ended is one that is not there.
\<close>

section \<open>Tasks\<close>

text \<open>The count of retryable failures of the listen key, before a stream is opened and while it is read.\<close>

datatype user_phase = Waiting nat | Reading nat

record supervisors =
  market_supervisors :: "environment set"
  user_supervisors :: "environment \<rightharpoonup> user_phase"
  keepalives :: "environment \<rightharpoonup> nat \<times> pyfloat"

definition no_supervisors :: supervisors where
  "no_supervisors =
     \<lparr>market_supervisors = {}, user_supervisors = (\<lambda>_. None), keepalives = (\<lambda>_. None)\<rparr>"

type_synonym ('w, 'a) st = "(exn, supervisors \<times> runtime \<times> 'w, 'a) eff"

definition inside :: "('w, 'a) rt \<Rightarrow> ('w, 'a) st" where
  "inside m = (\<lambda>(ts, s). let (x, s') = m s in (x, ts, s'))"

definition tasks :: "(supervisors \<Rightarrow> 'a) \<Rightarrow> ('w, 'a) st" where
  "tasks f = gets (\<lambda>s. f (fst s))"

definition modtasks :: "(supervisors \<Rightarrow> supervisors) \<Rightarrow> ('w, unit) st" where
  "modtasks f = modify (\<lambda>s. (f (fst s), snd s))"

definition started :: "('w, bool) st" where
  "started = inside (getrt is_started)"

definition set_user :: "environment \<Rightarrow> user_phase option \<Rightarrow> ('w, unit) st" where
  "set_user env p = modtasks (\<lambda>ts. ts\<lparr>user_supervisors := (user_supervisors ts)(env := p)\<rparr>)"

definition set_keepalive :: "environment \<Rightarrow> (nat \<times> pyfloat) option \<Rightarrow> ('w, unit) st" where
  "set_keepalive env k = modtasks (\<lambda>ts. ts\<lparr>keepalives := (keepalives ts)(env := k)\<rparr>)"

section \<open>Scheduling\<close>

text \<open>A task that runs already is left alone. The adapter of Binance has all three operations.\<close>

definition start_stream_supervisors :: "environment \<Rightarrow> ('w, unit) st" where
  "start_stream_supervisors env =
     guarded (env \<noteq> SIMULATION)
       (bind (inside (getrt stream_keepalive_interval)) (\<lambda>interval.
          modtasks (\<lambda>ts. ts
            \<lparr>market_supervisors := insert env (market_supervisors ts),
             user_supervisors := (case user_supervisors ts env of
               None \<Rightarrow> (user_supervisors ts)(env := Some (Waiting 0)) | Some _ \<Rightarrow> user_supervisors ts),
             keepalives := (case keepalives ts env of
               None \<Rightarrow> (keepalives ts)(env := Some (0, interval)) | Some _ \<Rightarrow> keepalives ts)\<rparr>)))"

text \<open>An operation of a supervisor that runs starts the tasks of the environments it registers.\<close>

definition supervise_new :: "environment list \<Rightarrow> ('w, unit) st" where
  "supervise_new known =
     bind started (\<lambda>running.
     bind (inside (getrt (\<lambda>r. map fst (services r)))) (\<lambda>envs.
       guarded running (for_each (filter (\<lambda>env. env \<notin> set known) envs) start_stream_supervisors)))"

definition registering :: "('w, 'a) rt \<Rightarrow> ('w, 'a) st" where
  "registering m =
     bind (inside (getrt (\<lambda>r. map fst (services r)))) (\<lambda>known.
       try_else (inside m)
         (\<lambda>e. andthen (supervise_new known) (throw e))
         (\<lambda>x. andthen (supervise_new known) (ret x)))"

definition start_supervised :: "('w, unit) st" where
  "start_supervised =
     bind (inside (getrt (\<lambda>r. is_started r \<or> is_stopping r))) (\<lambda>busy. guarded (\<not> busy)
       (bind (inside (getrt (\<lambda>r. map fst (services r)))) (\<lambda>envs.
          andthen (for_each envs start_stream_supervisors) (inside start_runtime))))"

definition finish_supervised :: "('w, unit) st" where
  "finish_supervised = andthen (modtasks (\<lambda>_. no_supervisors)) (inside finish_stop)"

section \<open>The supervisor of a stream\<close>

text \<open>What the market stream brings is dropped; how it ends is noted, and it is opened again.\<close>

definition market_stream_turn :: "'w platform \<Rightarrow> environment \<Rightarrow> exn option \<Rightarrow> ('w, unit) st" where
  "market_stream_turn P env ending =
     bind (tasks (\<lambda>ts. env \<in> market_supervisors ts)) (\<lambda>there. guarded there
       (bind started (\<lambda>running.
          if \<not> running
          then modtasks (\<lambda>ts. ts\<lparr>market_supervisors := market_supervisors ts - {env}\<rparr>)
          else bind (inside (outside (wall_ms P env))) (\<lambda>_.
            case ending of
              None \<Rightarrow> ret ()
            | Some e \<Rightarrow> inside (record_runtime_error (environment_value env @ ''.market_stream'') e)))))"

definition open_user_stream :: "'w platform \<Rightarrow> environment \<Rightarrow> ('w, unit) st" where
  "open_user_stream P env =
     bind (tasks (\<lambda>ts. user_supervisors ts env)) (\<lambda>phase. case phase of
       Some (Waiting n) \<Rightarrow>
         bind started (\<lambda>running.
           if running then andthen (inside (user_stream_started P env)) (set_user env (Some (Reading n)))
           else set_user env None)
     | _ \<Rightarrow> ret ())"

text \<open>A failure that ends the supervisor stops the keepalive too.\<close>

definition user_stream_fails :: "'w platform \<Rightarrow> environment \<Rightarrow> nat \<Rightarrow> exn \<Rightarrow> ('w, unit) st" where
  "user_stream_fails P env n e =
     bind (inside (user_stream_failed P env n e)) (\<lambda>next. case next of
       None \<Rightarrow> andthen (set_keepalive env None) (set_user env None)
     | Some k \<Rightarrow> set_user env (Some (Waiting k)))"

definition user_stream_ends :: "'w platform \<Rightarrow> environment \<Rightarrow> exn option \<Rightarrow> ('w, unit) st" where
  "user_stream_ends P env ending =
     bind (tasks (\<lambda>ts. user_supervisors ts env)) (\<lambda>phase. case phase of
       Some (Reading n) \<Rightarrow>
         (case ending of
            None \<Rightarrow> andthen (inside (user_stream_lost P env)) (set_user env (Some (Waiting n)))
          | Some e \<Rightarrow> user_stream_fails P env n e)
     | _ \<Rightarrow> ret ())"

text \<open>An event that cannot be handled counts as a failure of the stream.\<close>

definition user_stream_hears :: "'w platform \<Rightarrow> environment \<Rightarrow> pyval \<Rightarrow> ('w, unit) st" where
  "user_stream_hears P env event =
     bind (tasks (\<lambda>ts. user_supervisors ts env)) (\<lambda>phase. case phase of
       Some (Reading n) \<Rightarrow>
         bind started (\<lambda>running.
           if \<not> running then set_user env None
           else try_else (inside (user_stream_event P env event)) (user_stream_fails P env 0)
             (\<lambda>expired. set_user env (Some (if expired then Waiting 0 else Reading 0))))
     | _ \<Rightarrow> ret ())"

section \<open>The keepalive\<close>

text \<open>The task of the user stream is replaced, after what it may have missed has been reconciled.\<close>

definition restart_user_stream :: "environment \<Rightarrow> ('w, unit) st" where
  "restart_user_stream env =
     bind started (\<lambda>running. set_user env (if running then Some (Waiting 0) else None))"

text \<open>
  A turn of the keepalive, after its sleep: the listen key of the adapter, and the error its renewal
  raised. An invalid key opens a new user stream.
\<close>

definition keepalive_turn ::
  "'w platform \<Rightarrow> environment \<Rightarrow> string option \<Rightarrow> exn option \<Rightarrow> ('w, unit) st" where
  "keepalive_turn P env listen_key renewal =
     bind (tasks (\<lambda>ts. keepalives ts env)) (\<lambda>k. case k of
       None \<Rightarrow> ret ()
     | Some (failures, _) \<Rightarrow>
         bind (inside (getrt stream_keepalive_interval)) (\<lambda>interval.
         andthen
           (if listen_key = None \<or> listen_key = Some [] then set_keepalive env (Some (failures, interval))
            else case renewal of
              None \<Rightarrow> set_keepalive env (Some (0, interval))
            | Some e \<Rightarrow>
                bind (inside (keepalive_failed P env failures e)) (\<lambda>next. case next of
                  None \<Rightarrow> andthen (set_keepalive env None) (set_user env None)
                | Some n \<Rightarrow>
                    bind (inside (getrt listen_key_retry_delay_seconds)) (\<lambda>retry.
                    andthen
                      (set_keepalive env (Some (n, if is_listen_key_retryable e then retry else interval)))
                      (guarded (is_listen_key_invalidated e) (restart_user_stream env)))))
           (bind started (\<lambda>running. guarded (\<not> running) (set_keepalive env None)))))"

section \<open>Histories\<close>

datatype supervised_op =
    Runtime_Act runtime_op
  | Open_User_Stream environment
  | User_Stream_Event environment pyval
  | User_Stream_End environment "exn option"
  | Market_Stream_End environment "exn option"
  | Keepalive environment "string option" "exn option"

fun supervised_act :: "'w platform \<Rightarrow> supervised_op \<Rightarrow> ('w, unit) st" where
  "supervised_act P (Runtime_Act Start_Runtime) = start_supervised"
| "supervised_act P (Runtime_Act Finish_Stop) = finish_supervised"
| "supervised_act P (Runtime_Act op) = registering (runtime_act P op)"
| "supervised_act P (Open_User_Stream env) = open_user_stream P env"
| "supervised_act P (User_Stream_Event env event) = user_stream_hears P env event"
| "supervised_act P (User_Stream_End env ending) = user_stream_ends P env ending"
| "supervised_act P (Market_Stream_End env ending) = market_stream_turn P env ending"
| "supervised_act P (Keepalive env key renewal) = keepalive_turn P env key renewal"

text \<open>The streams act through their tasks only, and the random part of an id does not repeat.\<close>

fun possible_op :: "runtime \<Rightarrow> supervised_op \<Rightarrow> bool" where
  "possible_op r (Runtime_Act (Client_Create hex req)) = fresh_id hex r"
| "possible_op r (Runtime_Act (Stream_Started _)) = False"
| "possible_op r (Runtime_Act (Stream_Event _ _)) = False"
| "possible_op r (Runtime_Act (Stream_Failed _ _ _)) = False"
| "possible_op r (Runtime_Act (Keepalive_Failed _ _ _)) = False"
| "possible_op r _ = True"

text \<open>Between two acts the world may move by itself, as \<open>N\<close> allows.\<close>

inductive supervised_step ::
  "('w \<Rightarrow> 'w \<Rightarrow> bool) \<Rightarrow> 'w platform \<Rightarrow> supervisors \<times> runtime \<times> 'w \<Rightarrow> supervisors \<times> runtime \<times> 'w \<Rightarrow> bool"
  for N P where
  act: "possible_op (fst (snd s)) op \<Longrightarrow> supervised_step N P s (snd (supervised_act P op s))"
| outside: "N w w' \<Longrightarrow> supervised_step N P (ts, r, w) (ts, r, w')"

abbreviation supervised_history_in ::
  "('w \<Rightarrow> 'w \<Rightarrow> bool) \<Rightarrow> 'w platform \<Rightarrow> supervisors \<times> runtime \<times> 'w \<Rightarrow> supervisors \<times> runtime \<times> 'w \<Rightarrow> bool"
  where
  "supervised_history_in N P \<equiv> (supervised_step N P)\<^sup>*\<^sup>*"

abbreviation supervised_history ::
  "'w platform \<Rightarrow> supervisors \<times> runtime \<times> 'w \<Rightarrow> supervisors \<times> runtime \<times> 'w \<Rightarrow> bool" where
  "supervised_history P \<equiv> supervised_history_in (\<lambda>_ _. True) P"

section \<open>What the tasks make of the supervisor\<close>

definition below :: "(runtime \<times> 'w \<Rightarrow> runtime \<times> 'w \<Rightarrow> bool)
  \<Rightarrow> supervisors \<times> runtime \<times> 'w \<Rightarrow> supervisors \<times> runtime \<times> 'w \<Rightarrow> bool" where
  "below R s t \<longleftrightarrow> R (snd s) (snd t)"

named_theorems stream_intro

lemma inside_run: "inside m s = (fst (m (snd s)), fst s, snd (m (snd s)))"
  by (simp add: inside_def split: prod.split)

lemma supervise_new_same:
  fixes s :: "supervisors \<times> runtime \<times> 'w"
  shows "snd (snd (supervise_new known s)) = snd s"
proof -
  have ev: "evolution (\<lambda>s t :: supervisors \<times> runtime \<times> 'w. snd t = snd s)" by unfold_locales auto
  have start: "evolves (\<lambda>s t. snd t = snd s) (start_stream_supervisors env)" for env
    by (auto simp: evolves_def start_stream_supervisors_def guarded_def bind_def inside_run getrt_def gets_def
        modtasks_def modify_def ret_def)
  have "evolves (\<lambda>s t :: supervisors \<times> runtime \<times> 'w. snd t = snd s) (for_each envs start_stream_supervisors)" for envs
    by (rule evolution.ev_for_each [OF ev start])
  then show ?thesis
    by (cases s) (auto simp: evolves_def supervise_new_def started_def guarded_def bind_def inside_run getrt_def gets_def ret_def)
qed

lemma registering_state: "snd (snd (registering m s)) = snd (m (snd s))"
  using supervise_new_same [of "map fst (services (fst (snd s)))" "(fst s, snd (m (snd s)))"]
  by (auto simp: registering_def bind_def try_else_def inside_run getrt_def gets_def
      throw_def ret_def split: sum.split prod.split)

context runtime_frame
begin

lemma below_evolution: "evolution (below R)"
proof unfold_locales
  show "below R s s" for s :: "supervisors \<times> runtime \<times> 'w" by (simp add: below_def refl)
  show "below R s u" if "below R s t" "below R t u" for s t u :: "supervisors \<times> runtime \<times> 'w"
    using that unfolding below_def by (rule trans)
qed

lemmas [stream_intro] =
  evolution.ev_ret [OF below_evolution] evolution.ev_throw [OF below_evolution]
  evolution.ev_gets [OF below_evolution] evolution.ev_lift_res [OF below_evolution]
  evolution.ev_bind [OF below_evolution] evolution.ev_try_else [OF below_evolution]
  evolution.ev_guarded [OF below_evolution] evolution.ev_for_each [OF below_evolution]
  evolves_if evolves_case_option evolves_case_prod evolves_case_sum evolves_Let

lemma below_inside [stream_intro]: "evolves R m \<Longrightarrow> evolves (below R) (inside m)"
  by (simp add: evolves_def below_def inside_run)

lemma below_tasks [stream_intro]:
  "evolves (below R) (tasks f)" "evolves (below R) (modtasks g)"
  "evolves (below R) started" "evolves (below R) (set_user env p)" "evolves (below R) (set_keepalive env k)"
  unfolding set_user_def set_keepalive_def started_def
  by (auto simp: evolves_def below_def tasks_def modtasks_def gets_def modify_def getrt_def inside_run refl)

lemma below_supervisors [stream_intro]:
  "evolves (below R) (start_stream_supervisors env)"
  "evolves R m \<Longrightarrow> evolves (below R) (registering m)"
  "evolves (below R) start_supervised"
  "evolves (below R) finish_supervised"
  "evolves (below R) (market_stream_turn P env ending)"
  unfolding registering_def supervise_new_def start_supervised_def finish_supervised_def
    market_stream_turn_def start_stream_supervisors_def
  by (intro stream_intro runtime_intro; assumption)+

lemma evolves_case_phase:
  "(\<And>n. p = Waiting n \<Longrightarrow> evolves S (f n)) \<Longrightarrow> (\<And>n. p = Reading n \<Longrightarrow> evolves S (g n))
    \<Longrightarrow> evolves S (case p of Waiting n \<Rightarrow> f n | Reading n \<Rightarrow> g n)"
  by (cases p) auto

lemma below_user_stream [stream_intro]:
  "evolves (below R) (open_user_stream P env)"
  "evolves (below R) (user_stream_fails P env n e)"
  "evolves (below R) (user_stream_ends P env ending)"
  "evolves (below R) (user_stream_hears P env event)"
  "evolves (below R) (keepalive_turn P env key renewal)"
  unfolding open_user_stream_def user_stream_fails_def user_stream_ends_def user_stream_hears_def
    keepalive_turn_def restart_user_stream_def
  by (intro stream_intro runtime_intro evolves_case_phase)+

lemma below_acts:
  assumes "\<And>hex req. op \<noteq> Runtime_Act (Client_Create hex req)" "possible_op r op"
  shows "evolves (below R) (supervised_act P op)"
proof (cases op)
  case (Runtime_Act o')
  have [simp]: "evolves R m \<Longrightarrow> evolves R (discard m)" for m :: "('w, execution_record) rt"
    unfolding discard_def by (intro runtime_intro)
  have [simp]: "evolves R m \<Longrightarrow> evolves R (discard m)" for m :: "('w, bool) rt"
    unfolding discard_def by (intro runtime_intro)
  have "\<forall>hex req. o' \<noteq> Client_Create hex req" using assms(1) Runtime_Act by auto
  then show ?thesis
    using assms(2) unfolding Runtime_Act
    by (cases o') (simp_all add: below_supervisors rf_client rf_background rf_lifecycle)
qed (simp_all add: stream_intro)

text \<open>A step obeys the relation if the creation of an execution and the moves of the world do.\<close>

lemma step_obeys:
  assumes "supervised_step N P s t"
    and creates: "\<And>hex req. fresh_id hex (fst (snd s)) \<Longrightarrow> R (snd s) (snd (rt_create_execution P hex req (snd s)))"
    and moves: "\<And>r w w'. N w w' \<Longrightarrow> R (r, w) (r, w')"
  shows "R (snd s) (snd t)"
  using assms(1)
proof (cases rule: supervised_step.cases)
  case (act op)
  show ?thesis
  proof (cases "\<exists>hex req. op = Runtime_Act (Client_Create hex req)")
    case True
    then obtain hex req where op: "op = Runtime_Act (Client_Create hex req)" by blast
    show ?thesis using creates [of hex req] act(2) by (simp add: act(1) op registering_state)
  next
    case False
    then have "evolves (below R) (supervised_act P op)"
      using act(2) by (intro below_acts) auto
    from evolvesD [OF this, of s] show ?thesis by (simp add: act(1) below_def)
  qed
qed (simp add: moves)

end

end
