(* ===== verification/Stream_Laws.thy ===== *)
theory Stream_Laws
  imports Streams
begin

text \<open>
  What the stream tasks do to the supervisor: its invariant holds in every history with them, an
  environment that has become unavailable stays so, and a user stream that fails three times in a row
  for its listen key is given up, with its keepalive and every later execution.
\<close>

section \<open>Unavailable environments\<close>

text \<open>What keeps an environment unavailable.\<close>

definition unavailable_kept :: "environment \<Rightarrow> runtime \<times> 'w \<Rightarrow> runtime \<times> 'w \<Rightarrow> bool" where
  "unavailable_kept env s t \<longleftrightarrow>
     (unavailable_reason env (fst s) \<noteq> None \<longrightarrow> unavailable_reason env (fst t) \<noteq> None)"

lemma unavailable_reason_update:
  "reason \<noteq> [] \<Longrightarrow> unavailable_reason env r \<noteq> None \<Longrightarrow>
   unavailable_reason env (r\<lparr>unavailable_environments := AList.update e reason (unavailable_environments r)\<rparr>) \<noteq> None"
  by (auto simp: unavailable_reason_def update_conv' split: option.splits)

lemma unavailable_books:
  "unavailable_environments r' = unavailable_environments r \<Longrightarrow> unavailable_kept env (r, w) (r', w')"
  by (simp add: unavailable_kept_def unavailable_reason_def)

lemma un_service: "evolves (unavailable_kept env) (on_service e m)"
  by (auto simp: evolves_def on_service_def intro: unavailable_books split: prod.split)

interpretation un: runtime_frame "unavailable_kept env" P for env and P :: "'w platform"
proof (rule runtime_frame.intro)
  show "evolution (unavailable_kept env :: runtime \<times> 'w \<Rightarrow> _)"
    by unfold_locales (auto simp: unavailable_kept_def)
  show "runtime_frame_axioms (unavailable_kept env) P"
    by (rule runtime_frame_axioms.intro)
      (simp_all add: unavailable_books un_service, simp add: unavailable_kept_def unavailable_reason_update)
qed

lemma create_refused:
  assumes "unavailable_reason (req_environment req) r = Some reason" "\<not> is_stopping r"
  shows "rt_create_execution P hex req (r, w) = (Inl (RuntimeUnavailableError reason), r, w)"
  using assms by (simp add: rt_create_execution_def Let_def bind_def getrt_def gets_def throw_def)

lemma create_refused_stopping:
  "is_stopping r \<Longrightarrow>
   rt_create_execution P hex req (r, w) = (Inl (RuntimeConfigurationError ''runtime is stopping''), r, w)"
  by (simp add: rt_create_execution_def Let_def bind_def getrt_def gets_def throw_def)


lemma create_keeps_unavailable: "evolves (unavailable_kept env) (rt_create_execution P hex req)"
  unfolding evolves_def
proof
  fix s :: "runtime \<times> 'a"
  obtain r w where s: "s = (r, w)" by (cases s)
  show "unavailable_kept env s (snd (rt_create_execution P hex req s))"
  proof (cases "req_environment req = env")
    case True
    then show ?thesis
      using create_refused [of req r _ P hex w] create_refused_stopping [of r P hex req w]
      by (cases "is_stopping r"; cases "unavailable_reason env r") (auto simp: s unavailable_kept_def)
  next
    case False
    have mark: "evolves (unavailable_kept env) (mark_unavailable (req_environment req) reason)" for reason
      using False by (auto simp: evolves_def mark_unavailable_def modrt_def modify_def unavailable_kept_def
          unavailable_reason_def update_conv' split: option.splits)
    have "evolves (unavailable_kept env) (creation_failed (req_environment req) e)" for e
      unfolding creation_failed_def
      by (cases e; simp only: exn.case) (intro runtime_intro mark)+
    then have "evolves (unavailable_kept env) (rt_create_execution P hex req)"
      unfolding rt_create_execution_def Let_def by (intro runtime_intro un_service)
    then show ?thesis by (rule evolvesD)
  qed
qed

lemma unavailable_step: "supervised_step N P s t \<Longrightarrow> unavailable_kept env (snd s) (snd t)"
  by (erule un.step_obeys) (simp_all add: evolvesD [OF create_keeps_unavailable] unavailable_books)

lemma unavailable_history:
  "supervised_history_in N P s t \<Longrightarrow> unavailable_reason env (fst (snd s)) \<noteq> None
    \<Longrightarrow> unavailable_reason env (fst (snd t)) \<noteq> None"
proof (induction rule: rtranclp_induct)
  case (step t u)
  then show ?case using unavailable_step [of N P t u env] by (simp add: unavailable_kept_def)
qed simp

section \<open>Statements that do not raise\<close>

definition never_fails :: "('e, 's, 'a) eff \<Rightarrow> bool" where
  "never_fails m \<longleftrightarrow> (\<forall>s. wp m (\<lambda>_ _. True) (\<lambda>_ _. False) s)"

named_theorems quiet_intro

lemma nf_basic [quiet_intro]:
  "never_fails (ret x)" "never_fails (getrt f)" "never_fails (modrt g)" "never_fails (outside op)"
  by (auto simp: never_fails_def wp_def ret_def getrt_def gets_def modrt_def modify_def outside_def split: prod.split)

lemma nf_bind [quiet_intro]:
  "never_fails m \<Longrightarrow> (\<And>x. never_fails (k x)) \<Longrightarrow> never_fails (bind m k)"
  unfolding never_fails_def wp_bind by (blast intro: wp_mono)

lemma nf_try_else [quiet_intro]:
  "(\<And>e. never_fails (h e)) \<Longrightarrow> (\<And>x. never_fails (k x)) \<Longrightarrow> never_fails (try_else m h k)"
  by (auto simp: never_fails_def wp_try_else wp_def [of m] split: prod.split sum.split
      simp del: split_paired_All)

lemma nf_guarded [quiet_intro]: "(b \<Longrightarrow> never_fails m) \<Longrightarrow> never_fails (guarded b m)"
  by (simp add: guarded_def nf_basic)

lemma nf_if [quiet_intro]:
  "(b \<Longrightarrow> never_fails m) \<Longrightarrow> (\<not> b \<Longrightarrow> never_fails n) \<Longrightarrow> never_fails (if b then m else n)"
  by simp

lemma nf_for_each [quiet_intro]: "(\<And>x. never_fails (f x)) \<Longrightarrow> never_fails (for_each xs f)"
  by (induction xs) (auto intro: quiet_intro)

lemma nf_reconcile [quiet_intro]:
  "never_fails (record_runtime_error key e)"
  "never_fails (mark_unavailable env reason)"
  "never_fails (reconcile_stale_user_stream_window P env)"
  "never_fails (user_stream_lost P env)"
  unfolding user_stream_lost_def reconcile_stale_user_stream_window_def
    reconcile_active_executions_for_environment_def reconcile_active_execution_def
    record_runtime_error_def mark_unavailable_def
  by (intro quiet_intro)+

lemma wp_quiet: "never_fails m \<Longrightarrow> evolves R m \<Longrightarrow> wp m (\<lambda>_. R s) (\<lambda>_ _. False) s"
  using evolvesD [of R m s] by (auto simp: never_fails_def wp_def split: prod.splits sum.splits)

section \<open>Giving up\<close>

text \<open>The failures in a row after a failure, or that the supervisor ends.\<close>

definition failures_after :: "nat \<Rightarrow> exn \<Rightarrow> nat option" where
  "failures_after n e =
     (if is_listen_key_hard_stop e \<or> is_listen_key_retryable e \<and> n + 1 \<ge> 3 then None
      else Some (if is_listen_key_retryable e then n + 1 else 0))"

lemma marked_unavailable:
  assumes "is_listen_key_hard_stop e \<or> is_listen_key_retryable e"
  shows "wp (mark_listen_key_unavailable P key env e)
    (\<lambda>_ t. unavailable_reason env (fst t) \<noteq> None) (\<lambda>_ _. False) s"
proof -
  let ?Q = "\<lambda>s. unavailable_reason env (fst s) \<noteq> None"
  have keep: "wp m (\<lambda>_. ?Q) (\<lambda>_ _. False) s" if "never_fails m" "evolves (unavailable_kept env) m" "?Q s"
    for m :: "('a, unit) rt" and s
    by (rule wp_mono [OF wp_quiet [OF that(1,2)]]) (use that(3) in \<open>simp_all add: unavailable_kept_def\<close>)
  have "listen_key_failure_code e \<noteq> []"
    using assms by (auto simp: is_listen_key_hard_stop_def is_listen_key_retryable_def)
  then have "wp (mark_unavailable env (listen_key_failure_code e)) (\<lambda>_. ?Q) (\<lambda>_ _. False) s"
    by (simp add: mark_unavailable_def modrt_def wp_modify unavailable_reason_def update_conv')
  then show ?thesis
    unfolding mark_listen_key_unavailable_def wp_bind
    by (rule wp_mono) (auto intro!: wp_mono [OF keep] keep quiet_intro runtime_intro)
qed

lemma user_stream_failed_outcome:
  "wp (user_stream_failed P env n e)
     (\<lambda>x t. x = failures_after n e \<and> (x = None \<longrightarrow> unavailable_reason env (fst t) \<noteq> None)) (\<lambda>_ _. False) s"
proof -
  let ?E = "\<lambda>(_ :: exn) (_ :: runtime \<times> 'a). False"
  have quiet: "wp m (\<lambda>_ _. True) ?E s" if "never_fails m" for m :: "('a, unit) rt" and s
    using that unfolding never_fails_def by blast
  have lost: "wp (andthen (user_stream_lost P env) (ret x)) (\<lambda>y _. y = x) ?E s" for x :: "nat option" and s
    unfolding wp_bind wp_ret_fun by (rule wp_mono [OF quiet]) (auto intro: quiet_intro)
  have given_up: "wp (andthen (mark_listen_key_unavailable P key env e) (ret None))
      (\<lambda>x t. x = (None :: nat option) \<and> unavailable_reason env (fst t) \<noteq> None) ?E s"
    if "is_listen_key_hard_stop e \<or> is_listen_key_retryable e" for key s
    unfolding wp_bind wp_ret_fun by (rule wp_mono [OF marked_unavailable [OF that]]) auto
  show ?thesis
    unfolding user_stream_failed_def wp_bind [of "record_runtime_error _ _"]
    by (rule wp_mono [OF quiet [OF nf_reconcile(1)]])
      (auto simp: failures_after_def max_listen_key_attempts_def intro!: wp_mono [OF lost] wp_mono [OF given_up])
qed

lemma user_stream_ends_run:
  assumes "user_supervisors ts env = Some (Reading n)"
  obtains s' where
    "user_stream_ends P env (Some e) (ts, s) = (Inr (), (case failures_after n e of
        None \<Rightarrow> ts\<lparr>keepalives := (keepalives ts)(env := None), user_supervisors := (user_supervisors ts)(env := None)\<rparr>
      | Some k \<Rightarrow> ts\<lparr>user_supervisors := (user_supervisors ts)(env \<mapsto> Waiting k)\<rparr>), s')"
    "failures_after n e = None \<Longrightarrow> unavailable_reason env (fst s') \<noteq> None"
proof -
  from user_stream_failed_outcome [of P env n e s]
  obtain s' where run: "user_stream_failed P env n e s = (Inr (failures_after n e), s')"
    and gone: "failures_after n e = None \<Longrightarrow> unavailable_reason env (fst s') \<noteq> None"
    by (cases "user_stream_failed P env n e s") (auto simp: wp_def split: sum.splits)
  show thesis
  proof (rule that [OF _ gone])
    show "user_stream_ends P env (Some e) (ts, s) = (Inr (), (case failures_after n e of
        None \<Rightarrow> ts\<lparr>keepalives := (keepalives ts)(env := None), user_supervisors := (user_supervisors ts)(env := None)\<rparr>
      | Some k \<Rightarrow> ts\<lparr>user_supervisors := (user_supervisors ts)(env \<mapsto> Waiting k)\<rparr>), s')"
      using assms run
      by (auto simp: user_stream_ends_def user_stream_fails_def bind_def tasks_def gets_def inside_run
          set_user_def set_keepalive_def modtasks_def modify_def split: option.split)
  qed
qed

text \<open>The invariant of the supervisor, with its stream tasks.\<close>

lemma supervised_kept: "supervised_step N P s t \<Longrightarrow> runtime_kept (snd s) (snd t)"
proof (erule rk.step_obeys)
  show "runtime_kept (snd s) (snd (rt_create_execution P hex req (snd s)))" if "fresh_id hex (fst (snd s))" for hex req
    using create_kept [of "fst (snd s)" hex P req "snd (snd s)"] that by (simp add: runtime_kept_def)
qed (simp add: kept_outside)

lemma supervised_invariant:
  "supervised_history_in N P s t \<Longrightarrow> runtime_ok (fst (snd s)) \<Longrightarrow> runtime_ok (fst (snd t))"
proof (induction rule: rtranclp_induct)
  case (step t u)
  then show ?case using supervised_kept [of N P t u] by (simp add: runtime_kept_def)
qed simp

text \<open>
  C23. A user stream that fails counts the failures of its listen key in a row: at the third, or when the
  exchange has banned the account, its supervisor ends and its keepalive is stopped, and whatever happens
  from then on, a restart of the supervisor included, no execution is created for the environment.
  Otherwise the supervisor goes on with the count.
\<close>

theorem user_stream_given_up:
  assumes "user_supervisors ts env = Some (Reading n)"
    and "snd (user_stream_ends P env (Some e) (ts, s)) = (ts', s')"
  shows "user_supervisors ts' env = map_option Waiting (failures_after n e)
    \<and> (failures_after n e = None \<longrightarrow> keepalives ts' env = None
        \<and> (\<forall>t hex req. supervised_history P (ts', s') t \<longrightarrow> req_environment req = env \<longrightarrow>
             (\<exists>x. rt_create_execution P hex req (snd t) = (Inl x, snd t)
                \<and> (x = RuntimeConfigurationError ''runtime is stopping'' \<or> (\<exists>reason. x = RuntimeUnavailableError reason)))))"
proof -
  obtain s'' where run: "user_stream_ends P env (Some e) (ts, s) = (Inr (), (case failures_after n e of
        None \<Rightarrow> ts\<lparr>keepalives := (keepalives ts)(env := None), user_supervisors := (user_supervisors ts)(env := None)\<rparr>
      | Some k \<Rightarrow> ts\<lparr>user_supervisors := (user_supervisors ts)(env \<mapsto> Waiting k)\<rparr>), s'')"
    and gone: "failures_after n e = None \<Longrightarrow> unavailable_reason env (fst s'') \<noteq> None"
    using user_stream_ends_run [OF assms(1), of P e s] by metis
  have refused: "\<exists>x. rt_create_execution P hex req (snd t) = (Inl x, snd t)
      \<and> (x = RuntimeConfigurationError ''runtime is stopping'' \<or> (\<exists>reason. x = RuntimeUnavailableError reason))"
    if none: "failures_after n e = None" and hist: "supervised_history P (ts', s') t"
      and env: "req_environment req = env" for t hex req
  proof -
    have "unavailable_reason env (fst (snd t)) \<noteq> None"
      using unavailable_history [OF hist, of env] gone [OF none] assms(2) run by simp
    then obtain reason where "unavailable_reason (req_environment req) (fst (snd t)) = Some reason"
      using env by auto
    then show ?thesis
      using create_refused [of req "fst (snd t)" reason P hex "snd (snd t)"]
        create_refused_stopping [of "fst (snd t)" P hex req "snd (snd t)"]
      by (cases "is_stopping (fst (snd t))") simp_all
  qed
  then show ?thesis using assms(2) run by (auto split: option.splits)
qed

definition failing_supervisors :: supervisors where
  "failing_supervisors = no_supervisors
     \<lparr>user_supervisors := (\<lambda>_. None)(TESTNET := Some (Reading 2)), keepalives := (\<lambda>_. None)(TESTNET := Some (0, 1))\<rparr>"

theorem user_stream_given_up_witness:
  "\<exists>ts' s'. snd (user_stream_ends steady_platform TESTNET (Some (StreamHealthFailure ''LISTEN_KEY_RETRYABLE_FAILURE: down''))
        (failing_supervisors, steady_runtime, ())) = (ts', s')
     \<and> user_supervisors ts' TESTNET = None \<and> keepalives ts' TESTNET = None
     \<and> (\<exists>x. rt_create_execution steady_platform ''0123456789abcdef''
             (sample_request\<lparr>req_environment := TESTNET\<rparr>) s' = (Inl x, s'))"
proof -
  let ?e = "StreamHealthFailure ''LISTEN_KEY_RETRYABLE_FAILURE: down''"
  obtain ts' s' where run: "snd (user_stream_ends steady_platform TESTNET (Some ?e)
      (failing_supervisors, steady_runtime, ())) = (ts', s')" by (cases "snd (user_stream_ends steady_platform TESTNET (Some ?e)
      (failing_supervisors, steady_runtime, ()))") auto
  have phase: "user_supervisors failing_supervisors TESTNET = Some (Reading 2)"
    by (simp add: failing_supervisors_def)
  have after: "failures_after 2 ?e = None" by code_simp
  from user_stream_given_up [OF phase run] after
  have gone: "user_supervisors ts' TESTNET = None" "keepalives ts' TESTNET = None" by simp_all
  have "\<exists>x. rt_create_execution steady_platform ''0123456789abcdef''
      (sample_request\<lparr>req_environment := TESTNET\<rparr>) s' = (Inl x, s')"
    using conjunct2 [OF mp [OF conjunct2 [OF user_stream_given_up [OF phase run]] after], rule_format,
      of "(ts', s')" "sample_request\<lparr>req_environment := TESTNET\<rparr>" "''0123456789abcdef''"]
    by auto
  with run gone show ?thesis by blast
qed

end
