(* ===== verification/Order_Numbers.thy ===== *)
theory Order_Numbers
  imports Recording Ids
begin

text \<open>
  The numbers of the orders: a run of an execution submits its orders under fresh, increasing child
  numbers, whatever exchange records them.
\<close>

section \<open>Fresh numbers\<close>

definition numbered :: "string \<Rightarrow> nat \<Rightarrow> order_request \<Rightarrow> bool" where
  "numbered eid k ord \<longleftrightarrow>
     or_execution_id ord = eid \<and> make_client_order_id eid k = Inr (or_client_order_id ord)"

definition numbers_on ::
  "(order_request \<Rightarrow> 'l) \<Rightarrow> execution_record \<times> 'w \<times> 'l list \<Rightarrow> execution_record \<times> 'w \<times> 'l list \<Rightarrow> bool" where
  "numbers_on f s t \<longleftrightarrow> state_evolves s t
     \<and> (\<exists>ks ords. snd (snd t) = snd (snd s) @ map f ords
          \<and> list_all2 (numbered (rec_execution_id (fst s))) ks ords \<and> sorted_wrt (<) ks
          \<and> set ks \<subseteq> {last_child_sequence (fst s)<..last_child_sequence (fst t)})"

lemma numbers_none:
  "state_evolves s t \<Longrightarrow> snd (snd t) = snd (snd s) \<Longrightarrow> numbers_on f s t"
  unfolding numbers_on_def by (intro conjI exI [of _ "[]"]) simp_all

lemma numbers_one:
  assumes "state_evolves s t" "snd (snd t) = snd (snd s) @ [f ord]"
    and "numbered (rec_execution_id (fst s)) k ord" "last_child_sequence (fst s) < k" "k \<le> last_child_sequence (fst t)"
  shows "numbers_on f s t"
  unfolding numbers_on_def using assms by (intro conjI exI [of _ "[k]"] exI [of _ "[ord]"]) simp_all

lemma numbers_trans:
  assumes "numbers_on f s t" "numbers_on f t u"
  shows "numbers_on f s u"
proof -
  obtain ks os where 1: "snd (snd t) = snd (snd s) @ map f os" "list_all2 (numbered (rec_execution_id (fst s))) ks os"
      "sorted_wrt (<) ks" "set ks \<subseteq> {last_child_sequence (fst s)<..last_child_sequence (fst t)}"
    using assms(1) by (auto simp: numbers_on_def)
  obtain ls ps where 2: "snd (snd u) = snd (snd t) @ map f ps" "list_all2 (numbered (rec_execution_id (fst t))) ls ps"
      "sorted_wrt (<) ls" "set ls \<subseteq> {last_child_sequence (fst t)<..last_child_sequence (fst u)}"
    using assms(2) by (auto simp: numbers_on_def)
  have ev: "state_evolves s t" "state_evolves t u" using assms by (simp_all add: numbers_on_def)
  then have same: "rec_execution_id (fst t) = rec_execution_id (fst s)"
    and grow: "last_child_sequence (fst s) \<le> last_child_sequence (fst t)"
      "last_child_sequence (fst t) \<le> last_child_sequence (fst u)"
    by (simp_all add: record_evolves_def identity_def)
  show ?thesis
    unfolding numbers_on_def
  proof (intro conjI exI)
    show "state_evolves s u" using ev by (rule record_evolves_trans)
    show "snd (snd u) = snd (snd s) @ map f (os @ ps)" using 1 2 by simp
    show "list_all2 (numbered (rec_execution_id (fst s))) (ks @ ls) (os @ ps)"
      using 1 2 same by (simp add: list_all2_appendI)
    show "sorted_wrt (<) (ks @ ls)" using 1 2 by (fastforce simp: sorted_wrt_append)
    show "set (ks @ ls) \<subseteq> {last_child_sequence (fst s)<..last_child_sequence (fst u)}"
      using 1 2 grow by fastforce
  qed
qed

interpretation on: evolution "numbers_on f" for f
  by unfold_locales (auto intro: numbers_none numbers_trans)

section \<open>A run\<close>

text \<open>An exchange that notes every order it is sent, and nothing else.\<close>

locale order_recorder =
  fixes A :: "('w \<times> 'l list) adapter" and f :: "order_request \<Rightarrow> 'l"
  assumes quiet: "exchange_laws A (\<lambda>w. snd w = l)"
    and noted: "snd (snd (submit_limit_order A ord w)) = snd w @ [f ord]"
begin

sublocale q: exchange_laws A "\<lambda>w. snd w = l" for l
  by (rule quiet)

lemma on_both:
  fixes m :: "('w \<times> 'l list, 'x) eng"
  assumes "evolves state_evolves m" "\<And>l. evolves (world_kept (\<lambda>w. snd w = l)) m"
  shows "evolves (numbers_on f) m"
  unfolding evolves_def
proof
  fix s :: "execution_record \<times> 'w \<times> 'l list"
  show "numbers_on f s (snd (m s))"
    using evolvesD [OF assms(1), of s] evolvesD [OF assms(2), of "snd (snd s)" s]
    by (intro numbers_none) (simp_all add: world_kept_def)
qed

lemma wp_prepare_numbers:
  "wp (prepare_child A q p po)
     (\<lambda>x t. ((state_evolves s t \<and> fst x < length (child_orders (fst t))
            \<and> child_status (child_at (fst x) (fst t)) = PENDING_SUBMIT) \<and> snd (snd t) = snd (snd s))
        \<and> (\<exists>k. numbered (rec_execution_id (fst s)) k (snd x)
             \<and> last_child_sequence (fst s) < k \<and> k \<le> last_child_sequence (fst t)))
     (\<lambda>_ t. (state_evolves s t \<and> snd (snd t) = snd (snd s)) \<and> True) s"
proof (rule wp_conj)
  have "wp (prepare_child A q p po) (\<lambda>x t. state_evolves s t \<and> fst x < length (child_orders (fst t))
      \<and> child_status (child_at (fst x) (fst t)) = PENDING_SUBMIT) (\<lambda>_. state_evolves s) s"
    by (rule wp_prepare_child) simp_all
  moreover have "wp (prepare_child A q p po) (\<lambda>_ t. snd (snd t) = snd (snd s)) (\<lambda>_ t. snd (snd t) = snd (snd s)) s"
    by (rule wp_evolves [OF q.wk_prepare_child [of "snd (snd s)"]]) (simp_all add: world_kept_def)
  ultimately show "wp (prepare_child A q p po) (\<lambda>x t. (state_evolves s t \<and> fst x < length (child_orders (fst t))
        \<and> child_status (child_at (fst x) (fst t)) = PENDING_SUBMIT) \<and> snd (snd t) = snd (snd s))
      (\<lambda>_ t. state_evolves s t \<and> snd (snd t) = snd (snd s)) s" by (rule wp_conj)
  show "wp (prepare_child A q p po) (\<lambda>x t. \<exists>k. numbered (rec_execution_id (fst s)) k (snd x)
      \<and> last_child_sequence (fst s) < k \<and> k \<le> last_child_sequence (fst t)) (\<lambda>_ _. True) s"
    by (auto simp: prepare_child_def number_child_def append_child_def wp_simp wp_require_tracker wp_now
        on_tracker_def add_child_def increment_metric_def record_max_reserved_exposure_def
        numbered_def order_request_of_def intro!: exI [of _ "Suc (last_child_sequence (fst s))"]
        split: option.split sum.split)
qed

lemma on_submit: "evolves (numbers_on f) (submit_child A q p po bid ask)"
  unfolding evolves_wp
proof
  fix s :: "execution_record \<times> 'w \<times> 'l list"
  have failed: "wp (submit_failed A i q p po bid ask e) (\<lambda>_. numbers_on f u) (\<lambda>_. numbers_on f u) u"
    if "i < length (child_orders (fst u))" "child_status (child_at i (fst u)) = PENDING_SUBMIT" for i e u
  proof -
    have "wp (submit_failed A i q p po bid ask e) (\<lambda>_ t. snd (snd t) = snd (snd u)) (\<lambda>_ t. snd (snd t) = snd (snd u)) u"
      by (rule wp_evolves [OF q.wk_submit_failed [of "snd (snd u)"]]) (simp_all add: world_kept_def)
    with wp_submit_failed [OF that]
    have "wp (submit_failed A i q p po bid ask e) (\<lambda>_ t. state_evolves u t \<and> snd (snd t) = snd (snd u))
        (\<lambda>_ t. state_evolves u t \<and> snd (snd t) = snd (snd u)) u" by (rule wp_conj)
    then show ?thesis by (rule wp_mono) (auto intro: numbers_none)
  qed
  have accepted: "wp (submit_accepted i q c) (\<lambda>_. numbers_on f u) (\<lambda>_. numbers_on f u) u"
    for i c and u :: "execution_record \<times> 'w \<times> 'l list"
  proof -
    have "evolves (numbers_on f) (submit_accepted i q c :: ('w \<times> 'l list, unit) eng)"
      by (rule on_both, intro evolve_intro, intro kept_intro)
    then show ?thesis by (rule wp_evolves) simp_all
  qed
  have rest: "wp (try_else (call (submit_limit_order A ord)) (submit_failed A i q p po bid ask) (submit_accepted i q))
      (\<lambda>_. numbers_on f s) (\<lambda>_. numbers_on f s) t"
    if t: "state_evolves s t" "snd (snd t) = snd (snd s)" "numbered (rec_execution_id (fst s)) k ord"
      "last_child_sequence (fst s) < k" "k \<le> last_child_sequence (fst t)"
      and i: "i < length (child_orders (fst t))" "child_status (child_at i (fst t)) = PENDING_SUBMIT" for i ord k t
  proof -
    obtain r w l where state: "t = (r, w, l)" by (cases t)
    obtain x w' l' where sub: "submit_limit_order A ord (w, l) = (x, w', l')"
      by (cases "submit_limit_order A ord (w, l)")
    have "l' = l @ [f ord]" using noted [of ord "(w, l)"] by (simp add: sub)
    then have "numbers_on f s (r, w', l')"
      using t by (intro numbers_one [where k = k and ord = ord]) (simp_all add: state sub)
    then have later: "wp m (\<lambda>_. numbers_on f s) (\<lambda>_. numbers_on f s) (r, w', l')"
      if "wp m (\<lambda>_. numbers_on f (r, w', l')) (\<lambda>_. numbers_on f (r, w', l')) (r, w', l')"
      for m :: "('w \<times> 'l list, unit) eng"
      by (rule_tac wp_mono [OF that]) (auto intro: numbers_trans)
    show ?thesis
      using i by (auto simp: wp_try_else wp_call state sub intro!: later failed accepted split: sum.split)
  qed
  show "wp (submit_child A q p po bid ask) (\<lambda>_. numbers_on f s) (\<lambda>_. numbers_on f s) s"
    unfolding submit_child_def wp_bind
    by (rule wp_mono [OF wp_prepare_numbers]) (auto intro: rest numbers_none)
qed

lemma run_once_numbers: "evolves (numbers_on f) (run_once_record A)"
proof -
  note both = on_both
  have quiet: "evolves (numbers_on f) (refresh_order_states_exact A)"
    "evolves (numbers_on f) (close_after_cancel A reason)"
    "evolves (numbers_on f) (terminalize_deadline A reason)"
    "evolves (numbers_on f) (terminalize_manual_cancel_if_clear A)"
    "evolves (numbers_on f) (should_terminalize_aggressive_deadline A)"
    "evolves (numbers_on f) (should_terminalize_cancel_remainder_deadline A)"
    "evolves (numbers_on f) (should_terminalize_cancel_remainder_without_demand A)"
    "evolves (numbers_on f) (should_cancel_for_aggressive_deadline A)"
    "evolves (numbers_on f) (cancel_timed_out_children A)"
    "evolves (numbers_on f) (cancel_passive_children_for_aggressive_deadline A)"
    "evolves (numbers_on f) (call (health_check_streams A))"
    "evolves (numbers_on f) (deadline_reached A)"
    "evolves (numbers_on f) (modr (set_final_reason reason) :: ('w \<times> 'l list, unit) eng)"
    "evolves (numbers_on f) (resolve_unknown A)"
    "evolves (numbers_on f) (rate_limit_backoff_blocks A)"
    "evolves (numbers_on f) (next_demand A)"
    "evolves (numbers_on f) (except_stale A e)"
    "evolves (numbers_on f) (complete A reason)"
    "evolves (numbers_on f) (getr g :: ('w \<times> 'l list, bool) eng)" for reason e and g :: "execution_record \<Rightarrow> bool"
    by (rule both, intro evolve_intro, intro kept_intro)+
  note on_intros = on.ev_ret on.ev_throw on.ev_gets on.ev_lift_res on.ev_bind on.ev_try_else on.ev_guarded
    evolves_if evolves_case_option evolves_case_prod
  have "evolves (numbers_on f) (place_demand A d)" for d
    unfolding place_demand_def complete_or_def getr_def
    by (intro on_intros on_submit quiet)
  then have "evolves (numbers_on f) (order_phase A)"
    unfolding order_phase_def by (intro on_intros quiet)
  then show ?thesis
    unfolding run_once_record_def health_phase_def deadline_phase_def aggressive_phase_def
      timeout_phase_def unless_ended_def complete_or_def getr_def
    by (intro on_intros quiet)
qed

end

interpretation recorder: order_recorder "recording_as f A" f for f A
  by (rule order_recorder.intro [OF recording_as_quiet]) (simp add: recording_as_def Let_def)

lemma make_client_order_id_inject:
  "make_client_order_id eid m = Inr v \<Longrightarrow> make_client_order_id eid n = Inr v \<Longrightarrow> m = n"
  by (auto simp: make_client_order_id_def Let_def split: if_splits)

end
