(* ===== verification/Supervised_Safety.thy ===== *)
theory Supervised_Safety
  imports Stream_Laws Order_Numbers
begin

text \<open>
  The orders of the whole system: a platform whose exchanges write down, with their environment, the
  orders they are sent. Whatever clients, background loops and streams do, and whatever the exchanges
  answer, every order is safe for an execution of its environment.
\<close>

section \<open>A recorded platform\<close>

type_synonym sent_orders = "(environment \<times> order_request) list"

abbreviation tagged :: "environment \<Rightarrow> 'w adapter \<Rightarrow> ('w \<times> sent_orders) adapter" where
  "tagged env \<equiv> recording_as (Pair env)"

definition recorded :: "'w platform \<Rightarrow> ('w \<times> sent_orders) platform" where
  "recorded P =
     \<lparr>adapter_of = (\<lambda>env. tagged env (adapter_of P env)),
      synchronize_adapter = (\<lambda>env allow c. carried (synchronize_adapter P env allow c)),
      wall_ms = (\<lambda>env. carried (wall_ms P env)),
      advance_simulation = (\<lambda>seconds w. (advance_simulation P seconds (fst w), snd w)),
      process_environment = process_environment P, dotenv_file = dotenv_file P\<rparr>"

text \<open>An order that was safe in a state from which the present one of its execution evolved.\<close>

definition accounted :: "'w adapter \<Rightarrow> records \<Rightarrow> order_request \<Rightarrow> bool" where
  "accounted A rs ord \<longleftrightarrow> (\<exists>eid x x'. map_of rs eid = Some x \<and> record_evolves x' x
     \<and> safe_order x' (rules_given A) (quotes_given A) ord)"

definition all_accounted :: "'w platform \<Rightarrow> runtime \<times> 'w \<times> sent_orders \<Rightarrow> bool" where
  "all_accounted P s \<longleftrightarrow>
     (\<forall>(env, ord) \<in> set (snd (snd s)). accounted (adapter_of P env) (records_of env (fst s)) ord)"

lemma accounted_evolves: "accounted A rs ord \<Longrightarrow> records_evolve rs rs' \<Longrightarrow> accounted A rs' ord"
  unfolding accounted_def records_evolve_def by (meson record_evolves_trans)

lemma all_accounted_records:
  assumes "all_accounted P (r, w)" "\<And>env. records_evolve (records_of env r) (records_of env r')"
    and "snd w' = snd w"
  shows "all_accounted P (r', w')"
  using assms accounted_evolves unfolding all_accounted_def by fastforce

section \<open>One operation of a service\<close>

lemma performed_accounted:
  assumes ok: "runtime_ok r" and acc: "all_accounted P (r, w, l)" and fresh: "fresh_op (records_of env r) op"
    and run: "perform (tagged env (adapter_of P env)) op (records_of env r, w, l) = (x, rs, w', l')"
  shows "all_accounted P (r\<lparr>services := AList.update env rs (services r)\<rparr>, w', l')"
proof -
  let ?A = "adapter_of P env" and ?rs = "records_of env r"
  let ?K = "\<lambda>e. e \<in> set l \<or> fst e = env
    \<and> (\<exists>eid x. map_of ?rs eid = Some x \<and> safe_order x (rules_given ?A) (quotes_given ?A) (snd e))"
  have engine: "engine_ok ?rs" using records_exclusive [OF ok, of env] by (simp add: exclusive_def)
  have "engine_evolves (?rs, w, l) (rs, w', l')"
    using perform_evolves [of "(?rs, w, l)" op "tagged env ?A"] fresh run by simp
  then have grow: "records_evolve ?rs rs" by (simp add: engine_evolves_def)
  have "\<forall>e \<in> set (snd (snd (snd (perform (tagged env ?A) op (?rs, w, l))))). ?K e"
  proof (rule perform_guarded_records [where J = "\<lambda>w. \<forall>e \<in> set (snd w). ?K e"])
    show "order_guard (tagged env ?A) (\<lambda>w. \<forall>e \<in> set (snd w). ?K e) (rules_given ?A) (quotes_given ?A) r'"
      if "map_of (fst (?rs, w, l)) eid = Some r'" for eid r'
      using engine that by (intro recording_as_guard) (auto simp: engine_ok_def)
  qed (simp_all add: recording_laws)
  then have new: "?K e" if "e \<in> set l'" for e using that run by simp
  have "accounted (adapter_of P e) (records_of e (r\<lparr>services := AList.update env rs (services r)\<rparr>)) ord"
    if "(e, ord) \<in> set l'" for e ord
  proof (cases "(e, ord) \<in> set l")
    case True
    then have "accounted (adapter_of P e) (records_of e r) ord" using acc by (auto simp: all_accounted_def)
    then show ?thesis using grow by (auto intro: accounted_evolves)
  next
    case False
    with new [OF that] have "e = env" and "\<exists>eid x. map_of ?rs eid = Some x
        \<and> safe_order x (rules_given ?A) (quotes_given ?A) ord" by auto
    then show ?thesis using grow unfolding accounted_def records_evolve_def by fastforce
  qed
  then show ?thesis by (auto simp: all_accounted_def)
qed

text \<open>No order is sent twice under a client order id of its execution.\<close>

definition order_key :: "environment \<times> order_request \<Rightarrow> environment \<times> string \<times> string" where
  "order_key = (\<lambda>(env, ord). (env, or_execution_id ord, or_client_order_id ord))"

definition all_numbered :: "runtime \<times> 'w \<times> sent_orders \<Rightarrow> bool" where
  "all_numbered s \<longleftrightarrow> distinct (map order_key (snd (snd s)))
     \<and> (\<forall>(env, ord) \<in> set (snd (snd s)). \<exists>x k. map_of (records_of env (fst s)) (or_execution_id ord) = Some x
          \<and> k \<le> last_child_sequence x \<and> numbered (or_execution_id ord) k ord)"

lemma performed_numbers:
  assumes ok: "engine_ok rs" and fresh: "fresh_op rs op"
    and run: "perform (recording_as f A) op (rs, w, l) = (x, rs', w', l')"
  obtains eid ks ords where "l' = l @ map f ords" "list_all2 (numbered eid) ks ords" "sorted_wrt (<) ks"
    "ords \<noteq> [] \<longrightarrow> (\<exists>r r'. map_of rs eid = Some r \<and> map_of rs' eid = Some r'
       \<and> set ks \<subseteq> {last_child_sequence r<..last_child_sequence r'})"
proof (cases "\<exists>eid r. op = Run_Once eid \<and> map_of rs eid = Some r")
  case True
  then obtain eid r where op: "op = Run_Once eid" and r: "map_of rs eid = Some r" by blast
  obtain y r' v' k' where rr: "run_once_record (recording_as f A) (r, w, l) = (y, r', v', k')"
    by (cases "run_once_record (recording_as f A) (r, w, l)")
  have "numbers_on f (r, w, l) (r', v', k')"
    using evolvesD [OF recorder.run_once_numbers [where f = f and A = A], of "(r, w, l)"] rr by simp
  moreover have "rs' = AList.update eid r' rs" "l' = k'"
    using run by (simp_all add: op run_once_def on_execution_def r rr)
  moreover have "rec_execution_id r = eid" using ok r by (simp add: engine_ok_def)
  ultimately obtain ks ords where "l' = l @ map f ords" "list_all2 (numbered eid) ks ords" "sorted_wrt (<) ks"
      "set ks \<subseteq> {last_child_sequence r<..last_child_sequence r'}" "map_of rs' eid = Some r'"
    by (auto simp: numbers_on_def update_conv')
  then show thesis using r by (intro that [of ords eid ks]) auto
next
  case False
  note laws = recording_as_quiet [of f A l]
  have kept: "snd (snd (snd (m (rs, w, l)))) = l" if "evolves (engine_kept (\<lambda>w. snd w = l)) m"
    for m :: "('a \<times> 'b list, execution_record) engine"
    using evolvesD [OF that, of "(rs, w, l)"] by (simp add: engine_kept_def)
  have "snd (snd (snd (perform (recording_as f A) op (rs, w, l)))) = l"
  proof (cases op)
    case (Run_Once eid)
    with False have "map_of rs eid = None" by (cases "map_of rs eid") auto
    then show ?thesis by (simp add: Run_Once run_once_def on_execution_world)
  qed (simp_all add: kept exchange_laws.ek_create [OF laws] exchange_laws.ek_quiet_operations [OF laws])
  then show thesis using run by (intro that [of "[]" "[]" "[]"]) simp_all
qed

lemma numbered_keys:
  assumes "list_all2 (numbered eid) ks ords" "sorted_wrt (<) ks"
  shows "distinct (map order_key (map (Pair env) ords))"
    and "ord \<in> set ords \<Longrightarrow> \<exists>k \<in> set ks. numbered eid k ord"
proof -
  have keys: "map order_key (map (Pair env) ords) = map (\<lambda>k. (env, eid, projr (make_client_order_id eid k))) ks"
    using assms(1) by (induction rule: list_all2_induct) (simp_all add: order_key_def numbered_def)
  have Inr: "\<exists>v. make_client_order_id eid k = Inr v" if "k \<in> set ks" for k
    using assms(1) that by (auto simp: list_all2_conv_all_nth in_set_conv_nth numbered_def)
  have "inj_on (\<lambda>k. (env, eid, projr (make_client_order_id eid k))) (set ks)"
  proof (rule inj_onI)
    fix m n
    assume "m \<in> set ks" "n \<in> set ks"
      and "(env, eid, projr (make_client_order_id eid m)) = (env, eid, projr (make_client_order_id eid n))"
    with Inr [of m] Inr [of n] show "m = n" by (auto dest: make_client_order_id_inject)
  qed
  then show "distinct (map order_key (map (Pair env) ords))"
    unfolding keys using assms(2) by (simp add: distinct_map strict_sorted_iff)
  show "ord \<in> set ords \<Longrightarrow> \<exists>k \<in> set ks. numbered eid k ord"
    using assms(1) by (fastforce simp: list_all2_conv_all_nth in_set_conv_nth)
qed

lemma performed_numbered:
  assumes ok: "runtime_ok r" and num: "all_numbered (r, w, l)" and fresh: "fresh_op (records_of env r) op"
    and run: "perform (tagged env A) op (records_of env r, w, l) = (x, rs, w', l')"
  shows "all_numbered (r\<lparr>services := AList.update env rs (services r)\<rparr>, w', l')"
proof -
  let ?rs = "records_of env r"
  have engine: "engine_ok ?rs" using records_exclusive [OF ok, of env] by (simp add: exclusive_def)
  have "engine_evolves (?rs, w, l) (rs, w', l')"
    using perform_evolves [of "(?rs, w, l)" op "tagged env A"] fresh run by simp
  then have grow: "\<exists>y. map_of rs eid = Some y \<and> last_child_sequence x \<le> last_child_sequence y"
    if "map_of ?rs eid = Some x" for eid x
    using that unfolding engine_evolves_def records_evolve_def record_evolves_def by fastforce
  obtain eid ks ords where new: "l' = l @ map (Pair env) ords" "list_all2 (numbered eid) ks ords" "sorted_wrt (<) ks"
      and range: "ords \<noteq> [] \<longrightarrow> (\<exists>r r'. map_of ?rs eid = Some r \<and> map_of rs eid = Some r'
       \<and> set ks \<subseteq> {last_child_sequence r<..last_child_sequence r'})"
    using performed_numbers [OF engine fresh run] by metis
  note keys = numbered_keys [OF new(2,3)]
  have old: "\<exists>x k. map_of (records_of e r) (or_execution_id ord) = Some x
      \<and> k \<le> last_child_sequence x \<and> numbered (or_execution_id ord) k ord" if "(e, ord) \<in> set l" for e ord
    using num that by (auto simp: all_numbered_def)
  have "order_key (env, ord) \<noteq> order_key (e, ord')" if new_ord: "ord \<in> set ords" and old_ord: "(e, ord') \<in> set l" for ord e ord'
  proof
    assume same: "order_key (env, ord) = order_key (e, ord')"
    obtain k where k: "k \<in> set ks" "numbered eid k ord" using keys(2) [OF new_ord] by blast
    obtain y k' where k': "map_of (records_of e r) (or_execution_id ord') = Some y" "k' \<le> last_child_sequence y"
      "numbered (or_execution_id ord') k' ord'" using old [OF old_ord] by blast
    from same k(2) have e: "e = env" "or_execution_id ord' = eid" "or_client_order_id ord' = or_client_order_id ord"
      by (simp_all add: order_key_def numbered_def)
    then have "k = k'" using k(2) k'(3) by (auto simp: numbered_def dest: make_client_order_id_inject)
    moreover have "last_child_sequence y < k" using range new_ord k(1) k'(1) e by (cases ords) auto
    ultimately show False using k'(2) by simp
  qed
  then have "distinct (map order_key l')"
    using num keys(1) [of env] new(1) by (auto simp: all_numbered_def)
  moreover have "\<exists>x k. map_of (records_of e (r\<lparr>services := AList.update env rs (services r)\<rparr>)) (or_execution_id ord) = Some x
      \<and> k \<le> last_child_sequence x \<and> numbered (or_execution_id ord) k ord" if "(e, ord) \<in> set l'" for e ord
  proof (cases "(e, ord) \<in> set l")
    case True
    then obtain x k where x: "map_of (records_of e r) (or_execution_id ord) = Some x" "k \<le> last_child_sequence x"
      "numbered (or_execution_id ord) k ord" using old by blast
    show ?thesis
    proof (cases "e = env")
      case True
      obtain y where "map_of rs (or_execution_id ord) = Some y" "last_child_sequence x \<le> last_child_sequence y"
        using x(1) grow unfolding True by blast
      then show ?thesis using x(2,3) by (intro exI [of _ y] exI [of _ k]) (simp add: True)
    qed (use x in auto)
  next
    case False
    with that new(1) have e: "e = env" "ord \<in> set ords" by auto
    obtain k where k: "k \<in> set ks" "numbered eid k ord" using keys(2) [OF e(2)] by blast
    moreover have "or_execution_id ord = eid" using k(2) by (simp add: numbered_def)
    ultimately show ?thesis using range e by (cases ords) fastforce+
  qed
  ultimately show ?thesis by (auto simp: all_numbered_def)
qed

definition orders_ok :: "'w platform \<Rightarrow> runtime \<times> 'w \<times> sent_orders \<Rightarrow> bool" where
  "orders_ok P s \<longleftrightarrow> all_accounted P s \<and> all_numbered s"

lemma performed_ok:
  assumes "runtime_ok r" "orders_ok P (r, w, l)" "fresh_op (records_of env r) op"
    and "perform (tagged env (adapter_of P env)) op (records_of env r, w, l) = (x, rs, w', l')"
  shows "orders_ok P (r\<lparr>services := AList.update env rs (services r)\<rparr>, w', l')"
  using performed_accounted [OF assms(1) _ assms(3,4)] performed_numbered [OF assms(1) _ assms(3,4)] assms(2)
  by (simp add: orders_ok_def)

lemma orders_ok_same:
  "(\<And>env. records_of env r' = records_of env r) \<Longrightarrow> snd w' = snd w \<Longrightarrow> orders_ok P (r, w) \<Longrightarrow> orders_ok P (r', w')"
  by (simp add: orders_ok_def all_accounted_def all_numbered_def)

section \<open>The supervisor\<close>

definition orders_kept :: "'w platform \<Rightarrow> runtime \<times> 'w \<times> sent_orders \<Rightarrow> runtime \<times> 'w \<times> sent_orders \<Rightarrow> bool" where
  "orders_kept P s t \<longleftrightarrow>
     (runtime_ok (fst s) \<and> orders_ok P s \<longrightarrow> runtime_ok (fst t) \<and> orders_ok P t)"

lemma orders_kept_same:
  "(\<And>env. records_of env r' = records_of env r) \<Longrightarrow> (runtime_ok r \<Longrightarrow> runtime_ok r') \<Longrightarrow> snd w' = snd w
    \<Longrightarrow> orders_kept P (r, w) (r', w')"
  unfolding orders_kept_def using orders_ok_same [of r' r w' w P] by simp

lemma no_records: "map_of (services r) env = None \<Longrightarrow> records_of env r = []"
  by (simp add: records_of_def)

lemma books_records: "services r' = services r \<Longrightarrow> records_of env r' = records_of env r"
  by (simp add: records_of_def)

lemma service_orders:
  assumes "\<And>hex req. op \<noteq> Create hex req"
  shows "evolves (orders_kept P) (on_service env (perform (tagged env (adapter_of P env)) op))"
  unfolding evolves_def
proof
  fix s :: "runtime \<times> 'a \<times> sent_orders"
  obtain r w l where s: "s = (r, w, l)" by (cases s)
  obtain x rs w' l' where run: "perform (tagged env (adapter_of P env)) op (records_of env r, w, l) = (x, rs, w', l')"
    by (cases "perform (tagged env (adapter_of P env)) op (records_of env r, w, l)")
  have fresh: "fresh_op (records_of env r) op" using assms by (cases op) auto
  have after: "on_service env (perform (tagged env (adapter_of P env)) op) s =
      (x, r\<lparr>services := AList.update env rs (services r)\<rparr>, w', l')"
    by (simp add: on_service_def s run)
  show "orders_kept P s (snd (on_service env (perform (tagged env (adapter_of P env)) op) s))"
    unfolding orders_kept_def
  proof (intro impI conjI; elim conjE)
    assume ok: "runtime_ok (fst s)" and acc: "orders_ok P s"
    have "evolves runtime_kept (on_service env (perform (adapter_of (recorded P) env) op))"
      using assms by (rule rk.service_performs)
    from evolvesD [OF this, of s] ok
    show "runtime_ok (fst (snd (on_service env (perform (tagged env (adapter_of P env)) op) s)))"
      by (simp add: runtime_kept_def recorded_def)
    show "orders_ok P (snd (on_service env (perform (tagged env (adapter_of P env)) op) s))"
      unfolding after using performed_ok [OF _ _ fresh run] ok acc by (simp add: s)
  qed
qed

lemma active_executions_quiet: "snd (active_executions s) = s"
proof -
  have same: "evolution (\<lambda>s t :: records \<times> 'a. t = s)" by unfold_locales auto
  have get: "evolves (\<lambda>s t :: records \<times> 'a. t = s) (get_execution eid)" for eid
    by (auto simp: evolves_def get_execution_result split: option.split)
  have "evolves (\<lambda>s t :: records \<times> 'a. t = s) (collect_active eids)" for eids
    by (induction eids) (auto intro!: evolution.ev_ret [OF same] evolution.ev_bind [OF same] get)
  from evolvesD [OF this, of _ s] show ?thesis by (simp add: active_executions_def bind_def gets_def)
qed

lemma answers_orders: "evolves (orders_kept P) (on_service env active_executions)"
  unfolding evolves_def
proof
  fix s :: "runtime \<times> 'a \<times> sent_orders"
  obtain r w where s: "s = (r, w)" by (cases s)
  have run: "snd (on_service env active_executions s) =
      (r\<lparr>services := AList.update env (records_of env r) (services r)\<rparr>, w)"
    using active_executions_quiet [of "(records_of env r, w)"]
    by (auto simp: on_service_def s split: prod.split)
  show "orders_kept P s (snd (on_service env active_executions s))"
    unfolding run unfolding s
    by (rule orders_kept_same) (auto simp: runtime_ok_def update_conv' records_exclusive)
qed

lemma unavailable_records:
  "records_of e (r\<lparr>unavailable_environments := u\<rparr>) = records_of e r"
  by (simp add: records_of_def)

interpretation so: runtime_frame "orders_kept P" "recorded P" for P :: "'w platform"
proof (rule runtime_frame.intro)
  show "evolution (orders_kept P)" by unfold_locales (auto simp: orders_kept_def)
  show "runtime_frame_axioms (orders_kept P) (recorded P)"
  proof (rule runtime_frame_axioms.intro)
    show "orders_kept P (r, w) (r\<lparr>services := AList.update env [] (services r)\<rparr>, w)"
      if "map_of (services r) env = None" for r env w
      by (rule orders_kept_same) (simp_all add: no_records [OF that] runtime_ok_def update_conv' exclusive_empty)
    show "orders_kept P (r, w) (r', w)" if "services r' = services r" for r r' w
      by (rule orders_kept_same) (simp_all add: books_records [OF that] runtime_ok_def that)
    show "evolves (orders_kept P) (on_service env (perform (adapter_of (recorded P) env) op))"
      if "\<And>hex req. op \<noteq> Create hex req" for op env
      using service_orders [OF that, of P env] by (simp add: recorded_def)
  qed ((rule answers_orders | rule orders_kept_same);
      simp add: unavailable_records recorded_def carried_def Let_def runtime_ok_def)+
qed

section \<open>The creation of an execution\<close>

lemma registration_orders:
  "orders_ok P s \<Longrightarrow> runtime_ok (fst s)
   \<Longrightarrow> orders_ok P (snd (service_for_environment (recorded P) env s))"
  using evolvesD [OF so.rf_service_for(1) [of P env], of s] by (simp add: orders_kept_def)

interpretation co: creation "recorded P" hex req
    "\<lambda>s. (runtime_ok (fst s) \<and> fresh_id hex (fst s)) \<and> orders_ok P s"
    "\<lambda>s. runtime_ok (fst s) \<and> orders_ok P s"
  for P :: "'w platform" and hex req
proof unfold_locales
  fix s :: "runtime \<times> 'w \<times> sent_orders"
  assume "(runtime_ok (fst s) \<and> fresh_id hex (fst s)) \<and> orders_ok P s"
  then show "(runtime_ok (fst (snd (service_for_environment (recorded P) (req_environment req) s)))
        \<and> fresh_id hex (fst (snd (service_for_environment (recorded P) (req_environment req) s))))
      \<and> orders_ok P (snd (service_for_environment (recorded P) (req_environment req) s))"
    using ok.registers [of s hex "recorded P" req] registration_orders by blast
next
  fix r rs env x and w w' :: "'w \<times> sent_orders"
  assume I: "(runtime_ok (fst (r, w)) \<and> fresh_id hex (fst (r, w))) \<and> orders_ok P (r, w)"
  show "(runtime_ok (fst (r\<lparr>services := AList.update env (records_of env r) (services r)\<rparr>, w))
        \<and> fresh_id hex (fst (r\<lparr>services := AList.update env (records_of env r) (services r)\<rparr>, w)))
      \<and> orders_ok P (r\<lparr>services := AList.update env (records_of env r) (services r)\<rparr>, w)"
    using ok.asked [of r w hex env] I orders_ok_same [of "r\<lparr>services := AList.update env (records_of env r) (services r)\<rparr>" r w w P]
    by simp
  assume idle: "\<And>j s. map_of (records_of (req_environment req) r) j = Some s \<Longrightarrow> active s
      \<Longrightarrow> req_symbol (request s) \<noteq> req_symbol req"
    and m: "create_execution (adapter_of (recorded P) (req_environment req)) hex req
      (records_of (req_environment req) r, w) = (x, rs, w')"
  have fresh: "fresh_op (records_of (req_environment req) r) (Create hex req)"
    using I by (simp add: fresh_id_def)
  have "orders_ok P (r\<lparr>services := AList.update (req_environment req) rs (services r)\<rparr>, fst w', snd w')"
    by (rule performed_ok [OF _ _ fresh, of P "fst w" "snd w" x])
      (use I m in \<open>simp_all add: recorded_def\<close>)
  then show "runtime_ok (fst (r\<lparr>services := AList.update (req_environment req) rs (services r)\<rparr>, w'))
      \<and> orders_ok P (r\<lparr>services := AList.update (req_environment req) rs (services r)\<rparr>, w')"
    using ok.created [OF conjunct1 [OF I] idle m] by simp
next
  show "runtime_ok (fst (r', w)) \<and> orders_ok P (r', w)"
    if "services r' = services r" "runtime_ok (fst (r, w)) \<and> orders_ok P (r, w)" for r r' and w :: "'w \<times> sent_orders"
    using that orders_ok_same [of r' r w w P] books_records [OF that(1)] by (simp add: runtime_ok_def)
qed simp_all

section \<open>Every order\<close>

lemma supervised_orders:
  assumes "supervised_step (\<lambda>a b. snd b = snd a) (recorded P) s t"
  shows "orders_kept P (snd s) (snd t)"
  using assms
proof (rule so.step_obeys)
  show "orders_kept P (snd s) (snd (rt_create_execution (recorded P) hex req (snd s)))"
    if "fresh_id hex (fst (snd s))" for hex req
    using co.create_keeps [of "snd s" hex P req] that by (simp add: orders_kept_def)
qed (simp add: orders_kept_same)

lemma history_orders:
  "supervised_history_in (\<lambda>a b. snd b = snd a) (recorded P) s t \<Longrightarrow> orders_kept P (snd s) (snd t)"
proof (induction rule: rtranclp_induct)
  case (step t u)
  then show ?case using supervised_orders [OF step.hyps(2)] by (simp add: orders_kept_def)
qed (simp add: orders_kept_def)

lemma reachable_orders:
  assumes "new_runtime tick keepalive restart = Inr r\<^sub>0"
    and "supervised_history_in (\<lambda>a b. snd b = snd a) (recorded P) (no_supervisors, r\<^sub>0, w\<^sub>0, []) (ts, r, w, sent)"
  shows "runtime_ok r \<and> orders_ok P (r, w, sent)"
  using history_orders [OF assms(2)] new_runtime_ok [OF assms(1)]
  by (simp add: orders_kept_def orders_ok_def all_accounted_def all_numbered_def)

text \<open>
  C1. Every order that any exchange was ever sent, in any history of the supervisor from its construction
  (calls of clients, turns of background loops, its streams, its start and stop, whatever the exchanges
  answer), belongs to an execution of that environment, and was safe in a state of it from which the
  present one evolved: it has the symbol and the side of the request, lies within its price band, and with
  what was filled then it does not exceed the required trade. The random part of an execution id is
  assumed not to repeat.
\<close>

theorem every_order_safe:
  assumes "new_runtime tick keepalive restart = Inr r\<^sub>0"
    and "supervised_history_in (\<lambda>a b. snd b = snd a) (recorded P) (no_supervisors, r\<^sub>0, w\<^sub>0, []) (ts, r, w, sent)"
    and "(env, ord) \<in> set sent"
  shows "\<exists>eid x x'. map_of (records_of env r) eid = Some x \<and> req_environment (request x) = env
    \<and> record_evolves x' x
    \<and> safe_order x' (rules_given (adapter_of P env)) (quotes_given (adapter_of P env)) ord"
proof -
  have "runtime_ok r" "orders_ok P (r, w, sent)" using reachable_orders [OF assms(1,2)] by simp_all
  then have "accounted (adapter_of P env) (records_of env r) ord" "exclusive env (records_of env r)"
    using assms(3) by (auto simp: orders_ok_def all_accounted_def records_exclusive)
  then show ?thesis unfolding accounted_def exclusive_def by blast
qed

text \<open>
  C2. In the same histories no order is sent twice under one client order id: two orders an environment was
  sent for the same execution differ in it.
\<close>

theorem no_order_repeated:
  assumes "new_runtime tick keepalive restart = Inr r\<^sub>0"
    and "supervised_history_in (\<lambda>a b. snd b = snd a) (recorded P) (no_supervisors, r\<^sub>0, w\<^sub>0, []) (ts, r, w, sent)"
  shows "distinct (map (\<lambda>(env, ord). (env, or_execution_id ord, or_client_order_id ord)) sent)"
  using reachable_orders [OF assms] by (simp add: orders_ok_def all_numbered_def order_key_def)

text \<open>A client creates an execution on the steady exchange and runs it once.\<close>

definition demo_created :: "supervisors \<times> runtime \<times> unit \<times> sent_orders" where
  "demo_created = snd (supervised_act (recorded steady_platform)
     (Runtime_Act (Client_Create ''0123456789abcdef'' sample_request)) (no_supervisors, steady_runtime, (), []))"

definition demo_ran :: "supervisors \<times> runtime \<times> unit \<times> sent_orders" where
  "demo_ran = snd (supervised_act (recorded steady_platform)
     (Runtime_Act (Client_Run_Once ''exec_0123456789abcdef'')) demo_created)"

lemma demo_sends:
  "map (\<lambda>(env, ord). (env, or_client_order_id ord)) (snd (snd (snd demo_ran)))
   = [(SIMULATION, ''ce_0123456789ab_1'')]"
  by code_simp

lemma demo_history:
  "supervised_history_in (\<lambda>a b. snd b = snd a) (recorded steady_platform)
     (no_supervisors, steady_runtime, (), []) demo_ran"
proof -
  have "possible_op (fst (snd (no_supervisors, steady_runtime, (), [])))
      (Runtime_Act (Client_Create ''0123456789abcdef'' sample_request))"
    by (simp add: fresh_id_def steady_runtime_def records_of_def)
  then have "supervised_step (\<lambda>a b. snd b = snd a) (recorded steady_platform)
      (no_supervisors, steady_runtime, (), []) demo_created"
    unfolding demo_created_def by (rule supervised_step.act)
  moreover have "supervised_step (\<lambda>a b. snd b = snd a) (recorded steady_platform) demo_created demo_ran"
    unfolding demo_ran_def by (rule supervised_step.act) simp
  ultimately show ?thesis by (rule converse_rtranclp_into_rtranclp [OF _ r_into_rtranclp])
qed

theorem every_order_safe_witness:
  "\<exists>ts r w ord. demo_ran = (ts, r, w, [(SIMULATION, ord)]) \<and> or_client_order_id ord = ''ce_0123456789ab_1''
     \<and> (\<exists>eid x x'. map_of (records_of SIMULATION r) eid = Some x \<and> req_environment (request x) = SIMULATION
          \<and> record_evolves x' x
          \<and> safe_order x' (rules_given steady_exchange) (quotes_given steady_exchange) ord)"
proof -
  obtain ts r w sent where run: "demo_ran = (ts, r, w, sent)" by (cases demo_ran) auto
  have "map (\<lambda>(env, ord). (env, or_client_order_id ord)) sent = [(SIMULATION, ''ce_0123456789ab_1'')]"
    using demo_sends unfolding run by simp
  then obtain ord where ord: "sent = [(SIMULATION, ord)]" "or_client_order_id ord = ''ce_0123456789ab_1''"
    by (auto simp: map_eq_Cons_conv)
  have "new_runtime 1 1 1 = Inr steady_runtime" by (simp add: new_runtime_def steady_runtime_def)
  moreover have "supervised_history_in (\<lambda>a b. snd b = snd a) (recorded steady_platform)
      (no_supervisors, steady_runtime, (), []) (ts, r, w, sent)"
    using demo_history unfolding run .
  moreover have "(SIMULATION, ord) \<in> set sent" by (simp add: ord)
  ultimately have "\<exists>eid x x'. map_of (records_of SIMULATION r) eid = Some x \<and> req_environment (request x) = SIMULATION
      \<and> record_evolves x' x
      \<and> safe_order x' (rules_given (adapter_of steady_platform SIMULATION))
          (quotes_given (adapter_of steady_platform SIMULATION)) ord"
    by (rule every_order_safe)
  then have "\<exists>eid x x'. map_of (records_of SIMULATION r) eid = Some x \<and> req_environment (request x) = SIMULATION
      \<and> record_evolves x' x \<and> safe_order x' (rules_given steady_exchange) (quotes_given steady_exchange) ord"
    by (simp add: steady_platform_def)
  with run ord show ?thesis by blast
qed

theorem no_order_repeated_witness:
  "\<exists>ts r w sent. demo_ran = (ts, r, w, sent) \<and> length sent = 1
     \<and> distinct (map (\<lambda>(env, ord). (env, or_execution_id ord, or_client_order_id ord)) sent)"
proof -
  obtain ts r w sent where run: "demo_ran = (ts, r, w, sent)" by (cases demo_ran) auto
  have "map (\<lambda>(env, ord). (env, or_client_order_id ord)) sent = [(SIMULATION, ''ce_0123456789ab_1'')]"
    using demo_sends unfolding run by simp
  then have one: "length sent = 1" by (cases sent) simp_all
  have "new_runtime 1 1 1 = Inr steady_runtime" by (simp add: new_runtime_def steady_runtime_def)
  moreover have "supervised_history_in (\<lambda>a b. snd b = snd a) (recorded steady_platform)
      (no_supervisors, steady_runtime, (), []) (ts, r, w, sent)"
    using demo_history unfolding run .
  ultimately have "distinct (map (\<lambda>(env, ord). (env, or_execution_id ord, or_client_order_id ord)) sent)"
    by (rule no_order_repeated)
  with run one show ?thesis by blast
qed

end
