(* ===== verification/Spec2Isabelle.thy ===== *)
theory Spec2Isabelle
  imports Ledger Lifecycle Binance_System App Findings Evidence Evidence_Files Sim_Demo Verify_Submission Testnet_Laws Supervised_Safety
begin

text \<open>
  A model of the execution service in this repository: a client asks for a target position, and an
  algorithm (Chase or TWAP) works orders on a perpetual future until the position is reached, the
  deadline passes or the client cancels. The theories follow the Python modules; all paths below are
  under \<^verbatim>\<open>src/\<close>.

  \<^bold>\<open>The parts and how they interact.\<close> The HTTP endpoints (\<^verbatim>\<open>api/app.py\<close>) validate a request and
  hand it to a supervisor (\<^verbatim>\<open>api/runtime.py\<close>), which holds one service with its engine
  (\<^verbatim>\<open>execution/service.py\<close>, \<^verbatim>\<open>execution/engine.py\<close>) per environment, runs every active
  execution in a background loop and feeds user events of the exchange into it. The engine keeps a
  record per execution, asks the algorithms and the risk checks what to order, and talks to an exchange
  through the contract of \<^verbatim>\<open>exchanges/base.py\<close>, which a deterministic simulator and the Binance
  adapter implement. Log records and result files go through a sanitizer. Scripts outside \<^verbatim>\<open>src/\<close>
  run the service on the simulator and on the test network, sanitize the evidence of such runs, and check
  it before a submission.

  \<^bold>\<open>Foundations.\<close>
  \<^item> \<open>Rounding\<close>, \<open>Pydecimal\<close>: Python's \<^verbatim>\<open>Decimal\<close> as a rational whose operations round to 28
    digits half-even, its floats as rationals, and the grids on which the operations are exact.
  \<^item> \<open>Effects\<close>: Python statements as functions from a state to a result or an exception and the state
    that is left, with weakest preconditions and the locale \<open>evolution\<close> (a reflexive and transitive
    relation that the operations obey), whose rules are collected in \<open>evolve_intro\<close>.
  \<^item> \<open>Payload\<close>, \<open>Decimal_Text\<close>: JSON values, the conversions Python applies to them, and the text of a
    decimal, which reads back as it.
  \<^item> \<open>Errors\<close>: every exception of the code as one datatype, with its text.

  \<^bold>\<open>Components.\<close>
  \<^item> \<open>Models\<close>, \<open>State_Machine\<close>, \<open>Ids\<close>, \<open>Config\<close>: \<^verbatim>\<open>execution/models.py\<close>, \<^verbatim>\<open>state_machine.py\<close>,
    \<^verbatim>\<open>ids.py\<close> and \<^verbatim>\<open>config.py\<close>; both transition tables are instances of one locale.
  \<^item> \<open>Decimal_Math\<close>, \<open>Validation\<close>, \<open>Chase\<close>, \<open>Twap\<close>, \<open>Metrics\<close>: \<^verbatim>\<open>risk/\<close>, \<^verbatim>\<open>algorithms/\<close> and
    \<^verbatim>\<open>observability/summary.py\<close>, pure functions with exact characterisations.
  \<^item> \<open>Exposure\<close>: the class \<^verbatim>\<open>ExposureTracker\<close>; \<open>Adapter\<close>: the contract of an exchange as a record of
    operations on a world \<open>'w\<close>.
  \<^item> \<open>Engine_Record\<close>, \<open>Engine_Fills\<close>, \<open>Engine_Summary\<close>, \<open>Engine_Lifecycle\<close>, \<open>Engine_Orders\<close>,
    \<open>Engine_Reconcile\<close>, \<open>Engine_Demand\<close>, \<open>Engine_Run\<close>: the engine, one definition per method or per
    part of a long method, in the order of the file; \<open>Service\<close>: the two queries of the service.
  \<^item> \<open>Simulator\<close>: \<^verbatim>\<open>exchanges/simulator.py\<close>; \<open>Binance_Payloads\<close>, \<open>Binance_Orders\<close>, \<open>Binance_Adapter\<close>:
    \<^verbatim>\<open>exchanges/binance_usdm.py\<close> (what is sent, how answers are read, the adapter as operations on
    a venue that answers requests).
  \<^item> \<open>Runtime\<close>: the supervisor, \<open>Streams\<close>: its stream tasks; \<open>Schemas\<close>, \<open>App\<close>: validation, responses and the endpoints.
  \<^item> \<open>Logging\<close>: \<^verbatim>\<open>observability/logging.py\<close> and \<^verbatim>\<open>artifacts.py\<close>; \<open>Evidence\<close>,
    \<open>Evidence_Files\<close>: \<^verbatim>\<open>scripts/sanitize_testnet_evidence.py\<close>, what it makes of a value, and of the
    files of a directory.
  \<^item> \<open>Sim_Demo\<close>: \<^verbatim>\<open>scripts/_sim_demo_common.py\<close> and the four \<^verbatim>\<open>scripts/run_sim_*.py\<close>;
    \<open>Testnet_Evidence\<close>, \<open>Testnet_Runner\<close>: \<^verbatim>\<open>scripts/testnet_runner.py\<close>, its manifest and its run;
    \<open>Verify_Submission\<close>: \<^verbatim>\<open>scripts/verify_submission.py\<close>.

  \<^bold>\<open>What the lemmas show.\<close>
  \<^item> \<open>Engine_Invariant\<close>, \<open>Engine_History\<close>: every operation takes a record to one it may become
    (\<open>record_evolves\<close>) and keeps it consistent, hence so does every history of client operations with
    any exchange. \<open>Lifecycle\<close> states this as a refinement of an abstract execution.
  \<^item> \<open>Engine_Safety\<close>: the locales \<open>exchange_laws\<close> and \<open>order_guard\<close> say what an exchange promises of its
    world and which orders it is sent; they are interpreted for the simulator (\<open>System\<close>), for an
    exchange that records its orders (\<open>Recording\<close>) and for the Binance adapter (\<open>Binance_System\<close>).
    The two properties below follow from the second.
  \<^item> \<open>Fill_Accounting\<close>, \<open>Ledger\<close>, \<open>Endings\<close>: the books of fills, the TWAP ledger, and how executions end.
  \<^item> \<open>Simulator_Laws\<close>, \<open>Binance_Laws\<close>: the state of the simulator stays consistent; what the engine
    learns of a request for every answer of the exchange.
  \<^item> \<open>Runtime_Frame\<close>: the locale \<open>runtime_frame\<close>, a relation that the primitive steps of the supervisor
    obey is obeyed by all it does but creations; the locale \<open>creation\<close> of \<open>Runtime_Laws\<close> adds those.
    \<open>Runtime_Laws\<close> interprets them for the invariant that an environment never has two active executions
    of a symbol, \<open>Stream_Laws\<close> the first for an environment that stays unavailable, which is what becomes
    of one whose user stream is given up.
  \<^item> \<open>Order_Numbers\<close>, \<open>Supervised_Safety\<close>: the whole service on an exchange that records its orders. The
    locale \<open>order_recorder\<close> follows the numbers of the orders through a run; further interpretations of
    \<open>runtime_frame\<close> and \<open>creation\<close> (\<open>so\<close>, \<open>co\<close>) carry them to histories of the supervisor, its loops and its
    streams: every order sent is safe for the execution it belongs to, and no client order id is sent twice.
  \<^item> \<open>Testnet_Frame\<close>: the same for the runner, as the locale \<open>stream_frame\<close>; \<open>Testnet_History\<close> interprets it
    to show that a run is a history of the engine, and that the loop of turns ends;
    \<open>Testnet_Laws\<close> to bound the backoffs from rate limits, and shows what the runner refuses and redacts.
  \<^item> \<open>Evidence\<close>, \<open>Evidence_Files\<close>, \<open>Verify_Submission\<close>, \<open>Sim_Demo\<close> end with the properties of their
    scripts: what is left of evidence, what a script that exits with 0 leaves behind, what passes the
    gate, and that the demonstrations are histories of the engine.
  \<^item> \<open>Findings\<close>: where the code falls short of what it means to do, on concrete inputs. \<open>Samples\<close> holds
    the inputs of the witnesses.

  \<^bold>\<open>Parameters and hypotheses.\<close> HMAC-SHA256, \<^verbatim>\<open>json.dumps\<close> and the text \<^verbatim>\<open>str\<close> gives a decimal
  (which depends on an exponent the model does not carry) are arguments; so are the network (a venue
  that answers a request with a response or nothing), the clocks, the environment variables, what
  pydantic makes of a field before the code's validators, what \<^verbatim>\<open>json\<close>, \<^verbatim>\<open>csv\<close> and YAML
  read from a file, and the host that runs the commands of the submission gate. The random part of an execution id is an
  argument, and histories assume that it does not repeat. Theorems about exact sums assume quantities
  on a decimal grid of at most 28 digits, where the decimal operations do not round.

  \<^bold>\<open>Bounds.\<close> Recursion is structural or has a measure, but for two loops with fuel. \<open>places\<close> tries at
  most as many digits for a fixed-point text as the denominator has binary digits, which is enough for
  every decimal (\<open>plain_string_shape\<close>). \<open>run_turns\<close> takes the number of turns of the runner: on a clock
  that every sleep moves, one more than the sleeps to the deadline is enough (\<open>run_turns_end\<close>). The
  loops that back off from a rate limit are measured by their attempts: at most 51 per loop, 102 in a run
  (\<open>rate_limit_attempts_bounded\<close>). A user stream may fail three times in a row (\<open>user_stream_given_up\<close>).

  \<^bold>\<open>Not modelled.\<close> Of decimals: exponents, trailing zeros, the sign of zero, NaN and infinities, which
  the code refuses or never builds, but for the command line of the runner, where the model rejects
  them. Of texts: characters beyond the 256 of HOL. Of concurrency: an operation of the engine, the
  supervisor or a turn of a task is atomic, as the per-execution lock makes it for one record;
  \<^verbatim>\<open>asyncio\<close> tasks are the loops that exist with what they carry, a loop whose execution ends is removed
  at once, and the events of a stream of the runner are handled at its next sleep. The
  asynchronous iterators over a websocket, \<^verbatim>\<open>last_stream_error\<close>, diagnostic properties, failures of the
  disk, the system clock, \<^verbatim>\<open>argparse\<close>, most printed
  lines and \<^verbatim>\<open>docs/source/conf.py\<close> are left out. The subclasses of exceptions that the Binance adapter
  raises are their base classes, which is all the engine distinguishes.
\<close>

section \<open>What is submitted\<close>

text \<open>C3. Whatever the exchange answers, and whatever state the engine has reached, every order that a
  run of an execution submits is safe: it has the symbol and the side of the request, its quantity fits
  into what is left of the required trade, its price lies in the requested band, it is post-only unless
  the request lets the deadline be aggressive, and it obeys rules and a quote the exchange gave.\<close>

theorem run_once_submits_safe_orders:
  assumes ok: "engine_ok rs" and r: "map_of rs eid = Some r"
    and run: "run_once (recording A) eid (rs, w, []) = (x, rs', w', sent)"
    and ord: "ord \<in> set sent"
  shows "safe_order r (rules_given A) (quotes_given A) ord"
proof -
  have rec: "rec_ok r" using ok r by (simp add: engine_ok_def)
  note g = order_guard.run_once_guarded [OF recording_guard [OF rec, of A]]
  have "sent = snd (snd (snd (run_once_record (recording A) (r, w, []))))"
    using run r by (auto simp: run_once_def on_execution_def split: prod.splits)
  with evolvesD [OF g, of "(r, w, [])"] ord show ?thesis
    by (simp add: guard_kept_def guarded_state_def)
qed

lemma running_record_sends:
  "map (\<lambda>ord. (or_client_order_id ord, or_quantity ord, or_price ord, or_post_only ord))
     (snd (snd (snd (run_once_record (recording steady_exchange) (running_record, (), [])))))
   = [(''ce_0123456789ab_1'', 3, 100, True)]"
  by code_simp

theorem run_once_submits_safe_orders_witness:
  "\<exists>ord. snd (snd (snd (run_once (recording steady_exchange) ''exec_0123456789abcdef''
        ([(''exec_0123456789abcdef'', running_record)], (), [])))) = [ord]
     \<and> safe_order running_record (rules_given steady_exchange) (quotes_given steady_exchange) ord
     \<and> or_client_order_id ord = ''ce_0123456789ab_1'' \<and> or_quantity ord = 3 \<and> or_price ord = 100"
proof -
  let ?rs = "[(''exec_0123456789abcdef'', running_record)]"
  let ?run = "run_once (recording steady_exchange) ''exec_0123456789abcdef'' (?rs, (), [])"
  have "rec_execution_id running_record = ''exec_0123456789abcdef''"
    by (simp add: running_record_def new_execution_record_def)
  then have ok: "engine_ok ?rs" using running_record_ok by (simp add: engine_ok_def)
  have log: "snd (snd (snd ?run)) = snd (snd (snd (run_once_record (recording steady_exchange) (running_record, (), []))))"
    by (auto simp: run_once_def on_execution_def split: prod.splits)
  with running_record_sends obtain ord where ord: "snd (snd (snd ?run)) = [ord]"
      "or_client_order_id ord = ''ce_0123456789ab_1''" "or_quantity ord = 3" "or_price ord = 100"
    by (auto simp: map_eq_Cons_conv)
  obtain x rs' w' sent where run: "?run = (x, rs', w', sent)" by (cases ?run) auto
  have "safe_order running_record (rules_given steady_exchange) (quotes_given steady_exchange) ord"
    using ord run by (intro run_once_submits_safe_orders [OF ok _ run]) simp_all
  with ord show ?thesis by blast
qed

text \<open>C4. Only a run submits: creating, reading, cancelling and reconciling an execution, and merging a
  result into it, send no order to any exchange.\<close>

theorem only_runs_submit:
  assumes "\<forall>eid. op \<noteq> Run_Once eid"
  shows "snd (snd (snd (perform (recording A) op (rs, w, sent)))) = sent"
proof -
  note laws = recording_quiet [of A sent]
  have kept: "snd (snd (snd (m (rs, w, sent)))) = sent"
    if "evolves (engine_kept (\<lambda>w. snd w = sent)) m"
    for m :: "('a \<times> order_request list, execution_record) engine"
    using evolvesD [OF that, of "(rs, w, sent)"] by (simp add: engine_kept_def)
  show ?thesis
    using assms
    by (cases op) (auto simp: kept exchange_laws.ek_create [OF laws]
        exchange_laws.ek_quiet_operations [OF laws])
qed

theorem only_runs_submit_witness:
  "snd (snd (snd (perform (recording steady_exchange) (Cancel ''e'')
     ([(''e'', running_record)], (), [])))) = []"
  using only_runs_submit [of "Cancel ''e''" steady_exchange "[(''e'', running_record)]" "()" "[]"] by simp

end
